(* ===== verification/Bridge_Prelude.thy ===== *)
theory Bridge_Prelude
  imports Main "HOL-Library.Word"
begin

text \<open>
  Shared vocabulary of the bridge contracts under \<^verbatim>\<open>programs/\<close>: the Rust integer
  types as words, the checked and wrapping operators of Rust with the panic made a
  value, the result type with its sequencing combinators, and the execution of a
  sequence of calls in which a failing call leaves no trace.
\<close>

section \<open>Types\<close>

type_synonym u8 = "8 word"
type_synonym u16 = "16 word"
type_synonym u32 = "32 word"
type_synonym u64 = "64 word"
type_synonym u128 = "128 word"

text \<open>
  Signed integers are words as well, read with \<open>sint\<close>. A Rust \<^verbatim>\<open>String\<close> or
  \<^verbatim>\<open>&str\<close> is its byte sequence, a HOL string: \<open>char\<close> is an eight bit type.
\<close>

type_synonym i64 = "64 word"
type_synonym i128 = "128 word"
type_synonym bytes = "u8 list"

text \<open>
  The rules that invert a successful call (which guards held, which state resulted)
  are collected in \<open>accept\<close>.
\<close>

named_theorems accept

section \<open>Panics and results\<close>

text \<open>
  What a Rust function does instead of returning: a failed \<^verbatim>\<open>assert!\<close> with its
  message, an arithmetic overflow (in a build with overflow checks), an
  \<^verbatim>\<open>unwrap\<close> or \<^verbatim>\<open>expect\<close> of nothing, a \<^verbatim>\<open>copy_from_slice\<close> between
  slices of different lengths, or a trap raised by the host environment.
\<close>

datatype rust_panic =
    Assertion string
  | Arithmetic_overflow
  | Unwrap_failed
  | Slice_length_mismatch
  | Host_trap

definition and_then :: "'e + 'a \<Rightarrow> ('a \<Rightarrow> 'e + 'b) \<Rightarrow> 'e + 'b" where
  "and_then r f = (case r of Inl e \<Rightarrow> Inl e | Inr a \<Rightarrow> f a)"

definition ensure :: "bool \<Rightarrow> 'e \<Rightarrow> 'e + unit" where
  "ensure b e = (if b then Inr () else Inl e)"

definition ok_or :: "'a option \<Rightarrow> 'e \<Rightarrow> 'e + 'a" where
  "ok_or x e = (case x of None \<Rightarrow> Inl e | Some a \<Rightarrow> Inr a)"

lemma and_then_simps [simp]:
  "and_then (Inl e) f = Inl e"
  "and_then (Inr a) f = f a"
  by (simp_all add: and_then_def)

lemma and_then_Inr [accept]:
  "and_then r f = Inr y \<longleftrightarrow> (\<exists>a. r = Inr a \<and> f a = Inr y)"
  by (cases r) simp_all

lemma and_then_Inl:
  "and_then r f = Inl e \<longleftrightarrow> r = Inl e \<or> (\<exists>a. r = Inr a \<and> f a = Inl e)"
  by (cases r) simp_all

lemma ensure_simps [simp]:
  "ensure True e = Inr ()"
  "ensure False e = Inl e"
  by (simp_all add: ensure_def)

lemma ensure_Inr [accept]: "ensure b e = Inr u \<longleftrightarrow> b"
  by (cases b) simp_all

lemma ensure_Inl: "ensure b e = Inl e' \<longleftrightarrow> \<not> b \<and> e' = e"
  by (cases b) auto

lemma ok_or_simps [simp]:
  "ok_or None e = Inl e"
  "ok_or (Some a) e = Inr a"
  by (simp_all add: ok_or_def)

lemma ok_or_Inr [accept]: "ok_or x e = Inr a \<longleftrightarrow> x = Some a"
  by (cases x) simp_all

lemma ok_or_Inl: "ok_or x e = Inl e' \<longleftrightarrow> x = None \<and> e' = e"
  by (cases x) auto

lemmas reject = and_then_Inl ensure_Inl ok_or_Inl

section \<open>Rust integer operators\<close>

text \<open>
  \<^verbatim>\<open>checked_add\<close> and its companions return nothing on overflow. The plain
  operators panic on overflow in a build with \<^verbatim>\<open>overflow-checks = true\<close> and wrap
  in one without; \<open>add_op\<close>, \<open>sub_op\<close> and \<open>mul_op\<close> take that build flag.
\<close>

definition checked_add :: "'a::len word \<Rightarrow> 'a word \<Rightarrow> 'a word option" where
  "checked_add a b = (if unat a + unat b < 2 ^ LENGTH('a) then Some (a + b) else None)"

definition checked_sub :: "'a::len word \<Rightarrow> 'a word \<Rightarrow> 'a word option" where
  "checked_sub a b = (if unat b \<le> unat a then Some (a - b) else None)"

definition checked_mul :: "'a::len word \<Rightarrow> 'a word \<Rightarrow> 'a word option" where
  "checked_mul a b = (if unat a * unat b < 2 ^ LENGTH('a) then Some (a * b) else None)"

definition add_op :: "bool \<Rightarrow> 'a::len word \<Rightarrow> 'a word \<Rightarrow> 'a word option" where
  "add_op checks a b = (if checks then checked_add a b else Some (a + b))"

definition sub_op :: "bool \<Rightarrow> 'a::len word \<Rightarrow> 'a word \<Rightarrow> 'a word option" where
  "sub_op checks a b = (if checks then checked_sub a b else Some (a - b))"

definition mul_op :: "bool \<Rightarrow> 'a::len word \<Rightarrow> 'a word \<Rightarrow> 'a word option" where
  "mul_op checks a b = (if checks then checked_mul a b else Some (a * b))"

lemma op_checked [simp]:
  "add_op True = checked_add" "sub_op True = checked_sub" "mul_op True = checked_mul"
  by (simp_all add: fun_eq_iff add_op_def sub_op_def mul_op_def)

lemma checked_add_Some:
  fixes a b c :: "'a::len word"
  shows "checked_add a b = Some c \<longleftrightarrow> unat c = unat a + unat b"
proof
  assume "checked_add a b = Some c"
  then show "unat c = unat a + unat b"
    by (auto simp: checked_add_def unat_word_ariths split: if_splits)
next
  assume eq: "unat c = unat a + unat b"
  have "unat c < 2 ^ LENGTH('a)" by (rule unsigned_less)
  with eq have "unat a + unat b < 2 ^ LENGTH('a)" by simp
  moreover from this eq have "c = a + b"
    by (simp add: word_unat_eq_iff unat_word_ariths)
  ultimately show "checked_add a b = Some c" by (simp add: checked_add_def)
qed

lemma checked_sub_Some:
  fixes a b c :: "'a::len word"
  shows "checked_sub a b = Some c \<longleftrightarrow> unat b \<le> unat a \<and> unat c = unat a - unat b"
  by (auto simp: checked_sub_def unat_sub word_le_nat_alt word_unat_eq_iff)

lemma checked_mul_Some:
  fixes a b c :: "'a::len word"
  shows "checked_mul a b = Some c \<longleftrightarrow> unat c = unat a * unat b"
proof
  assume "checked_mul a b = Some c"
  then show "unat c = unat a * unat b"
    by (auto simp: checked_mul_def unat_word_ariths split: if_splits)
next
  assume eq: "unat c = unat a * unat b"
  have "unat c < 2 ^ LENGTH('a)" by (rule unsigned_less)
  with eq have "unat a * unat b < 2 ^ LENGTH('a)" by simp
  moreover from this eq have "c = a * b"
    by (simp add: word_unat_eq_iff unat_word_ariths)
  ultimately show "checked_mul a b = Some c" by (simp add: checked_mul_def)
qed

lemmas checked_ops = checked_add_Some checked_sub_Some checked_mul_Some

text \<open>
  Signed operators in a build with overflow checks: the result is the exact integer, if
  the type has it. Division truncates towards zero.
\<close>

definition signed_fit :: "int \<Rightarrow> 'a::len word option" where
  "signed_fit i =
     (if - (2 ^ (LENGTH('a) - 1)) \<le> i \<and> i < 2 ^ (LENGTH('a) - 1) then Some (word_of_int i) else None)"

definition signed_add :: "'a::len word \<Rightarrow> 'a word \<Rightarrow> 'a word option" where
  "signed_add a b = signed_fit (sint a + sint b)"

definition signed_sub :: "'a::len word \<Rightarrow> 'a word \<Rightarrow> 'a word option" where
  "signed_sub a b = signed_fit (sint a - sint b)"

definition signed_mul :: "'a::len word \<Rightarrow> 'a word \<Rightarrow> 'a word option" where
  "signed_mul a b = signed_fit (sint a * sint b)"

text \<open>\<^verbatim>\<open>/\<close> on signed operands: the quotient of the magnitudes, negative for mixed signs.\<close>

definition rust_quot :: "int \<Rightarrow> int \<Rightarrow> int" where
  "rust_quot n d = (let q = \<bar>n\<bar> div \<bar>d\<bar> in if (n < 0) = (d < 0) then q else - q)"

lemma signed_fit_Some: "signed_fit i = Some (w :: 'a::len word) \<longleftrightarrow> sint w = i"
proof
  assume "signed_fit i = Some w"
  then have i: "- (2 ^ (LENGTH('a) - 1)) \<le> i" "i < 2 ^ (LENGTH('a) - 1)" "w = word_of_int i"
    by (auto simp: signed_fit_def split: if_splits)
  then have "signed_take_bit (LENGTH('a) - Suc 0) i = i"
    by (intro signed_take_bit_int_eq_self) simp_all
  with i(3) show "sint w = i" by (simp add: sint_sbintrunc')
next
  assume i: "sint w = i"
  have "- (2 ^ (LENGTH('a) - 1)) \<le> sint w" "sint w < 2 ^ (LENGTH('a) - 1)"
    using sint_ge [of w] sint_lt [of w] by simp_all
  with i show "signed_fit i = Some w" by (auto simp: signed_fit_def)
qed

lemmas signed_ops = signed_add_def signed_sub_def signed_mul_def signed_fit_Some

text \<open>A fee rate of 16 bits widens to an amount without loss, and 10000 divides as in \<open>nat\<close>.\<close>

lemma unat_fee_bps [simp]: "unat (ucast (f :: u16) :: u128) = unat f"
  by (simp add: unsigned_ucast_eq take_bit_nat_eq_self unsigned_less [THEN less_le_trans])

lemma unat_div_10000 [simp]: "unat ((p :: u128) div 10000) = unat p div 10000"
  by (simp add: unat_div_distrib)

lemma u128_gt_0 [simp]: "0 < unat (a :: u128) \<longleftrightarrow> 0 < a"
  by (simp add: word_less_nat_alt)

lemma bps_le: "f \<le> 10000 \<Longrightarrow> a * f div 10000 \<le> (a :: nat)"
  using div_le_mono [of "a * f" "a * 10000" 10000] by simp

text \<open>
  The fee computation shared by the contracts with 128 bit amounts: under the cap of
  five percent it can only fail in the product, and it takes at most a twentieth.
\<close>

lemma fee_split:
  fixes a :: u128 and f :: u16
  assumes cap: "unat f \<le> 500" and fits: "unat a * unat f < 2 ^ 128"
  shows "checked_mul a (ucast f) = Some (a * ucast f)"
    and "unat (a * ucast f) = unat a * unat f"
    and "checked_sub a (a * ucast f div 10000) = Some (a - a * ucast f div 10000)"
    and "unat (a - a * ucast f div 10000) = unat a - unat a * unat f div 10000"
    and "unat a * unat f div 10000 * 20 \<le> unat a"
proof -
  show mul: "checked_mul a (ucast f) = Some (a * ucast f)"
    using fits by (simp add: checked_mul_def)
  then show prod: "unat (a * ucast f) = unat a * unat f"
    by (simp add: checked_mul_Some)
  have "unat a * unat f \<le> unat a * 500" using cap by simp
  then show small: "unat a * unat f div 10000 * 20 \<le> unat a" by linarith
  then show sub: "checked_sub a (a * ucast f div 10000) = Some (a - a * ucast f div 10000)"
    by (simp add: checked_sub_def prod)
  then show "unat (a - a * ucast f div 10000) = unat a - unat a * unat f div 10000"
    by (simp add: checked_sub_Some prod)
qed

lemma checked_add_fits:
  fixes a b :: "'a::len word"
  assumes "unat a + unat b < 2 ^ LENGTH('a)"
  shows "checked_add a b = Some (a + b)" and "unat (a + b) = unat a + unat b"
proof -
  show "checked_add a b = Some (a + b)" using assms by (simp add: checked_add_def)
  then show "unat (a + b) = unat a + unat b" by (simp add: checked_add_Some)
qed

text \<open>
  Where there is room a build without overflow checks computes what one with checks does:
  the three operations of a lock, and a counter that is raised.
\<close>

lemma add_op_room:
  fixes a b :: "'a::len word"
  assumes "unat a + unat b < 2 ^ LENGTH('a)"
  shows "add_op checks a b = Some (a + b)"
  using assms by (simp add: add_op_def checked_add_def)

lemma lock_ops_room:
  fixes a total :: u128 and f :: u16
  assumes rate: "unat f \<le> 10000" and room: "unat total + 10000 * unat a < 2 ^ 128"
  shows "mul_op checks a (ucast f) = Some (a * ucast f)"
    and "sub_op checks a (a * ucast f div 10000) = Some (a - a * ucast f div 10000)"
    and "add_op checks total (a - a * ucast f div 10000) = Some (total + (a - a * ucast f div 10000))"
proof -
  have "unat a * unat f \<le> unat a * 10000" by (rule mult_le_mono2) (rule rate)
  then have "unat a * unat f < 2 ^ 128" using room by linarith
  then have mul: "checked_mul a (ucast f) = Some (a * ucast f)" by (simp add: checked_mul_def)
  then have "unat (a * ucast f) = unat a * unat f" by (simp add: checked_mul_Some)
  then have "unat (a * ucast f div 10000) \<le> unat a" using bps_le [OF rate] by simp
  then have sub: "checked_sub a (a * ucast f div 10000) = Some (a - a * ucast f div 10000)"
    by (simp add: checked_sub_def)
  then have "unat (a - a * ucast f div 10000) \<le> unat a" by (simp add: checked_sub_Some)
  then have "unat total + unat (a - a * ucast f div 10000) < 2 ^ LENGTH(128)" using room by simp
  then show "add_op checks total (a - a * ucast f div 10000) = Some (total + (a - a * ucast f div 10000))"
    by (rule add_op_room)
  show "mul_op checks a (ucast f) = Some (a * ucast f)"
    and "sub_op checks a (a * ucast f div 10000) = Some (a - a * ucast f div 10000)"
    using mul sub by (simp_all add: mul_op_def sub_op_def)
qed

section \<open>Sequences of calls\<close>

text \<open>
  Every host the contracts run on (NEAR, CosmWasm, pallet-contracts, Soroban, the
  Internet Computer, Solana) executes a call as a transaction: a call that panics,
  traps or returns an error leaves the state as it was. \<open>exec_trace\<close> lists the
  accepted calls with what each put out, \<open>exec_final\<close> is the state they lead to.
\<close>

fun exec_trace :: "('s \<Rightarrow> 'c \<Rightarrow> 'e + ('s \<times> 'o)) \<Rightarrow> 's \<Rightarrow> 'c list \<Rightarrow> ('c \<times> 'o) list" where
  "exec_trace exec s [] = []"
| "exec_trace exec s (c # cs) =
     (case exec s c of
        Inl e \<Rightarrow> exec_trace exec s cs
      | Inr r \<Rightarrow> (c, snd r) # exec_trace exec (fst r) cs)"

fun exec_final :: "('s \<Rightarrow> 'c \<Rightarrow> 'e + ('s \<times> 'o)) \<Rightarrow> 's \<Rightarrow> 'c list \<Rightarrow> 's" where
  "exec_final exec s [] = s"
| "exec_final exec s (c # cs) =
     (case exec s c of
        Inl e \<Rightarrow> exec_final exec s cs
      | Inr r \<Rightarrow> exec_final exec (fst r) cs)"

text \<open>An invariant of single accepted calls holds after any sequence.\<close>

lemma exec_final_inv:
  assumes step: "\<And>s c s' out. I s \<Longrightarrow> c \<in> C \<Longrightarrow> exec s c = Inr (s', out) \<Longrightarrow> I s'"
    and start: "I s" and calls: "set cs \<subseteq> C"
  shows "I (exec_final exec s cs)"
  using start calls
proof (induction cs arbitrary: s)
  case Nil
  then show ?case by simp
next
  case (Cons c cs)
  show ?case
  proof (cases "exec s c")
    case (Inl e)
    with Cons show ?thesis by simp
  next
    case (Inr r)
    with Cons.prems have "I (fst r)" by (auto intro: step [of s c "fst r" "snd r"])
    with Inr Cons show ?thesis by simp
  qed
qed

lemma exec_trace_accepted:
  "(c, out) \<in> set (exec_trace exec s cs) \<Longrightarrow> \<exists>u u'. exec u c = Inr (u', out)"
proof (induction cs arbitrary: s)
  case (Cons c' cs)
  then show ?case by (cases "exec s c'") (auto, metis prod.collapse)
qed simp

lemma exec_trace_calls: "(c, out) \<in> set (exec_trace exec s cs) \<Longrightarrow> c \<in> set cs"
  by (induction cs arbitrary: s) (auto split: sum.splits)

section \<open>Two builds of a contract\<close>

text \<open>
  \<open>plain\<close> and \<open>strict\<close> are the same contract built without and with overflow checks, and
  \<open>ready s cs\<close> says that from state \<open>s\<close> the calls \<open>cs\<close> have room. Then the two cannot be
  told apart over \<open>cs\<close>.
\<close>

locale agreeing_builds =
  fixes plain :: "'s \<Rightarrow> 'c \<Rightarrow> 'e + ('s \<times> 'o)"
    and strict :: "'s \<Rightarrow> 'c \<Rightarrow> 'e + ('s \<times> 'o)"
    and ready :: "'s \<Rightarrow> 'c list \<Rightarrow> bool"
  assumes agree: "ready s (c # cs) \<Longrightarrow> plain s c = strict s c"
    and ready_next: "ready s (c # cs) \<Longrightarrow> strict s c = Inr (s', out) \<Longrightarrow> ready s' cs"
    and ready_skip: "ready s (c # cs) \<Longrightarrow> ready s cs"
begin

lemma builds_agree:
  "ready s cs \<Longrightarrow> exec_trace plain s cs = exec_trace strict s cs \<and>
     exec_final plain s cs = exec_final strict s cs"
proof (induction cs arbitrary: s)
  case Nil
  then show ?case by simp
next
  case (Cons c cs)
  show ?case
  proof (cases "strict s c")
    case (Inl e)
    with Cons.IH [OF ready_skip [OF Cons.prems]] agree [OF Cons.prems] show ?thesis by simp
  next
    case (Inr r)
    then have "ready (fst r) cs" by (intro ready_next [OF Cons.prems, of "fst r" "snd r"]) simp
    from Cons.IH [OF this] Inr agree [OF Cons.prems] show ?thesis by simp
  qed
qed

end

end
