(* ===== verification/Bridge_Bytes.thy ===== *)
theory Bridge_Bytes
  imports Bridge_Prelude
begin

unbundle bit_operations_syntax

text \<open>
  The byte level of the signed messages: \<^verbatim>\<open>to_le_bytes\<close> and \<^verbatim>\<open>from_le_bytes\<close>
  of the Rust integers, the bytes of a string, \<^verbatim>\<open>copy_from_slice\<close> into a fixed
  array, the decimal rendering \<^verbatim>\<open>to_string\<close> and \<^verbatim>\<open>format!\<close> give an integer,
  and the unique readability of the layout every bridge message has.
\<close>

section \<open>Little endian integers\<close>

definition to_le_bytes :: "'a::len word \<Rightarrow> bytes" where
  "to_le_bytes w = map (\<lambda>i. ucast (drop_bit (8 * i) w)) [0 ..< LENGTH('a) div 8]"

primrec from_le_bytes :: "bytes \<Rightarrow> 'a::len word" where
  "from_le_bytes [] = 0"
| "from_le_bytes (b # bs) = ucast b OR push_bit 8 (from_le_bytes bs)"

lemma length_to_le_bytes [simp]:
  "length (to_le_bytes (w :: 'a::len word)) = LENGTH('a) div 8"
  by (simp add: to_le_bytes_def)

lemma nth_to_le_bytes:
  "i < LENGTH('a) div 8 \<Longrightarrow> to_le_bytes (w :: 'a::len word) ! i = ucast (drop_bit (8 * i) w)"
  by (simp add: to_le_bytes_def)

lemma bit_from_le_bytes:
  "bit (from_le_bytes bs :: 'a::len word) n \<longleftrightarrow>
     n < LENGTH('a) \<and> n div 8 < length bs \<and> bit (bs ! (n div 8)) (n mod 8)"
proof (induction bs arbitrary: n)
  case Nil
  then show ?case by simp
next
  case (Cons b bs)
  show ?case
  proof (cases "n < 8")
    case True
    then show ?thesis
      by (auto simp: bit_or_iff bit_ucast_iff bit_push_bit_iff)
  next
    case False
    then obtain m where n: "n = m + 8" by (metis add.commute le_Suc_ex not_less)
    have "\<not> bit b (m + 8)" using bit_imp_le_length [of b "m + 8"] by auto
    moreover have "(m + 8) div 8 = Suc (m div 8)" by simp
    ultimately show ?thesis
      by (auto simp: n bit_or_iff bit_ucast_iff bit_push_bit_iff Cons.IH)
  qed
qed

lemma from_to_le_bytes [simp]:
  assumes "8 dvd LENGTH('a)"
  shows "from_le_bytes (to_le_bytes w) = (w :: 'a::len word)"
proof (rule bit_word_eqI)
  fix n
  assume n: "n < LENGTH('a)"
  from assms obtain k where k: "LENGTH('a) = 8 * k" ..
  from n have "n < k * 8" by (simp only: k mult.commute)
  then have "n div 8 < k" by (rule less_mult_imp_div_less)
  then have "n div 8 < LENGTH('a) div 8" by (simp only: k)
  moreover have "n mod 8 < 8" and "8 * (n div 8) + n mod 8 = n" by simp_all
  ultimately show "bit (from_le_bytes (to_le_bytes w) :: 'a word) n \<longleftrightarrow> bit w n"
    using n by (simp only: bit_from_le_bytes length_to_le_bytes nth_to_le_bytes
        bit_ucast_iff bit_drop_bit_eq o_def) simp
qed

lemma to_le_bytes_inject:
  fixes v w :: "'a::len word"
  assumes "8 dvd LENGTH('a)"
  shows "to_le_bytes v = to_le_bytes w \<longleftrightarrow> v = w"
  by (metis from_to_le_bytes [OF assms])

section \<open>Strings and fixed arrays\<close>

definition str_bytes :: "string \<Rightarrow> bytes" where
  "str_bytes s = map (\<lambda>c. of_char c) s"

lemma length_str_bytes [simp]: "length (str_bytes s) = length s"
  by (simp add: str_bytes_def)

lemma inj_of_char_u8: "inj (of_char :: char \<Rightarrow> u8)"
proof (rule injI)
  fix c d :: char
  assume "(of_char c :: u8) = of_char d"
  then have "unat (of_nat (of_char c) :: u8) = unat (of_nat (of_char d) :: u8)"
    by (simp add: of_nat_of_char)
  then show "c = d" by (simp add: unat_of_nat)
qed

lemma str_bytes_inject: "str_bytes s = str_bytes t \<longleftrightarrow> s = t"
  by (auto simp: str_bytes_def inj_map_eq_map [OF inj_of_char_u8])

text \<open>
  \<^verbatim>\<open>let mut a = [0u8; n]; a.copy_from_slice(s)\<close> panics unless the slice has
  exactly \<open>n\<close> bytes.
\<close>

definition copy_from_slice :: "nat \<Rightarrow> bytes \<Rightarrow> rust_panic + bytes" where
  "copy_from_slice n s = (if length s = n then Inr s else Inl Slice_length_mismatch)"

lemma copy_from_slice_Inr [accept]:
  "copy_from_slice n s = Inr a \<longleftrightarrow> a = s \<and> length s = n"
  by (auto simp: copy_from_slice_def)

lemma copy_from_slice_Inl:
  "copy_from_slice n s = Inl e \<longleftrightarrow> e = Slice_length_mismatch \<and> length s \<noteq> n"
  by (auto simp: copy_from_slice_def)

primrec copy_all :: "nat \<Rightarrow> bytes list \<Rightarrow> rust_panic + bytes list" where
  "copy_all n [] = Inr []"
| "copy_all n (s # ss) =
     and_then (copy_from_slice n s) (\<lambda>a.
     and_then (copy_all n ss) (\<lambda>as. Inr (a # as)))"

lemma copy_all_Inr [accept]:
  "copy_all n ss = Inr as \<longleftrightarrow> as = ss \<and> (\<forall>s \<in> set ss. length s = n)"
  by (induction ss arbitrary: as) (auto simp: accept)

section \<open>Decimal rendering\<close>

definition digit_char :: "nat \<Rightarrow> char" where
  "digit_char d = char_of (48 + d)"

fun show_dec :: "nat \<Rightarrow> string" where
  "show_dec n =
     (if n < 10 then [digit_char n] else show_dec (n div 10) @ [digit_char (n mod 10)])"

declare show_dec.simps [simp del]

definition dec_value :: "string \<Rightarrow> nat" where
  "dec_value s = foldl (\<lambda>acc c. 10 * acc + (of_char c - 48)) 0 s"

lemma of_digit_char: "d < 10 \<Longrightarrow> of_char (digit_char d) = 48 + d"
  by (simp add: digit_char_def)

lemma dec_value_show_dec [simp]: "dec_value (show_dec n) = n"
proof (induction n rule: show_dec.induct)
  case (1 n)
  show ?case
  proof (cases "n < 10")
    case True
    then show ?thesis
      by (subst show_dec.simps) (simp add: dec_value_def of_digit_char)
  next
    case False
    with "1.IH" have "dec_value (show_dec (n div 10)) = n div 10" by simp
    with False show ?thesis
      by (subst show_dec.simps) (simp add: dec_value_def of_digit_char)
  qed
qed

lemma show_dec_inject: "show_dec m = show_dec n \<longleftrightarrow> m = n"
  by (metis dec_value_show_dec)

lemma show_dec_digits: "c \<in> set (show_dec n) \<Longrightarrow> of_char c \<in> {48 ..< 58 :: nat}"
proof (induction n rule: show_dec.induct)
  case (1 n)
  show ?case
  proof (cases "n < 10")
    case True
    with "1.prems" show ?thesis
      by (subst (asm) show_dec.simps) (simp add: of_digit_char)
  next
    case False
    with "1.prems" have "c \<in> set (show_dec (n div 10)) \<or> c = digit_char (n mod 10)"
      by (subst (asm) show_dec.simps) auto
    with False "1.IH" show ?thesis by (auto simp: of_digit_char)
  qed
qed

lemma colon_notin_show_dec: "CHR '':'' \<notin> set (show_dec n)"
  using show_dec_digits [of "CHR '':''" n] by auto

text \<open>
  \<^verbatim>\<open>format!("{}:{}", a, b)\<close>: the colon is no digit, so the two numbers can be
  read back.
\<close>

definition colon_pair :: "nat \<Rightarrow> nat \<Rightarrow> string" where
  "colon_pair a b = show_dec a @ '':'' @ show_dec b"

lemma append_sep_inject:
  assumes "c \<notin> set xs" "c \<notin> set xs'"
  shows "xs @ c # ys = xs' @ c # ys' \<longleftrightarrow> xs = xs' \<and> ys = ys'"
  using assms
proof (induction xs arbitrary: xs')
  case Nil
  then show ?case by (cases xs') auto
next
  case (Cons x xs)
  then show ?case by (cases xs') auto
qed

lemma colon_pair_inject: "colon_pair a b = colon_pair a' b' \<longleftrightarrow> a = a' \<and> b = b'"
  by (simp add: colon_pair_def append_sep_inject colon_notin_show_dec show_dec_inject)

section \<open>The layout of the signed messages\<close>

text \<open>
  Every message is a fixed tag, two 64 bit integers, a middle part and a 128 bit
  amount. The parts of fixed size at both ends determine the middle, so the layout is
  uniquely readable even when the middle part has a variable length.
\<close>

lemma layout_inject:
  fixes c c' n n' :: u64 and a a' :: u128
  shows "tag @ to_le_bytes c @ to_le_bytes n @ mid @ to_le_bytes a =
         tag @ to_le_bytes c' @ to_le_bytes n' @ mid' @ to_le_bytes a' \<longleftrightarrow>
         c = c' \<and> n = n' \<and> mid = mid' \<and> a = a'"
  by (auto simp: append_eq_append_conv to_le_bytes_inject)

end
