(* ===== verification/Bridge_Spec.thy ===== *)
theory Bridge_Spec
  imports Bridge_Prelude
begin

text \<open>
  What every bridge contract promises, stated once. The abstract bridge keeps the
  administrator, the authorised signers, the fee, the pause flag, the outbound nonce,
  the two running totals and the set of consumed inbound nonces; its steps are
  labelled. The trace theorems (an inbound nonce is consumed at most once, outbound
  nonces are consecutive, the totals are the sums of what was announced, a pause stops
  everything) are proved about the abstract steps, and the locale
  \<open>bridge_refinement\<close> carries them to any contract whose accepted calls are
  abstract steps. \<open>attested_bridge\<close> extends it to the value a contract pays out.
\<close>

section \<open>The abstract bridge\<close>

record ('k, 'p, 'g) abs_bridge =
  a_admin :: 'p
  a_signers :: "'g set"
  a_fee :: nat
  a_paused :: bool
  a_nonce :: nat
  a_locked :: nat
  a_burned :: nat
  a_done :: "'k set"

text \<open>
  \<open>LLock n amt fee\<close> announces the lock of \<open>amt\<close> under outbound nonce \<open>n\<close> after a fee,
  \<open>LBurn n amt\<close> a burn, \<open>LClaim k g\<close> consumes the inbound nonce \<open>k\<close> on the word of
  signer \<open>g\<close>, \<open>LConfig p\<close> is a change of configuration made by \<open>p\<close>.
\<close>

datatype ('k, 'p, 'g) blabel =
    LLock nat nat nat
  | LBurn nat nat
  | LClaim 'k 'g
  | LConfig 'p

inductive bstep :: "('k, 'p, 'g) abs_bridge \<Rightarrow> ('k, 'p, 'g) blabel \<Rightarrow> ('k, 'p, 'g) abs_bridge \<Rightarrow> bool"
  where
    lock: "\<not> a_paused a \<Longrightarrow> fee = (amt + fee) * a_fee a div 10000 \<Longrightarrow>
      bstep a (LLock (Suc (a_nonce a)) amt fee)
        (a\<lparr>a_nonce := Suc (a_nonce a), a_locked := a_locked a + amt\<rparr>)"
  | burn: "\<not> a_paused a \<Longrightarrow>
      bstep a (LBurn (Suc (a_nonce a)) amt)
        (a\<lparr>a_nonce := Suc (a_nonce a), a_burned := a_burned a + amt\<rparr>)"
  | claim: "\<not> a_paused a \<Longrightarrow> k \<notin> a_done a \<Longrightarrow> g \<in> a_signers a \<Longrightarrow>
      bstep a (LClaim k g) (a\<lparr>a_done := insert k (a_done a)\<rparr>)"
  | config: "p = a_admin a \<Longrightarrow> f = a_fee a \<or> f \<le> 500 \<Longrightarrow>
      bstep a (LConfig p) (a\<lparr>a_paused := b, a_signers := S, a_fee := f\<rparr>)"

inductive_cases bstep_LLock: "bstep a (LLock n amt fee) a'"
inductive_cases bstep_LBurn: "bstep a (LBurn n amt) a'"
inductive_cases bstep_LClaim: "bstep a (LClaim k g) a'"
inductive_cases bstep_LConfig: "bstep a (LConfig p) a'"

lemmas bstep_elims = bstep_LLock bstep_LBurn bstep_LClaim bstep_LConfig

inductive btrace :: "('k, 'p, 'g) abs_bridge \<Rightarrow> ('k, 'p, 'g) blabel list \<Rightarrow> ('k, 'p, 'g) abs_bridge \<Rightarrow> bool"
  where
    btrace_Nil: "btrace a [] a"
  | btrace_Cons: "bstep a l a' \<Longrightarrow> btrace a' ls a'' \<Longrightarrow> btrace a (l # ls) a''"

inductive_simps btrace_simps:
  "btrace a [] a'"
  "btrace a (l # ls) a'"

section \<open>What a label announces\<close>

primrec claim_of :: "('k, 'p, 'g) blabel \<Rightarrow> 'k option" where
  "claim_of (LLock n amt fee) = None"
| "claim_of (LBurn n amt) = None"
| "claim_of (LClaim k g) = Some k"
| "claim_of (LConfig p) = None"

primrec out_nonce :: "('k, 'p, 'g) blabel \<Rightarrow> nat option" where
  "out_nonce (LLock n amt fee) = Some n"
| "out_nonce (LBurn n amt) = Some n"
| "out_nonce (LClaim k g) = None"
| "out_nonce (LConfig p) = None"

primrec lock_amount :: "('k, 'p, 'g) blabel \<Rightarrow> nat" where
  "lock_amount (LLock n amt fee) = amt"
| "lock_amount (LBurn n amt) = 0"
| "lock_amount (LClaim k g) = 0"
| "lock_amount (LConfig p) = 0"

primrec burn_amount :: "('k, 'p, 'g) blabel \<Rightarrow> nat" where
  "burn_amount (LLock n amt fee) = 0"
| "burn_amount (LBurn n amt) = amt"
| "burn_amount (LClaim k g) = 0"
| "burn_amount (LConfig p) = 0"

primrec is_config :: "('k, 'p, 'g) blabel \<Rightarrow> bool" where
  "is_config (LLock n amt fee) = False"
| "is_config (LBurn n amt) = False"
| "is_config (LClaim k g) = False"
| "is_config (LConfig p) = True"

definition claims :: "('k, 'p, 'g) blabel list \<Rightarrow> 'k list" where
  "claims ls = List.map_filter claim_of ls"

definition out_nonces :: "('k, 'p, 'g) blabel list \<Rightarrow> nat list" where
  "out_nonces ls = List.map_filter out_nonce ls"

lemma claims_simps [simp]:
  "claims [] = []"
  "claims (l # ls) = (case claim_of l of None \<Rightarrow> claims ls | Some k \<Rightarrow> k # claims ls)"
  by (simp_all add: claims_def List.map_filter_simps split: option.splits)

lemma out_nonces_simps [simp]:
  "out_nonces [] = []"
  "out_nonces (l # ls) = (case out_nonce l of None \<Rightarrow> out_nonces ls | Some n \<Rightarrow> n # out_nonces ls)"
  by (simp_all add: out_nonces_def List.map_filter_simps split: option.splits)

section \<open>Single abstract steps\<close>

lemma bstep_admin: "bstep a l a' \<Longrightarrow> a_admin a' = a_admin a"
  by (induction rule: bstep.induct) simp_all

lemma bstep_done:
  "bstep a l a' \<Longrightarrow> a_done a' = a_done a \<union> set_option (claim_of l) \<and>
     (\<forall>k. claim_of l = Some k \<longrightarrow> k \<notin> a_done a)"
  by (induction rule: bstep.induct) auto

lemma bstep_nonce:
  "bstep a l a' \<Longrightarrow> (case out_nonce l of
      None \<Rightarrow> a_nonce a' = a_nonce a
    | Some n \<Rightarrow> n = Suc (a_nonce a) \<and> a_nonce a' = n)"
  by (induction rule: bstep.induct) simp_all

lemma bstep_totals:
  "bstep a l a' \<Longrightarrow>
     a_locked a' = a_locked a + lock_amount l \<and> a_burned a' = a_burned a + burn_amount l"
  by (induction rule: bstep.induct) simp_all

lemma bstep_config:
  "bstep a l a' \<Longrightarrow> \<not> is_config l \<Longrightarrow>
     a_paused a' = a_paused a \<and> a_signers a' = a_signers a \<and> a_fee a' = a_fee a"
  by (induction rule: bstep.induct) simp_all

lemma bstep_paused: "bstep a l a' \<Longrightarrow> a_paused a \<Longrightarrow> is_config l"
  by (induction rule: bstep.induct) simp_all

lemma bstep_fee: "bstep a l a' \<Longrightarrow> a_fee a \<le> 500 \<Longrightarrow> a_fee a' \<le> 500"
  by (induction rule: bstep.induct) auto

text \<open>Introduction rules with the shape of the next state and of the label as premises.\<close>

lemma bstep_lockI:
  "a' = a\<lparr>a_nonce := Suc (a_nonce a), a_locked := a_locked a + amt\<rparr> \<Longrightarrow>
   l = LLock (Suc (a_nonce a)) amt fee \<Longrightarrow> fee = (amt + fee) * a_fee a div 10000 \<Longrightarrow>
   \<not> a_paused a \<Longrightarrow> bstep a l a'"
  by (metis bstep.lock)

lemma bstep_burnI:
  "a' = a\<lparr>a_nonce := Suc (a_nonce a), a_burned := a_burned a + amt\<rparr> \<Longrightarrow>
   l = LBurn (Suc (a_nonce a)) amt \<Longrightarrow> \<not> a_paused a \<Longrightarrow> bstep a l a'"
  by (simp add: bstep.burn)

lemma bstep_claimI:
  "a' = a\<lparr>a_done := insert k (a_done a)\<rparr> \<Longrightarrow> l = LClaim k g \<Longrightarrow>
   k \<notin> a_done a \<Longrightarrow> g \<in> a_signers a \<Longrightarrow> \<not> a_paused a \<Longrightarrow> bstep a l a'"
  by (simp add: bstep.claim)

lemma bstep_configI:
  "a' = a\<lparr>a_paused := b, a_signers := S, a_fee := f\<rparr> \<Longrightarrow> l = LConfig p \<Longrightarrow>
   p = a_admin a \<Longrightarrow> f = a_fee a \<or> f \<le> 500 \<Longrightarrow> bstep a l a'"
  by (metis bstep.config)

section \<open>Traces of abstract steps\<close>

lemma btrace_admin: "btrace a ls a' \<Longrightarrow> a_admin a' = a_admin a"
  by (induction rule: btrace.induct) (auto dest: bstep_admin)

lemma btrace_fee: "btrace a ls a' \<Longrightarrow> a_fee a \<le> 500 \<Longrightarrow> a_fee a' \<le> 500"
  by (induction rule: btrace.induct) (auto dest: bstep_fee)

lemma btrace_claims:
  "btrace a ls a' \<Longrightarrow>
     distinct (claims ls) \<and> set (claims ls) \<inter> a_done a = {} \<and>
     a_done a' = a_done a \<union> set (claims ls)"
proof (induction rule: btrace.induct)
  case (btrace_Nil a)
  then show ?case by simp
next
  case (btrace_Cons a l a' ls a'')
  from bstep_done [OF btrace_Cons.hyps(1)] btrace_Cons.IH show ?case
    by (cases "claim_of l") auto
qed

lemma btrace_nonces:
  "btrace a ls a' \<Longrightarrow>
     out_nonces ls = [Suc (a_nonce a) ..< Suc (a_nonce a')] \<and> a_nonce a \<le> a_nonce a'"
proof (induction rule: btrace.induct)
  case (btrace_Nil a)
  then show ?case by simp
next
  case (btrace_Cons a l a' ls a'')
  from bstep_nonce [OF btrace_Cons.hyps(1)] btrace_Cons.IH show ?case
    by (cases "out_nonce l") (auto simp: upt_conv_Cons)
qed

lemma btrace_totals:
  "btrace a ls a' \<Longrightarrow>
     a_locked a' = a_locked a + sum_list (map lock_amount ls) \<and>
     a_burned a' = a_burned a + sum_list (map burn_amount ls)"
  by (induction rule: btrace.induct) (auto dest: bstep_totals)

lemma btrace_paused:
  "btrace a ls a' \<Longrightarrow> a_paused a \<Longrightarrow> \<forall>l \<in> set ls. \<not> is_config l \<Longrightarrow> ls = []"
  by (induction rule: btrace.induct) (auto dest: bstep_paused)

section \<open>Contracts that implement the abstract bridge\<close>

text \<open>
  \<open>exec\<close> runs one call of the contract (a call carries its environment), \<open>abs\<close> reads
  a contract state as an abstract one, \<open>lab\<close> reads an accepted call with its output as
  a label, \<open>wf\<close> is the contract's own invariant.
\<close>

definition labels_of ::
    "('s \<Rightarrow> 'c \<Rightarrow> 'e + ('s \<times> 'o)) \<Rightarrow> ('c \<Rightarrow> 'o \<Rightarrow> ('k, 'p, 'g) blabel) \<Rightarrow>
      's \<Rightarrow> 'c list \<Rightarrow> ('k, 'p, 'g) blabel list" where
  "labels_of exec lab s cs = map (\<lambda>(c, out). lab c out) (exec_trace exec s cs)"

lemma labels_of_simps [simp]:
  "labels_of exec lab s [] = []"
  "labels_of exec lab s (c # cs) =
     (case exec s c of
        Inl e \<Rightarrow> labels_of exec lab s cs
      | Inr r \<Rightarrow> lab c (snd r) # labels_of exec lab (fst r) cs)"
  by (simp_all add: labels_of_def split: sum.splits)

locale bridge_refinement =
  fixes exec :: "'s \<Rightarrow> 'c \<Rightarrow> 'e + ('s \<times> 'o)"
    and abs :: "'s \<Rightarrow> ('k, 'p, 'g) abs_bridge"
    and lab :: "'c \<Rightarrow> 'o \<Rightarrow> ('k, 'p, 'g) blabel"
    and wf :: "'s \<Rightarrow> bool"
  assumes simulates: "wf s \<Longrightarrow> exec s c = Inr (s', out) \<Longrightarrow> bstep (abs s) (lab c out) (abs s')"
    and wf_step: "wf s \<Longrightarrow> exec s c = Inr (s', out) \<Longrightarrow> wf s'"
begin

lemma wf_final: "wf s \<Longrightarrow> wf (exec_final exec s cs)"
  by (rule exec_final_inv [where C = UNIV]) (auto intro: wf_step)

lemma simulates_trace:
  "wf s \<Longrightarrow> btrace (abs s) (labels_of exec lab s cs)
     (abs (exec_final exec s cs))"
proof (induction cs arbitrary: s)
  case Nil
  then show ?case by (simp add: btrace_simps)
next
  case (Cons c cs)
  show ?case
  proof (cases "exec s c")
    case (Inl e)
    with Cons show ?thesis by simp
  next
    case (Inr r)
    then have step: "exec s c = Inr (fst r, snd r)" by simp
    have "wf (fst r)" by (rule wf_step [OF Cons.prems step])
    with Cons.IH simulates [OF Cons.prems step] Inr show ?thesis
      by (auto simp: btrace_simps)
  qed
qed

lemma claims_once:
  "wf s \<Longrightarrow> distinct (claims (labels_of exec lab s cs))"
  by (drule simulates_trace) (blast dest: btrace_claims)

lemma claims_done:
  "wf s \<Longrightarrow> a_done (abs (exec_final exec s cs)) =
     a_done (abs s) \<union> set (claims (labels_of exec lab s cs))"
  by (drule simulates_trace) (blast dest: btrace_claims)

lemma claims_fresh:
  "wf s \<Longrightarrow> set (claims (labels_of exec lab s cs)) \<inter> a_done (abs s) = {}"
  by (drule simulates_trace) (blast dest: btrace_claims)

lemma nonces_consecutive:
  "wf s \<Longrightarrow> out_nonces (labels_of exec lab s cs) =
     [Suc (a_nonce (abs s)) ..< Suc (a_nonce (abs (exec_final exec s cs)))]"
  by (drule simulates_trace) (blast dest: btrace_nonces)

lemma totals_announced:
  assumes "wf s"
  shows "a_locked (abs (exec_final exec s cs)) =
           a_locked (abs s) + sum_list (map lock_amount (labels_of exec lab s cs))"
    and "a_burned (abs (exec_final exec s cs)) =
           a_burned (abs s) + sum_list (map burn_amount (labels_of exec lab s cs))"
  using btrace_totals [OF simulates_trace [OF assms(1)]] by simp_all

lemma admin_constant: "wf s \<Longrightarrow> a_admin (abs (exec_final exec s cs)) = a_admin (abs s)"
  by (drule simulates_trace) (rule btrace_admin)

lemma fee_capped:
  "wf s \<Longrightarrow> a_fee (abs s) \<le> 500 \<Longrightarrow> a_fee (abs (exec_final exec s cs)) \<le> 500"
  by (drule simulates_trace) (rule btrace_fee)

lemma paused_blocks:
  assumes "wf s" and "a_paused (abs s)"
    and "\<And>c out. c \<in> set cs \<Longrightarrow> \<not> is_config (lab c out)"
  shows "exec_trace exec s cs = []"
proof -
  have "\<forall>l \<in> set (labels_of exec lab s cs). \<not> is_config l"
    using assms(3) by (auto simp: labels_of_def dest: exec_trace_calls)
  from btrace_paused [OF simulates_trace [OF assms(1)] assms(2) this]
  show ?thesis by (simp add: labels_of_def)
qed

end

section \<open>Replay protection alone\<close>

text \<open>
  The part of the contract that does not depend on counters, pauses or who configures:
  an accepted call consumes at most one key, a fresh one, and keys stay consumed. A
  refinement of the abstract bridge gives it; a machine whose configuration escapes the
  abstract steps may still have it.
\<close>

locale replay_guard =
  fixes exec :: "'s \<Rightarrow> 'c \<Rightarrow> 'e + ('s \<times> 'o)"
    and consumed :: "'c \<Rightarrow> 'o \<Rightarrow> 'k option"
    and used :: "'s \<Rightarrow> 'k set"
    and wf :: "'s \<Rightarrow> bool"
  assumes consumes: "wf s \<Longrightarrow> exec s c = Inr (s', out) \<Longrightarrow>
      used s' = used s \<union> set_option (consumed c out) \<and> set_option (consumed c out) \<inter> used s = {}"
    and keeps_wf: "wf s \<Longrightarrow> exec s c = Inr (s', out) \<Longrightarrow> wf s'"
begin

lemma consumed_once:
  "wf s \<Longrightarrow> distinct (List.map_filter (\<lambda>(c, out). consumed c out) (exec_trace exec s cs)) \<and>
     set (List.map_filter (\<lambda>(c, out). consumed c out) (exec_trace exec s cs)) \<inter> used s = {} \<and>
     used (exec_final exec s cs) =
       used s \<union> set (List.map_filter (\<lambda>(c, out). consumed c out) (exec_trace exec s cs))"
proof (induction cs arbitrary: s)
  case Nil
  then show ?case by (simp add: List.map_filter_simps)
next
  case (Cons c cs)
  show ?case
  proof (cases "exec s c")
    case (Inl e)
    with Cons show ?thesis by simp
  next
    case (Inr r)
    then have step: "exec s c = Inr (fst r, snd r)" by simp
    note IH = Cons.IH [OF keeps_wf [OF Cons.prems step]]
    from consumes [OF Cons.prems step] IH Inr show ?thesis
      by (cases "consumed c (snd r)") (auto simp: List.map_filter_simps)
  qed
qed

end

sublocale bridge_refinement \<subseteq> guard: replay_guard
  exec "\<lambda>c out. claim_of (lab c out)" "\<lambda>s. a_done (abs s)" wf
proof unfold_locales
  fix s c s' out
  assume "wf s" and "exec s c = Inr (s', out)"
  from bstep_done [OF simulates [OF this]]
  show "a_done (abs s') = a_done (abs s) \<union> set_option (claim_of (lab c out)) \<and>
      set_option (claim_of (lab c out)) \<inter> a_done (abs s) = {}"
    by auto
qed (rule wf_step)

lemma sum_set_le_sum_list: "sum f (set xs) \<le> sum_list (map f xs)" for f :: "'a \<Rightarrow> nat"
proof (induction xs)
  case (Cons x xs)
  then show ?case by (cases "x \<in> set xs") (simp_all add: insert_absorb)
qed simp

section \<open>Value paid out on attestations\<close>

text \<open>
  A machine with replay protection that pays out on claims only: \<open>key\<close> is the inbound
  nonce a claim uses up, \<open>worth\<close> the value it asks for,
  \<open>attests g m\<close> says that some signature of \<open>g\<close> over the message of claim \<open>m\<close>
  verifies, \<open>trusted s\<close> are the keys the state trusts and \<open>rotates c\<close> those a call adds.
  Then the value paid out over any sequence of calls is at most the worth of the claims
  trusted signers attested, each counted once, however often and in whatever order they
  are presented.
\<close>

locale attested_payouts = replay_guard exec consumed used wf
  for exec :: "'s \<Rightarrow> 'c \<Rightarrow> 'e + ('s \<times> 'o)"
    and consumed :: "'c \<Rightarrow> 'o \<Rightarrow> 'k option"
    and used :: "'s \<Rightarrow> 'k set"
    and wf :: "'s \<Rightarrow> bool" +
  fixes trusted :: "'s \<Rightarrow> 'g set"
    and key :: "'m \<Rightarrow> 'k"
    and worth :: "'m \<Rightarrow> nat"
    and outflow :: "'o \<Rightarrow> nat"
    and attests :: "'g \<Rightarrow> 'm \<Rightarrow> bool"
    and rotates :: "'c \<Rightarrow> 'g set"
  assumes pays: "wf s \<Longrightarrow> exec s c = Inr (s', out) \<Longrightarrow> outflow out = 0 \<or>
      (\<exists>m g. consumed c out = Some (key m) \<and> g \<in> trusted s \<and> attests g m \<and>
         outflow out = worth m)"
    and trusts: "wf s \<Longrightarrow> exec s c = Inr (s', out) \<Longrightarrow> trusted s' \<subseteq> trusted s \<union> rotates c"
begin

lemma step_outflow:
  assumes "wf s" and step: "exec s c = Inr (s', out)" and "trusted s \<subseteq> H"
    and "finite M" and attested: "\<And>g m. g \<in> H \<Longrightarrow> attests g m \<Longrightarrow> m \<in> M"
  shows "outflow out + (\<Sum>m | m \<in> M \<and> key m \<notin> used s'. worth m)
           \<le> (\<Sum>m | m \<in> M \<and> key m \<notin> used s. worth m)"
    (is "_ + sum worth ?N' \<le> sum worth ?N")
proof -
  note keys = consumes [OF assms(1) step]
  then have sub: "?N' \<subseteq> ?N" by auto
  have fin: "finite ?N" using \<open>finite M\<close> by simp
  from pays [OF assms(1) step] show ?thesis
  proof (elim disjE exE conjE)
    assume "outflow out = 0"
    with sum_mono2 [OF fin sub, of worth] show ?thesis by simp
  next
    fix m g
    assume m: "consumed c out = Some (key m)" "g \<in> trusted s" "attests g m" "outflow out = worth m"
    with keys have new: "key m \<notin> used s" "key m \<in> used s'" by auto
    with assms(3) attested m have "m \<in> ?N" by auto
    moreover from sub new have "?N' \<subseteq> ?N - {m}" by auto
    ultimately show ?thesis
      using sum_mono2 [of "?N - {m}" ?N' worth] sum.remove [OF fin, of m worth] fin m(4)
      by auto
  qed
qed

lemma outflow_bounded:
  assumes "wf s" and "trusted s \<subseteq> H" and "\<And>c. c \<in> set cs \<Longrightarrow> rotates c \<subseteq> H"
    and fin: "finite M" and attested: "\<And>g m. g \<in> H \<Longrightarrow> attests g m \<Longrightarrow> m \<in> M"
  shows "sum_list (map (\<lambda>(c, out). outflow out) (exec_trace exec s cs))
           \<le> (\<Sum>m | m \<in> M \<and> key m \<notin> used s. worth m)"
  using assms(1-3)
proof (induction cs arbitrary: s)
  case Nil
  then show ?case by simp
next
  case (Cons c cs)
  show ?case
  proof (cases "exec s c")
    case (Inl e)
    with Cons show ?thesis by simp
  next
    case (Inr r)
    then have step: "exec s c = Inr (fst r, snd r)" by simp
    have "trusted (fst r) \<subseteq> H"
      using trusts [OF Cons.prems(1) step] Cons.prems(2) Cons.prems(3) [of c] by auto
    with keeps_wf [OF Cons.prems(1) step] Cons.prems(3)
    have "sum_list (map (\<lambda>(c, out). outflow out) (exec_trace exec (fst r) cs))
        \<le> (\<Sum>m | m \<in> M \<and> key m \<notin> used (fst r). worth m)"
      by (intro Cons.IH) auto
    with step_outflow [OF Cons.prems(1) step Cons.prems(2) fin attested] Inr
    show ?thesis by fastforce
  qed
qed

text \<open>The same for trusted keys that attest claims of the list \<open>L\<close> only.\<close>

lemma outflow_covered:
  assumes "wf s" and "trusted s \<subseteq> H" and "\<And>c. c \<in> set cs \<Longrightarrow> rotates c \<subseteq> H"
    and "\<And>g m. g \<in> H \<Longrightarrow> attests g m \<Longrightarrow> m \<in> set L"
  shows "sum_list (map (\<lambda>(c, out). outflow out) (exec_trace exec s cs)) \<le> sum_list (map worth L)"
proof -
  have "sum_list (map (\<lambda>(c, out). outflow out) (exec_trace exec s cs))
      \<le> (\<Sum>m | m \<in> set L \<and> key m \<notin> used s. worth m)"
    using assms by (intro outflow_bounded [where H = H]) auto
  also have "\<dots> \<le> sum worth (set L)" by (rule sum_mono2) auto
  also note sum_set_le_sum_list
  finally show ?thesis .
qed

end

text \<open>
  A refinement of the abstract bridge supplies the replay protection and the keys;
  \<open>content c\<close> is the claim a call presents.
\<close>

locale attested_bridge = bridge_refinement exec abs lab wf
  for exec :: "'s \<Rightarrow> 'c \<Rightarrow> 'e + ('s \<times> 'o)"
    and abs :: "'s \<Rightarrow> ('k, 'p, 'g) abs_bridge"
    and lab :: "'c \<Rightarrow> 'o \<Rightarrow> ('k, 'p, 'g) blabel"
    and wf :: "'s \<Rightarrow> bool" +
  fixes content :: "'c \<Rightarrow> 'm option"
    and key :: "'m \<Rightarrow> 'k"
    and worth :: "'m \<Rightarrow> nat"
    and outflow :: "'o \<Rightarrow> nat"
    and attests :: "'g \<Rightarrow> 'm \<Rightarrow> bool"
    and rotates :: "'c \<Rightarrow> 'g set"
  assumes paid: "wf s \<Longrightarrow> exec s c = Inr (s', out) \<Longrightarrow> outflow out = 0 \<or>
      (\<exists>m g. content c = Some m \<and> lab c out = LClaim (key m) g \<and> attests g m \<and>
         outflow out = worth m)"
    and signers_from: "wf s \<Longrightarrow> exec s c = Inr (s', out) \<Longrightarrow>
      a_signers (abs s') \<subseteq> a_signers (abs s) \<union> rotates c"

sublocale attested_bridge \<subseteq> payouts: attested_payouts
  exec "\<lambda>c out. claim_of (lab c out)" "\<lambda>s. a_done (abs s)" wf
  "\<lambda>s. a_signers (abs s)" key worth outflow attests rotates
proof unfold_locales
  fix s c s' out
  assume wf: "wf s" and step: "exec s c = Inr (s', out)"
  show "a_signers (abs s') \<subseteq> a_signers (abs s) \<union> rotates c" by (rule signers_from [OF wf step])
  have "g \<in> a_signers (abs s)" if "lab c out = LClaim k g" for k g
    using simulates [OF wf step] that by (auto elim: bstep_LClaim)
  with paid [OF wf step] show "outflow out = 0 \<or> (\<exists>m g. claim_of (lab c out) = Some (key m) \<and> g \<in> a_signers (abs s) \<and> attests g m \<and> outflow out = worth m)"
    by fastforce
qed

section \<open>Guarded configuration\<close>

text \<open>
  \<open>config\<close> is the part of the state a contract guards, \<open>allowed s c\<close> says that the
  guard lets call \<open>c\<close> through in state \<open>s\<close>, which may depend on the guarded part
  only (who the administrator is). Calls the guard does not let through never change it,
  alone or in sequence.
\<close>

locale guarded_config =
  fixes exec :: "'s \<Rightarrow> 'c \<Rightarrow> 'e + ('s \<times> 'o)"
    and config :: "'s \<Rightarrow> 'g"
    and allowed :: "'g \<Rightarrow> 'c \<Rightarrow> bool"
  assumes guarded: "exec s c = Inr (s', out) \<Longrightarrow> \<not> allowed (config s) c \<Longrightarrow> config s' = config s"
begin

lemma config_constant:
  "\<forall>c \<in> set cs. \<not> allowed (config s) c \<Longrightarrow> config (exec_final exec s cs) = config s"
proof (induction cs arbitrary: s)
  case Nil
  then show ?case by simp
next
  case (Cons c cs)
  show ?case
  proof (cases "exec s c")
    case (Inl e)
    with Cons show ?thesis by simp
  next
    case (Inr r)
    with Cons.prems have "config (fst r) = config s"
      by (intro guarded [of s c "fst r" "snd r"]) auto
    with Cons.IH [of "fst r"] Cons.prems Inr show ?thesis by simp
  qed
qed

end

end
