(* ===== verification/Near_Bridge.thy ===== *)
theory Near_Bridge
  imports Bridge_Bytes Bridge_Spec
begin

text \<open>
  The NEAR contract, \<^verbatim>\<open>programs/near-bridge/src/lib.rs\<close>. Its release profile sets
  \<^verbatim>\<open>overflow-checks = true\<close>, so every arithmetic operator is a checked one and an
  overflow is a panic. The host function \<^verbatim>\<open>env::ed25519_verify\<close> is the parameter
  \<open>ed\<close> (signature, message, public key). The bridge events a call logs and the
  transfers it schedules with \<^verbatim>\<open>Promise::transfer\<close> are its output. The argument
  checks that the \<^verbatim>\<open>near_bindgen\<close> macro generates around a method (no deposit on a
  method that is not payable, one initialisation only) are not part of the source and
  are left out: they only reject more calls.
\<close>

section \<open>State, environment and output\<close>

definition NEAR_CHAIN_ID :: u64 where "NEAR_CHAIN_ID = 1313161554"
definition NEAR_MAX_FEE_BPS :: u16 where "NEAR_MAX_FEE_BPS = 500"

record near_bridge =
  near_admin :: string
  near_mpc_signers :: "bytes list"
  near_threshold :: u8
  near_fee_bps :: u16
  near_paused :: bool
  near_outbound_nonce :: u64
  near_total_locked :: u128
  near_total_burned :: u128
  near_processed_nonces :: "string \<rightharpoonup> bool"

record near_event =
  event_type :: string
  source_chain :: u64
  dest_chain :: u64
  event_nonce :: u64
  event_sender :: string
  event_recipient :: string
  event_amount :: string

record near_env =
  predecessor_account_id :: string
  attached_deposit :: u128

record near_output =
  near_nonce :: "u64 option"
  near_events :: "near_event list"
  near_transfers :: "(string \<times> u128) list"

definition near_silent :: near_output where
  "near_silent = \<lparr>near_nonce = None, near_events = [], near_transfers = []\<rparr>"

section \<open>Operations\<close>

definition near_new :: "near_env \<Rightarrow> bytes list \<Rightarrow> u8 \<Rightarrow> u16 \<Rightarrow> rust_panic + near_bridge" where
  "near_new env mpc_signers threshold fee_bps =
     and_then (ensure (fee_bps \<le> NEAR_MAX_FEE_BPS) (Assertion ''Fee too high'')) (\<lambda>_.
     and_then (copy_all 32 mpc_signers) (\<lambda>signers.
     Inr \<lparr>near_admin = predecessor_account_id env,
          near_mpc_signers = signers,
          near_threshold = threshold,
          near_fee_bps = fee_bps,
          near_paused = False,
          near_outbound_nonce = 0,
          near_total_locked = 0,
          near_total_burned = 0,
          near_processed_nonces = Map.empty\<rparr>))"

definition near_lock_and_bridge ::
    "near_env \<Rightarrow> near_bridge \<Rightarrow> u64 \<Rightarrow> string \<Rightarrow> rust_panic + near_bridge \<times> near_output" where
  "near_lock_and_bridge env s dest_chain_id recipient =
     and_then (ensure (\<not> near_paused s) (Assertion ''Bridge is paused'')) (\<lambda>_.
     let amount = attached_deposit env in
     and_then (ensure (0 < amount) (Assertion ''Zero amount'')) (\<lambda>_.
     and_then (ok_or (checked_mul amount (ucast (near_fee_bps s))) Arithmetic_overflow) (\<lambda>product.
     let fee = product div 10000 in
     and_then (ok_or (checked_sub amount fee) Arithmetic_overflow) (\<lambda>bridge_amount.
     and_then (ok_or (checked_add (near_total_locked s) bridge_amount) Arithmetic_overflow) (\<lambda>locked.
     and_then (ok_or (checked_add (near_outbound_nonce s) 1) Arithmetic_overflow) (\<lambda>nonce.
     Inr (s\<lparr>near_total_locked := locked, near_outbound_nonce := nonce\<rparr>,
          \<lparr>near_nonce = Some nonce,
           near_events = [\<lparr>event_type = ''lock'',
             source_chain = NEAR_CHAIN_ID,
             dest_chain = dest_chain_id,
             event_nonce = nonce,
             event_sender = predecessor_account_id env,
             event_recipient = recipient,
             event_amount = show_dec (unat bridge_amount)\<rparr>],
           near_transfers = []\<rparr>)))))))"

definition near_nonce_key :: "u64 \<Rightarrow> u64 \<Rightarrow> string" where
  "near_nonce_key source_chain_id nonce = colon_pair (unat source_chain_id) (unat nonce)"

definition near_nonce_processed :: "near_bridge \<Rightarrow> string \<Rightarrow> bool" where
  "near_nonce_processed s key =
     (case near_processed_nonces s key of None \<Rightarrow> False | Some b \<Rightarrow> b)"

definition near_build_mint_message :: "u64 \<Rightarrow> u64 \<Rightarrow> string \<Rightarrow> u128 \<Rightarrow> bytes" where
  "near_build_mint_message chain_id nonce recipient amount =
     str_bytes ''KNT_BRIDGE_MINT''
       @ to_le_bytes chain_id
       @ to_le_bytes nonce
       @ str_bytes recipient
       @ to_le_bytes amount"

definition near_build_release_message :: "u64 \<Rightarrow> u64 \<Rightarrow> string \<Rightarrow> u128 \<Rightarrow> bytes" where
  "near_build_release_message chain_id nonce recipient amount =
     str_bytes ''KNT_BRIDGE_RELEASE''
       @ to_le_bytes chain_id
       @ to_le_bytes nonce
       @ str_bytes recipient
       @ to_le_bytes amount"

definition near_mint_bridged ::
    "(bytes \<Rightarrow> bytes \<Rightarrow> bytes \<Rightarrow> bool) \<Rightarrow> near_bridge \<Rightarrow>
      u64 \<Rightarrow> u64 \<Rightarrow> string \<Rightarrow> u128 \<Rightarrow> bytes \<Rightarrow> bytes \<Rightarrow> rust_panic + near_bridge \<times> near_output" where
  "near_mint_bridged ed s source_chain_id nonce recipient amount signature signer_pubkey =
     and_then (ensure (\<not> near_paused s) (Assertion ''Bridge is paused'')) (\<lambda>_.
     and_then (ensure (0 < amount) (Assertion ''Zero amount'')) (\<lambda>_.
     and_then (copy_from_slice 32 signer_pubkey) (\<lambda>pk.
     and_then (ensure (pk \<in> set (near_mpc_signers s)) (Assertion ''Unauthorized signer'')) (\<lambda>_.
     let key = near_nonce_key source_chain_id nonce in
     and_then (ensure (\<not> near_nonce_processed s key) (Assertion ''Nonce processed'')) (\<lambda>_.
     let message = near_build_mint_message source_chain_id nonce recipient amount in
     and_then (copy_from_slice 64 signature) (\<lambda>sig.
     and_then (ensure (ed sig message pk) (Assertion ''Invalid signature'')) (\<lambda>_.
     Inr (s\<lparr>near_processed_nonces := (near_processed_nonces s)(key \<mapsto> True)\<rparr>,
          \<lparr>near_nonce = None,
           near_events = [\<lparr>event_type = ''mint'',
             source_chain = source_chain_id,
             dest_chain = NEAR_CHAIN_ID,
             event_nonce = nonce,
             event_sender = ''bridge'',
             event_recipient = recipient,
             event_amount = show_dec (unat amount)\<rparr>],
           near_transfers = [(recipient, amount)]\<rparr>))))))))"

definition near_burn_bridged ::
    "near_env \<Rightarrow> near_bridge \<Rightarrow> u64 \<Rightarrow> string \<Rightarrow> rust_panic + near_bridge \<times> near_output" where
  "near_burn_bridged env s dest_chain_id recipient =
     and_then (ensure (\<not> near_paused s) (Assertion ''Bridge is paused'')) (\<lambda>_.
     let amount = attached_deposit env in
     and_then (ensure (0 < amount) (Assertion ''Zero amount'')) (\<lambda>_.
     and_then (ok_or (checked_add (near_total_burned s) amount) Arithmetic_overflow) (\<lambda>burned.
     and_then (ok_or (checked_add (near_outbound_nonce s) 1) Arithmetic_overflow) (\<lambda>nonce.
     Inr (s\<lparr>near_total_burned := burned, near_outbound_nonce := nonce\<rparr>,
          \<lparr>near_nonce = Some nonce,
           near_events = [\<lparr>event_type = ''burn'',
             source_chain = NEAR_CHAIN_ID,
             dest_chain = dest_chain_id,
             event_nonce = nonce,
             event_sender = predecessor_account_id env,
             event_recipient = recipient,
             event_amount = show_dec (unat amount)\<rparr>],
           near_transfers = []\<rparr>)))))"

definition near_release ::
    "(bytes \<Rightarrow> bytes \<Rightarrow> bytes \<Rightarrow> bool) \<Rightarrow> near_bridge \<Rightarrow>
      u64 \<Rightarrow> u64 \<Rightarrow> string \<Rightarrow> u128 \<Rightarrow> bytes \<Rightarrow> bytes \<Rightarrow> rust_panic + near_bridge \<times> near_output" where
  "near_release ed s source_chain_id nonce recipient amount signature signer_pubkey =
     and_then (ensure (\<not> near_paused s) (Assertion '''')) (\<lambda>_.
     and_then (copy_from_slice 32 signer_pubkey) (\<lambda>pk.
     and_then (ensure (pk \<in> set (near_mpc_signers s)) (Assertion ''Unauthorized'')) (\<lambda>_.
     let key = near_nonce_key source_chain_id nonce in
     and_then (ensure (\<not> near_nonce_processed s key) (Assertion ''Nonce processed'')) (\<lambda>_.
     let message = near_build_release_message source_chain_id nonce recipient amount in
     and_then (copy_from_slice 64 signature) (\<lambda>sig.
     and_then (ensure (ed sig message pk) (Assertion ''Invalid sig'')) (\<lambda>_.
     Inr (s\<lparr>near_processed_nonces := (near_processed_nonces s)(key \<mapsto> True)\<rparr>,
          near_silent\<lparr>near_transfers := [(recipient, amount)]\<rparr>)))))))"

definition near_assert_admin :: "near_env \<Rightarrow> near_bridge \<Rightarrow> rust_panic + unit" where
  "near_assert_admin env s =
     ensure (predecessor_account_id env = near_admin s) (Assertion ''Not admin'')"

definition near_pause :: "near_env \<Rightarrow> near_bridge \<Rightarrow> rust_panic + near_bridge \<times> near_output" where
  "near_pause env s =
     and_then (near_assert_admin env s) (\<lambda>_. Inr (s\<lparr>near_paused := True\<rparr>, near_silent))"

definition near_unpause :: "near_env \<Rightarrow> near_bridge \<Rightarrow> rust_panic + near_bridge \<times> near_output" where
  "near_unpause env s =
     and_then (near_assert_admin env s) (\<lambda>_. Inr (s\<lparr>near_paused := False\<rparr>, near_silent))"

definition near_set_signers ::
    "near_env \<Rightarrow> near_bridge \<Rightarrow> bytes list \<Rightarrow> u8 \<Rightarrow> rust_panic + near_bridge \<times> near_output" where
  "near_set_signers env s signers threshold =
     and_then (near_assert_admin env s) (\<lambda>_.
     and_then (copy_all 32 signers) (\<lambda>keys.
     Inr (s\<lparr>near_mpc_signers := keys, near_threshold := threshold\<rparr>, near_silent)))"

definition near_set_fee ::
    "near_env \<Rightarrow> near_bridge \<Rightarrow> u16 \<Rightarrow> rust_panic + near_bridge \<times> near_output" where
  "near_set_fee env s fee_bps =
     and_then (near_assert_admin env s) (\<lambda>_.
     and_then (ensure (fee_bps \<le> NEAR_MAX_FEE_BPS) (Assertion '''')) (\<lambda>_.
     Inr (s\<lparr>near_fee_bps := fee_bps\<rparr>, near_silent)))"

definition near_view_total_locked :: "near_bridge \<Rightarrow> string" where
  "near_view_total_locked s = show_dec (unat (near_total_locked s))"

definition near_view_total_burned :: "near_bridge \<Rightarrow> string" where
  "near_view_total_burned s = show_dec (unat (near_total_burned s))"

definition near_is_paused :: "near_bridge \<Rightarrow> bool" where
  "near_is_paused s = near_paused s"

section \<open>The contract as a machine\<close>

datatype near_call =
    Near_lock_and_bridge u64 string
  | Near_mint_bridged u64 u64 string u128 bytes bytes
  | Near_burn_bridged u64 string
  | Near_release u64 u64 string u128 bytes bytes
  | Near_pause
  | Near_unpause
  | Near_set_signers "bytes list" u8
  | Near_set_fee u16

fun near_exec ::
    "(bytes \<Rightarrow> bytes \<Rightarrow> bytes \<Rightarrow> bool) \<Rightarrow> near_bridge \<Rightarrow> near_env \<times> near_call \<Rightarrow>
      rust_panic + near_bridge \<times> near_output" where
  "near_exec ed s (env, Near_lock_and_bridge d r) = near_lock_and_bridge env s d r"
| "near_exec ed s (env, Near_mint_bridged c n r a sig pk) = near_mint_bridged ed s c n r a sig pk"
| "near_exec ed s (env, Near_burn_bridged d r) = near_burn_bridged env s d r"
| "near_exec ed s (env, Near_release c n r a sig pk) = near_release ed s c n r a sig pk"
| "near_exec ed s (env, Near_pause) = near_pause env s"
| "near_exec ed s (env, Near_unpause) = near_unpause env s"
| "near_exec ed s (env, Near_set_signers ks t) = near_set_signers env s ks t"
| "near_exec ed s (env, Near_set_fee f) = near_set_fee env s f"

lemmas near_op_defs =
  near_lock_and_bridge_def near_mint_bridged_def near_burn_bridged_def near_release_def
  near_pause_def near_unpause_def near_set_signers_def near_set_fee_def near_assert_admin_def

section \<open>The contract implements the abstract bridge\<close>

text \<open>The keys in use have the 32 bytes of an Ed25519 public key.\<close>

definition near_wf :: "near_bridge \<Rightarrow> bool" where
  "near_wf s \<longleftrightarrow> (\<forall>k \<in> set (near_mpc_signers s). length k = 32)"

definition near_abs :: "near_bridge \<Rightarrow> (u64 \<times> u64, string, bytes) abs_bridge" where
  "near_abs s = \<lparr>a_admin = near_admin s,
     a_signers = set (near_mpc_signers s),
     a_fee = unat (near_fee_bps s),
     a_paused = near_paused s,
     a_nonce = unat (near_outbound_nonce s),
     a_locked = unat (near_total_locked s),
     a_burned = unat (near_total_burned s),
     a_done = {(c, n). near_nonce_processed s (near_nonce_key c n)}\<rparr>"

text \<open>
  A lock or a burn is labelled by the event it logged: the amount is the one a watcher
  of the log reads.
\<close>

fun near_label :: "near_env \<times> near_call \<Rightarrow> near_output \<Rightarrow> (u64 \<times> u64, string, bytes) blabel" where
  "near_label (env, Near_lock_and_bridge d r) out =
     (case near_events out of
        e # _ \<Rightarrow> LLock (unat (event_nonce e)) (dec_value (event_amount e))
                   (unat (attached_deposit env) - dec_value (event_amount e))
      | [] \<Rightarrow> LConfig (predecessor_account_id env))"
| "near_label (env, Near_burn_bridged d r) out =
     (case near_events out of
        e # _ \<Rightarrow> LBurn (unat (event_nonce e)) (dec_value (event_amount e))
      | [] \<Rightarrow> LConfig (predecessor_account_id env))"
| "near_label (env, Near_mint_bridged c n r a sig pk) out = LClaim (c, n) pk"
| "near_label (env, Near_release c n r a sig pk) out = LClaim (c, n) pk"
| "near_label (env, _) out = LConfig (predecessor_account_id env)"

lemma near_nonce_key_inject [simp]:
  "near_nonce_key c n = near_nonce_key c' n' \<longleftrightarrow> c = c' \<and> n = n'"
  by (simp add: near_nonce_key_def colon_pair_inject word_unat_eq_iff)

lemma near_processed_upd [simp]:
  "near_nonce_processed (s\<lparr>near_processed_nonces := (near_processed_nonces s)(key \<mapsto> True)\<rparr>) key'
     \<longleftrightarrow> key' = key \<or> near_nonce_processed s key'"
  by (simp add: near_nonce_processed_def)

lemma near_lock_accept:
  assumes "near_lock_and_bridge env s d r = Inr (s', out)"
  shows "\<not> near_paused s"
    and "0 < attached_deposit env"
    and "unat (near_total_locked s') =
           unat (near_total_locked s) + (unat (attached_deposit env)
             - unat (attached_deposit env) * unat (near_fee_bps s) div 10000)"
    and "unat (attached_deposit env) * unat (near_fee_bps s) div 10000 \<le> unat (attached_deposit env)"
    and "unat (near_outbound_nonce s') = Suc (unat (near_outbound_nonce s))"
    and "near_admin s' = near_admin s" and "near_mpc_signers s' = near_mpc_signers s"
    and "near_threshold s' = near_threshold s" and "near_fee_bps s' = near_fee_bps s"
    and "near_paused s' = near_paused s" and "near_total_burned s' = near_total_burned s"
    and "near_processed_nonces s' = near_processed_nonces s"
    and "near_nonce out = Some (near_outbound_nonce s')"
    and "near_events out = [\<lparr>event_type = ''lock'', source_chain = NEAR_CHAIN_ID,
           dest_chain = d, event_nonce = near_outbound_nonce s',
           event_sender = predecessor_account_id env, event_recipient = r,
           event_amount = show_dec (unat (attached_deposit env)
             - unat (attached_deposit env) * unat (near_fee_bps s) div 10000)\<rparr>]"
    and "near_transfers out = []"
  using assms
  by (auto simp: near_lock_and_bridge_def Let_def accept checked_ops)

lemma near_burn_accept:
  assumes "near_burn_bridged env s d r = Inr (s', out)"
  shows "\<not> near_paused s"
    and "0 < attached_deposit env"
    and "unat (near_total_burned s') = unat (near_total_burned s) + unat (attached_deposit env)"
    and "unat (near_outbound_nonce s') = Suc (unat (near_outbound_nonce s))"
    and "near_admin s' = near_admin s" and "near_mpc_signers s' = near_mpc_signers s"
    and "near_threshold s' = near_threshold s" and "near_fee_bps s' = near_fee_bps s"
    and "near_paused s' = near_paused s" and "near_total_locked s' = near_total_locked s"
    and "near_processed_nonces s' = near_processed_nonces s"
    and "near_nonce out = Some (near_outbound_nonce s')"
    and "near_events out = [\<lparr>event_type = ''burn'', source_chain = NEAR_CHAIN_ID,
           dest_chain = d, event_nonce = near_outbound_nonce s',
           event_sender = predecessor_account_id env, event_recipient = r,
           event_amount = show_dec (unat (attached_deposit env))\<rparr>]"
    and "near_transfers out = []"
  using assms
  by (auto simp: near_burn_bridged_def Let_def accept checked_ops)

lemma near_mint_accept:
  assumes "near_mint_bridged ed s c n r a sig pk = Inr (s', out)"
  shows "\<not> near_paused s" and "0 < a" and "length pk = 32" and "length sig = 64"
    and "pk \<in> set (near_mpc_signers s)"
    and "\<not> near_nonce_processed s (near_nonce_key c n)"
    and "ed sig (near_build_mint_message c n r a) pk"
    and "s' = s\<lparr>near_processed_nonces := (near_processed_nonces s)(near_nonce_key c n \<mapsto> True)\<rparr>"
    and "near_transfers out = [(r, a)]"
  using assms by (auto simp: near_mint_bridged_def Let_def accept)

lemma near_release_accept:
  assumes "near_release ed s c n r a sig pk = Inr (s', out)"
  shows "\<not> near_paused s" and "length pk = 32" and "length sig = 64"
    and "pk \<in> set (near_mpc_signers s)"
    and "\<not> near_nonce_processed s (near_nonce_key c n)"
    and "ed sig (near_build_release_message c n r a) pk"
    and "s' = s\<lparr>near_processed_nonces := (near_processed_nonces s)(near_nonce_key c n \<mapsto> True)\<rparr>"
    and "near_transfers out = [(r, a)]"
  using assms by (auto simp: near_release_def Let_def accept near_silent_def)

lemma near_config_accept:
  "near_pause env s = Inr (s', out) \<Longrightarrow>
     predecessor_account_id env = near_admin s \<and> s' = s\<lparr>near_paused := True\<rparr> \<and> out = near_silent"
  "near_unpause env s = Inr (s', out) \<Longrightarrow>
     predecessor_account_id env = near_admin s \<and> s' = s\<lparr>near_paused := False\<rparr> \<and> out = near_silent"
  "near_set_signers env s ks t = Inr (s', out) \<Longrightarrow>
     predecessor_account_id env = near_admin s \<and> (\<forall>k \<in> set ks. length k = 32) \<and>
     s' = s\<lparr>near_mpc_signers := ks, near_threshold := t\<rparr> \<and> out = near_silent"
  "near_set_fee env s f = Inr (s', out) \<Longrightarrow>
     predecessor_account_id env = near_admin s \<and> unat f \<le> 500 \<and>
     s' = s\<lparr>near_fee_bps := f\<rparr> \<and> out = near_silent"
  by (auto simp: near_pause_def near_unpause_def near_set_signers_def near_set_fee_def
      near_assert_admin_def accept NEAR_MAX_FEE_BPS_def word_le_nat_alt)

lemma near_config_step:
  assumes "predecessor_account_id env = near_admin s"
    and "near_admin s' = near_admin s"
    and "near_outbound_nonce s' = near_outbound_nonce s"
    and "near_total_locked s' = near_total_locked s"
    and "near_total_burned s' = near_total_burned s"
    and "near_processed_nonces s' = near_processed_nonces s"
    and "near_fee_bps s' = near_fee_bps s \<or> unat (near_fee_bps s') \<le> 500"
  shows "bstep (near_abs s) (LConfig (predecessor_account_id env)) (near_abs s')"
proof -
  have "near_abs s' = (near_abs s)\<lparr>a_paused := near_paused s',
      a_signers := set (near_mpc_signers s'), a_fee := unat (near_fee_bps s')\<rparr>"
    using assms by (simp add: near_abs_def near_nonce_processed_def)
  then show ?thesis
    using assms by (simp only:) (rule bstep.config, auto simp: near_abs_def)
qed

lemma near_claim_step:
  assumes "\<not> near_paused s" and "pk \<in> set (near_mpc_signers s)"
    and "\<not> near_nonce_processed s (near_nonce_key c n)"
  shows "bstep (near_abs s) (LClaim (c, n) pk)
    (near_abs (s\<lparr>near_processed_nonces := (near_processed_nonces s)(near_nonce_key c n \<mapsto> True)\<rparr>))"
proof -
  have "near_abs (s\<lparr>near_processed_nonces := (near_processed_nonces s)(near_nonce_key c n \<mapsto> True)\<rparr>)
      = (near_abs s)\<lparr>a_done := insert (c, n) (a_done (near_abs s))\<rparr>"
    by (auto simp: near_abs_def)
  then show ?thesis
    using assms by (simp only:) (rule bstep.claim, auto simp: near_abs_def)
qed

lemma near_lock_step:
  assumes "near_lock_and_bridge env s d r = Inr (s', out)"
  shows "bstep (near_abs s) (near_label (env, Near_lock_and_bridge d r) out) (near_abs s')"
proof -
  note [simp] = near_lock_accept [OF assms]
  let ?gross = "unat (attached_deposit env)"
  let ?fee = "?gross * unat (near_fee_bps s) div 10000"
  have "near_abs s' = (near_abs s)\<lparr>a_nonce := Suc (a_nonce (near_abs s)),
      a_locked := a_locked (near_abs s) + (?gross - ?fee)\<rparr>"
    by (simp add: near_abs_def near_nonce_processed_def)
  moreover have "near_label (env, Near_lock_and_bridge d r) out =
      LLock (Suc (a_nonce (near_abs s))) (?gross - ?fee) ?fee"
    by (simp add: near_abs_def)
  ultimately show ?thesis
    by (simp only:) (rule bstep.lock, simp_all add: near_abs_def)
qed

lemma near_burn_step:
  assumes "near_burn_bridged env s d r = Inr (s', out)"
  shows "bstep (near_abs s) (near_label (env, Near_burn_bridged d r) out) (near_abs s')"
proof -
  note [simp] = near_burn_accept [OF assms]
  have "near_abs s' = (near_abs s)\<lparr>a_nonce := Suc (a_nonce (near_abs s)),
      a_burned := a_burned (near_abs s) + unat (attached_deposit env)\<rparr>"
    by (simp add: near_abs_def near_nonce_processed_def)
  moreover have "near_label (env, Near_burn_bridged d r) out =
      LBurn (Suc (a_nonce (near_abs s))) (unat (attached_deposit env))"
    by (simp add: near_abs_def)
  ultimately show ?thesis
    by (simp only:) (rule bstep.burn, simp add: near_abs_def)
qed

lemma near_exec_step:
  assumes "near_exec ed s ec = Inr (s', out)"
  shows "bstep (near_abs s) (near_label ec out) (near_abs s')"
proof (cases ec)
  case (Pair env call)
  show ?thesis
  proof (cases call)
    case (Near_lock_and_bridge d r)
    with assms Pair show ?thesis by (auto intro: near_lock_step simp del: near_label.simps)
  next
    case (Near_burn_bridged d r)
    with assms Pair show ?thesis by (auto intro: near_burn_step simp del: near_label.simps)
  next
    case (Near_mint_bridged c n r a sig pk)
    with assms Pair have "near_mint_bridged ed s c n r a sig pk = Inr (s', out)" by simp
    note near_mint_accept [OF this]
    with Near_mint_bridged Pair near_claim_step show ?thesis by simp
  next
    case (Near_release c n r a sig pk)
    with assms Pair have "near_release ed s c n r a sig pk = Inr (s', out)" by simp
    note near_release_accept [OF this]
    with Near_release Pair near_claim_step show ?thesis by simp
  next
    case Near_pause
    with assms Pair show ?thesis by (auto dest!: near_config_accept intro!: near_config_step)
  next
    case Near_unpause
    with assms Pair show ?thesis by (auto dest!: near_config_accept intro!: near_config_step)
  next
    case (Near_set_signers ks t)
    with assms Pair show ?thesis by (auto dest!: near_config_accept intro!: near_config_step)
  next
    case (Near_set_fee f)
    with assms Pair show ?thesis by (auto dest!: near_config_accept intro!: near_config_step)
  qed
qed

section \<open>What is signed, and what is paid out\<close>

text \<open>
  A claim is what a relayer presents with a signature. Its message is the one the
  contract rebuilds and verifies.
\<close>

datatype near_claim =
    Near_mint_claim u64 u64 string u128
  | Near_release_claim u64 u64 string u128

fun near_claim_message :: "near_claim \<Rightarrow> bytes" where
  "near_claim_message (Near_mint_claim c n r a) = near_build_mint_message c n r a"
| "near_claim_message (Near_release_claim c n r a) = near_build_release_message c n r a"

fun near_claim_key :: "near_claim \<Rightarrow> u64 \<times> u64" where
  "near_claim_key (Near_mint_claim c n r a) = (c, n)"
| "near_claim_key (Near_release_claim c n r a) = (c, n)"

fun near_claim_amount :: "near_claim \<Rightarrow> nat" where
  "near_claim_amount (Near_mint_claim c n r a) = unat a"
| "near_claim_amount (Near_release_claim c n r a) = unat a"

fun near_content :: "near_env \<times> near_call \<Rightarrow> near_claim option" where
  "near_content (env, Near_mint_bridged c n r a sig pk) = Some (Near_mint_claim c n r a)"
| "near_content (env, Near_release c n r a sig pk) = Some (Near_release_claim c n r a)"
| "near_content (env, _) = None"

fun near_rotates :: "near_env \<times> near_call \<Rightarrow> bytes set" where
  "near_rotates (env, Near_set_signers ks t) = set ks"
| "near_rotates (env, _) = {}"

definition near_attests :: "(bytes \<Rightarrow> bytes \<Rightarrow> bytes \<Rightarrow> bool) \<Rightarrow> bytes \<Rightarrow> near_claim \<Rightarrow> bool" where
  "near_attests ed pk m \<longleftrightarrow> (\<exists>sig. length sig = 64 \<and> ed sig (near_claim_message m) pk)"

definition near_outflow :: "near_output \<Rightarrow> nat" where
  "near_outflow out = sum_list (map (\<lambda>(r, a). unat a) (near_transfers out))"

lemma near_messages_differ:
  "near_build_mint_message c n r a \<noteq> near_build_release_message c' n' r' a'"
  by (simp add: near_build_mint_message_def near_build_release_message_def str_bytes_def)

lemma near_mint_message_inject:
  "near_build_mint_message c n r a = near_build_mint_message c' n' r' a' \<longleftrightarrow>
     c = c' \<and> n = n' \<and> r = r' \<and> a = a'"
  by (simp only: near_build_mint_message_def layout_inject str_bytes_inject)

lemma near_release_message_inject:
  "near_build_release_message c n r a = near_build_release_message c' n' r' a' \<longleftrightarrow>
     c = c' \<and> n = n' \<and> r = r' \<and> a = a'"
  by (simp only: near_build_release_message_def layout_inject str_bytes_inject)

lemma near_wf_exec:
  assumes "near_wf s" and "near_exec ed s ec = Inr (s', out)"
  shows "near_wf s'"
proof (cases ec)
  case (Pair env call)
  with assms show ?thesis
    by (cases call) (auto simp: near_wf_def near_silent_def
        dest!: near_config_accept dest: near_lock_accept near_burn_accept
          near_mint_accept near_release_accept)
qed

lemma near_signers_step:
  assumes "near_exec ed s ec = Inr (s', out)"
  shows "set (near_mpc_signers s') \<subseteq> set (near_mpc_signers s) \<union> near_rotates ec"
proof (cases ec)
  case (Pair env call)
  with assms show ?thesis
    by (cases call) (auto dest!: near_config_accept dest: near_lock_accept near_burn_accept
          near_mint_accept near_release_accept)
qed

lemma near_outflow_step:
  assumes "near_exec ed s ec = Inr (s', out)"
  shows "near_outflow out = 0 \<or>
    (\<exists>m g. near_content ec = Some m \<and> near_label ec out = LClaim (near_claim_key m) g \<and>
       near_attests ed g m \<and> near_outflow out = near_claim_amount m)"
proof (cases ec)
  case (Pair env call)
  with assms show ?thesis
    by (cases call) (auto simp: near_outflow_def near_silent_def near_attests_def
        dest!: near_config_accept dest: near_lock_accept near_burn_accept
          near_mint_accept near_release_accept)
qed

interpretation near: attested_bridge
  "near_exec ed" near_abs near_label "\<lambda>_. True"
  near_content near_claim_key near_claim_amount near_outflow "near_attests ed" near_rotates
  for ed
proof unfold_locales
  fix s ec s' out
  assume step: "near_exec ed s ec = Inr (s', out)"
  show "bstep (near_abs s) (near_label ec out) (near_abs s')"
    by (rule near_exec_step [OF step])
  show "near_outflow out = 0 \<or>
    (\<exists>m g. near_content ec = Some m \<and> near_label ec out = LClaim (near_claim_key m) g \<and>
       near_attests ed g m \<and> near_outflow out = near_claim_amount m)"
    by (rule near_outflow_step [OF step])
  show "a_signers (near_abs s') \<subseteq> a_signers (near_abs s) \<union> near_rotates ec"
    using near_signers_step [OF step] by (simp add: near_abs_def)
qed simp

definition near_config :: "near_bridge \<Rightarrow> string \<times> bytes list \<times> u8 \<times> u16 \<times> bool" where
  "near_config s =
     (near_admin s, near_mpc_signers s, near_threshold s, near_fee_bps s, near_paused s)"

interpretation near_guard: guarded_config
  "near_exec ed" near_config "\<lambda>config (env, call). predecessor_account_id env = fst config" for ed
proof unfold_locales
  fix s s' :: near_bridge and ec :: "near_env \<times> near_call" and out
  assume "near_exec ed s ec = Inr (s', out)"
    and "\<not> (case ec of (env, call) \<Rightarrow> predecessor_account_id env = fst (near_config s))"
  then show "near_config s' = near_config s"
    by (cases ec; cases "snd ec") (auto simp: near_config_def
        dest!: near_config_accept dest: near_lock_accept near_burn_accept
          near_mint_accept near_release_accept)
qed

text \<open>A small deployment the witnesses run: one key, a fee of one percent.\<close>

definition near_demo_key :: bytes where "near_demo_key = replicate 32 1"
definition near_demo_sig :: bytes where "near_demo_sig = replicate 64 9"

definition near_demo_ed :: "bytes \<Rightarrow> bytes \<Rightarrow> bytes \<Rightarrow> bool" where
  "near_demo_ed sig msg pk \<longleftrightarrow>
     pk = near_demo_key \<and> sig = near_demo_sig \<and> msg = near_build_mint_message 96369 7 ''bob.near'' 500"

definition near_demo_env :: "string \<Rightarrow> u128 \<Rightarrow> near_env" where
  "near_demo_env who deposit = \<lparr>predecessor_account_id = who, attached_deposit = deposit\<rparr>"

definition near_demo :: near_bridge where
  "near_demo = \<lparr>near_admin = ''admin.near'', near_mpc_signers = [near_demo_key],
     near_threshold = 1, near_fee_bps = 100, near_paused = False, near_outbound_nonce = 0,
     near_total_locked = 0, near_total_burned = 0, near_processed_nonces = Map.empty\<rparr>"

definition near_demo_mint :: "near_env \<times> near_call" where
  "near_demo_mint = (near_demo_env ''relayer.near'' 0,
     Near_mint_bridged 96369 7 ''bob.near'' 500 near_demo_sig near_demo_key)"

lemma length_near_demo [simp]: "length near_demo_key = 32" "length near_demo_sig = 64"
  by (simp_all add: near_demo_key_def near_demo_sig_def)

lemma near_demo_mint_accepted:
  "near_exec near_demo_ed near_demo near_demo_mint =
     Inr (near_demo\<lparr>near_processed_nonces := [near_nonce_key 96369 7 \<mapsto> True]\<rparr>,
       \<lparr>near_nonce = None,
        near_events = [\<lparr>event_type = ''mint'', source_chain = 96369, dest_chain = NEAR_CHAIN_ID,
          event_nonce = 7, event_sender = ''bridge'', event_recipient = ''bob.near'',
          event_amount = show_dec 500\<rparr>],
        near_transfers = [(''bob.near'', 500)]\<rparr>)"
  by (simp add: near_demo_mint_def near_mint_bridged_def near_demo_def near_demo_ed_def
      copy_from_slice_def near_nonce_processed_def)

lemma near_demo_replay_rejected:
  "near_exec ed (near_demo\<lparr>near_processed_nonces := [near_nonce_key 96369 7 \<mapsto> True]\<rparr>) near_demo_mint =
     Inl (Assertion ''Nonce processed'')"
  by (simp add: near_demo_mint_def near_mint_bridged_def near_demo_def
      copy_from_slice_def near_nonce_processed_def)

lemma near_demo_new:
  "near_new (near_demo_env ''admin.near'' 0) [near_demo_key] 1 100 = Inr near_demo"
  by (simp add: near_new_def near_demo_def near_demo_env_def NEAR_MAX_FEE_BPS_def
      copy_from_slice_def)

section \<open>Properties\<close>

text \<open>C1: The value the NEAR contract pays out over any sequence of calls, accepted or not
  and in any order, is at most the value of the claims not consumed before that trusted
  signers attested, each counted once: no replay, no second claim under the same source
  chain and nonce, and no claim nobody signed brings anything out. \<open>H\<close> are the trusted
  keys (the present signers and those installed on the way), \<open>M\<close> the claims for which a
  signature of a trusted key verifies.\<close>

theorem near_outflow_attested:
  assumes "set (near_mpc_signers s) \<subseteq> H"
    and "\<And>ec. ec \<in> set calls \<Longrightarrow> near_rotates ec \<subseteq> H"
    and "finite M"
    and "\<And>pk m. pk \<in> H \<Longrightarrow> near_attests ed pk m \<Longrightarrow> m \<in> M"
  shows "sum_list (map (\<lambda>(ec, out). near_outflow out) (exec_trace (near_exec ed) s calls))
    \<le> (\<Sum>m | m \<in> M \<and> near_claim_key m \<notin> a_done (near_abs s). near_claim_amount m)"
  by (rule near.payouts.outflow_bounded [of s H calls M ed])
     (use assms in \<open>auto simp: near_abs_def\<close>)

text \<open>A relayer presents the signed claim twice; one payment of 500 results.\<close>

theorem near_outflow_attested_witness:
  "sum_list (map (\<lambda>(ec, out). near_outflow out)
      (exec_trace (near_exec near_demo_ed) near_demo [near_demo_mint, near_demo_mint])) \<le> 500
   \<and> map (\<lambda>(ec, out). near_outflow out)
      (exec_trace (near_exec near_demo_ed) near_demo [near_demo_mint, near_demo_mint]) = [500]"
proof
  let ?m = "Near_mint_claim 96369 7 ''bob.near'' 500"
  have only: "m = ?m" if "near_attests near_demo_ed pk m" for pk m
  proof (cases m)
    case (Near_mint_claim c n r a)
    with that show ?thesis
      by (simp add: near_attests_def near_demo_ed_def near_mint_message_inject)
  next
    case (Near_release_claim c n r a)
    with that near_messages_differ [symmetric] show ?thesis
      by (simp add: near_attests_def near_demo_ed_def)
  qed
  have "sum_list (map (\<lambda>(ec, out). near_outflow out)
      (exec_trace (near_exec near_demo_ed) near_demo [near_demo_mint, near_demo_mint]))
    \<le> (\<Sum>m | m \<in> {?m} \<and> near_claim_key m \<notin> a_done (near_abs near_demo). near_claim_amount m)"
  proof (rule near_outflow_attested [where H = "{near_demo_key}"])
    show "set (near_mpc_signers near_demo) \<subseteq> {near_demo_key}" by (simp add: near_demo_def)
    show "near_rotates ec \<subseteq> {near_demo_key}" if "ec \<in> set [near_demo_mint, near_demo_mint]" for ec
      using that by (simp add: near_demo_mint_def)
    show "m \<in> {?m}" if "near_attests near_demo_ed pk m" for pk m
      using only [OF that] by simp
  qed simp
  also have "\<dots> \<le> (\<Sum>m \<in> {?m}. near_claim_amount m)"
    by (rule sum_mono2) auto
  finally show "sum_list (map (\<lambda>(ec, out). near_outflow out)
      (exec_trace (near_exec near_demo_ed) near_demo [near_demo_mint, near_demo_mint])) \<le> 500"
    by simp
  show "map (\<lambda>(ec, out). near_outflow out)
      (exec_trace (near_exec near_demo_ed) near_demo [near_demo_mint, near_demo_mint]) = [500]"
    by (simp add: near_demo_mint_accepted near_demo_replay_rejected near_outflow_def)
qed

text \<open>C23: The messages the NEAR contract has its signers sign determine the claim: no two
  different claims, mint or release, share a message, although the recipient is an account
  name of any length. A signature for one claim is good for no other.\<close>

theorem near_messages_unambiguous:
  "near_claim_message m = near_claim_message m' \<longleftrightarrow> m = m'"
  by (cases m; cases m')
     (simp_all add: near_mint_message_inject near_release_message_inject near_messages_differ
       near_messages_differ [symmetric])

text \<open>C10: Every call the NEAR contract accepts is a step of the abstract bridge, read off its
  output: a lock or a burn announces the next outbound nonce and the exact amount by which
  the total grows (after the floor of the fee), a mint or a release consumes a fresh
  inbound nonce under an authorised key, and only the administrator configures.\<close>

theorem near_refines_bridge:
  assumes "near_exec ed s ec = Inr (s', out)"
  shows "bstep (near_abs s) (near_label ec out) (near_abs s')"
  using assms by (rule near_exec_step)

theorem near_refines_bridge_witness:
  "\<exists>s' out. near_exec near_demo_ed near_demo near_demo_mint = Inr (s', out) \<and>
     bstep (near_abs near_demo) (LClaim (96369, 7) near_demo_key) (near_abs s')"
proof -
  obtain s' out where step: "near_exec near_demo_ed near_demo near_demo_mint = Inr (s', out)"
    by (simp add: near_demo_mint_accepted)
  from near_refines_bridge [OF step] show ?thesis
    using step by (auto simp: near_demo_mint_def)
qed

text \<open>C16: Over any sequence of calls the NEAR contract consumes no inbound (source chain,
  nonce) pair twice, none that had been consumed before, and the pairs consumed afterwards
  are those from before and those claimed on the way.\<close>

theorem near_claims_at_most_once:
  "distinct (claims (labels_of (near_exec ed) near_label s calls)) \<and>
   (\<forall>c n. near_nonce_processed (exec_final (near_exec ed) s calls) (near_nonce_key c n) =
      (near_nonce_processed s (near_nonce_key c n) \<noteq>
       ((c, n) \<in> set (claims (labels_of (near_exec ed) near_label s calls)))))"
proof (intro conjI allI)
  show "distinct (claims (labels_of (near_exec ed) near_label s calls))"
    by (rule near.claims_once) simp
  fix c n
  from near.claims_done [where ed = ed and s = s and cs = calls]
    near.claims_fresh [where ed = ed and s = s and cs = calls]
  show "near_nonce_processed (exec_final (near_exec ed) s calls) (near_nonce_key c n) =
      (near_nonce_processed s (near_nonce_key c n) \<noteq>
       ((c, n) \<in> set (claims (labels_of (near_exec ed) near_label s calls))))"
    by (auto simp: near_abs_def set_eq_iff)
qed

text \<open>Over any sequence of calls the NEAR totals grow by exactly the sums of the amounts
  announced in the lock and burn events, and the outbound nonces of these events are the
  consecutive numbers after the counter's start: none is reused and none is skipped.\<close>

lemma near_books_balance:
  fixes ed s calls
  defines "ls \<equiv> labels_of (near_exec ed) near_label s calls"
    and "t \<equiv> exec_final (near_exec ed) s calls"
  shows "unat (near_total_locked t) = unat (near_total_locked s) + sum_list (map lock_amount ls) \<and>
    unat (near_total_burned t) = unat (near_total_burned s) + sum_list (map burn_amount ls) \<and>
    out_nonces ls = [Suc (unat (near_outbound_nonce s)) ..< Suc (unat (near_outbound_nonce t))]"
  using near.totals_announced [where ed = ed and s = s and cs = calls]
    near.nonces_consecutive [where ed = ed and s = s and cs = calls]
  by (simp add: near_abs_def ls_def t_def)

text \<open>As long as the administrator does not call, nobody changes who the administrator
  is, the signers, the threshold, the fee or the pause flag of the NEAR contract, whatever
  sequence of calls the others make.\<close>

lemma near_config_admin_only:
  assumes "\<forall>(env, call) \<in> set calls. predecessor_account_id env \<noteq> near_admin s"
  shows "near_config (exec_final (near_exec ed) s calls) = near_config s"
  using assms by (intro near_guard.config_constant) (auto simp: near_config_def)

lemma near_config_admin_only_demo:
  "near_config (exec_final (near_exec near_demo_ed) near_demo
     [near_demo_mint, (near_demo_env ''mallory.near'' 0, Near_set_fee 0),
      (near_demo_env ''mallory.near'' 0, Near_unpause)]) = near_config near_demo"
  by (rule near_config_admin_only) (simp add: near_demo_mint_def near_demo_env_def near_demo_def)

text \<open>A lock on the NEAR contract succeeds whenever the contract is not paused, a deposit
  is attached and no counter is at its end. It announces the deposit less the floor of the
  fee, the fee is at most the capped share of the deposit, and the nonce is the next one.\<close>

lemma near_lock_succeeds:
  assumes "\<not> near_paused s" and "near_fee_bps s \<le> NEAR_MAX_FEE_BPS"
    and "0 < attached_deposit env"
    and "unat (attached_deposit env) * unat (near_fee_bps s) < 2 ^ 128"
    and "unat (near_total_locked s) + unat (attached_deposit env) < 2 ^ 128"
    and "unat (near_outbound_nonce s) + 1 < 2 ^ 64"
  shows "\<exists>s' out fee. near_lock_and_bridge env s d r = Inr (s', out) \<and>
    fee = unat (attached_deposit env) * unat (near_fee_bps s) div 10000 \<and>
    fee * 20 \<le> unat (attached_deposit env) \<and>
    unat (near_total_locked s') + fee = unat (near_total_locked s) + unat (attached_deposit env) \<and>
    near_nonce out = Some (near_outbound_nonce s + 1) \<and>
    near_transfers out = []"
proof -
  have cap: "unat (near_fee_bps s) \<le> 500"
    using assms(2) by (simp add: NEAR_MAX_FEE_BPS_def word_le_nat_alt)
  note fee = fee_split [OF cap assms(4)]
  let ?left = "attached_deposit env - attached_deposit env * ucast (near_fee_bps s) div 10000"
  have "unat (near_total_locked s) + unat ?left < 2 ^ LENGTH(128)"
    using assms(5) by (simp add: fee(4))
  note locked = checked_add_fits [OF this]
  have "unat (near_outbound_nonce s) + unat (1 :: u64) < 2 ^ LENGTH(64)" using assms(6) by simp
  note nonce = checked_add_fits [OF this]
  from fee(5) show ?thesis
    using assms(1,3) by (simp add: near_lock_and_bridge_def Let_def fee(1-4) locked nonce)
qed

lemma near_lock_succeeds_demo:
  "\<exists>s' out fee. near_lock_and_bridge (near_demo_env ''user.near'' 1000000) near_demo 96369 ''0xdead''
     = Inr (s', out) \<and> fee = (10000 :: nat) \<and> unat (near_total_locked s') = 990000"
proof -
  from near_lock_succeeds [of near_demo "near_demo_env ''user.near'' 1000000" 96369 "''0xdead''"]
  show ?thesis by (auto simp: near_demo_def near_demo_env_def NEAR_MAX_FEE_BPS_def)
qed

text \<open>C37: Whatever calls follow a deployment of the NEAR contract, the fee stays at most five
  percent, every authorised key has the 32 bytes of an Ed25519 key, and the administrator
  is the account that deployed.\<close>

theorem near_invariant:
  assumes "near_new env keys threshold fee = Inr s"
  shows "let t = exec_final (near_exec ed) s calls in
    unat (near_fee_bps t) \<le> 500 \<and> near_wf t \<and> near_admin t = predecessor_account_id env"
proof -
  from assms have s: "unat (near_fee_bps s) \<le> 500" "near_wf s"
    "near_admin s = predecessor_account_id env"
    by (auto simp: near_new_def near_wf_def NEAR_MAX_FEE_BPS_def accept word_le_nat_alt)
  have "near_wf (exec_final (near_exec ed) s calls)"
    by (rule exec_final_inv [where C = UNIV]) (auto intro: s near_wf_exec)
  with s near.fee_capped [where ed = ed and s = s and cs = calls]
    near.admin_constant [where ed = ed and s = s and cs = calls]
  show ?thesis by (simp add: near_abs_def Let_def)
qed

theorem near_invariant_witness:
  "unat (near_fee_bps (exec_final (near_exec near_demo_ed) near_demo
     [(near_demo_env ''admin.near'' 0, Near_set_fee 501), near_demo_mint])) \<le> 500"
  using near_invariant [OF near_demo_new, of near_demo_ed
    "[(near_demo_env ''admin.near'' 0, Near_set_fee 501), near_demo_mint]"]
  by (simp add: Let_def del: exec_final.simps)

end
