(* ===== verification/Polkadot_Bridge.thy ===== *)
theory Polkadot_Bridge
  imports Bridge_Bytes Bridge_Spec
begin

text \<open>
  The ink! contract for Substrate chains, \<^verbatim>\<open>programs/polkadot-bridge/lib.rs\<close>. No
  build file fixes the overflow behaviour, so every operation takes the flag \<open>oc\<close>: with
  it an overflow traps, without it the operator wraps. A message that returns \<^verbatim>\<open>Err\<close>
  or traps is reverted by the ink! runtime, so both are errors of the result type. The
  environment of a call gives the caller, the value transferred with it and whether a
  transfer out of the contract would succeed. Account ids, keys and hashes are byte
  lists of length 32, a signature has 64 bytes.
\<close>

section \<open>State, errors, environment and output\<close>

definition POLKADOT_CHAIN_ID :: u64 where "POLKADOT_CHAIN_ID = 1886745444"

record dot_token_config =
  dot_daily_mint_limit :: u128
  dot_daily_minted :: u128
  dot_period_start :: u64
  dot_active :: bool

record dot_bridge =
  dot_admin :: bytes
  dot_mpc_signers :: "bytes list"
  dot_threshold :: u8
  dot_fee_bps :: u16
  dot_paused :: bool
  dot_outbound_nonce :: u64
  dot_total_locked :: u128
  dot_total_burned :: u128
  dot_processed_nonces :: "u64 \<times> u64 \<rightharpoonup> bool"
  dot_token_configs :: "bytes \<rightharpoonup> dot_token_config"

datatype dot_error =
    Dot_Paused
  | Dot_NotAdmin
  | Dot_InvalidSignature
  | Dot_NonceProcessed
  | Dot_DailyLimitExceeded
  | Dot_AmountZero
  | Dot_FeeTooHigh
  | Dot_InsufficientBalance
  | Dot_UnauthorizedSigner

datatype dot_failure = Dot_err dot_error | Dot_trap rust_panic

datatype dot_event =
    Dot_LockEvent u64 u64 u64 bytes bytes u128 u128
  | Dot_MintEvent u64 u64 bytes u128
  | Dot_BurnEvent u64 u64 u64 bytes bytes u128
  | Dot_ReleaseEvent u64 u64 bytes u128

record dot_env =
  dot_caller :: bytes
  dot_transferred_value :: u128
  dot_transfer_ok :: "bytes \<Rightarrow> u128 \<Rightarrow> bool"

record dot_output =
  dot_returned :: "u64 option"
  dot_emitted :: "dot_event list"
  dot_transfers :: "(bytes \<times> u128) list"

definition dot_silent :: dot_output where
  "dot_silent = \<lparr>dot_returned = None, dot_emitted = [], dot_transfers = []\<rparr>"

section \<open>Operations\<close>

definition dot_new :: "dot_env \<Rightarrow> bytes list \<Rightarrow> u8 \<Rightarrow> u16 \<Rightarrow> dot_failure + dot_bridge" where
  "dot_new env mpc_signers threshold fee_bps =
     and_then (ensure (fee_bps \<le> 500) (Dot_trap (Assertion ''Fee too high''))) (\<lambda>_.
     Inr \<lparr>dot_admin = dot_caller env,
          dot_mpc_signers = mpc_signers,
          dot_threshold = threshold,
          dot_fee_bps = fee_bps,
          dot_paused = False,
          dot_outbound_nonce = 0,
          dot_total_locked = 0,
          dot_total_burned = 0,
          dot_processed_nonces = Map.empty,
          dot_token_configs = Map.empty\<rparr>)"

definition dot_require_not_paused :: "dot_bridge \<Rightarrow> dot_failure + unit" where
  "dot_require_not_paused s = (if dot_paused s then Inl (Dot_err Dot_Paused) else Inr ())"

definition dot_require_admin :: "dot_env \<Rightarrow> dot_bridge \<Rightarrow> dot_failure + unit" where
  "dot_require_admin env s =
     (if dot_caller env \<noteq> dot_admin s then Inl (Dot_err Dot_NotAdmin) else Inr ())"

definition dot_build_mint_message :: "u64 \<Rightarrow> u64 \<Rightarrow> bytes \<Rightarrow> u128 \<Rightarrow> bytes" where
  "dot_build_mint_message chain_id nonce recipient amount =
     str_bytes ''KNT_BRIDGE_MINT''
       @ to_le_bytes chain_id
       @ to_le_bytes nonce
       @ recipient
       @ to_le_bytes amount"

definition dot_build_release_message :: "u64 \<Rightarrow> u64 \<Rightarrow> bytes \<Rightarrow> u128 \<Rightarrow> bytes" where
  "dot_build_release_message chain_id nonce recipient amount =
     str_bytes ''KNT_BRIDGE_RELEASE''
       @ to_le_bytes chain_id
       @ to_le_bytes nonce
       @ recipient
       @ to_le_bytes amount"

text \<open>The verification is the placeholder the source has.\<close>

definition dot_verify_ed25519 :: "bytes \<Rightarrow> bytes \<Rightarrow> bytes \<Rightarrow> bool" where
  "dot_verify_ed25519 message signature pubkey = True"

definition dot_nonce_processed :: "dot_bridge \<Rightarrow> u64 \<times> u64 \<Rightarrow> bool" where
  "dot_nonce_processed s key =
     (case dot_processed_nonces s key of None \<Rightarrow> False | Some b \<Rightarrow> b)"

definition dot_lock_and_bridge ::
    "bool \<Rightarrow> dot_env \<Rightarrow> dot_bridge \<Rightarrow> u64 \<Rightarrow> bytes \<Rightarrow> dot_failure + dot_bridge \<times> dot_output" where
  "dot_lock_and_bridge oc env s dest_chain_id recipient =
     and_then (dot_require_not_paused s) (\<lambda>_.
     let amount = dot_transferred_value env; overflow = Dot_trap Arithmetic_overflow in
     and_then (ensure (amount \<noteq> 0) (Dot_err Dot_AmountZero)) (\<lambda>_.
     and_then (ok_or (mul_op oc amount (ucast (dot_fee_bps s))) overflow) (\<lambda>product.
     let fee = product div 10000 in
     and_then (ok_or (sub_op oc amount fee) overflow) (\<lambda>bridge_amount.
     and_then (ok_or (add_op oc (dot_total_locked s) bridge_amount) overflow) (\<lambda>locked.
     and_then (ok_or (add_op oc (dot_outbound_nonce s) 1) overflow) (\<lambda>nonce.
     Inr (s\<lparr>dot_total_locked := locked, dot_outbound_nonce := nonce\<rparr>,
          \<lparr>dot_returned = Some nonce,
           dot_emitted = [Dot_LockEvent POLKADOT_CHAIN_ID dest_chain_id nonce
             (dot_caller env) recipient bridge_amount fee],
           dot_transfers = []\<rparr>)))))))"

definition dot_mint_bridged ::
    "dot_env \<Rightarrow> dot_bridge \<Rightarrow> u64 \<Rightarrow> u64 \<Rightarrow> bytes \<Rightarrow> u128 \<Rightarrow> bytes \<Rightarrow> bytes \<Rightarrow>
      dot_failure + dot_bridge \<times> dot_output" where
  "dot_mint_bridged env s source_chain_id nonce recipient amount signature signer_pubkey =
     and_then (dot_require_not_paused s) (\<lambda>_.
     and_then (ensure (amount \<noteq> 0) (Dot_err Dot_AmountZero)) (\<lambda>_.
     and_then (ensure (signer_pubkey \<in> set (dot_mpc_signers s)) (Dot_err Dot_UnauthorizedSigner)) (\<lambda>_.
     and_then (ensure (\<not> dot_nonce_processed s (source_chain_id, nonce)) (Dot_err Dot_NonceProcessed)) (\<lambda>_.
     let message = dot_build_mint_message source_chain_id nonce recipient amount in
     and_then (ensure (dot_verify_ed25519 message signature signer_pubkey) (Dot_err Dot_InvalidSignature)) (\<lambda>_.
     let s = s\<lparr>dot_processed_nonces := (dot_processed_nonces s)((source_chain_id, nonce) \<mapsto> True)\<rparr> in
     and_then (ensure (dot_transfer_ok env recipient amount) (Dot_err Dot_InsufficientBalance)) (\<lambda>_.
     Inr (s, \<lparr>dot_returned = None,
              dot_emitted = [Dot_MintEvent source_chain_id nonce recipient amount],
              dot_transfers = [(recipient, amount)]\<rparr>)))))))"

definition dot_burn_bridged ::
    "bool \<Rightarrow> dot_env \<Rightarrow> dot_bridge \<Rightarrow> u64 \<Rightarrow> bytes \<Rightarrow> dot_failure + dot_bridge \<times> dot_output" where
  "dot_burn_bridged oc env s dest_chain_id recipient =
     and_then (dot_require_not_paused s) (\<lambda>_.
     let amount = dot_transferred_value env; overflow = Dot_trap Arithmetic_overflow in
     and_then (ensure (amount \<noteq> 0) (Dot_err Dot_AmountZero)) (\<lambda>_.
     and_then (ok_or (add_op oc (dot_total_burned s) amount) overflow) (\<lambda>burned.
     and_then (ok_or (add_op oc (dot_outbound_nonce s) 1) overflow) (\<lambda>nonce.
     Inr (s\<lparr>dot_total_burned := burned, dot_outbound_nonce := nonce\<rparr>,
          \<lparr>dot_returned = Some nonce,
           dot_emitted = [Dot_BurnEvent POLKADOT_CHAIN_ID dest_chain_id nonce
             (dot_caller env) recipient amount],
           dot_transfers = []\<rparr>)))))"

definition dot_release ::
    "dot_env \<Rightarrow> dot_bridge \<Rightarrow> u64 \<Rightarrow> u64 \<Rightarrow> bytes \<Rightarrow> u128 \<Rightarrow> bytes \<Rightarrow> bytes \<Rightarrow>
      dot_failure + dot_bridge \<times> dot_output" where
  "dot_release env s source_chain_id nonce recipient amount signature signer_pubkey =
     and_then (dot_require_not_paused s) (\<lambda>_.
     and_then (ensure (signer_pubkey \<in> set (dot_mpc_signers s)) (Dot_err Dot_UnauthorizedSigner)) (\<lambda>_.
     and_then (ensure (\<not> dot_nonce_processed s (source_chain_id, nonce)) (Dot_err Dot_NonceProcessed)) (\<lambda>_.
     let message = dot_build_release_message source_chain_id nonce recipient amount in
     and_then (ensure (dot_verify_ed25519 message signature signer_pubkey) (Dot_err Dot_InvalidSignature)) (\<lambda>_.
     let s = s\<lparr>dot_processed_nonces := (dot_processed_nonces s)((source_chain_id, nonce) \<mapsto> True)\<rparr> in
     and_then (ensure (dot_transfer_ok env recipient amount) (Dot_err Dot_InsufficientBalance)) (\<lambda>_.
     Inr (s, \<lparr>dot_returned = None,
              dot_emitted = [Dot_ReleaseEvent source_chain_id nonce recipient amount],
              dot_transfers = [(recipient, amount)]\<rparr>))))))"

definition dot_pause :: "dot_env \<Rightarrow> dot_bridge \<Rightarrow> dot_failure + dot_bridge \<times> dot_output" where
  "dot_pause env s =
     and_then (dot_require_admin env s) (\<lambda>_. Inr (s\<lparr>dot_paused := True\<rparr>, dot_silent))"

definition dot_unpause :: "dot_env \<Rightarrow> dot_bridge \<Rightarrow> dot_failure + dot_bridge \<times> dot_output" where
  "dot_unpause env s =
     and_then (dot_require_admin env s) (\<lambda>_. Inr (s\<lparr>dot_paused := False\<rparr>, dot_silent))"

definition dot_set_signers ::
    "dot_env \<Rightarrow> dot_bridge \<Rightarrow> bytes list \<Rightarrow> u8 \<Rightarrow> dot_failure + dot_bridge \<times> dot_output" where
  "dot_set_signers env s signers threshold =
     and_then (dot_require_admin env s) (\<lambda>_.
     Inr (s\<lparr>dot_mpc_signers := signers, dot_threshold := threshold\<rparr>, dot_silent))"

definition dot_set_fee :: "dot_env \<Rightarrow> dot_bridge \<Rightarrow> u16 \<Rightarrow> dot_failure + dot_bridge \<times> dot_output" where
  "dot_set_fee env s fee_bps =
     and_then (dot_require_admin env s) (\<lambda>_.
     and_then (ensure (\<not> 500 < fee_bps) (Dot_err Dot_FeeTooHigh)) (\<lambda>_.
     Inr (s\<lparr>dot_fee_bps := fee_bps\<rparr>, dot_silent)))"

definition dot_view_total_locked :: "dot_bridge \<Rightarrow> u128" where
  "dot_view_total_locked s = dot_total_locked s"

definition dot_view_total_burned :: "dot_bridge \<Rightarrow> u128" where
  "dot_view_total_burned s = dot_total_burned s"

definition dot_is_paused :: "dot_bridge \<Rightarrow> bool" where
  "dot_is_paused s = dot_paused s"

section \<open>The contract as a machine\<close>

datatype dot_call =
    Dot_lock_and_bridge u64 bytes
  | Dot_mint_bridged u64 u64 bytes u128 bytes bytes
  | Dot_burn_bridged u64 bytes
  | Dot_release u64 u64 bytes u128 bytes bytes
  | Dot_pause
  | Dot_unpause
  | Dot_set_signers "bytes list" u8
  | Dot_set_fee u16

fun dot_exec :: "bool \<Rightarrow> dot_bridge \<Rightarrow> dot_env \<times> dot_call \<Rightarrow> dot_failure + dot_bridge \<times> dot_output" where
  "dot_exec oc s (env, Dot_lock_and_bridge d r) = dot_lock_and_bridge oc env s d r"
| "dot_exec oc s (env, Dot_mint_bridged c n r a sig pk) = dot_mint_bridged env s c n r a sig pk"
| "dot_exec oc s (env, Dot_burn_bridged d r) = dot_burn_bridged oc env s d r"
| "dot_exec oc s (env, Dot_release c n r a sig pk) = dot_release env s c n r a sig pk"
| "dot_exec oc s (env, Dot_pause) = dot_pause env s"
| "dot_exec oc s (env, Dot_unpause) = dot_unpause env s"
| "dot_exec oc s (env, Dot_set_signers ks t) = dot_set_signers env s ks t"
| "dot_exec oc s (env, Dot_set_fee f) = dot_set_fee env s f"

section \<open>Accepted calls\<close>

lemma dot_guards [accept]:
  "dot_require_not_paused s = Inr u \<longleftrightarrow> \<not> dot_paused s"
  "dot_require_admin env s = Inr u \<longleftrightarrow> dot_caller env = dot_admin s"
  by (simp_all add: dot_require_not_paused_def dot_require_admin_def)

lemma dot_processed_upd [simp]:
  "dot_nonce_processed (s\<lparr>dot_processed_nonces := (dot_processed_nonces s)(key \<mapsto> True)\<rparr>) key'
     \<longleftrightarrow> key' = key \<or> dot_nonce_processed s key'"
  by (simp add: dot_nonce_processed_def)

lemma dot_lock_accept:
  assumes "dot_lock_and_bridge True env s d r = Inr (s', out)"
  defines "gross \<equiv> unat (dot_transferred_value env)"
  defines "fee \<equiv> gross * unat (dot_fee_bps s) div 10000"
  shows "\<not> dot_paused s" and "0 < gross" and "fee \<le> gross"
    and "unat (dot_total_locked s') = unat (dot_total_locked s) + (gross - fee)"
    and "unat (dot_outbound_nonce s') = Suc (unat (dot_outbound_nonce s))"
    and "dot_admin s' = dot_admin s" and "dot_mpc_signers s' = dot_mpc_signers s"
    and "dot_threshold s' = dot_threshold s" and "dot_fee_bps s' = dot_fee_bps s"
    and "dot_paused s' = dot_paused s" and "dot_total_burned s' = dot_total_burned s"
    and "dot_processed_nonces s' = dot_processed_nonces s"
    and "dot_token_configs s' = dot_token_configs s"
    and "\<exists>amt f. dot_emitted out = [Dot_LockEvent POLKADOT_CHAIN_ID d (dot_outbound_nonce s')
           (dot_caller env) r amt f] \<and> unat amt = gross - fee \<and> unat f = fee"
    and "dot_transfers out = []"
  using assms(1)
  by (auto simp: dot_lock_and_bridge_def Let_def accept checked_ops gross_def fee_def
      word_neq_0_conv)

lemma dot_burn_accept:
  assumes "dot_burn_bridged True env s d r = Inr (s', out)"
  shows "\<not> dot_paused s" and "dot_transferred_value env \<noteq> 0"
    and "unat (dot_total_burned s') = unat (dot_total_burned s) + unat (dot_transferred_value env)"
    and "unat (dot_outbound_nonce s') = Suc (unat (dot_outbound_nonce s))"
    and "dot_admin s' = dot_admin s" and "dot_mpc_signers s' = dot_mpc_signers s"
    and "dot_threshold s' = dot_threshold s" and "dot_fee_bps s' = dot_fee_bps s"
    and "dot_paused s' = dot_paused s" and "dot_total_locked s' = dot_total_locked s"
    and "dot_processed_nonces s' = dot_processed_nonces s"
    and "dot_token_configs s' = dot_token_configs s"
    and "dot_emitted out = [Dot_BurnEvent POLKADOT_CHAIN_ID d (dot_outbound_nonce s')
           (dot_caller env) r (dot_transferred_value env)]"
    and "dot_transfers out = []"
  using assms by (auto simp: dot_burn_bridged_def Let_def accept checked_ops)

lemma dot_claim_accept:
  assumes "dot_mint_bridged env s c n r a sig pk = Inr (s', out) \<or>
           dot_release env s c n r a sig pk = Inr (s', out)"
  shows "\<not> dot_paused s" and "pk \<in> set (dot_mpc_signers s)"
    and "\<not> dot_nonce_processed s (c, n)"
    and "s' = s\<lparr>dot_processed_nonces := (dot_processed_nonces s)((c, n) \<mapsto> True)\<rparr>"
    and "dot_transfers out = [(r, a)]" and "dot_transfer_ok env r a"
  using assms by (auto simp: dot_mint_bridged_def dot_release_def Let_def accept)

lemma dot_config_accept:
  "dot_pause env s = Inr (s', out) \<Longrightarrow>
     dot_caller env = dot_admin s \<and> s' = s\<lparr>dot_paused := True\<rparr> \<and> out = dot_silent"
  "dot_unpause env s = Inr (s', out) \<Longrightarrow>
     dot_caller env = dot_admin s \<and> s' = s\<lparr>dot_paused := False\<rparr> \<and> out = dot_silent"
  "dot_set_signers env s ks t = Inr (s', out) \<Longrightarrow>
     dot_caller env = dot_admin s \<and> s' = s\<lparr>dot_mpc_signers := ks, dot_threshold := t\<rparr> \<and>
     out = dot_silent"
  "dot_set_fee env s f = Inr (s', out) \<Longrightarrow>
     dot_caller env = dot_admin s \<and> unat f \<le> 500 \<and> s' = s\<lparr>dot_fee_bps := f\<rparr> \<and> out = dot_silent"
  by (auto simp: dot_pause_def dot_unpause_def dot_set_signers_def dot_set_fee_def accept
      word_less_nat_alt)

section \<open>The contract implements the abstract bridge\<close>

definition dot_abs :: "dot_bridge \<Rightarrow> (u64 \<times> u64, bytes, bytes) abs_bridge" where
  "dot_abs s = \<lparr>a_admin = dot_admin s,
     a_signers = set (dot_mpc_signers s),
     a_fee = unat (dot_fee_bps s),
     a_paused = dot_paused s,
     a_nonce = unat (dot_outbound_nonce s),
     a_locked = unat (dot_total_locked s),
     a_burned = unat (dot_total_burned s),
     a_done = {key. dot_nonce_processed s key}\<rparr>"

fun dot_event_label :: "bytes \<Rightarrow> dot_event list \<Rightarrow> (u64 \<times> u64, bytes, bytes) blabel" where
  "dot_event_label who [Dot_LockEvent src d n sender r amt fee] = LLock (unat n) (unat amt) (unat fee)"
| "dot_event_label who [Dot_BurnEvent src d n sender r amt] = LBurn (unat n) (unat amt)"
| "dot_event_label who _ = LConfig who"

fun dot_label :: "dot_env \<times> dot_call \<Rightarrow> dot_output \<Rightarrow> (u64 \<times> u64, bytes, bytes) blabel" where
  "dot_label (env, Dot_mint_bridged c n r a sig pk) out = LClaim (c, n) pk"
| "dot_label (env, Dot_release c n r a sig pk) out = LClaim (c, n) pk"
| "dot_label (env, _) out = dot_event_label (dot_caller env) (dot_emitted out)"

lemma dot_config_step:
  assumes "who = dot_admin s" and "dot_admin s' = dot_admin s"
    and "dot_outbound_nonce s' = dot_outbound_nonce s"
    and "dot_total_locked s' = dot_total_locked s" and "dot_total_burned s' = dot_total_burned s"
    and "dot_processed_nonces s' = dot_processed_nonces s"
    and "dot_fee_bps s' = dot_fee_bps s \<or> unat (dot_fee_bps s') \<le> 500"
  shows "bstep (dot_abs s) (LConfig who) (dot_abs s')"
proof -
  have "dot_abs s' = (dot_abs s)\<lparr>a_paused := dot_paused s',
      a_signers := set (dot_mpc_signers s'), a_fee := unat (dot_fee_bps s')\<rparr>"
    using assms by (simp add: dot_abs_def dot_nonce_processed_def)
  then show ?thesis
    using assms by (simp only:) (rule bstep.config, auto simp: dot_abs_def)
qed

lemma dot_claim_step:
  assumes "\<not> dot_paused s" and "pk \<in> set (dot_mpc_signers s)" and "\<not> dot_nonce_processed s key"
  shows "bstep (dot_abs s) (LClaim key pk)
    (dot_abs (s\<lparr>dot_processed_nonces := (dot_processed_nonces s)(key \<mapsto> True)\<rparr>))"
proof -
  have "dot_abs (s\<lparr>dot_processed_nonces := (dot_processed_nonces s)(key \<mapsto> True)\<rparr>)
      = (dot_abs s)\<lparr>a_done := insert key (a_done (dot_abs s))\<rparr>"
    by (auto simp: dot_abs_def)
  then show ?thesis
    using assms by (simp only:) (rule bstep.claim, auto simp: dot_abs_def)
qed

lemma dot_lock_step:
  assumes "dot_lock_and_bridge True env s d r = Inr (s', out)"
  shows "bstep (dot_abs s) (dot_event_label who (dot_emitted out)) (dot_abs s')"
proof -
  note facts = dot_lock_accept [OF assms]
  let ?gross = "unat (dot_transferred_value env)"
  let ?fee = "?gross * unat (dot_fee_bps s) div 10000"
  have "dot_abs s' = (dot_abs s)\<lparr>a_nonce := Suc (a_nonce (dot_abs s)),
      a_locked := a_locked (dot_abs s) + (?gross - ?fee)\<rparr>"
    by (simp add: dot_abs_def dot_nonce_processed_def facts)
  moreover have "dot_event_label who (dot_emitted out) =
      LLock (Suc (a_nonce (dot_abs s))) (?gross - ?fee) ?fee"
    using facts(5,14) by (auto simp: dot_abs_def)
  ultimately show ?thesis
    by (simp only:) (rule bstep.lock, simp_all add: dot_abs_def facts)
qed

lemma dot_burn_step:
  assumes "dot_burn_bridged True env s d r = Inr (s', out)"
  shows "bstep (dot_abs s) (dot_event_label who (dot_emitted out)) (dot_abs s')"
proof -
  note facts = dot_burn_accept [OF assms]
  have "dot_abs s' = (dot_abs s)\<lparr>a_nonce := Suc (a_nonce (dot_abs s)),
      a_burned := a_burned (dot_abs s) + unat (dot_transferred_value env)\<rparr>"
    by (simp add: dot_abs_def dot_nonce_processed_def facts)
  moreover have "dot_event_label who (dot_emitted out) =
      LBurn (Suc (a_nonce (dot_abs s))) (unat (dot_transferred_value env))"
    by (simp add: dot_abs_def facts)
  ultimately show ?thesis
    by (simp only:) (rule bstep.burn, simp add: dot_abs_def facts)
qed

lemma dot_exec_step:
  assumes "dot_exec True s ec = Inr (s', out)"
  shows "bstep (dot_abs s) (dot_label ec out) (dot_abs s')"
proof (cases ec)
  case (Pair env call)
  show ?thesis
  proof (cases call)
    case (Dot_lock_and_bridge d r)
    with assms Pair show ?thesis by (auto intro: dot_lock_step)
  next
    case (Dot_burn_bridged d r)
    with assms Pair show ?thesis by (auto intro: dot_burn_step)
  next
    case (Dot_mint_bridged c n r a sig pk)
    with assms Pair have "dot_mint_bridged env s c n r a sig pk = Inr (s', out)" by simp
    note dot_claim_accept [OF disjI1, OF this]
    with Dot_mint_bridged Pair dot_claim_step show ?thesis by simp
  next
    case (Dot_release c n r a sig pk)
    with assms Pair have "dot_release env s c n r a sig pk = Inr (s', out)" by simp
    note dot_claim_accept [OF disjI2, OF this]
    with Dot_release Pair dot_claim_step show ?thesis by simp
  qed (use assms Pair in \<open>auto simp: dot_silent_def dest!: dot_config_accept intro!: dot_config_step\<close>)
qed

interpretation dot: bridge_refinement "dot_exec True" dot_abs dot_label "\<lambda>_. True"
  by unfold_locales (auto intro: dot_exec_step)

text \<open>
  In a build without overflow checks the contract is the same where there is room: the
  native tokens sent with the locks and burns of a sequence, ten thousand times, fit on top
  of either total, the fee rate is at most all of the amount and the nonces do not run out.
\<close>

fun dot_asked :: "dot_env \<times> dot_call \<Rightarrow> nat" where
  "dot_asked (env, Dot_lock_and_bridge d r) = unat (dot_transferred_value env)"
| "dot_asked (env, Dot_burn_bridged d r) = unat (dot_transferred_value env)"
| "dot_asked (env, _) = 0"

definition dot_ready :: "bool \<Rightarrow> dot_bridge \<Rightarrow> (dot_env \<times> dot_call) list \<Rightarrow> bool" where
  "dot_ready oc s calls \<longleftrightarrow> oc \<or>
     unat (dot_fee_bps s) \<le> 10000 \<and>
     unat (dot_total_locked s) + 10000 * sum_list (map dot_asked calls) < 2 ^ 128 \<and>
     unat (dot_total_burned s) + 10000 * sum_list (map dot_asked calls) < 2 ^ 128 \<and>
     unat (dot_outbound_nonce s) + length calls < 2 ^ 64"

lemma dot_ready_checked [simp]: "dot_ready True s calls"
  by (simp add: dot_ready_def)

lemma dot_room_agree:
  assumes room: "dot_ready False s (ec # calls)"
  shows "dot_exec oc s ec = dot_exec True s ec"
proof -
  obtain env call where ec: "ec = (env, call)" by (cases ec)
  from room have rate: "unat (dot_fee_bps s) \<le> 10000"
    and nonce: "add_op k (dot_outbound_nonce s) 1 = Some (dot_outbound_nonce s + 1)" for k
    by (auto simp: dot_ready_def intro!: add_op_room)
  show ?thesis
  proof (cases call)
    case (Dot_lock_and_bridge d r)
    with room ec have "unat (dot_total_locked s) + 10000 * unat (dot_transferred_value env) < 2 ^ 128"
      by (simp add: dot_ready_def)
    note ops = lock_ops_room [OF rate this]
    show ?thesis
      by (simp add: ec Dot_lock_and_bridge dot_lock_and_bridge_def ops
          ops [of True, simplified] nonce nonce [of True, simplified] Let_def)
  next
    case (Dot_burn_bridged d r)
    with room ec have "unat (dot_total_burned s) + unat (dot_transferred_value env) < 2 ^ LENGTH(128)"
      by (simp add: dot_ready_def)
    note op = add_op_room [OF this]
    show ?thesis
      by (simp add: ec Dot_burn_bridged dot_burn_bridged_def op
          op [of True, simplified] nonce nonce [of True, simplified] Let_def)
  qed (simp_all add: ec)
qed

lemma dot_room_next:
  assumes room: "dot_ready False s (ec # calls)" and step: "dot_exec True s ec = Inr (s', out)"
  shows "dot_ready False s' calls"
proof (cases ec)
  case (Pair env call)
  show ?thesis
  proof (cases call)
    case (Dot_lock_and_bridge d r)
    with step Pair have "dot_lock_and_bridge True env s d r = Inr (s', out)" by simp
    note facts = dot_lock_accept(4,5,9,11) [OF this]
    from facts(1) have "unat (dot_total_locked s') \<le>
        unat (dot_total_locked s) + unat (dot_transferred_value env)" by simp
    with room show ?thesis by (simp add: dot_ready_def Pair Dot_lock_and_bridge facts(2-4))
  next
    case (Dot_burn_bridged d r)
    with step Pair have "dot_burn_bridged True env s d r = Inr (s', out)" by simp
    note facts = dot_burn_accept(3,4,8,10) [OF this]
    from room show ?thesis by (simp add: dot_ready_def Pair Dot_burn_bridged facts)
  next
    case (Dot_mint_bridged c n r a sig pk)
    with step Pair have "dot_mint_bridged env s c n r a sig pk = Inr (s', out)" by simp
    note facts = dot_claim_accept(4) [OF disjI1, OF this]
    from room show ?thesis by (simp add: dot_ready_def Pair Dot_mint_bridged facts)
  next
    case (Dot_release c n r a sig pk)
    with step Pair have "dot_release env s c n r a sig pk = Inr (s', out)" by simp
    note facts = dot_claim_accept(4) [OF disjI2, OF this]
    from room show ?thesis by (simp add: dot_ready_def Pair Dot_release facts)
  qed (use step room Pair in \<open>auto simp: dot_ready_def dest!: dot_config_accept\<close>)
qed

interpretation dot_builds: agreeing_builds "dot_exec oc" "dot_exec True" "dot_ready oc" for oc
proof unfold_locales
  fix s ec calls s' out
  assume ready: "dot_ready oc s (ec # calls)"
  then show "dot_ready oc s calls" by (auto simp: dot_ready_def)
  from ready have "oc \<or> dot_ready False s (ec # calls)" by (simp add: dot_ready_def)
  then show "dot_exec oc s ec = dot_exec True s ec"
    by (cases oc) (auto intro: dot_room_agree)
  assume step: "dot_exec True s ec = Inr (s', out)"
  show "dot_ready oc s' calls"
  proof (cases oc)
    case False
    with ready step show ?thesis by (auto intro: dot_room_next)
  qed simp
qed

definition dot_config ::
    "dot_bridge \<Rightarrow> bytes \<times> bytes list \<times> u8 \<times> u16 \<times> bool \<times> (bytes \<rightharpoonup> dot_token_config)" where
  "dot_config s = (dot_admin s, dot_mpc_signers s, dot_threshold s, dot_fee_bps s, dot_paused s,
     dot_token_configs s)"

interpretation dot_guard: guarded_config
  "dot_exec True" dot_config "\<lambda>config (env, call). dot_caller env = fst config"
proof unfold_locales
  fix s s' :: dot_bridge and ec :: "dot_env \<times> dot_call" and out
  assume "dot_exec True s ec = Inr (s', out)"
    and "\<not> (case ec of (env, call) \<Rightarrow> dot_caller env = fst (dot_config s))"
  then show "dot_config s' = dot_config s"
    by (cases ec; cases "snd ec") (auto simp: dot_config_def
        dest!: dot_config_accept dest: dot_lock_accept dot_burn_accept
          dot_claim_accept(4) [OF disjI1] dot_claim_accept(4) [OF disjI2])
qed

text \<open>A deployment the witnesses run: one key, a fee of one percent.\<close>

definition dot_demo :: dot_bridge where
  "dot_demo = \<lparr>dot_admin = [1], dot_mpc_signers = [[2]], dot_threshold = 2, dot_fee_bps = 100,
     dot_paused = False, dot_outbound_nonce = 0, dot_total_locked = 0, dot_total_burned = 0,
     dot_processed_nonces = Map.empty, dot_token_configs = Map.empty\<rparr>"

definition dot_demo_env :: "bytes \<Rightarrow> u128 \<Rightarrow> dot_env" where
  "dot_demo_env who v = \<lparr>dot_caller = who, dot_transferred_value = v, dot_transfer_ok = (\<lambda>_ _. True)\<rparr>"

section \<open>Properties\<close>

text \<open>C26: With overflow checks, every call the ink! contract accepts is a step of the abstract
  bridge, read off the event it emitted: exact amounts and fees, the next outbound nonce,
  a fresh inbound nonce under a listed key, configuration by the administrator only.\<close>

theorem dot_refines_bridge:
  assumes "dot_exec True s ec = Inr (s', out)"
  shows "bstep (dot_abs s) (dot_label ec out) (dot_abs s')"
  using assms by (rule dot_exec_step)

theorem dot_refines_bridge_witness:
  "bstep (dot_abs dot_demo) (LLock 1 990000 10000)
     (dot_abs (dot_demo\<lparr>dot_total_locked := 990000, dot_outbound_nonce := 1\<rparr>))"
proof -
  have "dot_exec True dot_demo (dot_demo_env [7] 1000000, Dot_lock_and_bridge 96369 [8]) =
    Inr (dot_demo\<lparr>dot_total_locked := 990000, dot_outbound_nonce := 1\<rparr>,
      \<lparr>dot_returned = Some 1,
       dot_emitted = [Dot_LockEvent POLKADOT_CHAIN_ID 96369 1 [7] [8] 990000 10000],
       dot_transfers = []\<rparr>)"
    by (simp add: dot_lock_and_bridge_def dot_demo_def dot_demo_env_def
        dot_require_not_paused_def checked_mul_def checked_sub_def checked_add_def)
  from dot_refines_bridge [OF this] show ?thesis by simp
qed

text \<open>Over any sequence of calls the ink! contract consumes no inbound (source chain,
  nonce) pair twice, its totals grow by exactly the announced amounts, and the outbound
  nonces it announces are consecutive.\<close>

lemma dot_trace_sound:
  fixes s calls
  defines "ls \<equiv> labels_of (dot_exec True) dot_label s calls"
    and "t \<equiv> exec_final (dot_exec True) s calls"
  shows "distinct (claims ls) \<and> (\<forall>key \<in> set (claims ls). \<not> dot_nonce_processed s key) \<and>
    unat (dot_total_locked t) = unat (dot_total_locked s) + sum_list (map lock_amount ls) \<and>
    unat (dot_total_burned t) = unat (dot_total_burned s) + sum_list (map burn_amount ls) \<and>
    out_nonces ls = [Suc (unat (dot_outbound_nonce s)) ..< Suc (unat (dot_outbound_nonce t))]"
  using dot.claims_once [of s calls] dot.claims_fresh [of s calls]
    dot.totals_announced [of s calls] dot.nonces_consecutive [of s calls]
  by (auto simp: dot_abs_def ls_def t_def)

lemma dot_trace_sound_demo:
  "\<not> dot_nonce_processed dot_demo (5, 6) \<and>
   set (claims (labels_of (dot_exec True) dot_label dot_demo
     [(dot_demo_env [7] 0, Dot_release 5 6 [8] 9 [] [2]),
      (dot_demo_env [7] 0, Dot_mint_bridged 5 6 [8] 9 [] [2])])) = {(5, 6)}"
proof
  let ?calls = "[(dot_demo_env [7] 0, Dot_release 5 6 [8] 9 [] [2]),
      (dot_demo_env [7] 0, Dot_mint_bridged 5 6 [8] 9 [] [2])]"
  show set: "set (claims (labels_of (dot_exec True) dot_label dot_demo ?calls)) = {(5, 6)}"
    by (simp add: dot_release_def dot_mint_bridged_def dot_demo_def dot_demo_env_def
        dot_require_not_paused_def dot_nonce_processed_def dot_verify_ed25519_def Let_def)
  from dot_trace_sound [of dot_demo ?calls] set
  show "\<not> dot_nonce_processed dot_demo (5, 6)" by blast
qed

text \<open>C35: The signature check of the ink! contract is a placeholder: on any contract that is
  not paused and lists at least one key, anybody who names that public key is paid any
  amount the contract can transfer, to any recipient, under any unused nonce, whatever
  bytes are given as the signature, by a mint and by a release alike.\<close>

theorem dot_accepts_forged_claim:
  assumes "\<not> dot_paused s" and "pk \<in> set (dot_mpc_signers s)" and "a \<noteq> 0"
    and "\<not> dot_nonce_processed s (c, n)" and "dot_transfer_ok env r a"
  shows "\<exists>s' out s'' out'.
    dot_exec oc s (env, Dot_mint_bridged c n r a sig pk) = Inr (s', out) \<and> dot_transfers out = [(r, a)] \<and>
    dot_exec oc s (env, Dot_release c n r a sig pk) = Inr (s'', out') \<and> dot_transfers out' = [(r, a)]"
  using assms
  by (simp add: dot_mint_bridged_def dot_release_def dot_require_not_paused_def
      dot_verify_ed25519_def Let_def)

theorem dot_accepts_forged_claim_witness:
  "\<exists>s' out. dot_exec True dot_demo (dot_demo_env [66] 0, Dot_mint_bridged 1 1 [66] 1000000 [] [2])
     = Inr (s', out) \<and> dot_transfers out = [([66], 1000000)]"
  using dot_accepts_forged_claim [of dot_demo "[2]" 1000000 1 1 "dot_demo_env [66] 0" "[66]" True "[]"]
  by (auto simp: dot_demo_def dot_demo_env_def dot_nonce_processed_def simp del: dot_exec.simps)

text \<open>As long as the administrator does not call, nobody changes the ink! contract's
  administrator, signers, threshold, fee, pause flag or token configurations; and no call
  at all, the administrator's included, ever configures a token or reports an exceeded
  daily limit: the declared per-token daily limits are never enforced.\<close>

lemma dot_config_protected:
  "((\<forall>(env, call) \<in> set calls. dot_caller env \<noteq> dot_admin s) \<longrightarrow>
      dot_config (exec_final (dot_exec True) s calls) = dot_config s) \<and>
   dot_token_configs (exec_final (dot_exec True) s calls) = dot_token_configs s \<and>
   dot_exec True s ec \<noteq> Inl (Dot_err Dot_DailyLimitExceeded)"
proof (intro conjI impI)
  assume "\<forall>(env, call) \<in> set calls. dot_caller env \<noteq> dot_admin s"
  then show "dot_config (exec_final (dot_exec True) s calls) = dot_config s"
    by (intro dot_guard.config_constant) (auto simp: dot_config_def)
next
  show "dot_token_configs (exec_final (dot_exec True) s calls) = dot_token_configs s"
  proof (rule exec_final_inv [where C = UNIV])
    fix u u' :: dot_bridge and ec :: "dot_env \<times> dot_call" and out
    assume "dot_token_configs u = dot_token_configs s" and "dot_exec True u ec = Inr (u', out)"
    then show "dot_token_configs u' = dot_token_configs s"
      by (cases ec; cases "snd ec") (auto dest!: dot_config_accept
          dest: dot_lock_accept dot_burn_accept dot_claim_accept(4) [OF disjI1]
            dot_claim_accept(4) [OF disjI2])
  qed simp_all
next
  show "dot_exec True s ec \<noteq> Inl (Dot_err Dot_DailyLimitExceeded)"
    by (cases ec; cases "snd ec")
       (auto simp: dot_lock_and_bridge_def dot_mint_bridged_def dot_burn_bridged_def
         dot_release_def dot_pause_def dot_unpause_def dot_set_signers_def dot_set_fee_def
         dot_require_not_paused_def dot_require_admin_def Let_def reject split: if_splits)
qed

lemma dot_config_protected_demo:
  "dot_config (exec_final (dot_exec True) dot_demo
     [(dot_demo_env [66] 0, Dot_set_fee 0), (dot_demo_env [66] 5, Dot_burn_bridged 1 [66])])
     = dot_config dot_demo"
  using dot_config_protected [of
      "[(dot_demo_env [66] 0, Dot_set_fee 0), (dot_demo_env [66] 5, Dot_burn_bridged 1 [66])]" dot_demo]
  by (simp add: dot_demo_env_def dot_demo_def del: exec_final.simps)

end
