(* ===== verification/Stellar_Bridge.thy ===== *)
theory Stellar_Bridge
  imports Bridge_Bytes Bridge_Spec "HOL-Library.While_Combinator"
begin

text \<open>
  The Soroban contract, \<^verbatim>\<open>programs/stellar-bridge/src/lib.rs\<close>, with the overflow
  checks its release profile sets. Parameters: the host's \<^verbatim>\<open>sha256\<close> (\<open>sha\<close>) and
  \<^verbatim>\<open>ed25519_verify\<close> (\<open>ed\<close>: public key, message, signature), which traps when the
  signature is wrong. The environment of a call says which addresses authorised it, which
  token transfers succeed (a failing one traps) and what the contract's own address is.
  Instance storage holds the configuration, persistent storage the consumed nonces; the
  expiry of persistent entries is not modelled.
\<close>

section \<open>Storage, environment and output\<close>

definition STELLAR_CHAIN_ID :: u64 where "STELLAR_CHAIN_ID = 1398895700"

record xlm_config =
  xlm_admin :: string
  xlm_mpc_signers :: "bytes list"
  xlm_threshold :: u32
  xlm_fee_bps :: u32
  xlm_paused :: bool
  xlm_outbound_nonce :: u64
  xlm_total_locked :: i128
  xlm_total_burned :: i128

text \<open>The two kinds of \<^verbatim>\<open>DataKey\<close> are the two fields.\<close>

record xlm_storage =
  xlm_instance :: "xlm_config option"
  xlm_persistent :: "u64 \<times> u64 \<rightharpoonup> bool"

record xlm_env =
  xlm_authorized :: "string \<Rightarrow> bool"
  xlm_transfer_ok :: "string \<Rightarrow> string \<Rightarrow> string \<Rightarrow> i128 \<Rightarrow> bool"
  xlm_self :: string

datatype xlm_event =
    Xlm_lock_event u64 u64 string bytes i128
  | Xlm_mint_event u64 u64 string i128
  | Xlm_burn_event u64 u64 string bytes i128

record xlm_output =
  xlm_returned :: "u64 option"
  xlm_published :: "xlm_event list"
  xlm_transfers :: "(string \<times> string \<times> string \<times> i128) list"

definition xlm_silent :: xlm_output where
  "xlm_silent = \<lparr>xlm_returned = None, xlm_published = [], xlm_transfers = []\<rparr>"

section \<open>Operations\<close>

definition xlm_get_config :: "xlm_storage \<Rightarrow> rust_panic + xlm_config" where
  "xlm_get_config s = ok_or (xlm_instance s) Unwrap_failed"

definition xlm_initialize ::
    "xlm_storage \<Rightarrow> string \<Rightarrow> bytes list \<Rightarrow> u32 \<Rightarrow> u32 \<Rightarrow> rust_panic + xlm_storage \<times> xlm_output" where
  "xlm_initialize s admin mpc_signers threshold fee_bps =
     and_then (ensure (fee_bps \<le> 500) (Assertion ''Fee too high'')) (\<lambda>_.
     let config = \<lparr>xlm_admin = admin,
       xlm_mpc_signers = mpc_signers,
       xlm_threshold = threshold,
       xlm_fee_bps = fee_bps,
       xlm_paused = False,
       xlm_outbound_nonce = 0,
       xlm_total_locked = 0,
       xlm_total_burned = 0\<rparr>
     in Inr (s\<lparr>xlm_instance := Some config\<rparr>, xlm_silent))"

definition xlm_lock_and_bridge ::
    "xlm_env \<Rightarrow> xlm_storage \<Rightarrow> string \<Rightarrow> string \<Rightarrow> i128 \<Rightarrow> u64 \<Rightarrow> bytes \<Rightarrow>
      rust_panic + xlm_storage \<times> xlm_output" where
  "xlm_lock_and_bridge env s sender token_addr amount dest_chain_id recipient =
     and_then (ensure (xlm_authorized env sender) Host_trap) (\<lambda>_.
     and_then (xlm_get_config s) (\<lambda>config.
     and_then (ensure (\<not> xlm_paused config) (Assertion ''Paused'')) (\<lambda>_.
     and_then (ensure (0 < sint amount) (Assertion ''Zero amount'')) (\<lambda>_.
     and_then (ok_or (signed_mul amount (ucast (xlm_fee_bps config))) Arithmetic_overflow) (\<lambda>product.
     and_then (ok_or (signed_fit (rust_quot (sint product) 10000)) Arithmetic_overflow) (\<lambda>fee.
     and_then (ok_or (signed_sub amount fee) Arithmetic_overflow) (\<lambda>bridge_amount.
     and_then (ensure (xlm_transfer_ok env token_addr sender (xlm_self env) amount) Host_trap) (\<lambda>_.
     and_then (ok_or (signed_add (xlm_total_locked config) bridge_amount) Arithmetic_overflow) (\<lambda>locked.
     and_then (ok_or (checked_add (xlm_outbound_nonce config) 1) Arithmetic_overflow) (\<lambda>nonce.
     Inr (s\<lparr>xlm_instance := Some (config\<lparr>xlm_total_locked := locked, xlm_outbound_nonce := nonce\<rparr>)\<rparr>,
          \<lparr>xlm_returned = Some nonce,
           xlm_published = [Xlm_lock_event dest_chain_id nonce sender recipient bridge_amount],
           xlm_transfers = [(token_addr, sender, xlm_self env, amount)]\<rparr>)))))))))))"

text \<open>
  The loop over the signers, left at the first match: as the handler uses it, and as it is
  written, with the index of type \<^verbatim>\<open>u32\<close>, the \<^verbatim>\<open>get(i).unwrap()\<close> that would panic past
  the end, and the \<^verbatim>\<open>break\<close>. The state is the next index and \<^verbatim>\<open>authorized\<close>, or the
  panic; \<open>None\<close> as the result of \<open>while_option\<close> would be a loop that does not end.
\<close>

definition xlm_get_signer :: "bytes list \<Rightarrow> u32 \<Rightarrow> bytes option" where
  "xlm_get_signer ks i = (if unat i < length ks then Some (ks ! unat i) else None)"

definition xlm_loop_guard :: "bytes list \<Rightarrow> rust_panic + u32 \<times> bool \<Rightarrow> bool" where
  "xlm_loop_guard ks st = (case st of
     Inl e \<Rightarrow> False
   | Inr (i, authorized) \<Rightarrow> i < of_nat (length ks) \<and> \<not> authorized)"

definition xlm_loop_body :: "bytes list \<Rightarrow> bytes \<Rightarrow> rust_panic + u32 \<times> bool \<Rightarrow> rust_panic + u32 \<times> bool" where
  "xlm_loop_body ks pk st =
     and_then st (\<lambda>(i, authorized).
     and_then (ok_or (xlm_get_signer ks i) Unwrap_failed) (\<lambda>k.
     Inr (if k = pk then (i, True) else (i + 1, authorized))))"

definition xlm_signer_loop :: "bytes list \<Rightarrow> bytes \<Rightarrow> (rust_panic + u32 \<times> bool) option" where
  "xlm_signer_loop ks pk = while_option (xlm_loop_guard ks) (xlm_loop_body ks pk) (Inr (0, False))"

primrec xlm_signer_listed :: "bytes list \<Rightarrow> bytes \<Rightarrow> bool" where
  "xlm_signer_listed [] pk = False"
| "xlm_signer_listed (k # ks) pk = (if k = pk then True else xlm_signer_listed ks pk)"

text \<open>The recipient is a parameter the source does not use.\<close>

definition xlm_build_mint_message :: "u64 \<Rightarrow> u64 \<Rightarrow> string \<Rightarrow> i128 \<Rightarrow> bytes" where
  "xlm_build_mint_message chain_id nonce recipient amount =
     str_bytes ''KNT_BRIDGE_MINT''
       @ to_le_bytes chain_id
       @ to_le_bytes nonce
       @ to_le_bytes amount"

definition xlm_mint_bridged ::
    "(bytes \<Rightarrow> bytes) \<Rightarrow> (bytes \<Rightarrow> bytes \<Rightarrow> bytes \<Rightarrow> bool) \<Rightarrow> xlm_env \<Rightarrow> xlm_storage \<Rightarrow>
      string \<Rightarrow> u64 \<Rightarrow> u64 \<Rightarrow> string \<Rightarrow> i128 \<Rightarrow> bytes \<Rightarrow> bytes \<Rightarrow> rust_panic + xlm_storage \<times> xlm_output" where
  "xlm_mint_bridged sha ed env s token_addr source_chain_id nonce recipient amount signature signer_pubkey =
     and_then (xlm_get_config s) (\<lambda>config.
     and_then (ensure (\<not> xlm_paused config) (Assertion ''Paused'')) (\<lambda>_.
     and_then (ensure (0 < sint amount) (Assertion ''Zero'')) (\<lambda>_.
     and_then (ensure (xlm_signer_listed (xlm_mpc_signers config) signer_pubkey)
                 (Assertion ''Unauthorized'')) (\<lambda>_.
     let nonce_key = (source_chain_id, nonce) in
     and_then (ensure (xlm_persistent s nonce_key = None) (Assertion ''Nonce processed'')) (\<lambda>_.
     let msg_hash = sha (xlm_build_mint_message source_chain_id nonce recipient amount) in
     and_then (ensure (ed signer_pubkey msg_hash signature) Host_trap) (\<lambda>_.
     and_then (ensure (xlm_transfer_ok env token_addr (xlm_self env) recipient amount) Host_trap) (\<lambda>_.
     Inr (s\<lparr>xlm_persistent := (xlm_persistent s)(nonce_key \<mapsto> True)\<rparr>,
          \<lparr>xlm_returned = None,
           xlm_published = [Xlm_mint_event source_chain_id nonce recipient amount],
           xlm_transfers = [(token_addr, xlm_self env, recipient, amount)]\<rparr>))))))))"

definition xlm_burn_bridged ::
    "xlm_env \<Rightarrow> xlm_storage \<Rightarrow> string \<Rightarrow> string \<Rightarrow> i128 \<Rightarrow> u64 \<Rightarrow> bytes \<Rightarrow>
      rust_panic + xlm_storage \<times> xlm_output" where
  "xlm_burn_bridged env s sender token_addr amount dest_chain_id recipient =
     and_then (ensure (xlm_authorized env sender) Host_trap) (\<lambda>_.
     and_then (xlm_get_config s) (\<lambda>config.
     and_then (ensure (\<not> xlm_paused config) (Assertion ''Paused'')) (\<lambda>_.
     and_then (ensure (0 < sint amount) (Assertion ''Zero'')) (\<lambda>_.
     and_then (ensure (xlm_transfer_ok env token_addr sender (xlm_self env) amount) Host_trap) (\<lambda>_.
     and_then (ok_or (signed_add (xlm_total_burned config) amount) Arithmetic_overflow) (\<lambda>burned.
     and_then (ok_or (checked_add (xlm_outbound_nonce config) 1) Arithmetic_overflow) (\<lambda>nonce.
     Inr (s\<lparr>xlm_instance := Some (config\<lparr>xlm_total_burned := burned, xlm_outbound_nonce := nonce\<rparr>)\<rparr>,
          \<lparr>xlm_returned = Some nonce,
           xlm_published = [Xlm_burn_event dest_chain_id nonce sender recipient amount],
           xlm_transfers = [(token_addr, sender, xlm_self env, amount)]\<rparr>))))))))"

definition xlm_pause :: "xlm_env \<Rightarrow> xlm_storage \<Rightarrow> string \<Rightarrow> rust_panic + xlm_storage \<times> xlm_output" where
  "xlm_pause env s admin =
     and_then (ensure (xlm_authorized env admin) Host_trap) (\<lambda>_.
     and_then (xlm_get_config s) (\<lambda>config.
     and_then (ensure (admin = xlm_admin config) (Assertion '''')) (\<lambda>_.
     Inr (s\<lparr>xlm_instance := Some (config\<lparr>xlm_paused := True\<rparr>)\<rparr>, xlm_silent))))"

definition xlm_unpause :: "xlm_env \<Rightarrow> xlm_storage \<Rightarrow> string \<Rightarrow> rust_panic + xlm_storage \<times> xlm_output" where
  "xlm_unpause env s admin =
     and_then (ensure (xlm_authorized env admin) Host_trap) (\<lambda>_.
     and_then (xlm_get_config s) (\<lambda>config.
     and_then (ensure (admin = xlm_admin config) (Assertion '''')) (\<lambda>_.
     Inr (s\<lparr>xlm_instance := Some (config\<lparr>xlm_paused := False\<rparr>)\<rparr>, xlm_silent))))"

definition xlm_view_total_locked :: "xlm_storage \<Rightarrow> rust_panic + i128" where
  "xlm_view_total_locked s = and_then (xlm_get_config s) (\<lambda>config. Inr (xlm_total_locked config))"

definition xlm_view_total_burned :: "xlm_storage \<Rightarrow> rust_panic + i128" where
  "xlm_view_total_burned s = and_then (xlm_get_config s) (\<lambda>config. Inr (xlm_total_burned config))"

section \<open>The contract as a machine\<close>

datatype xlm_call =
    Xlm_initialize string "bytes list" u32 u32
  | Xlm_lock_and_bridge string string i128 u64 bytes
  | Xlm_mint_bridged string u64 u64 string i128 bytes bytes
  | Xlm_burn_bridged string string i128 u64 bytes
  | Xlm_pause string
  | Xlm_unpause string

fun xlm_exec ::
    "(bytes \<Rightarrow> bytes) \<Rightarrow> (bytes \<Rightarrow> bytes \<Rightarrow> bytes \<Rightarrow> bool) \<Rightarrow> xlm_storage \<Rightarrow> xlm_env \<times> xlm_call \<Rightarrow>
      rust_panic + xlm_storage \<times> xlm_output" where
  "xlm_exec sha ed s (env, Xlm_initialize adm ks t f) = xlm_initialize s adm ks t f"
| "xlm_exec sha ed s (env, Xlm_lock_and_bridge who tok a d r) = xlm_lock_and_bridge env s who tok a d r"
| "xlm_exec sha ed s (env, Xlm_mint_bridged tok c n r a sig pk) = xlm_mint_bridged sha ed env s tok c n r a sig pk"
| "xlm_exec sha ed s (env, Xlm_burn_bridged who tok a d r) = xlm_burn_bridged env s who tok a d r"
| "xlm_exec sha ed s (env, Xlm_pause adm) = xlm_pause env s adm"
| "xlm_exec sha ed s (env, Xlm_unpause adm) = xlm_unpause env s adm"

text \<open>The machine between two initialisations.\<close>

fun xlm_initializes :: "xlm_env \<times> xlm_call \<Rightarrow> bool" where
  "xlm_initializes (env, Xlm_initialize adm ks t f) = True"
| "xlm_initializes (env, _) = False"

definition xlm_operate ::
    "(bytes \<Rightarrow> bytes) \<Rightarrow> (bytes \<Rightarrow> bytes \<Rightarrow> bytes \<Rightarrow> bool) \<Rightarrow> xlm_storage \<Rightarrow> xlm_env \<times> xlm_call \<Rightarrow>
      rust_panic + xlm_storage \<times> xlm_output" where
  "xlm_operate sha ed s ec =
     (if xlm_initializes ec then Inl Host_trap else xlm_exec sha ed s ec)"

section \<open>Accepted calls\<close>

lemma xlm_signer_listed_iff [simp]: "xlm_signer_listed ks pk \<longleftrightarrow> pk \<in> set ks"
  by (induction ks) auto

lemma xlm_get_config_Inr [accept]: "xlm_get_config s = Inr c \<longleftrightarrow> xlm_instance s = Some c"
  by (simp add: xlm_get_config_def accept)

definition xlm_wf :: "xlm_storage \<Rightarrow> bool" where
  "xlm_wf s \<longleftrightarrow> (case xlm_instance s of None \<Rightarrow> True | Some c \<Rightarrow>
     0 \<le> sint (xlm_total_locked c) \<and> 0 \<le> sint (xlm_total_burned c) \<and> unat (xlm_fee_bps c) \<le> 500)"

lemma sint_fee_bps [simp]: "sint (ucast (f :: u32) :: i128) = uint f"
proof -
  have wide: "uint (ucast f :: i128) = uint f"
    by (simp add: unsigned_ucast_eq take_bit_int_eq_self uint_lt2p [THEN less_le_trans])
  have "uint f < 2 ^ 127" using uint_lt2p [of f] by simp
  then have "signed_take_bit 127 (uint f) = uint f"
    by (intro signed_take_bit_int_eq_self) (auto intro: order_trans [of _ 0])
  then show ?thesis by (simp add: sint_uint wide)
qed

lemma rust_quot_nonneg [simp]: "0 \<le> a \<Longrightarrow> rust_quot a 10000 = a div 10000"
  by (cases "a = 0") (simp_all add: rust_quot_def)

lemma xlm_lock_accept:
  assumes "xlm_lock_and_bridge env s who tok a d r = Inr (s', out)"
  obtains c locked nonce amt where "xlm_instance s = Some c"
    and "xlm_authorized env who" and "\<not> xlm_paused c" and "0 < sint a"
    and "sint amt = sint a - sint a * uint (xlm_fee_bps c) div 10000"
    and "sint locked = sint (xlm_total_locked c) + sint amt"
    and "unat nonce = Suc (unat (xlm_outbound_nonce c))"
    and "s' = s\<lparr>xlm_instance := Some (c\<lparr>xlm_total_locked := locked, xlm_outbound_nonce := nonce\<rparr>)\<rparr>"
    and "out = \<lparr>xlm_returned = Some nonce, xlm_published = [Xlm_lock_event d nonce who r amt],
                xlm_transfers = [(tok, who, xlm_self env, a)]\<rparr>"
  using assms
  by (auto simp: xlm_lock_and_bridge_def accept signed_ops checked_ops)

lemma xlm_burn_accept:
  assumes "xlm_burn_bridged env s who tok a d r = Inr (s', out)"
  obtains c burned nonce where "xlm_instance s = Some c"
    and "xlm_authorized env who" and "\<not> xlm_paused c" and "0 < sint a"
    and "sint burned = sint (xlm_total_burned c) + sint a"
    and "unat nonce = Suc (unat (xlm_outbound_nonce c))"
    and "s' = s\<lparr>xlm_instance := Some (c\<lparr>xlm_total_burned := burned, xlm_outbound_nonce := nonce\<rparr>)\<rparr>"
    and "out = \<lparr>xlm_returned = Some nonce, xlm_published = [Xlm_burn_event d nonce who r a],
                xlm_transfers = [(tok, who, xlm_self env, a)]\<rparr>"
  using assms
  by (auto simp: xlm_burn_bridged_def accept signed_ops checked_ops)

lemma xlm_mint_accept:
  assumes "xlm_mint_bridged sha ed env s tok c n r a sig pk = Inr (s', out)"
  obtains cfg where "xlm_instance s = Some cfg" and "\<not> xlm_paused cfg" and "0 < sint a"
    and "pk \<in> set (xlm_mpc_signers cfg)" and "xlm_persistent s (c, n) = None"
    and "ed pk (sha (xlm_build_mint_message c n r a)) sig"
    and "xlm_transfer_ok env tok (xlm_self env) r a"
    and "s' = s\<lparr>xlm_persistent := (xlm_persistent s)((c, n) \<mapsto> True)\<rparr>"
    and "out = \<lparr>xlm_returned = None, xlm_published = [Xlm_mint_event c n r a],
                xlm_transfers = [(tok, xlm_self env, r, a)]\<rparr>"
  using assms by (auto simp: xlm_mint_bridged_def Let_def accept)

lemma xlm_pause_accept:
  assumes "xlm_pause env s adm = Inr (s', out) \<or> xlm_unpause env s adm = Inr (s', out)"
  obtains c b where "xlm_instance s = Some c" and "xlm_authorized env adm"
    and "adm = xlm_admin c" and "s' = s\<lparr>xlm_instance := Some (c\<lparr>xlm_paused := b\<rparr>)\<rparr>"
    and "out = xlm_silent"
  using assms by (auto simp: xlm_pause_def xlm_unpause_def accept)

section \<open>The contract implements the abstract bridge\<close>

text \<open>A contract not yet initialised is read as a paused one: it accepts nothing.\<close>

definition xlm_used :: "xlm_storage \<Rightarrow> (u64 \<times> u64) set" where
  "xlm_used s = dom (xlm_persistent s)"

definition xlm_abs :: "xlm_storage \<Rightarrow> (u64 \<times> u64, string, bytes) abs_bridge" where
  "xlm_abs s = (case xlm_instance s of
      None \<Rightarrow> \<lparr>a_admin = '''', a_signers = {}, a_fee = 0, a_paused = True, a_nonce = 0,
               a_locked = 0, a_burned = 0, a_done = xlm_used s\<rparr>
    | Some c \<Rightarrow> \<lparr>a_admin = xlm_admin c,
               a_signers = set (xlm_mpc_signers c),
               a_fee = unat (xlm_fee_bps c),
               a_paused = xlm_paused c,
               a_nonce = unat (xlm_outbound_nonce c),
               a_locked = nat (sint (xlm_total_locked c)),
               a_burned = nat (sint (xlm_total_burned c)),
               a_done = xlm_used s\<rparr>)"

fun xlm_label :: "xlm_env \<times> xlm_call \<Rightarrow> xlm_output \<Rightarrow> (u64 \<times> u64, string, bytes) blabel" where
  "xlm_label (env, Xlm_mint_bridged tok c n r a sig pk) out = LClaim (c, n) pk"
| "xlm_label (env, Xlm_lock_and_bridge who tok a d r) out =
     (case xlm_published out of
        [Xlm_lock_event d n sender r amt] \<Rightarrow>
          LLock (unat n) (nat (sint amt)) (nat (sint a) - nat (sint amt))
      | _ \<Rightarrow> LConfig '''')"
| "xlm_label (env, Xlm_burn_bridged who tok a d r) out =
     (case xlm_published out of
        [Xlm_burn_event d n sender r amt] \<Rightarrow> LBurn (unat n) (nat (sint amt))
      | _ \<Rightarrow> LConfig '''')"
| "xlm_label (env, Xlm_pause adm) out = LConfig adm"
| "xlm_label (env, Xlm_unpause adm) out = LConfig adm"
| "xlm_label (env, Xlm_initialize adm ks t f) out = LConfig adm"

lemma nat_fee:
  assumes "0 < x" and "unat (f :: u32) \<le> 500"
  shows "nat (x - x * uint f div 10000) = nat x - nat x * unat f div 10000"
    and "nat x * unat f div 10000 \<le> nat x"
    and "0 \<le> x - x * uint f div 10000"
proof -
  let ?g = "nat x"
  have x: "x = int ?g" and f: "uint f = int (unat f)" using assms by simp_all
  show le: "?g * unat f div 10000 \<le> ?g" using assms(2) by (intro bps_le) simp
  have diff: "x - x * uint f div 10000 = int (?g - ?g * unat f div 10000)"
    by (subst (1 2) x) (simp only: f of_nat_diff [OF le] of_nat_mult zdiv_int of_nat_numeral)
  show "nat (x - x * uint f div 10000) = ?g - ?g * unat f div 10000"
    by (simp only: diff nat_int)
  show "0 \<le> x - x * uint f div 10000" by (simp only: diff)
qed

lemma xlm_lock_step:
  assumes wf: "xlm_wf s" and "xlm_lock_and_bridge env s who tok a d r = Inr (s', out)"
  shows "bstep (xlm_abs s) (xlm_label (env, Xlm_lock_and_bridge who tok a d r) out) (xlm_abs s') \<and>
    xlm_wf s'"
  using assms(2)
proof (rule xlm_lock_accept)
  fix c locked nonce amt
  assume c: "xlm_instance s = Some c" "\<not> xlm_paused c" "0 < sint a"
    and amt: "sint amt = sint a - sint a * uint (xlm_fee_bps c) div 10000"
    and locked: "sint locked = sint (xlm_total_locked c) + sint amt"
    and nonce: "unat nonce = Suc (unat (xlm_outbound_nonce c))"
    and s': "s' = s\<lparr>xlm_instance := Some (c\<lparr>xlm_total_locked := locked, xlm_outbound_nonce := nonce\<rparr>)\<rparr>"
    and out: "out = \<lparr>xlm_returned = Some nonce, xlm_published = [Xlm_lock_event d nonce who r amt],
                xlm_transfers = [(tok, who, xlm_self env, a)]\<rparr>"
  have inv: "0 \<le> sint (xlm_total_locked c)" "unat (xlm_fee_bps c) \<le> 500"
    using wf c(1) by (simp_all add: xlm_wf_def)
  let ?g = "nat (sint a)" and ?fee = "nat (sint a) * unat (xlm_fee_bps c) div 10000"
  note fee = nat_fee [OF c(3) inv(2), folded amt]
  have "nat (sint locked) = nat (sint (xlm_total_locked c)) + (?g - ?fee)"
    using inv(1) fee by (simp add: locked nat_add_distrib)
  then have "xlm_abs s' = (xlm_abs s)\<lparr>a_nonce := Suc (a_nonce (xlm_abs s)),
      a_locked := a_locked (xlm_abs s) + (?g - ?fee)\<rparr>"
    using nonce by (simp add: xlm_abs_def c(1) s' xlm_used_def)
  moreover have "xlm_label (env, Xlm_lock_and_bridge who tok a d r) out =
      LLock (Suc (a_nonce (xlm_abs s))) (?g - ?fee) ?fee"
    using nonce fee by (simp add: out xlm_abs_def c(1))
  moreover have "?fee = (?g - ?fee + ?fee) * a_fee (xlm_abs s) div 10000"
    using fee(2) by (simp add: xlm_abs_def c(1))
  moreover have "\<not> a_paused (xlm_abs s)" using c by (simp add: xlm_abs_def)
  ultimately have "bstep (xlm_abs s) (xlm_label (env, Xlm_lock_and_bridge who tok a d r) out) (xlm_abs s')"
    by (rule bstep_lockI)
  moreover have "xlm_wf s'" using wf c(1) fee(3) locked by (simp add: xlm_wf_def s')
  ultimately show ?thesis by simp
qed

lemma xlm_burn_step:
  assumes wf: "xlm_wf s" and "xlm_burn_bridged env s who tok a d r = Inr (s', out)"
  shows "bstep (xlm_abs s) (xlm_label (env, Xlm_burn_bridged who tok a d r) out) (xlm_abs s') \<and>
    xlm_wf s'"
  using assms(2)
proof (rule xlm_burn_accept)
  fix c burned nonce
  assume c: "xlm_instance s = Some c" "\<not> xlm_paused c" "0 < sint a"
    and burned: "sint burned = sint (xlm_total_burned c) + sint a"
    and nonce: "unat nonce = Suc (unat (xlm_outbound_nonce c))"
    and s': "s' = s\<lparr>xlm_instance := Some (c\<lparr>xlm_total_burned := burned, xlm_outbound_nonce := nonce\<rparr>)\<rparr>"
    and out: "out = \<lparr>xlm_returned = Some nonce, xlm_published = [Xlm_burn_event d nonce who r a],
                xlm_transfers = [(tok, who, xlm_self env, a)]\<rparr>"
  have "nat (sint burned) = nat (sint (xlm_total_burned c)) + nat (sint a)"
    using wf c by (simp add: burned nat_add_distrib xlm_wf_def)
  then have "xlm_abs s' = (xlm_abs s)\<lparr>a_nonce := Suc (a_nonce (xlm_abs s)),
      a_burned := a_burned (xlm_abs s) + nat (sint a)\<rparr>"
    using nonce by (simp add: xlm_abs_def c(1) s' xlm_used_def)
  moreover have "xlm_label (env, Xlm_burn_bridged who tok a d r) out =
      LBurn (Suc (a_nonce (xlm_abs s))) (nat (sint a))"
    using nonce by (simp add: out xlm_abs_def c(1))
  moreover have "\<not> a_paused (xlm_abs s)" using c by (simp add: xlm_abs_def)
  ultimately have "bstep (xlm_abs s) (xlm_label (env, Xlm_burn_bridged who tok a d r) out) (xlm_abs s')"
    by (rule bstep_burnI)
  moreover have "xlm_wf s'" using wf c burned by (simp add: xlm_wf_def s')
  ultimately show ?thesis by simp
qed

lemma xlm_mint_step:
  assumes wf: "xlm_wf s" and "xlm_mint_bridged sha ed env s tok c n r a sig pk = Inr (s', out)"
  shows "bstep (xlm_abs s) (LClaim (c, n) pk) (xlm_abs s') \<and> xlm_wf s'"
  using assms(2)
proof (rule xlm_mint_accept)
  fix cfg
  assume cfg: "xlm_instance s = Some cfg" "\<not> xlm_paused cfg" "pk \<in> set (xlm_mpc_signers cfg)"
    "xlm_persistent s (c, n) = None"
    and s': "s' = s\<lparr>xlm_persistent := (xlm_persistent s)((c, n) \<mapsto> True)\<rparr>"
  have "xlm_abs s' = (xlm_abs s)\<lparr>a_done := insert (c, n) (a_done (xlm_abs s))\<rparr>"
    by (simp add: xlm_abs_def cfg(1) s' xlm_used_def)
  then have "bstep (xlm_abs s) (LClaim (c, n) pk) (xlm_abs s')"
    by (rule bstep_claimI) (use cfg in \<open>auto simp: xlm_abs_def xlm_used_def\<close>)
  then show ?thesis using wf by (simp add: xlm_wf_def s')
qed

lemma xlm_pause_step:
  assumes wf: "xlm_wf s"
    and "xlm_pause env s adm = Inr (s', out) \<or> xlm_unpause env s adm = Inr (s', out)"
  shows "bstep (xlm_abs s) (LConfig adm) (xlm_abs s') \<and> xlm_wf s'"
  using assms(2)
proof (rule xlm_pause_accept)
  fix c b
  assume c: "xlm_instance s = Some c" "adm = xlm_admin c"
    and s': "s' = s\<lparr>xlm_instance := Some (c\<lparr>xlm_paused := b\<rparr>)\<rparr>"
  have "xlm_abs s' = (xlm_abs s)\<lparr>a_paused := b, a_signers := a_signers (xlm_abs s),
      a_fee := a_fee (xlm_abs s)\<rparr>"
    by (simp add: xlm_abs_def c(1) s' xlm_used_def)
  then have "bstep (xlm_abs s) (LConfig adm) (xlm_abs s')"
    by (rule bstep_configI) (use c in \<open>auto simp: xlm_abs_def\<close>)
  then show ?thesis using wf c by (simp add: xlm_wf_def s')
qed

lemma xlm_operate_step:
  assumes "xlm_wf s" and "xlm_operate sha ed s ec = Inr (s', out)"
  shows "bstep (xlm_abs s) (xlm_label ec out) (xlm_abs s') \<and> xlm_wf s'"
proof (cases ec)
  case (Pair env call)
  with assms(2) have run: "xlm_exec sha ed s (env, call) = Inr (s', out)"
    and no: "\<not> xlm_initializes (env, call)"
    by (simp_all add: xlm_operate_def split: if_splits)
  show ?thesis
  proof (cases call)
    case (Xlm_lock_and_bridge who tok a d r)
    with run show ?thesis unfolding Pair Xlm_lock_and_bridge
      by (intro xlm_lock_step [OF assms(1)]) simp
  next
    case (Xlm_burn_bridged who tok a d r)
    with run show ?thesis unfolding Pair Xlm_burn_bridged
      by (intro xlm_burn_step [OF assms(1)]) simp
  qed (use run no Pair assms(1) in \<open>auto dest: xlm_mint_step xlm_pause_step\<close>)
qed

interpretation xlm: bridge_refinement "xlm_operate sha ed" xlm_abs xlm_label xlm_wf for sha ed
  by unfold_locales (auto dest: xlm_operate_step)

text \<open>Replay protection survives a new initialisation: the nonces are kept apart.\<close>

fun xlm_consumed :: "xlm_env \<times> xlm_call \<Rightarrow> xlm_output \<Rightarrow> (u64 \<times> u64) option" where
  "xlm_consumed (env, Xlm_mint_bridged tok c n r a sig pk) out = Some (c, n)"
| "xlm_consumed (env, _) out = None"

lemma xlm_exec_used:
  assumes "xlm_exec sha ed s ec = Inr (s', out)"
  shows "xlm_used s' = xlm_used s \<union> set_option (xlm_consumed ec out) \<and>
    set_option (xlm_consumed ec out) \<inter> xlm_used s = {}"
proof (cases ec)
  case (Pair env call)
  show ?thesis
  proof (cases call)
    case (Xlm_initialize adm ks t f)
    with assms Pair show ?thesis
      by (auto simp: xlm_used_def xlm_initialize_def Let_def accept)
  next
    case (Xlm_lock_and_bridge who tok a d r)
    with assms Pair show ?thesis by (auto simp: xlm_used_def elim!: xlm_lock_accept)
  next
    case (Xlm_mint_bridged tok c n r a sig pk)
    with assms Pair show ?thesis by (auto simp: xlm_used_def elim!: xlm_mint_accept)
  next
    case (Xlm_burn_bridged who tok a d r)
    with assms Pair show ?thesis by (auto simp: xlm_used_def elim!: xlm_burn_accept)
  next
    case (Xlm_pause adm)
    with assms Pair show ?thesis by (auto simp: xlm_used_def elim!: xlm_pause_accept [OF disjI1])
  next
    case (Xlm_unpause adm)
    with assms Pair show ?thesis by (auto simp: xlm_used_def elim!: xlm_pause_accept [OF disjI2])
  qed
qed

interpretation xlm_replay: replay_guard "xlm_exec sha ed" xlm_consumed xlm_used "\<lambda>_. True" for sha ed
  by unfold_locales (auto dest: xlm_exec_used)

text \<open>
  Totals do not survive an initialisation, transfers do: what callers moved into the
  contract with their locks, and with their burns, over a sequence of accepted calls.
\<close>

definition xlm_moved_in :: "xlm_env \<times> xlm_call \<Rightarrow> xlm_output \<Rightarrow> nat" where
  "xlm_moved_in ec out = sum_list (map (\<lambda>(tok, src, dst, a). nat (sint a))
     (filter (\<lambda>(tok, src, dst, a). dst = xlm_self (fst ec)) (xlm_transfers out)))"

definition xlm_locked_in :: "((xlm_env \<times> xlm_call) \<times> xlm_output) list \<Rightarrow> nat" where
  "xlm_locked_in es = sum_list (map (\<lambda>(ec, out).
     case snd ec of Xlm_lock_and_bridge who tok a d r \<Rightarrow> xlm_moved_in ec out | _ \<Rightarrow> 0) es)"

definition xlm_burned_in :: "((xlm_env \<times> xlm_call) \<times> xlm_output) list \<Rightarrow> nat" where
  "xlm_burned_in es = sum_list (map (\<lambda>(ec, out).
     case snd ec of Xlm_burn_bridged who tok a d r \<Rightarrow> xlm_moved_in ec out | _ \<Rightarrow> 0) es)"

lemma xlm_net_le:
  assumes "0 < sint a" and "sint amt = sint a - sint a * uint (f :: u32) div 10000"
  shows "nat (sint (amt :: i128)) \<le> nat (sint (a :: i128))"
proof -
  have "0 \<le> sint a * uint f div 10000"
    using assms(1) by (intro pos_imp_zdiv_nonneg_iff [THEN iffD2] mult_nonneg_nonneg) simp_all
  with assms(2) show ?thesis by simp
qed

lemma xlm_lock_moved:
  assumes "xlm_lock_and_bridge env s who tok a d r = Inr (s', out)"
  shows "lock_amount (xlm_label (env, Xlm_lock_and_bridge who tok a d r) out) \<le>
      xlm_moved_in (env, Xlm_lock_and_bridge who tok a d r) out \<and>
    burn_amount (xlm_label (env, Xlm_lock_and_bridge who tok a d r) out) = 0"
  using assms
proof (rule xlm_lock_accept)
  fix c nonce amt
  assume "0 < sint a" and "sint amt = sint a - sint a * uint (xlm_fee_bps c) div 10000"
    and out: "out = \<lparr>xlm_returned = Some nonce, xlm_published = [Xlm_lock_event d nonce who r amt],
                xlm_transfers = [(tok, who, xlm_self env, a)]\<rparr>"
  from this(1,2) have "nat (sint amt) \<le> nat (sint a)" by (rule xlm_net_le)
  then show ?thesis by (simp add: out xlm_moved_in_def)
qed

lemma xlm_burn_moved:
  assumes "xlm_burn_bridged env s who tok a d r = Inr (s', out)"
  shows "burn_amount (xlm_label (env, Xlm_burn_bridged who tok a d r) out) \<le>
      xlm_moved_in (env, Xlm_burn_bridged who tok a d r) out \<and>
    lock_amount (xlm_label (env, Xlm_burn_bridged who tok a d r) out) = 0"
  using assms
proof (rule xlm_burn_accept)
  fix nonce
  assume out: "out = \<lparr>xlm_returned = Some nonce, xlm_published = [Xlm_burn_event d nonce who r a],
                xlm_transfers = [(tok, who, xlm_self env, a)]\<rparr>"
  show ?thesis by (simp add: out xlm_moved_in_def)
qed

lemma xlm_amounts_moved:
  assumes "xlm_exec sha ed s (env, call) = Inr (s', out)"
  shows "lock_amount (xlm_label (env, call) out) \<le>
      (case call of Xlm_lock_and_bridge who tok a d r \<Rightarrow> xlm_moved_in (env, call) out | _ \<Rightarrow> 0) \<and>
    burn_amount (xlm_label (env, call) out) \<le>
      (case call of Xlm_burn_bridged who tok a d r \<Rightarrow> xlm_moved_in (env, call) out | _ \<Rightarrow> 0)"
proof (cases call)
  case (Xlm_lock_and_bridge who tok a d r)
  with assms have "xlm_lock_and_bridge env s who tok a d r = Inr (s', out)" by simp
  from xlm_lock_moved [OF this] show ?thesis unfolding Xlm_lock_and_bridge xlm_call.case by linarith
next
  case (Xlm_burn_bridged who tok a d r)
  with assms have "xlm_burn_bridged env s who tok a d r = Inr (s', out)" by simp
  from xlm_burn_moved [OF this] show ?thesis unfolding Xlm_burn_bridged xlm_call.case by linarith
qed simp_all

lemma xlm_announced_moved:
  "sum_list (map (\<lambda>(ec, out). lock_amount (xlm_label ec out)) (exec_trace (xlm_exec sha ed) s calls))
     \<le> xlm_locked_in (exec_trace (xlm_exec sha ed) s calls)" (is ?locks)
  "sum_list (map (\<lambda>(ec, out). burn_amount (xlm_label ec out)) (exec_trace (xlm_exec sha ed) s calls))
     \<le> xlm_burned_in (exec_trace (xlm_exec sha ed) s calls)" (is ?burns)
proof -
  have accepted: "\<exists>u u'. xlm_exec sha ed u (env, call) = Inr (u', out)"
    if "((env, call), out) \<in> set (exec_trace (xlm_exec sha ed) s calls)" for env call out
    using that by (rule exec_trace_accepted)
  show ?locks unfolding xlm_locked_in_def
    by (rule sum_list_mono) (use accepted xlm_amounts_moved in fastforce)
  show ?burns unfolding xlm_burned_in_def
    by (rule sum_list_mono) (use accepted xlm_amounts_moved in fastforce)
qed

text \<open>A deployment the witnesses run, with a signature scheme that accepts one signature.\<close>

definition xlm_demo_config :: xlm_config where
  "xlm_demo_config = \<lparr>xlm_admin = ''admin'', xlm_mpc_signers = [[1]], xlm_threshold = 2,
     xlm_fee_bps = 100, xlm_paused = False, xlm_outbound_nonce = 0, xlm_total_locked = 0,
     xlm_total_burned = 0\<rparr>"

definition xlm_demo :: xlm_storage where
  "xlm_demo = \<lparr>xlm_instance = Some xlm_demo_config, xlm_persistent = Map.empty\<rparr>"

definition xlm_demo_env :: xlm_env where
  "xlm_demo_env = \<lparr>xlm_authorized = (\<lambda>_. True), xlm_transfer_ok = (\<lambda>_ _ _ _. True),
     xlm_self = ''bridge''\<rparr>"

definition xlm_demo_ed :: "bytes \<Rightarrow> bytes \<Rightarrow> bytes \<Rightarrow> bool" where
  "xlm_demo_ed pk msg sig \<longleftrightarrow> sig = [9] \<and> msg = xlm_build_mint_message 5 6 ''alice'' 1000"

lemma xlm_demo_mint:
  "xlm_mint_bridged id xlm_demo_ed xlm_demo_env xlm_demo ''usdc'' 5 6 ''alice'' 1000 [9] [1] =
     Inr (xlm_demo\<lparr>xlm_persistent := [(5, 6) \<mapsto> True]\<rparr>,
       \<lparr>xlm_returned = None, xlm_published = [Xlm_mint_event 5 6 ''alice'' 1000],
        xlm_transfers = [(''usdc'', ''bridge'', ''alice'', 1000)]\<rparr>)"
  by (simp add: xlm_mint_bridged_def xlm_demo_def xlm_demo_config_def xlm_demo_env_def
      xlm_demo_ed_def xlm_get_config_def)

section \<open>Properties\<close>

text \<open>C27: Between two initialisations, every call the Soroban contract accepts is a step of
  the abstract bridge: signed 128 bit arithmetic and all, a lock announces exactly the
  amount less the floor of the fee and the next nonce, a mint consumes a fresh nonce under
  a listed key, only the administrator pauses; and the totals stay non-negative.\<close>

theorem xlm_refines_bridge:
  assumes "xlm_wf s" and "xlm_operate sha ed s ec = Inr (s', out)"
  shows "bstep (xlm_abs s) (xlm_label ec out) (xlm_abs s') \<and> xlm_wf s'"
  using assms by (rule xlm_operate_step)

theorem xlm_refines_bridge_witness:
  "bstep (xlm_abs xlm_demo) (LClaim (5, 6) [1])
     (xlm_abs (xlm_demo\<lparr>xlm_persistent := [(5, 6) \<mapsto> True]\<rparr>))"
proof -
  have "xlm_operate id xlm_demo_ed xlm_demo
      (xlm_demo_env, Xlm_mint_bridged ''usdc'' 5 6 ''alice'' 1000 [9] [1]) =
    Inr (xlm_demo\<lparr>xlm_persistent := [(5, 6) \<mapsto> True]\<rparr>,
       \<lparr>xlm_returned = None, xlm_published = [Xlm_mint_event 5 6 ''alice'' 1000],
        xlm_transfers = [(''usdc'', ''bridge'', ''alice'', 1000)]\<rparr>)"
    by (simp add: xlm_operate_def xlm_demo_mint)
  from xlm_refines_bridge [OF _ this] show ?thesis
    by (simp add: xlm_wf_def xlm_demo_def xlm_demo_config_def)
qed

text \<open>C29: Over any sequence of calls, initialisations by anybody included, the Soroban
  contract consumes no inbound (source chain, nonce) pair twice and none consumed before.\<close>

theorem xlm_replay_protected:
  "distinct (List.map_filter (\<lambda>(ec, out). xlm_consumed ec out) (exec_trace (xlm_exec sha ed) s calls)) \<and>
   set (List.map_filter (\<lambda>(ec, out). xlm_consumed ec out) (exec_trace (xlm_exec sha ed) s calls))
     \<inter> xlm_used s = {} \<and>
   xlm_used (exec_final (xlm_exec sha ed) s calls) = xlm_used s \<union>
     set (List.map_filter (\<lambda>(ec, out). xlm_consumed ec out) (exec_trace (xlm_exec sha ed) s calls))"
  by (rule xlm_replay.consumed_once) simp

text \<open>C34: The message the Soroban contract verifies names neither the recipient nor the
  token, so a signature accepted for one payment pays any other recipient in any other
  token the contract can transfer: whoever sees a mint call before it is executed can send
  the same signature with its own address and a more valuable token.\<close>

theorem xlm_mint_redirectable:
  assumes "xlm_mint_bridged sha ed env s tok c n r a sig pk = Inr (s', out)"
    and "xlm_transfer_ok env tok' (xlm_self env) r' a"
  shows "xlm_mint_bridged sha ed env s tok' c n r' a sig pk =
    Inr (s', out\<lparr>xlm_published := [Xlm_mint_event c n r' a],
                 xlm_transfers := [(tok', xlm_self env, r', a)]\<rparr>)"
  using assms
  by (auto simp: xlm_mint_bridged_def Let_def accept xlm_build_mint_message_def)

theorem xlm_mint_redirectable_witness:
  "\<exists>s' out. xlm_mint_bridged id xlm_demo_ed xlm_demo_env xlm_demo ''wbtc'' 5 6 ''mallory'' 1000 [9] [1]
     = Inr (s', out) \<and> xlm_transfers out = [(''wbtc'', ''bridge'', ''mallory'', 1000)]"
  using xlm_mint_redirectable [OF xlm_demo_mint, of "''wbtc''" "''mallory''"]
  by (simp add: xlm_demo_env_def)

text \<open>C33: The initialisation of the Soroban contract has no guard: in any state, paused or
  in use, two calls that need nobody's authorisation make an address of the caller's choice
  the administrator, with a signer of the caller's choice, and pay out on that signer's word
  any amount of any token the contract can transfer. Afterwards nobody but the new
  administrator can pause.\<close>

theorem xlm_takeover:
  fixes adm :: string
  assumes "0 < sint a" and "(c, n) \<notin> xlm_used s"
    and "ed pk (sha (xlm_build_mint_message c n r a)) sig"
    and "xlm_transfer_ok env tok (xlm_self env) r a"
  defines "calls \<equiv> [(env, Xlm_initialize adm [pk] 1 0), (env, Xlm_mint_bridged tok c n r a sig pk)]"
  shows "map (\<lambda>(ec, out). xlm_transfers out) (exec_trace (xlm_exec sha ed) s calls)
      = [[], [(tok, xlm_self env, r, a)]] \<and>
    (\<exists>config. xlm_instance (exec_final (xlm_exec sha ed) s calls) = Some config \<and>
      xlm_admin config = adm \<and> xlm_mpc_signers config = [pk] \<and> \<not> xlm_paused config) \<and>
    (\<forall>env' who. who \<noteq> adm \<longrightarrow>
      (\<exists>e. xlm_exec sha ed (exec_final (xlm_exec sha ed) s calls) (env', Xlm_pause who) = Inl e))"
proof -
  have fresh: "xlm_persistent s (c, n) = None" using assms(2) by (auto simp: xlm_used_def)
  show ?thesis
    unfolding calls_def
    using assms(1,3,4) fresh
    by (auto simp: xlm_initialize_def xlm_silent_def xlm_mint_bridged_def xlm_get_config_def xlm_pause_def
        ensure_def and_then_def Let_def)
qed

theorem xlm_takeover_witness:
  "map (\<lambda>(ec, out). xlm_transfers out)
    (exec_trace (xlm_exec id xlm_demo_ed) xlm_demo
      [(xlm_demo_env, Xlm_initialize ''mallory'' [[66]] 1 0),
       (xlm_demo_env, Xlm_mint_bridged ''usdc'' 5 6 ''alice'' 1000 [9] [66])])
    = [[], [(''usdc'', ''bridge'', ''alice'', 1000)]] \<and>
   (\<exists>config. xlm_instance (exec_final (xlm_exec id xlm_demo_ed) xlm_demo
      [(xlm_demo_env, Xlm_initialize ''mallory'' [[66]] 1 0),
       (xlm_demo_env, Xlm_mint_bridged ''usdc'' 5 6 ''alice'' 1000 [9] [66])]) = Some config \<and>
     xlm_admin config = ''mallory'')"
  using xlm_takeover [of 1000 5 6 xlm_demo xlm_demo_ed "[66]" id "''alice''" "[9]" xlm_demo_env
      "''usdc''" "''mallory''"]
  by (auto simp: xlm_used_def xlm_demo_def xlm_demo_env_def xlm_demo_ed_def simp del: exec_trace.simps exec_final.simps)

text \<open>The token of a lock or a burn on the Soroban contract is the caller's choice and
  leaves no trace: with a token of its own making a caller gets the same event, the same
  nonce and the same totals as with a real one. What the log announces does not depend on
  what was locked.\<close>

lemma xlm_lock_token_blind:
  assumes "xlm_lock_and_bridge env s who tok a d r = Inr (s', out)"
    and "xlm_transfer_ok env tok' who (xlm_self env) a"
  shows "\<exists>out'. xlm_lock_and_bridge env s who tok' a d r = Inr (s', out') \<and>
    xlm_published out' = xlm_published out \<and> xlm_returned out' = xlm_returned out"
  using assms by (auto simp: xlm_lock_and_bridge_def Let_def accept)

lemma xlm_lock_token_blind_demo:
  "\<exists>s' out. xlm_lock_and_bridge xlm_demo_env xlm_demo ''mallory'' ''worthless'' 5000 1 [0] = Inr (s', out) \<and>
     xlm_published out = [Xlm_lock_event 1 1 ''mallory'' [0] 4950]"
proof -
  have fits: "signed_fit 500000 = Some (500000 :: i128)" "signed_fit 50 = Some (50 :: i128)"
    "signed_fit 4950 = Some (4950 :: i128)" "checked_add 0 1 = Some (1 :: u64)"
    by (simp_all add: signed_fit_Some checked_add_Some)
  have "xlm_lock_and_bridge xlm_demo_env xlm_demo ''mallory'' ''usdc'' 5000 1 [0] =
    Inr (xlm_demo\<lparr>xlm_instance := Some (xlm_demo_config\<lparr>xlm_total_locked := 4950, xlm_outbound_nonce := 1\<rparr>)\<rparr>,
      \<lparr>xlm_returned = Some 1, xlm_published = [Xlm_lock_event 1 1 ''mallory'' [0] 4950],
       xlm_transfers = [(''usdc'', ''mallory'', ''bridge'', 5000)]\<rparr>)"
    by (simp add: xlm_lock_and_bridge_def xlm_demo_def xlm_demo_config_def xlm_demo_env_def
        xlm_get_config_def signed_mul_def signed_sub_def signed_add_def fits)
  from xlm_lock_token_blind [OF this, of "''worthless''"] show ?thesis
    by (auto simp: xlm_demo_env_def)
qed

section \<open>The signer loop\<close>

text \<open>
  The invariant of the loop: no panic; the index is within the list, no signer before it is
  the key, and the flag says that the signer at the index is.
\<close>

definition xlm_loop_inv :: "bytes list \<Rightarrow> bytes \<Rightarrow> rust_panic + u32 \<times> bool \<Rightarrow> bool" where
  "xlm_loop_inv ks pk st = (case st of
     Inl e \<Rightarrow> False
   | Inr (i, authorized) \<Rightarrow> unat i \<le> length ks \<and> pk \<notin> set (take (unat i) ks) \<and>
       (authorized \<longrightarrow> unat i < length ks \<and> ks ! unat i = pk))"

definition xlm_loop_left :: "bytes list \<Rightarrow> rust_panic + u32 \<times> bool \<Rightarrow> nat" where
  "xlm_loop_left ks st = (case st of
     Inl e \<Rightarrow> 0
   | Inr (i, authorized) \<Rightarrow> 2 * (length ks - unat i) + (if authorized then 0 else 1))"

lemma xlm_loop_index:
  assumes "length ks < 2 ^ 32" and "unat i \<le> length ks"
  shows "(i :: u32) < of_nat (length ks) \<longleftrightarrow> unat i < length ks"
    and "unat i < length ks \<Longrightarrow> unat (i + 1) = Suc (unat i)"
proof -
  have len: "unat (of_nat (length ks) :: u32) = length ks"
    using assms(1) by (simp add: unsigned_of_nat take_bit_nat_eq_self)
  then show "i < of_nat (length ks) \<longleftrightarrow> unat i < length ks"
    by (simp add: word_less_nat_alt)
  show "unat (i + 1) = Suc (unat i)" if "unat i < length ks"
    using that assms(1) by (simp add: unat_word_ariths)
qed

lemma xlm_loop_step:
  assumes len: "length ks < 2 ^ 32" and inv: "xlm_loop_inv ks pk st" and guard: "xlm_loop_guard ks st"
  shows "xlm_loop_inv ks pk (xlm_loop_body ks pk st)"
    and "xlm_loop_left ks (xlm_loop_body ks pk st) < xlm_loop_left ks st"
proof -
  from guard obtain i where st: "st = Inr (i, False)"
    by (auto simp: xlm_loop_guard_def split: sum.splits prod.splits)
  with inv have i: "unat i \<le> length ks" "pk \<notin> set (take (unat i) ks)"
    by (simp_all add: xlm_loop_inv_def)
  note index = xlm_loop_index [OF len i(1)]
  from guard st index(1) have less: "unat i < length ks" by (simp add: xlm_loop_guard_def)
  then have body: "xlm_loop_body ks pk st = Inr (if ks ! unat i = pk then (i, True) else (i + 1, False))"
    by (simp add: xlm_loop_body_def st xlm_get_signer_def)
  show "xlm_loop_inv ks pk (xlm_loop_body ks pk st)"
    using i less index(2) [OF less]
    by (simp add: body xlm_loop_inv_def take_Suc_conv_app_nth)
  show "xlm_loop_left ks (xlm_loop_body ks pk st) < xlm_loop_left ks st"
    using less index(2) [OF less] by (simp add: body [unfolded st] st xlm_loop_left_def diff_less_mono2)
qed

text \<open>C24: The loop over the signers in \<^verbatim>\<open>mint_bridged\<close> ends for every list the host can
  hold (lengths are \<^verbatim>\<open>u32\<close>), with an index that never wraps and an \<^verbatim>\<open>unwrap\<close> that never
  fails, and its flag is the membership test the handler needs.\<close>

theorem xlm_signer_loop_ends:
  assumes "length ks < 2 ^ 32"
  shows "\<exists>i. xlm_signer_loop ks pk = Some (Inr (i, xlm_signer_listed ks pk))"
proof -
  have start: "xlm_loop_inv ks pk (Inr (0, False))" by (simp add: xlm_loop_inv_def)
  have "\<exists>t. while_option (xlm_loop_guard ks) (xlm_loop_body ks pk) (Inr (0, False)) = Some t"
    by (rule measure_while_option_Some [where P = "xlm_loop_inv ks pk" and f = "xlm_loop_left ks", OF _ start])
      (simp add: xlm_loop_step [OF assms])
  then obtain t where t: "xlm_signer_loop ks pk = Some t" by (auto simp: xlm_signer_loop_def)
  then have stop: "\<not> xlm_loop_guard ks t"
    by (auto simp: xlm_signer_loop_def dest: while_option_stop)
  have "xlm_loop_inv ks pk t"
    using t start unfolding xlm_signer_loop_def
    by (rule while_option_rule [rotated]) (rule xlm_loop_step [OF assms])
  then obtain i authorized where r: "t = Inr (i, authorized)" "unat i \<le> length ks"
    "pk \<notin> set (take (unat i) ks)" "authorized \<longrightarrow> unat i < length ks \<and> ks ! unat i = pk"
    by (auto simp: xlm_loop_inv_def split: sum.splits)
  have "authorized \<longleftrightarrow> pk \<in> set ks"
    using r stop xlm_loop_index(1) [OF assms r(2)] by (auto simp: xlm_loop_guard_def)
  with r t show ?thesis by simp
qed

theorem xlm_signer_loop_ends_witness:
  "\<exists>i. xlm_signer_loop [[1], [2], [3]] [2] = Some (Inr (i, True))"
  using xlm_signer_loop_ends [of "[[1], [2], [3]]" "[2]"] by simp

end
