(* ===== verification/Icp_Bridge.thy ===== *)
theory Icp_Bridge
  imports Bridge_Bytes Bridge_Spec
begin

text \<open>
  The Internet Computer canister, \<^verbatim>\<open>programs/icp-bridge/src/knt_bridge.rs\<close>. Its
  state is the three thread-local cells. No build file fixes the overflow behaviour, so
  the operations take the flag \<open>oc\<close> of the build. A trap undoes the changes of an update
  call. The environment of a call is the caller and the time.
\<close>

section \<open>State, environment and output\<close>

definition ICP_CHAIN_ID :: u64 where "ICP_CHAIN_ID = 4294967490"
definition ICP_MAX_FEE_BPS :: u16 where "ICP_MAX_FEE_BPS = 500"

record icp_config =
  icp_admin :: bytes
  icp_mpc_signers :: "bytes list"
  icp_threshold :: u8
  icp_fee_bps :: u16
  icp_paused :: bool
  icp_outbound_nonce :: u64
  icp_total_locked :: u128
  icp_total_burned :: u128

record icp_lock_event =
  icp_source_chain :: u64
  icp_dest_chain :: u64
  icp_nonce :: u64
  icp_sender :: bytes
  icp_recipient :: bytes
  icp_amount :: u128
  icp_fee :: u128
  icp_timestamp :: u64

record icp_state =
  icp_CONFIG :: "icp_config option"
  icp_PROCESSED_NONCES :: "(u64 \<times> u64) set"
  icp_EVENT_LOG :: "icp_lock_event list"

record icp_env =
  icp_caller :: bytes
  icp_time :: u64

text \<open>An update call returns a nonce or nothing, and may append to the log.\<close>

record icp_output =
  icp_returned :: "u64 option"
  icp_logged :: "icp_lock_event list"

definition icp_silent :: icp_output where
  "icp_silent = \<lparr>icp_returned = None, icp_logged = []\<rparr>"

definition icp_empty :: icp_state where
  "icp_empty = \<lparr>icp_CONFIG = None, icp_PROCESSED_NONCES = {}, icp_EVENT_LOG = []\<rparr>"

section \<open>Operations\<close>

definition icp_init :: "icp_env \<Rightarrow> icp_state \<Rightarrow> bytes list \<Rightarrow> u8 \<Rightarrow> u16 \<Rightarrow> rust_panic + icp_state" where
  "icp_init env s mpc_signers threshold fee_bps =
     and_then (ensure (fee_bps \<le> ICP_MAX_FEE_BPS) (Assertion ''Fee too high'')) (\<lambda>_.
     Inr (s\<lparr>icp_CONFIG := Some
       \<lparr>icp_admin = icp_caller env,
        icp_mpc_signers = mpc_signers,
        icp_threshold = threshold,
        icp_fee_bps = fee_bps,
        icp_paused = False,
        icp_outbound_nonce = 0,
        icp_total_locked = 0,
        icp_total_burned = 0\<rparr>\<rparr>))"

definition icp_with_config :: "icp_state \<Rightarrow> rust_panic + icp_config" where
  "icp_with_config s = ok_or (icp_CONFIG s) Unwrap_failed"

definition icp_lock_and_bridge ::
    "bool \<Rightarrow> icp_env \<Rightarrow> icp_state \<Rightarrow> u128 \<Rightarrow> u64 \<Rightarrow> bytes \<Rightarrow> rust_panic + icp_state \<times> icp_output" where
  "icp_lock_and_bridge oc env s amount dest_chain_id recipient =
     and_then (icp_with_config s) (\<lambda>cfg.
     and_then (ensure (\<not> icp_paused cfg) (Assertion ''Bridge paused'')) (\<lambda>_.
     and_then (ensure (0 < amount) (Assertion ''Zero amount'')) (\<lambda>_.
     and_then (ok_or (mul_op oc amount (ucast (icp_fee_bps cfg))) Arithmetic_overflow) (\<lambda>product.
     let fee = product div 10000 in
     and_then (ok_or (sub_op oc amount fee) Arithmetic_overflow) (\<lambda>bridge_amount.
     and_then (ok_or (add_op oc (icp_total_locked cfg) bridge_amount) Arithmetic_overflow) (\<lambda>locked.
     and_then (ok_or (add_op oc (icp_outbound_nonce cfg) 1) Arithmetic_overflow) (\<lambda>nonce.
     let event = \<lparr>icp_source_chain = ICP_CHAIN_ID,
       icp_dest_chain = dest_chain_id,
       icp_nonce = nonce,
       icp_sender = icp_caller env,
       icp_recipient = recipient,
       icp_amount = bridge_amount,
       icp_fee = fee,
       icp_timestamp = icp_time env\<rparr>
     in Inr (s\<lparr>icp_CONFIG := Some (cfg\<lparr>icp_total_locked := locked, icp_outbound_nonce := nonce\<rparr>),
               icp_EVENT_LOG := icp_EVENT_LOG s @ [event]\<rparr>,
             \<lparr>icp_returned = Some nonce, icp_logged = [event]\<rparr>))))))))"

definition icp_mint_bridged ::
    "icp_state \<Rightarrow> u64 \<Rightarrow> u64 \<Rightarrow> bytes \<Rightarrow> u128 \<Rightarrow> bytes \<Rightarrow> bytes \<Rightarrow> rust_panic + icp_state \<times> icp_output" where
  "icp_mint_bridged s source_chain_id nonce recipient amount signature signer_pubkey =
     and_then (icp_with_config s) (\<lambda>cfg.
     and_then (ensure (\<not> icp_paused cfg) (Assertion ''Bridge paused'')) (\<lambda>_.
     and_then (ensure (0 < amount) (Assertion ''Zero amount'')) (\<lambda>_.
     and_then (ensure (signer_pubkey \<in> set (icp_mpc_signers cfg)) (Assertion ''Unauthorized signer'')) (\<lambda>_.
     and_then (ensure ((source_chain_id, nonce) \<notin> icp_PROCESSED_NONCES s) (Assertion ''Nonce processed'')) (\<lambda>_.
     Inr (s\<lparr>icp_PROCESSED_NONCES := insert (source_chain_id, nonce) (icp_PROCESSED_NONCES s)\<rparr>,
          icp_silent))))))"

definition icp_burn_bridged ::
    "bool \<Rightarrow> icp_state \<Rightarrow> u128 \<Rightarrow> u64 \<Rightarrow> bytes \<Rightarrow> rust_panic + icp_state \<times> icp_output" where
  "icp_burn_bridged oc s amount dest_chain_id recipient =
     and_then (icp_with_config s) (\<lambda>cfg.
     and_then (ensure (\<not> icp_paused cfg) (Assertion '''')) (\<lambda>_.
     and_then (ensure (0 < amount) (Assertion '''')) (\<lambda>_.
     and_then (ok_or (add_op oc (icp_total_burned cfg) amount) Arithmetic_overflow) (\<lambda>burned.
     and_then (ok_or (add_op oc (icp_outbound_nonce cfg) 1) Arithmetic_overflow) (\<lambda>nonce.
     Inr (s\<lparr>icp_CONFIG := Some (cfg\<lparr>icp_total_burned := burned, icp_outbound_nonce := nonce\<rparr>)\<rparr>,
          icp_silent\<lparr>icp_returned := Some nonce\<rparr>))))))"

definition icp_pause :: "icp_env \<Rightarrow> icp_state \<Rightarrow> rust_panic + icp_state \<times> icp_output" where
  "icp_pause env s =
     and_then (icp_with_config s) (\<lambda>cfg.
     and_then (ensure (icp_caller env = icp_admin cfg) (Assertion ''Not admin'')) (\<lambda>_.
     Inr (s\<lparr>icp_CONFIG := Some (cfg\<lparr>icp_paused := True\<rparr>)\<rparr>, icp_silent)))"

definition icp_unpause :: "icp_env \<Rightarrow> icp_state \<Rightarrow> rust_panic + icp_state \<times> icp_output" where
  "icp_unpause env s =
     and_then (icp_with_config s) (\<lambda>cfg.
     and_then (ensure (icp_caller env = icp_admin cfg) (Assertion ''Not admin'')) (\<lambda>_.
     Inr (s\<lparr>icp_CONFIG := Some (cfg\<lparr>icp_paused := False\<rparr>)\<rparr>, icp_silent)))"

definition icp_view_total_locked :: "icp_state \<Rightarrow> rust_panic + u128" where
  "icp_view_total_locked s = and_then (icp_with_config s) (\<lambda>cfg. Inr (icp_total_locked cfg))"

definition icp_view_total_burned :: "icp_state \<Rightarrow> rust_panic + u128" where
  "icp_view_total_burned s = and_then (icp_with_config s) (\<lambda>cfg. Inr (icp_total_burned cfg))"

definition icp_is_paused :: "icp_state \<Rightarrow> rust_panic + bool" where
  "icp_is_paused s = and_then (icp_with_config s) (\<lambda>cfg. Inr (icp_paused cfg))"

definition icp_get_events :: "icp_state \<Rightarrow> u64 \<Rightarrow> u64 \<Rightarrow> icp_lock_event list" where
  "icp_get_events s from_nonce to_nonce =
     filter (\<lambda>e. from_nonce \<le> icp_nonce e \<and> icp_nonce e \<le> to_nonce) (icp_EVENT_LOG s)"

section \<open>The canister as a machine\<close>

datatype icp_call =
    Icp_lock_and_bridge u128 u64 bytes
  | Icp_mint_bridged u64 u64 bytes u128 bytes bytes
  | Icp_burn_bridged u128 u64 bytes
  | Icp_pause
  | Icp_unpause

fun icp_exec :: "bool \<Rightarrow> icp_state \<Rightarrow> icp_env \<times> icp_call \<Rightarrow> rust_panic + icp_state \<times> icp_output" where
  "icp_exec oc s (env, Icp_lock_and_bridge a d r) = icp_lock_and_bridge oc env s a d r"
| "icp_exec oc s (env, Icp_mint_bridged c n r a sig pk) = icp_mint_bridged s c n r a sig pk"
| "icp_exec oc s (env, Icp_burn_bridged a d r) = icp_burn_bridged oc s a d r"
| "icp_exec oc s (env, Icp_pause) = icp_pause env s"
| "icp_exec oc s (env, Icp_unpause) = icp_unpause env s"

section \<open>Accepted calls\<close>

lemma icp_with_config_Inr [accept]: "icp_with_config s = Inr c \<longleftrightarrow> icp_CONFIG s = Some c"
  by (simp add: icp_with_config_def accept)

lemma icp_lock_accept:
  assumes "icp_lock_and_bridge True env s a d r = Inr (s', out)"
  obtains c locked nonce amt fee where "icp_CONFIG s = Some c" and "\<not> icp_paused c" and "0 < a"
    and "unat fee = unat a * unat (icp_fee_bps c) div 10000" and "unat fee \<le> unat a"
    and "unat amt = unat a - unat fee"
    and "unat locked = unat (icp_total_locked c) + unat amt"
    and "unat nonce = Suc (unat (icp_outbound_nonce c))"
    and "out = \<lparr>icp_returned = Some nonce, icp_logged = [\<lparr>icp_source_chain = ICP_CHAIN_ID,
       icp_dest_chain = d, icp_nonce = nonce, icp_sender = icp_caller env, icp_recipient = r,
       icp_amount = amt, icp_fee = fee, icp_timestamp = icp_time env\<rparr>]\<rparr>"
    and "s' = s\<lparr>icp_CONFIG := Some (c\<lparr>icp_total_locked := locked, icp_outbound_nonce := nonce\<rparr>),
                icp_EVENT_LOG := icp_EVENT_LOG s @ icp_logged out\<rparr>"
proof -
  from assms obtain c p amt locked nonce where facts: "icp_CONFIG s = Some c" "\<not> icp_paused c" "0 < a"
    "unat p = unat a * unat (icp_fee_bps c)" "unat p div 10000 \<le> unat a"
    "unat amt = unat a - unat p div 10000"
    "unat locked = unat (icp_total_locked c) + unat amt"
    "unat nonce = Suc (unat (icp_outbound_nonce c))"
    and out: "out = \<lparr>icp_returned = Some nonce, icp_logged = [\<lparr>icp_source_chain = ICP_CHAIN_ID,
       icp_dest_chain = d, icp_nonce = nonce, icp_sender = icp_caller env, icp_recipient = r,
       icp_amount = amt, icp_fee = p div 10000, icp_timestamp = icp_time env\<rparr>]\<rparr>"
    and s': "s' = s\<lparr>icp_CONFIG := Some (c\<lparr>icp_total_locked := locked, icp_outbound_nonce := nonce\<rparr>),
       icp_EVENT_LOG := icp_EVENT_LOG s @ icp_logged out\<rparr>"
    by (auto simp: icp_lock_and_bridge_def Let_def accept checked_ops)
  show thesis
    by (rule that [of c "p div 10000" amt locked nonce]) (use facts out s' in simp_all)
qed

lemma icp_burn_accept:
  assumes "icp_burn_bridged True s a d r = Inr (s', out)"
  obtains c burned nonce where "icp_CONFIG s = Some c" and "\<not> icp_paused c" and "0 < a"
    and "unat burned = unat (icp_total_burned c) + unat a"
    and "unat nonce = Suc (unat (icp_outbound_nonce c))"
    and "s' = s\<lparr>icp_CONFIG := Some (c\<lparr>icp_total_burned := burned, icp_outbound_nonce := nonce\<rparr>)\<rparr>"
    and "out = \<lparr>icp_returned = Some nonce, icp_logged = []\<rparr>"
  using assms
  by (auto simp: icp_burn_bridged_def icp_silent_def accept checked_ops)

lemma icp_mint_accept:
  assumes "icp_mint_bridged s c n r a sig pk = Inr (s', out)"
  obtains cfg where "icp_CONFIG s = Some cfg" and "\<not> icp_paused cfg" and "0 < a"
    and "pk \<in> set (icp_mpc_signers cfg)" and "(c, n) \<notin> icp_PROCESSED_NONCES s"
    and "s' = s\<lparr>icp_PROCESSED_NONCES := insert (c, n) (icp_PROCESSED_NONCES s)\<rparr>"
    and "out = icp_silent"
  using assms by (auto simp: icp_mint_bridged_def accept)

lemma icp_pause_accept:
  assumes "icp_pause env s = Inr (s', out) \<or> icp_unpause env s = Inr (s', out)"
  obtains c b where "icp_CONFIG s = Some c" and "icp_caller env = icp_admin c"
    and "s' = s\<lparr>icp_CONFIG := Some (c\<lparr>icp_paused := b\<rparr>)\<rparr>" and "out = icp_silent"
  using assms by (auto simp: icp_pause_def icp_unpause_def accept)
lemma icp_pause_accept_config:
  "icp_pause env s = Inr (s', out) \<or> icp_unpause env s = Inr (s', out) \<Longrightarrow> icp_CONFIG s' \<noteq> None"
  by (erule icp_pause_accept) simp

lemma icp_query_values:
  assumes "icp_CONFIG s = Some c"
  shows "icp_view_total_locked s = Inr (icp_total_locked c)"
    and "icp_view_total_burned s = Inr (icp_total_burned c)"
    and "icp_is_paused s = Inr (icp_paused c)"
  using assms
  by (simp_all add: icp_view_total_locked_def icp_view_total_burned_def icp_is_paused_def
      icp_with_config_def)

section \<open>The canister implements the abstract bridge\<close>

definition icp_abs :: "icp_state \<Rightarrow> (u64 \<times> u64, bytes, bytes) abs_bridge" where
  "icp_abs s = (let c = the (icp_CONFIG s) in
     \<lparr>a_admin = icp_admin c,
      a_signers = set (icp_mpc_signers c),
      a_fee = unat (icp_fee_bps c),
      a_paused = icp_paused c,
      a_nonce = unat (icp_outbound_nonce c),
      a_locked = unat (icp_total_locked c),
      a_burned = unat (icp_total_burned c),
      a_done = icp_PROCESSED_NONCES s\<rparr>)"

text \<open>A burn logs nothing, so its label is read off its argument and the nonce it returns.\<close>

fun icp_label :: "icp_env \<times> icp_call \<Rightarrow> icp_output \<Rightarrow> (u64 \<times> u64, bytes, bytes) blabel" where
  "icp_label (env, Icp_lock_and_bridge a d r) out =
     (case icp_logged out of
        e # _ \<Rightarrow> LLock (unat (icp_nonce e)) (unat (icp_amount e)) (unat (icp_fee e))
      | [] \<Rightarrow> LConfig (icp_caller env))"
| "icp_label (env, Icp_mint_bridged c n r a sig pk) out = LClaim (c, n) pk"
| "icp_label (env, Icp_burn_bridged a d r) out =
     (case icp_returned out of
        Some n \<Rightarrow> LBurn (unat n) (unat a)
      | None \<Rightarrow> LConfig (icp_caller env))"
| "icp_label (env, _) out = LConfig (icp_caller env)"

lemma icp_lock_step:
  assumes "icp_lock_and_bridge True env s a d r = Inr (s', out)"
  shows "bstep (icp_abs s) (icp_label (env, Icp_lock_and_bridge a d r) out) (icp_abs s')"
  using assms
proof (rule icp_lock_accept)
  fix c locked nonce amt fee
  assume c: "icp_CONFIG s = Some c" "\<not> icp_paused c"
    and fee: "unat fee = unat a * unat (icp_fee_bps c) div 10000" "unat fee \<le> unat a"
      "unat amt = unat a - unat fee"
    and new: "unat locked = unat (icp_total_locked c) + unat amt"
      "unat nonce = Suc (unat (icp_outbound_nonce c))"
    and out: "out = \<lparr>icp_returned = Some nonce, icp_logged = [\<lparr>icp_source_chain = ICP_CHAIN_ID,
       icp_dest_chain = d, icp_nonce = nonce, icp_sender = icp_caller env, icp_recipient = r,
       icp_amount = amt, icp_fee = fee, icp_timestamp = icp_time env\<rparr>]\<rparr>"
    and s': "s' = s\<lparr>icp_CONFIG := Some (c\<lparr>icp_total_locked := locked, icp_outbound_nonce := nonce\<rparr>),
                icp_EVENT_LOG := icp_EVENT_LOG s @ icp_logged out\<rparr>"
  have "icp_abs s' = (icp_abs s)\<lparr>a_nonce := Suc (a_nonce (icp_abs s)),
      a_locked := a_locked (icp_abs s) + unat amt\<rparr>"
    by (simp add: icp_abs_def s' c new)
  moreover have "icp_label (env, Icp_lock_and_bridge a d r) out =
      LLock (Suc (a_nonce (icp_abs s))) (unat amt) (unat fee)"
    by (simp add: icp_abs_def out c new)
  moreover have "unat fee = (unat amt + unat fee) * a_fee (icp_abs s) div 10000"
    using fee by (simp add: icp_abs_def c)
  moreover have "\<not> a_paused (icp_abs s)" by (simp add: icp_abs_def c)
  ultimately show ?thesis by (rule bstep_lockI)
qed

lemma icp_burn_step:
  assumes "icp_burn_bridged True s a d r = Inr (s', out)"
  shows "bstep (icp_abs s) (icp_label (env, Icp_burn_bridged a d r) out) (icp_abs s')"
  using assms
  by (rule icp_burn_accept) (rule bstep_burnI [where amt = "unat a"], simp_all add: icp_abs_def)

lemma icp_exec_step:
  assumes "icp_exec True s ec = Inr (s', out)"
  shows "bstep (icp_abs s) (icp_label ec out) (icp_abs s')"
proof (cases ec)
  case (Pair env call)
  show ?thesis
  proof (cases call)
    case (Icp_lock_and_bridge a d r)
    with assms Pair show ?thesis using icp_lock_step [of env s a d r s' out] by simp
  next
    case (Icp_burn_bridged a d r)
    with assms Pair show ?thesis using icp_burn_step [of s a d r s' out env] by simp
  next
    case (Icp_mint_bridged c n r a sig pk)
    with assms Pair have "icp_mint_bridged s c n r a sig pk = Inr (s', out)" by simp
    then show ?thesis
      by (rule icp_mint_accept)
        (rule bstep_claimI, simp_all add: icp_abs_def Pair Icp_mint_bridged)
  next
    case Icp_pause
    with assms Pair have "icp_pause env s = Inr (s', out) \<or> icp_unpause env s = Inr (s', out)" by simp
    then show ?thesis
      by (rule icp_pause_accept) (rule bstep_configI
          [where S = "a_signers (icp_abs s)" and f = "a_fee (icp_abs s)"],
        simp_all add: icp_abs_def Pair Icp_pause)
  next
    case Icp_unpause
    with assms Pair have "icp_pause env s = Inr (s', out) \<or> icp_unpause env s = Inr (s', out)" by simp
    then show ?thesis
      by (rule icp_pause_accept) (rule bstep_configI
          [where S = "a_signers (icp_abs s)" and f = "a_fee (icp_abs s)"],
        simp_all add: icp_abs_def Pair Icp_unpause)
  qed
qed

interpretation icp: bridge_refinement "icp_exec True" icp_abs icp_label "\<lambda>_. True"
  by unfold_locales (auto intro: icp_exec_step)

section \<open>The two builds agree\<close>

text \<open>
  What the callers of a sequence ask for, and the room it needs: the fee rate is at most all
  of the amount, ten thousand times what is asked for fits on top of either total, and the
  nonces do not run out. A build with overflow checks needs no room.
\<close>

fun icp_asked :: "icp_env \<times> icp_call \<Rightarrow> nat" where
  "icp_asked (env, Icp_lock_and_bridge a d r) = unat a"
| "icp_asked (env, Icp_burn_bridged a d r) = unat a"
| "icp_asked (env, _) = 0"

definition icp_ready :: "bool \<Rightarrow> icp_state \<Rightarrow> (icp_env \<times> icp_call) list \<Rightarrow> bool" where
  "icp_ready oc s calls \<longleftrightarrow> oc \<or> (case icp_CONFIG s of None \<Rightarrow> True | Some c \<Rightarrow>
     unat (icp_fee_bps c) \<le> 10000 \<and>
     unat (icp_total_locked c) + 10000 * sum_list (map icp_asked calls) < 2 ^ 128 \<and>
     unat (icp_total_burned c) + 10000 * sum_list (map icp_asked calls) < 2 ^ 128 \<and>
     unat (icp_outbound_nonce c) + length calls < 2 ^ 64)"

lemma icp_ready_checked [simp]: "icp_ready True s calls"
  by (simp add: icp_ready_def)

lemma icp_room_agree:
  assumes room: "icp_ready False s (ec # calls)"
  shows "icp_exec oc s ec = icp_exec True s ec"
proof (cases "icp_CONFIG s")
  case None
  then show ?thesis
    by (cases ec; cases "snd ec") (simp_all add: icp_lock_and_bridge_def icp_burn_bridged_def icp_with_config_def)
next
  case (Some c)
  obtain env call where ec: "ec = (env, call)" by (cases ec)
  from room Some have rate: "unat (icp_fee_bps c) \<le> 10000"
    and nonce: "add_op k (icp_outbound_nonce c) 1 = Some (icp_outbound_nonce c + 1)" for k
    by (auto simp: icp_ready_def intro!: add_op_room)
  show ?thesis
  proof (cases call)
    case (Icp_lock_and_bridge a d r)
    with room Some ec have "unat (icp_total_locked c) + 10000 * unat a < 2 ^ 128"
      by (simp add: icp_ready_def)
    note ops = lock_ops_room [OF rate this]
    show ?thesis
      by (simp add: ec Icp_lock_and_bridge icp_lock_and_bridge_def icp_with_config_def Some ops
          ops [of True, simplified] nonce nonce [of True, simplified] Let_def)
  next
    case (Icp_burn_bridged a d r)
    with room Some ec have "unat (icp_total_burned c) + unat a < 2 ^ LENGTH(128)"
      by (simp add: icp_ready_def)
    note op = add_op_room [OF this]
    show ?thesis
      by (simp add: ec Icp_burn_bridged icp_burn_bridged_def icp_with_config_def Some op
          op [of True, simplified] nonce nonce [of True, simplified])
  qed (simp_all add: ec)
qed

lemma icp_room_next:
  assumes room: "icp_ready False s (ec # calls)" and step: "icp_exec True s ec = Inr (s', out)"
  shows "icp_ready False s' calls"
proof (cases ec)
  case (Pair env call)
  show ?thesis
  proof (cases call)
    case (Icp_lock_and_bridge a d r)
    with step Pair have "icp_lock_and_bridge True env s a d r = Inr (s', out)" by simp
    then show ?thesis
    proof (rule icp_lock_accept)
      fix c locked nonce amt fee
      assume c: "icp_CONFIG s = Some c" and locked: "unat locked = unat (icp_total_locked c) + unat amt"
        and "unat amt = unat a - unat fee" and nonce: "unat nonce = Suc (unat (icp_outbound_nonce c))"
        and s': "s' = s\<lparr>icp_CONFIG := Some (c\<lparr>icp_total_locked := locked, icp_outbound_nonce := nonce\<rparr>),
                icp_EVENT_LOG := icp_EVENT_LOG s @ icp_logged out\<rparr>"
      then have "unat locked \<le> unat (icp_total_locked c) + unat a" by simp
      with room nonce show ?thesis by (simp add: icp_ready_def Pair Icp_lock_and_bridge c s')
    qed
  next
    case (Icp_burn_bridged a d r)
    with step Pair have "icp_burn_bridged True s a d r = Inr (s', out)" by simp
    then show ?thesis
      by (rule icp_burn_accept) (use room in \<open>simp add: icp_ready_def Pair Icp_burn_bridged\<close>)
  next
    case (Icp_mint_bridged c n r a sig pk)
    with step Pair have "icp_mint_bridged s c n r a sig pk = Inr (s', out)" by simp
    then show ?thesis
      by (rule icp_mint_accept) (use room in \<open>simp add: icp_ready_def Pair Icp_mint_bridged\<close>)
  next
    case Icp_pause
    with step Pair have "icp_pause env s = Inr (s', out) \<or> icp_unpause env s = Inr (s', out)" by simp
    then show ?thesis
      by (rule icp_pause_accept) (use room in \<open>simp add: icp_ready_def Pair Icp_pause\<close>)
  next
    case Icp_unpause
    with step Pair have "icp_pause env s = Inr (s', out) \<or> icp_unpause env s = Inr (s', out)" by simp
    then show ?thesis
      by (rule icp_pause_accept) (use room in \<open>simp add: icp_ready_def Pair Icp_unpause\<close>)
  qed
qed

interpretation icp_builds: agreeing_builds "icp_exec oc" "icp_exec True" "icp_ready oc" for oc
proof unfold_locales
  fix s ec calls s' out
  assume ready: "icp_ready oc s (ec # calls)"
  then show "icp_ready oc s calls" by (cases "icp_CONFIG s") (auto simp: icp_ready_def)
  from ready have "oc \<or> icp_ready False s (ec # calls)" by (simp add: icp_ready_def)
  then show "icp_exec oc s ec = icp_exec True s ec" 
    by (cases oc) (auto intro: icp_room_agree)
  assume step: "icp_exec True s ec = Inr (s', out)"
  show "icp_ready oc s' calls"
  proof (cases oc)
    case False
    with ready step show ?thesis by (auto intro: icp_room_next)
  qed simp
qed

section \<open>The event log\<close>

text \<open>
  What the log records: nonces strictly increasing and never past the counter, amounts
  that add up to the locked total.
\<close>

definition icp_log_ok :: "icp_state \<Rightarrow> bool" where
  "icp_log_ok s = (case icp_CONFIG s of None \<Rightarrow> icp_EVENT_LOG s = [] | Some c \<Rightarrow>
     sorted_wrt (<) (map icp_nonce (icp_EVENT_LOG s)) \<and>
     (\<forall>e \<in> set (icp_EVENT_LOG s). icp_nonce e \<le> icp_outbound_nonce c \<and>
        icp_source_chain e = ICP_CHAIN_ID) \<and>
     unat (icp_total_locked c) = sum_list (map (unat \<circ> icp_amount) (icp_EVENT_LOG s)))"

lemma icp_log_ok_init:
  "icp_init env icp_empty ks t f = Inr s \<Longrightarrow> icp_log_ok s"
  by (auto simp: icp_init_def icp_empty_def icp_log_ok_def accept)

lemma icp_nonce_bump:
  assumes "unat (nonce :: u64) = Suc (unat n)" and "m \<le> n"
  shows "m < nonce" and "m \<le> nonce"
  using assms by (simp_all add: word_less_nat_alt word_le_nat_alt)

lemma icp_log_ok_step:
  assumes ok: "icp_log_ok s" and step: "icp_exec True s ec = Inr (s', out)"
  shows "icp_log_ok s' \<and> icp_EVENT_LOG s' = icp_EVENT_LOG s @ icp_logged out"
proof (cases ec)
  case (Pair env call)
  show ?thesis
  proof (cases call)
    case (Icp_lock_and_bridge a d r)
    with step Pair have "icp_lock_and_bridge True env s a d r = Inr (s', out)" by simp
    then show ?thesis
      by (rule icp_lock_accept)
        (use ok in \<open>auto simp: icp_log_ok_def sorted_wrt_append intro: icp_nonce_bump\<close>)
  next
    case (Icp_burn_bridged a d r)
    with step Pair have "icp_burn_bridged True s a d r = Inr (s', out)" by simp
    then show ?thesis
      by (rule icp_burn_accept) (use ok in \<open>auto simp: icp_log_ok_def intro: icp_nonce_bump\<close>)
  next
    case (Icp_mint_bridged c n r a sig pk)
    with step Pair have "icp_mint_bridged s c n r a sig pk = Inr (s', out)" by simp
    then show ?thesis
      by (rule icp_mint_accept) (use ok in \<open>auto simp: icp_log_ok_def icp_silent_def\<close>)
  next
    case Icp_pause
    with step Pair have "icp_pause env s = Inr (s', out) \<or> icp_unpause env s = Inr (s', out)" by simp
    then show ?thesis
      by (rule icp_pause_accept) (use ok in \<open>auto simp: icp_log_ok_def icp_silent_def\<close>)
  next
    case Icp_unpause
    with step Pair have "icp_pause env s = Inr (s', out) \<or> icp_unpause env s = Inr (s', out)" by simp
    then show ?thesis
      by (rule icp_pause_accept) (use ok in \<open>auto simp: icp_log_ok_def icp_silent_def\<close>)
  qed
qed

lemma icp_log_ok_final:
  "icp_log_ok s \<Longrightarrow> icp_log_ok (exec_final (icp_exec True) s calls) \<and>
     icp_EVENT_LOG (exec_final (icp_exec True) s calls) =
       icp_EVENT_LOG s @ concat (map (icp_logged \<circ> snd) (exec_trace (icp_exec True) s calls))"
proof (induction calls arbitrary: s)
  case Nil
  then show ?case by simp
next
  case (Cons c cs)
  show ?case
  proof (cases "icp_exec True s c")
    case (Inl e)
    with Cons show ?thesis by simp
  next
    case (Inr r)
    then have "icp_exec True s c = Inr (fst r, snd r)" by simp
    from icp_log_ok_step [OF Cons.prems this] Cons.IH [of "fst r"] Inr show ?thesis by simp
  qed
qed

lemma icp_stays_installed:
  "icp_CONFIG s \<noteq> None \<Longrightarrow> icp_CONFIG (exec_final (icp_exec True) s calls) \<noteq> None"
proof (rule exec_final_inv [where C = UNIV])
  fix u u' :: icp_state and ec :: "icp_env \<times> icp_call" and out
  assume "icp_exec True u ec = Inr (u', out)"
  then show "icp_CONFIG u' \<noteq> None"
    by (cases ec; cases "snd ec")
      (auto elim!: icp_lock_accept icp_burn_accept icp_mint_accept
        dest!: disjI1 [THEN icp_pause_accept_config] disjI2 [THEN icp_pause_accept_config])
qed auto

text \<open>A canister just installed has room for what fits the 128 bits with the factor.\<close>

lemma icp_ready_init:
  assumes "icp_init env icp_empty ks thr fee = Inr s"
    and "oc \<or> 10000 * sum_list (map icp_asked calls) < 2 ^ 128 \<and> length calls < 2 ^ 64"
  shows "icp_ready oc s calls"
proof -
  from assms(1) have "unat fee \<le> 500"
    by (auto simp: icp_init_def ICP_MAX_FEE_BPS_def accept word_le_nat_alt)
  with assms show ?thesis by (auto simp: icp_init_def icp_ready_def accept)
qed

text \<open>In a log with strictly increasing nonces a nonce names one event.\<close>

lemma icp_one_event:
  "sorted_wrt (<) (map icp_nonce es) \<Longrightarrow> e \<in> set es \<Longrightarrow>
     filter (\<lambda>x. icp_nonce e \<le> icp_nonce x \<and> icp_nonce x \<le> icp_nonce e) es = [e]"
proof (induction es)
  case Nil
  then show ?case by simp
next
  case (Cons x es)
  have "filter (\<lambda>y. icp_nonce x \<le> icp_nonce y \<and> icp_nonce y \<le> icp_nonce x) es = []"
    using Cons.prems(1) by (force simp: filter_empty_conv)
  moreover have "icp_nonce x < icp_nonce e" if "e \<in> set es"
    using Cons.prems(1) that by simp
  moreover have "sorted_wrt (<) (map icp_nonce es)"
    using Cons.prems(1) by simp
  ultimately show ?case
    using Cons.prems(2) Cons.IH by (cases "e \<in> set es") (auto simp: not_le)
qed

lemma unat_u128_max: "unat (- 1 :: u128) = 2 ^ 128 - 1"
  by (simp add: unsigned_minus_1_eq_mask mask_eq_exp_minus_1)

lemma u128_room: "unat (- 1 - b) = 2 ^ 128 - 1 - unat (b :: u128)"
  using unat_u128_max by (simp add: unat_sub word_order.extremum)

lemma icp_burn_full:
  assumes "icp_burn_bridged True s a d r = Inr (s', out)" and "2 ^ 128 - 1 \<le> a_burned (icp_abs s)"
  shows False
  using assms(1)
proof (rule icp_burn_accept)
  fix c and burned :: u128
  assume c: "icp_CONFIG s = Some c" and a: "0 < a"
    and new: "unat burned = unat (icp_total_burned c) + unat a"
  have "2 ^ 128 - 1 \<le> unat (icp_total_burned c)" using assms(2) c by (simp add: icp_abs_def)
  moreover have "unat burned \<le> 2 ^ 128 - 1" using unsigned_less [where 'a = nat, of burned] by simp
  moreover have "0 < unat a" using a by simp
  ultimately show False using new by linarith
qed

section \<open>A canister the witnesses run\<close>

definition icp_demo :: icp_state where
  "icp_demo = \<lparr>icp_CONFIG = Some \<lparr>icp_admin = [1], icp_mpc_signers = [[2]], icp_threshold = 2,
     icp_fee_bps = 100, icp_paused = False, icp_outbound_nonce = 0, icp_total_locked = 0,
     icp_total_burned = 0\<rparr>, icp_PROCESSED_NONCES = {}, icp_EVENT_LOG = []\<rparr>"

definition icp_demo_env :: "bytes \<Rightarrow> icp_env" where
  "icp_demo_env who = \<lparr>icp_caller = who, icp_time = 1000\<rparr>"

definition icp_demo_event :: icp_lock_event where
  "icp_demo_event = \<lparr>icp_source_chain = ICP_CHAIN_ID, icp_dest_chain = 96369, icp_nonce = 1,
     icp_sender = [7], icp_recipient = [8], icp_amount = 990000, icp_fee = 10000, icp_timestamp = 1000\<rparr>"

lemma icp_demo_init: "icp_init (icp_demo_env [1]) icp_empty [[2]] 2 100 = Inr icp_demo"
  by (simp add: icp_init_def icp_empty_def icp_demo_def icp_demo_env_def ICP_MAX_FEE_BPS_def)

lemma icp_demo_lock:
  "icp_exec True icp_demo (icp_demo_env [7], Icp_lock_and_bridge 1000000 96369 [8]) =
    Inr (icp_demo\<lparr>icp_CONFIG := Some (the (icp_CONFIG icp_demo)
           \<lparr>icp_total_locked := 990000, icp_outbound_nonce := 1\<rparr>),
         icp_EVENT_LOG := [icp_demo_event]\<rparr>,
       \<lparr>icp_returned = Some 1, icp_logged = [icp_demo_event]\<rparr>)"
  by (simp add: icp_lock_and_bridge_def icp_demo_def icp_demo_env_def icp_demo_event_def
      icp_with_config_def checked_mul_def checked_sub_def checked_add_def Let_def)

section \<open>Properties\<close>

text \<open>C28: Every update call the canister accepts, in a build with overflow checks or in one
  without where the amount asked for has room, is a step of the abstract bridge: a lock
  announces in its event exactly the amount net of the fee it adds to the locked total and
  takes the next outbound nonce, a burn does so with its argument, a mint consumes a fresh
  nonce under a listed key, only the administrator pauses. Room (\<open>icp_ready\<close>) is that ten
  thousand times the amount fits on top of both totals and the nonce is not the last one.\<close>

theorem icp_refines_bridge:
  assumes "icp_ready oc s [ec]" and "icp_exec oc s ec = Inr (s', out)"
  shows "bstep (icp_abs s) (icp_label ec out) (icp_abs s')"
  using assms icp_builds.agree [OF assms(1)] by (auto intro: icp_exec_step)

theorem icp_refines_bridge_witness:
  "\<exists>s'. bstep (icp_abs icp_demo) (LLock 1 990000 10000) (icp_abs s')"
proof -
  have ready: "icp_ready False icp_demo [(icp_demo_env [7], Icp_lock_and_bridge 1000000 96369 [8])]"
    by (simp add: icp_ready_def icp_demo_def)
  from icp_builds.agree [OF this] icp_demo_lock
  have "icp_exec False icp_demo (icp_demo_env [7], Icp_lock_and_bridge 1000000 96369 [8]) =
    Inr (icp_demo\<lparr>icp_CONFIG := Some (the (icp_CONFIG icp_demo)
           \<lparr>icp_total_locked := 990000, icp_outbound_nonce := 1\<rparr>),
         icp_EVENT_LOG := [icp_demo_event]\<rparr>,
       \<lparr>icp_returned = Some 1, icp_logged = [icp_demo_event]\<rparr>)"
    by (simp only:)
  from icp_refines_bridge [OF ready this] show ?thesis by (auto simp: icp_demo_event_def)
qed

text \<open>C25: The event log of a canister is faithful after any sequence of calls, in a build with
  overflow checks or where what the calls ask for has room: it is the lock events of the
  accepted calls in order, their nonces increase strictly, their amounts add up to the
  locked total, and \<^verbatim>\<open>get_events\<close> over a range of nonces returns exactly the logged events
  of that range, at most one when the range is a single nonce. From an installation on there
  is room for fewer than 2 to the 64 calls that together ask for less than a ten thousandth
  of the 128 bit range.\<close>

theorem icp_log_faithful:
  fixes calls
  assumes init: "icp_init env icp_empty ks thr fee = Inr s"
    and room: "oc \<or> 10000 * sum_list (map icp_asked calls) < 2 ^ 128 \<and> length calls < 2 ^ 64"
  defines "t \<equiv> exec_final (icp_exec oc) s calls"
    and "es \<equiv> concat (map (icp_logged \<circ> snd) (exec_trace (icp_exec oc) s calls))"
  shows "icp_EVENT_LOG t = es \<and> sorted_wrt (<) (map icp_nonce es) \<and>
    a_locked (icp_abs t) = sum_list (map (unat \<circ> icp_amount) es) \<and>
    icp_get_events t from to = filter (\<lambda>e. from \<le> icp_nonce e \<and> icp_nonce e \<le> to) es \<and>
    (\<forall>e \<in> set es. icp_get_events t (icp_nonce e) (icp_nonce e) = [e])"
proof -
  from icp_builds.builds_agree [OF icp_ready_init [OF init room]]
  have t: "t = exec_final (icp_exec True) s calls"
    and es: "es = concat (map (icp_logged \<circ> snd) (exec_trace (icp_exec True) s calls))"
    by (simp_all add: t_def es_def)
  have "icp_EVENT_LOG s = []"
    using init by (auto simp: icp_init_def icp_empty_def accept)
  with icp_log_ok_final [OF icp_log_ok_init [OF init], of calls]
  have ok: "icp_log_ok t" and log: "icp_EVENT_LOG t = es"
    by (simp_all add: t es)
  obtain c where c: "icp_CONFIG t = Some c"
    using icp_stays_installed [of s calls] init by (auto simp: t icp_init_def accept)
  with ok log have sorted: "sorted_wrt (<) (map icp_nonce es)"
    and sum: "a_locked (icp_abs t) = sum_list (map (unat \<circ> icp_amount) es)"
    by (simp_all add: icp_log_ok_def icp_abs_def)
  then show ?thesis
    using log icp_one_event [OF sorted] by (auto simp: icp_get_events_def)
qed

theorem icp_log_faithful_witness:
  "icp_get_events (exec_final (icp_exec False) icp_demo
     [(icp_demo_env [7], Icp_lock_and_bridge 1000000 96369 [8])]) 1 1 = [icp_demo_event]"
proof -
  let ?calls = "[(icp_demo_env [7], Icp_lock_and_bridge 1000000 96369 [8])]"
  have ready: "icp_ready False icp_demo ?calls" by (simp add: icp_ready_def icp_demo_def)
  have room: "False \<or> 10000 * sum_list (map icp_asked ?calls) < 2 ^ 128 \<and> length ?calls < 2 ^ 64" by simp
  from icp_log_faithful [OF icp_demo_init room, of 1 1] show ?thesis
    unfolding icp_builds.builds_agree [OF ready, THEN conjunct1]
    by (simp add: icp_demo_lock icp_demo_event_def del: icp_exec.simps)
qed

text \<open>C40: A default release of the canister, without overflow checks, has no total of burned
  tokens: while it is not paused anybody can set the total to any value with one burn, since
  the amount is a free argument and the addition wraps; the call takes the next nonce like
  any other burn. A build with overflow checks rejects the call whenever it would lower the
  total.\<close>

theorem icp_total_rewritable:
  assumes "icp_CONFIG s = Some cfg" and "\<not> icp_paused cfg" and "v \<noteq> icp_total_burned cfg"
  shows "(\<exists>s'. icp_exec False s (env, Icp_burn_bridged (v - icp_total_burned cfg) d r) =
        Inr (s', icp_silent\<lparr>icp_returned := Some (icp_outbound_nonce cfg + 1)\<rparr>) \<and>
      icp_view_total_burned s' = Inr v) \<and>
    (v < icp_total_burned cfg \<longrightarrow>
      icp_exec True s (env, Icp_burn_bridged (v - icp_total_burned cfg) d r) = Inl Arithmetic_overflow)"
proof -
  let ?a = "v - icp_total_burned cfg"
  have a: "0 < ?a" using assms(3) by (simp add: word_neq_0_conv [symmetric])
  have overflow: "checked_add (icp_total_burned cfg) ?a = None" if "v < icp_total_burned cfg"
  proof (rule ccontr)
    assume "checked_add (icp_total_burned cfg) ?a \<noteq> None"
    then have "unat (icp_total_burned cfg) + unat ?a < 2 ^ LENGTH(128)"
      by (auto simp: checked_add_def split: if_splits)
    from checked_add_fits(2) [OF this] that show False by (simp add: word_less_nat_alt)
  qed
  show ?thesis
    using assms(1,2) a overflow
    by (simp add: icp_burn_bridged_def icp_with_config_def icp_view_total_burned_def add_op_def ensure_def)
qed

theorem icp_total_rewritable_witness:
  "\<exists>s'. icp_exec False (icp_demo\<lparr>icp_CONFIG := Some (the (icp_CONFIG icp_demo)\<lparr>icp_total_burned := 500\<rparr>)\<rparr>)
      (icp_demo_env [66], Icp_burn_bridged (- 500) 5 []) = Inr (s', icp_silent\<lparr>icp_returned := Some 1\<rparr>) \<and>
    icp_view_total_burned s' = Inr 0"
  using icp_total_rewritable [of "icp_demo\<lparr>icp_CONFIG := Some (the (icp_CONFIG icp_demo)\<lparr>icp_total_burned := 500\<rparr>)\<rparr>"
      "the (icp_CONFIG icp_demo)\<lparr>icp_total_burned := 500\<rparr>" 0 "icp_demo_env [66]" 5 "[]"]
  by (simp add: icp_demo_def del: icp_exec.simps)

text \<open>C39: The canister's mint is a placeholder that anybody can use against the bridge: any
  caller who names a listed public key, with arbitrary bytes for a signature, uses up any
  fresh nonce while nothing is minted, and after any further calls the genuine mint under
  that nonce is rejected, whoever presents it.\<close>

theorem icp_nonce_griefing:
  assumes "icp_CONFIG s = Some cfg" and "\<not> icp_paused cfg" and "pk \<in> set (icp_mpc_signers cfg)"
    and "(c, n) \<notin> icp_PROCESSED_NONCES s" and "a \<noteq> 0"
  shows "\<exists>s'. icp_exec True s (env, Icp_mint_bridged c n r a sig pk) = Inr (s', icp_silent) \<and>
    (\<forall>calls env' r' a' sig' pk'. \<exists>e.
       icp_exec True (exec_final (icp_exec True) s' calls)
         (env', Icp_mint_bridged c n r' a' sig' pk') = Inl e)"
proof (intro exI conjI allI)
  let ?s' = "s\<lparr>icp_PROCESSED_NONCES := insert (c, n) (icp_PROCESSED_NONCES s)\<rparr>"
  show "icp_exec True s (env, Icp_mint_bridged c n r a sig pk) = Inr (?s', icp_silent)"
    using assms by (simp add: icp_mint_bridged_def icp_with_config_def word_neq_0_conv)
  fix calls env' r' a' sig' pk'
  have "(c, n) \<in> icp_PROCESSED_NONCES (exec_final (icp_exec True) ?s' calls)"
    using icp.claims_done [of ?s' calls] by (auto simp: icp_abs_def Let_def)
  then show "icp_exec True (exec_final (icp_exec True) ?s' calls)
      (env', Icp_mint_bridged c n r' a' sig' pk') = Inl (projl (icp_exec True
        (exec_final (icp_exec True) ?s' calls) (env', Icp_mint_bridged c n r' a' sig' pk')))"
    by (cases "icp_exec True (exec_final (icp_exec True) ?s' calls)
        (env', Icp_mint_bridged c n r' a' sig' pk')") (auto elim: icp_mint_accept)
qed

theorem icp_nonce_griefing_witness:
  "\<exists>s'. icp_exec True icp_demo (icp_demo_env [66], Icp_mint_bridged 5 6 [66] 1 [] [2]) = Inr (s', icp_silent) \<and>
     (\<exists>e. icp_exec True s' (icp_demo_env [7], Icp_mint_bridged 5 6 [8] 9 [3] [2]) = Inl e)"
proof -
  obtain s' where first: "icp_exec True icp_demo (icp_demo_env [66], Icp_mint_bridged 5 6 [66] 1 [] [2])
      = Inr (s', icp_silent)"
    and later: "\<forall>calls env' r' a' sig' pk'. \<exists>e. icp_exec True (exec_final (icp_exec True) s' calls)
         (env', Icp_mint_bridged 5 6 r' a' sig' pk') = Inl e"
    using icp_nonce_griefing [of icp_demo "the (icp_CONFIG icp_demo)" "[2]" 5 6 1
        "icp_demo_env [66]" "[66]" "[]"] by (auto simp: icp_demo_def simp del: icp_exec.simps)
  from later have "\<exists>e. icp_exec True (exec_final (icp_exec True) s' [])
      (icp_demo_env [7], Icp_mint_bridged 5 6 [8] 9 [3] [2]) = Inl e" by blast
  with first show ?thesis by (simp del: icp_exec.simps)
qed

text \<open>The amount of a burn is not backed by any asset, so one call by anybody ends the
  burns of the canister for good: it burns the amount that fills the 128 bit total, and
  after any further calls every burn overflows and traps.\<close>

lemma icp_burn_exhaustion:
  assumes "icp_CONFIG s = Some cfg" and "\<not> icp_paused cfg"
    and room: "unat (icp_total_burned cfg) < 2 ^ 128 - 1"
    and "unat (icp_outbound_nonce cfg) < 2 ^ 64 - 1"
  shows "\<exists>s' out. icp_exec True s (env, Icp_burn_bridged (- 1 - icp_total_burned cfg) d r) = Inr (s', out) \<and>
    (\<forall>calls env' a d' r'. \<exists>e. icp_exec True (exec_final (icp_exec True) s' calls)
         (env', Icp_burn_bridged a d' r') = Inl e)"
proof -
  let ?a = "- 1 - icp_total_burned cfg"
  have a: "unat ?a = 2 ^ 128 - 1 - unat (icp_total_burned cfg)"
    by (rule u128_room)
  then have "ensure (0 < ?a) e = Inr ()" for e :: rust_panic using room by (simp add: ensure_def word_less_nat_alt)
  moreover have "checked_add (icp_total_burned cfg) ?a = Some (- 1)"
    using room by (simp add: checked_add_Some a unat_u128_max)
  moreover have "checked_add (icp_outbound_nonce cfg) 1 = Some (icp_outbound_nonce cfg + 1)"
    using assms(4) by (simp add: checked_add_def)
  ultimately obtain s' out where burn:
    "icp_exec True s (env, Icp_burn_bridged ?a d r) = Inr (s', out)" and full: "a_burned (icp_abs s') = 2 ^ 128 - 1"
    using assms(1,2)
    by (auto simp: icp_burn_bridged_def icp_with_config_def icp_abs_def Let_def unat_u128_max)
  have "\<exists>e. icp_exec True (exec_final (icp_exec True) s' calls) (env', Icp_burn_bridged b d' r') = Inl e"
    for calls env' b d' r'
  proof (cases "icp_exec True (exec_final (icp_exec True) s' calls) (env', Icp_burn_bridged b d' r')")
    case (Inr res)
    then have "icp_burn_bridged True (exec_final (icp_exec True) s' calls) b d' r' = Inr (fst res, snd res)"
      by simp
    moreover have "2 ^ 128 - 1 \<le> a_burned (icp_abs (exec_final (icp_exec True) s' calls))"
      using icp.totals_announced(2) [of s' calls] full by simp
    ultimately have False by (rule icp_burn_full)
    then show ?thesis ..
  qed simp
  with burn show ?thesis by blast
qed

lemma icp_burn_exhaustion_demo:
  "\<exists>s' out. icp_exec True icp_demo (icp_demo_env [66], Icp_burn_bridged (- 1) 5 []) = Inr (s', out) \<and>
     (\<exists>e. icp_exec True s' (icp_demo_env [7], Icp_burn_bridged 9 5 [8]) = Inl e)"
proof -
  obtain s' out where first: "icp_exec True icp_demo (icp_demo_env [66], Icp_burn_bridged (- 1) 5 []) = Inr (s', out)"
    and later: "\<forall>calls env' a d' r'. \<exists>e. icp_exec True (exec_final (icp_exec True) s' calls)
         (env', Icp_burn_bridged a d' r') = Inl e"
    using icp_burn_exhaustion [of icp_demo "the (icp_CONFIG icp_demo)" "icp_demo_env [66]" 5 "[]"]
    by (auto simp: icp_demo_def simp del: icp_exec.simps)
  from later have "\<exists>e. icp_exec True (exec_final (icp_exec True) s' [])
      (icp_demo_env [7], Icp_burn_bridged 9 5 [8]) = Inl e" by blast
  with first show ?thesis by (simp del: icp_exec.simps)
qed

end
