(* ===== verification/Bridge_Limits.thy ===== *)
theory Bridge_Limits
  imports Bridge_Prelude
begin

text \<open>
  The daily mint limit, stated once for the contracts that enforce one (CosmWasm and
  Solana): a counter with the start of its period, reset by the first mint that comes at
  least a day after the start. The locale \<open>rate_limited\<close> is the contract between a
  machine and such a counter; what it gives is the bound a token holder cares about, over
  an arbitrary window of a day, whatever the resets.
\<close>

section \<open>The limiter\<close>

record limiter =
  lim_limit :: nat
  lim_minted :: nat
  lim_start :: int

text \<open>A limit of zero means no limit. A rejected amount leaves nothing behind.\<close>

definition limiter_next :: "int \<Rightarrow> nat \<Rightarrow> limiter \<Rightarrow> limiter option" where
  "limiter_next now amt k =
     (if lim_limit k = 0 then Some k
      else
        let k' = (if lim_start k + 86400 \<le> now then k\<lparr>lim_minted := 0, lim_start := now\<rparr> else k)
        in if lim_minted k' + amt \<le> lim_limit k
           then Some (k'\<lparr>lim_minted := lim_minted k' + amt\<rparr>) else None)"

lemma limiter_nextE:
  assumes "limiter_next now amt k = Some k'" and "lim_limit k \<noteq> 0"
  obtains (reset) "lim_start k + 86400 \<le> now" "amt \<le> lim_limit k"
      "k' = k\<lparr>lim_minted := amt, lim_start := now\<rparr>"
    | (same) "now < lim_start k + 86400" "lim_minted k + amt \<le> lim_limit k"
      "k' = k\<lparr>lim_minted := lim_minted k + amt\<rparr>"
  using assms by (auto simp: limiter_next_def Let_def split: if_splits)

lemma limiter_next_limit: "limiter_next now amt k = Some k' \<Longrightarrow> lim_limit k' = lim_limit k"
  by (auto simp: limiter_next_def Let_def split: if_splits)

section \<open>Amounts spent in a window\<close>

definition in_day :: "int \<Rightarrow> int \<Rightarrow> bool" where
  "in_day T t \<longleftrightarrow> T \<le> t \<and> t < T + 86400"

definition spent_in_day :: "int \<Rightarrow> (int \<times> nat) list \<Rightarrow> nat" where
  "spent_in_day T evs = sum_list (map snd (filter (\<lambda>(t, a). in_day T t) evs))"

lemma spent_in_day_simps [simp]:
  "spent_in_day T [] = 0"
  "spent_in_day T (e # evs) = (if in_day T (fst e) then snd e else 0) + spent_in_day T evs"
  by (simp_all add: spent_in_day_def split: prod.splits)

lemma spent_later:
  "(\<And>t a. (t, a) \<in> set evs \<Longrightarrow> T + 86400 \<le> t) \<Longrightarrow> spent_in_day T evs = 0"
  by (induction evs) (force simp: in_day_def)+

section \<open>Machines with a limiter\<close>

text \<open>
  \<open>limiter_of\<close> reads the limiter in the machine's state, \<open>spent\<close> the amount an accepted
  call counted against it, \<open>clock\<close> the time of the call, \<open>quiet\<close> the calls that do not
  reconfigure the limiter.
\<close>

definition spendings ::
    "('s \<Rightarrow> 'c \<Rightarrow> 'e + ('s \<times> 'o)) \<Rightarrow> ('c \<Rightarrow> 'o \<Rightarrow> nat option) \<Rightarrow> ('c \<Rightarrow> int) \<Rightarrow>
      's \<Rightarrow> 'c list \<Rightarrow> (int \<times> nat) list" where
  "spendings exec spent clock s cs =
     List.map_filter (\<lambda>(c, out). map_option (Pair (clock c)) (spent c out)) (exec_trace exec s cs)"

lemma spendings_simps [simp]:
  "spendings exec spent clock s [] = []"
  "spendings exec spent clock s (c # cs) =
     (case exec s c of
        Inl e \<Rightarrow> spendings exec spent clock s cs
      | Inr r \<Rightarrow> (case spent c (snd r) of
            None \<Rightarrow> spendings exec spent clock (fst r) cs
          | Some a \<Rightarrow> (clock c, a) # spendings exec spent clock (fst r) cs))"
  by (simp_all add: spendings_def List.map_filter_simps split: sum.splits option.splits)

lemma spendings_clock:
  "(t, a) \<in> set (spendings exec spent clock s cs) \<Longrightarrow> \<exists>c \<in> set cs. t = clock c"
  by (induction cs arbitrary: s) (auto split: sum.splits option.splits)

locale rate_limited =
  fixes exec :: "'s \<Rightarrow> 'c \<Rightarrow> 'e + ('s \<times> 'o)"
    and limiter_of :: "'s \<Rightarrow> limiter option"
    and spent :: "'c \<Rightarrow> 'o \<Rightarrow> nat option"
    and clock :: "'c \<Rightarrow> int"
    and quiet :: "'c \<Rightarrow> bool"
    and wf :: "'s \<Rightarrow> bool"
  assumes limited: "wf s \<Longrightarrow> exec s c = Inr (s', out) \<Longrightarrow> quiet c \<Longrightarrow> limiter_of s = Some k \<Longrightarrow>
      limiter_of s' = (case spent c out of None \<Rightarrow> Some k | Some a \<Rightarrow> limiter_next (clock c) a k) \<and>
      limiter_of s' \<noteq> None"
    and limited_wf: "wf s \<Longrightarrow> exec s c = Inr (s', out) \<Longrightarrow> quiet c \<Longrightarrow> wf s'"
begin

lemma limiter_step:
  assumes "wf s" and "limiter_of s = Some k" and "exec s c = Inr (s', out)" and "quiet c"
  obtains k' where "wf s'" and "limiter_of s' = Some k'" and "lim_limit k' = lim_limit k"
    and "case spent c out of None \<Rightarrow> k' = k | Some a \<Rightarrow> limiter_next (clock c) a k = Some k'"
proof -
  from limited [OF assms(1,3,4,2)] obtain k' where k': "limiter_of s' = Some k'"
    "(case spent c out of None \<Rightarrow> Some k | Some a \<Rightarrow> limiter_next (clock c) a k) = Some k'"
    by (metis not_None_eq)
  then show thesis
    using limited_wf [OF assms(1,3,4)]
    by (intro that [of k']) (auto split: option.splits dest: limiter_next_limit)
qed

text \<open>
  From a time in the window on, at most what the period has left and, if a reset may
  still come, one limit more.
\<close>

lemma bound_from:
  assumes "wf s" and "limiter_of s = Some k" and "lim_limit k \<noteq> 0"
    and "sorted (map clock cs)" and "\<And>c. c \<in> set cs \<Longrightarrow> quiet c \<and> T \<le> clock c"
  shows "spent_in_day T (spendings exec spent clock s cs) \<le>
    (lim_limit k - lim_minted k) + (if T \<le> lim_start k then 0 else lim_limit k)"
  using assms
proof (induction cs arbitrary: s k)
  case Nil
  then show ?case by simp
next
  case (Cons c cs)
  show ?case
  proof (cases "exec s c")
    case (Inl e)
    with Cons show ?thesis by simp
  next
    case (Inr r)
    then have step: "exec s c = Inr (fst r, snd r)" by simp
    from Cons.prems(5) have "quiet c" and now: "T \<le> clock c" by auto
    with limiter_step [OF Cons.prems(1,2) step] obtain k' where k': "wf (fst r)"
      "limiter_of (fst r) = Some k'" "lim_limit k' = lim_limit k"
      and next_k: "case spent c (snd r) of None \<Rightarrow> k' = k | Some a \<Rightarrow> limiter_next (clock c) a k = Some k'"
      by blast
    have rest: "spent_in_day T (spendings exec spent clock (fst r) cs) \<le>
        (lim_limit k - lim_minted k') + (if T \<le> lim_start k' then 0 else lim_limit k)"
      by (rule Cons.IH [OF k'(1,2), unfolded k'(3)]) (use Cons.prems in auto)
    have late: "spent_in_day T (spendings exec spent clock (fst r) cs) = 0"
      if "T + 86400 \<le> clock c"
      using that Cons.prems(4) by (intro spent_later) (force dest!: spendings_clock)
    show ?thesis
    proof (cases "spent c (snd r)")
      case None
      with rest next_k Inr show ?thesis by simp
    next
      case (Some a)
      with next_k have "limiter_next (clock c) a k = Some k'" by simp
      then show ?thesis using Cons.prems(3)
        by (cases rule: limiter_nextE) (use rest late now Some Inr in \<open>auto simp: in_day_def\<close>)
    qed
  qed
qed

text \<open>At most twice the limit in any day, whenever the resets fall.\<close>

lemma any_day:
  assumes "wf s" and "limiter_of s = Some k" and "lim_limit k \<noteq> 0"
    and "sorted (map clock cs)" and "\<And>c. c \<in> set cs \<Longrightarrow> quiet c"
  shows "spent_in_day T (spendings exec spent clock s cs) \<le> 2 * lim_limit k"
  using assms
proof (induction cs arbitrary: s k)
  case Nil
  then show ?case by simp
next
  case (Cons c cs)
  show ?case
  proof (cases "T \<le> clock c \<or> (\<exists>e. exec s c = Inl e)")
    case True
    then show ?thesis
    proof
      assume "T \<le> clock c"
      with Cons.prems have "\<And>c'. c' \<in> set (c # cs) \<Longrightarrow> quiet c' \<and> T \<le> clock c'" by auto
      from bound_from [OF Cons.prems(1-4) this] show ?thesis by (simp split: if_splits)
    qed (use Cons in auto)
  next
    case False
    then obtain r where Inr: "exec s c = Inr r" and early: "\<not> in_day T (clock c)"
      by (cases "exec s c") (auto simp: in_day_def)
    then have "exec s c = Inr (fst r, snd r)" by simp
    then obtain k' where k': "wf (fst r)" "limiter_of (fst r) = Some k'" "lim_limit k' = lim_limit k"
      using Cons.prems(5) by (elim limiter_step [OF Cons.prems(1,2)]) auto
    have "spent_in_day T (spendings exec spent clock (fst r) cs) \<le> 2 * lim_limit k"
      by (rule Cons.IH [OF k'(1,2), unfolded k'(3)]) (use Cons.prems in auto)
    with Inr early show ?thesis by (auto split: option.splits)
  qed
qed

text \<open>At most the limit, with what was counted before, within the current period.\<close>

lemma one_period:
  assumes "wf s" and "limiter_of s = Some k" and "lim_limit k \<noteq> 0" and "lim_minted k \<le> lim_limit k"
    and "sorted (map clock cs)" and "\<And>c. c \<in> set cs \<Longrightarrow> quiet c \<and> lim_start k \<le> clock c"
  shows "lim_minted k + spent_in_day (lim_start k) (spendings exec spent clock s cs) \<le> lim_limit k"
  using bound_from [OF assms(1-3,5), of "lim_start k"] assms(4,6) by simp

end

section \<open>Limits that are set anew\<close>

text \<open>
  A machine whose administrator can replace the limiter by a fresh one, with nothing counted
  and the zero of the clock as its start. Each replacement within the day opens the new
  limit once more: \<open>renews\<close> gives the limiter a call installs, \<open>valid\<close> the calls the host can make.
\<close>

definition renewals_in_day ::
    "int \<Rightarrow> ('c \<Rightarrow> limiter option) \<Rightarrow> ('c \<Rightarrow> int) \<Rightarrow> ('c \<times> 'o) list \<Rightarrow> nat" where
  "renewals_in_day T renews clock es =
     length (filter (\<lambda>(c, out). renews c \<noteq> None \<and> in_day T (clock c)) es)"

lemma renewals_in_day_simps [simp]:
  "renewals_in_day T renews clock [] = 0"
  "renewals_in_day T renews clock (e # es) =
     (if renews (fst e) \<noteq> None \<and> in_day T (clock (fst e)) then 1 else 0) + renewals_in_day T renews clock es"
  by (simp_all add: renewals_in_day_def split: prod.splits)

text \<open>What a limiter still lets through within the day from \<open>T\<close>, for calls from \<open>T\<close> on.\<close>

definition lim_room :: "int \<Rightarrow> limiter \<Rightarrow> nat" where
  "lim_room T k = (if T \<le> lim_start k then lim_limit k - lim_minted k
     else if lim_start k + 86400 \<le> T then lim_limit k
     else (lim_limit k - lim_minted k) + lim_limit k)"

definition lim_within :: "nat \<Rightarrow> limiter \<Rightarrow> bool" where
  "lim_within L k \<longleftrightarrow> 0 < lim_limit k \<and> lim_limit k \<le> L"

lemma lim_room_le: "lim_within L k \<Longrightarrow> lim_room T k \<le> 2 * L"
  by (auto simp: lim_room_def lim_within_def)

lemma lim_room_next:
  assumes "limiter_next now a k = Some k'" and "lim_within L k" and "T \<le> now"
  shows "in_day T now \<Longrightarrow> a + lim_room T k' \<le> lim_room T k" and "lim_within L k'"
proof -
  have "lim_limit k \<noteq> 0" using assms(2) by (simp add: lim_within_def)
  from assms(1) this show "in_day T now \<Longrightarrow> a + lim_room T k' \<le> lim_room T k"
    by (cases rule: limiter_nextE) (use assms(3) in \<open>auto simp: lim_room_def in_day_def\<close>)
  show "lim_within L k'" using assms(1,2) by (simp add: lim_within_def limiter_next_limit)
qed

locale renewable_limit = rate_limited exec limiter_of spent clock quiet wf
  for exec :: "'s \<Rightarrow> 'c \<Rightarrow> 'e + ('s \<times> 'o)"
    and limiter_of :: "'s \<Rightarrow> limiter option"
    and spent :: "'c \<Rightarrow> 'o \<Rightarrow> nat option"
    and clock :: "'c \<Rightarrow> int"
    and quiet :: "'c \<Rightarrow> bool"
    and wf :: "'s \<Rightarrow> bool" +
  fixes renews :: "'c \<Rightarrow> limiter option"
    and valid :: "'c \<Rightarrow> bool"
  assumes quiet_or: "valid c \<Longrightarrow> renews c = None \<Longrightarrow> quiet c"
    and renewed: "wf s \<Longrightarrow> exec s c = Inr (s', out) \<Longrightarrow> valid c \<Longrightarrow> renews c = Some k \<Longrightarrow>
      wf s' \<and> limiter_of s' = Some k \<and> spent c out = None \<and> lim_minted k = 0 \<and> lim_start k = 0"
    and unlimited: "wf s \<Longrightarrow> exec s c = Inr (s', out) \<Longrightarrow> quiet c \<Longrightarrow> limiter_of s = None \<Longrightarrow>
      limiter_of s' = None \<and> spent c out = None"
begin

definition room_in :: "int \<Rightarrow> 's \<Rightarrow> nat" where
  "room_in T s = (case limiter_of s of None \<Rightarrow> 0 | Some k \<Rightarrow> lim_room T k)"

definition within_in :: "nat \<Rightarrow> 's \<Rightarrow> bool" where
  "within_in L s \<longleftrightarrow> (case limiter_of s of None \<Rightarrow> True | Some k \<Rightarrow> lim_within L k)"

text \<open>One accepted call, before the day ends or after.\<close>

lemma quiet_step:
  assumes wf: "wf s" and step: "exec s c = Inr (s', out)" and quiet: "quiet c"
    and lim: "within_in L s"
  shows "wf s'" and "within_in L s'"
    and "in_day T (clock c) \<Longrightarrow> (case spent c out of None \<Rightarrow> 0 | Some a \<Rightarrow> a) + room_in T s' \<le> room_in T s"
proof -
  show "wf s'" by (rule limited_wf [OF wf step quiet])
  have "within_in L s' \<and> (in_day T (clock c) \<longrightarrow>
      (case spent c out of None \<Rightarrow> 0 | Some a \<Rightarrow> a) + room_in T s' \<le> room_in T s)"
  proof (cases "limiter_of s")
    case None
    with unlimited [OF wf step quiet] show ?thesis by (simp add: within_in_def room_in_def)
  next
    case (Some k)
    from limited [OF wf step quiet this] obtain k' where k': "limiter_of s' = Some k'"
      and next_k: "(case spent c out of None \<Rightarrow> Some k | Some a \<Rightarrow> limiter_next (clock c) a k) = Some k'"
      by (metis not_None_eq)
    from lim Some have lim_k: "lim_within L k" by (simp add: within_in_def)
    show ?thesis
    proof (cases "spent c out")
      case None
      with next_k k' Some lim_k show ?thesis by (simp add: within_in_def room_in_def)
    next
      case (Some a)
      with next_k have "limiter_next (clock c) a k = Some k'" by simp
      note next_room = lim_room_next [OF this lim_k]
      have "lim_within L k'" by (rule next_room(2) [of "clock c"]) simp
      moreover have "a + lim_room T k' \<le> lim_room T k" if "in_day T (clock c)"
        using that by (intro next_room(1)) (simp_all add: in_day_def)
      ultimately show ?thesis using k' Some \<open>limiter_of s = Some k\<close>
        by (simp add: within_in_def room_in_def)
    qed
  qed
  then show "within_in L s'" and "in_day T (clock c) \<Longrightarrow>
      (case spent c out of None \<Rightarrow> 0 | Some a \<Rightarrow> a) + room_in T s' \<le> room_in T s" by blast+
qed

lemma renewing_step:
  assumes "wf s" and "exec s c = Inr (s', out)" and "valid c" and "renews c = Some k"
    and "lim_within L k" and "86400 \<le> T"
  shows "wf s'" and "within_in L s'" and "spent c out = None" and "room_in T s' \<le> L"
  using renewed [OF assms(1-4)] assms(5,6)
  by (auto simp: within_in_def room_in_def lim_room_def lim_within_def)

lemma bound_renewed:
  assumes "wf s" and "within_in L s" and "sorted (map clock cs)" and late: "86400 \<le> T"
    and "\<forall>c \<in> set cs. valid c \<and> T \<le> clock c \<and> (\<forall>k. renews c = Some k \<longrightarrow> lim_within L k)"
  shows "spent_in_day T (spendings exec spent clock s cs) \<le>
    room_in T s + L * renewals_in_day T renews clock (exec_trace exec s cs)"
  using assms(1-3,5)
proof (induction cs arbitrary: s)
  case Nil
  then show ?case by simp
next
  case (Cons c cs)
  show ?case
  proof (cases "exec s c")
    case (Inl e)
    with Cons.IH [OF Cons.prems(1,2)] Cons.prems(3,4) show ?thesis by simp
  next
    case (Inr r)
    then have step: "exec s c = Inr (fst r, snd r)" by simp
    from Cons.prems(4) have valid: "valid c" and now: "T \<le> clock c"
      and fresh: "\<And>k. renews c = Some k \<Longrightarrow> lim_within L k" by auto
    have rest: "spent_in_day T (spendings exec spent clock (fst r) cs) \<le>
        room_in T (fst r) + L * renewals_in_day T renews clock (exec_trace exec (fst r) cs)"
      if "wf (fst r)" and "within_in L (fst r)"
      using that Cons.prems(3,4) by (intro Cons.IH) auto
    have over: "spent_in_day T (spendings exec spent clock (fst r) cs) = 0"
      if "\<not> in_day T (clock c)"
      using that now Cons.prems(3) by (intro spent_later) (force simp: in_day_def dest!: spendings_clock)
    show ?thesis
    proof (cases "renews c")
      case None
      note quiet = quiet_step [OF Cons.prems(1) step quiet_or [OF valid None] Cons.prems(2)]
      show ?thesis
        by (cases "in_day T (clock c)"; cases "spent c (snd r)")
          (use Inr None over quiet(3) [of T] rest [OF quiet(1,2)] in simp_all)
    next
      case (Some k)
      note new = renewing_step [OF Cons.prems(1) step valid Some fresh [OF Some] late]
      show ?thesis
        by (cases "in_day T (clock c)") (use Inr Some over new(3,4) rest [OF new(1,2)] in simp_all)
    qed
  qed
qed

text \<open>At most twice the highest limit, and that limit once more for each renewal.\<close>

lemma any_day_renewed:
  assumes "wf s" and "within_in L s" and "sorted (map clock cs)" and late: "86400 \<le> T"
    and "\<forall>c \<in> set cs. valid c \<and> (\<forall>k. renews c = Some k \<longrightarrow> lim_within L k)"
  shows "spent_in_day T (spendings exec spent clock s cs) \<le>
    (2 + renewals_in_day T renews clock (exec_trace exec s cs)) * L"
  using assms(1-3,5)
proof (induction cs arbitrary: s)
  case Nil
  then show ?case by simp
next
  case (Cons c cs)
  show ?case
  proof (cases "T \<le> clock c \<or> (\<exists>e. exec s c = Inl e)")
    case True
    then show ?thesis
    proof
      assume "T \<le> clock c"
      with Cons.prems have "\<forall>c' \<in> set (c # cs).
          valid c' \<and> T \<le> clock c' \<and> (\<forall>k. renews c' = Some k \<longrightarrow> lim_within L k)" by auto
      from bound_renewed [OF Cons.prems(1-3) late this] Cons.prems(2)
      have "spent_in_day T (spendings exec spent clock s (c # cs)) \<le>
          2 * L + L * renewals_in_day T renews clock (exec_trace exec s (c # cs))"
        by (fastforce simp: room_in_def within_in_def dest: lim_room_le [of L _ T] split: option.splits)
      then show ?thesis by (simp only: add_mult_distrib mult.commute [of L])
    qed (use Cons in auto)
  next
    case False
    then obtain r where Inr: "exec s c = Inr r" and early: "\<not> in_day T (clock c)"
      by (cases "exec s c") (auto simp: in_day_def)
    then have step: "exec s c = Inr (fst r, snd r)" by simp
    have "wf (fst r) \<and> within_in L (fst r)"
    proof (cases "renews c")
      case None
      with Cons.prems have "quiet c" by (auto intro: quiet_or)
      from quiet_step(1,2) [OF Cons.prems(1) step this Cons.prems(2)] show ?thesis ..
    next
      case (Some k)
      with Cons.prems(4) have "valid c" "lim_within L k" by auto
      from renewing_step(1,2) [OF Cons.prems(1) step this(1) Some this(2) late] show ?thesis ..
    qed
    with Cons.prems have "spent_in_day T (spendings exec spent clock (fst r) cs) \<le>
        (2 + renewals_in_day T renews clock (exec_trace exec (fst r) cs)) * L"
      by (intro Cons.IH) auto
    with Inr early show ?thesis by (auto split: option.splits)
  qed
qed

end

end
