(* ===== verification/Cosmos_Bridge.thy ===== *)
theory Cosmos_Bridge
  imports Bridge_Bytes Bridge_Spec Bridge_Limits
begin

text \<open>
  The CosmWasm contract, \<^verbatim>\<open>programs/cosmos-bridge/contracts/knt-bridge/src/contract.rs\<close>:
  storage, messages, the entry points \<^verbatim>\<open>instantiate\<close>, \<^verbatim>\<open>execute\<close> and \<^verbatim>\<open>query\<close>, and
  every handler. The crates it calls are parameters, collected in the record \<open>cw_api\<close>:
  \<^verbatim>\<open>Uint128\<close> arithmetic, \<^verbatim>\<open>hex::decode\<close> and the two host functions. Its
  \<^verbatim>\<open>Cargo.toml\<close> does not switch overflow checks on, so the plain \<^verbatim>\<open>u64\<close> additions
  take the build flag \<open>oc\<close>.
\<close>

section \<open>Storage and messages\<close>

record cw_config =
  cw_admin :: string
  cw_mpc_signers :: "string list"
  cw_threshold :: u8
  cw_fee_bps :: u64
  cw_fee_collector :: string
  cw_paused :: bool
  cw_outbound_nonce :: u64
  cw_chain_id :: u64
  cw_total_locked :: u128
  cw_total_burned :: u128

record cw_token_config =
  cw_token_denom :: string
  cw_is_native :: bool
  cw_daily_mint_limit :: u128
  cw_daily_minted :: u128
  cw_period_start :: u64
  cw_active :: bool

record cw_storage =
  cw_CONFIG :: "cw_config option"
  cw_TOKEN_CONFIGS :: "string \<rightharpoonup> cw_token_config"
  cw_PROCESSED_NONCES :: "u64 \<times> u64 \<rightharpoonup> bool"

record cw_instantiate_msg =
  cw_init_signers :: "string list"
  cw_init_threshold :: u8
  cw_init_fee_bps :: u64
  cw_init_chain_id :: u64

datatype cw_execute_msg =
    Cw_LockAndBridge u64 string
  | Cw_MintBridged u64 u64 string u128 string string string
  | Cw_BurnBridged u64 string string u128
  | Cw_Release u64 u64 string u128 string string string
  | Cw_RegisterToken string bool u128
  | Cw_UpdateSigners "string list" u8
  | Cw_UpdateFee u64
  | Cw_Pause
  | Cw_Unpause

datatype cw_query_msg =
    Cw_QConfig
  | Cw_QTokenConfig string
  | Cw_QIsNonceProcessed u64 u64
  | Cw_QTotalLocked
  | Cw_QTotalBurned

section \<open>Environment, responses and errors\<close>

record cw_coin =
  cw_denom :: string
  cw_amount :: u128

record cw_info =
  cw_sender :: string
  cw_funds :: "cw_coin list"

datatype cw_msg =
    Cw_Send string "cw_coin list"
  | Cw_Burn "cw_coin list"

text \<open>
  \<open>cw_seconds\<close> is \<^verbatim>\<open>env.block.time.seconds()\<close>, \<open>cw_bank\<close> tells whether the bank
  module executes a message of the contract; if not, the chain reverts the transaction.
\<close>

record cw_env =
  cw_seconds :: u64
  cw_bank :: "cw_msg \<Rightarrow> bool"

record cw_event =
  cw_type :: string
  cw_attributes :: "(string \<times> string) list"

record cw_response =
  cw_messages :: "cw_msg list"
  cw_events :: "cw_event list"
  cw_attrs :: "(string \<times> string) list"

datatype cw_error =
    Cw_generic_err string
  | Cw_not_found
  | Cw_api_error
  | Cw_panicked rust_panic
  | Cw_bank_refused

datatype cw_answer =
    Cw_config_is cw_config
  | Cw_token_config_is cw_token_config
  | Cw_bool_is bool
  | Cw_uint_is u128

definition cw_action :: "string \<Rightarrow> cw_response" where
  "cw_action a = \<lparr>cw_messages = [], cw_events = [], cw_attrs = [(''action'', a)]\<rparr>"

section \<open>The crates the contract calls\<close>

record cw_api =
  uint_add :: "u128 \<Rightarrow> u128 \<Rightarrow> u128 option"
  uint_checked_sub :: "u128 \<Rightarrow> u128 \<Rightarrow> u128 option"
  uint_multiply_ratio :: "u128 \<Rightarrow> u64 \<Rightarrow> u64 \<Rightarrow> u128 option"
  hex_decode :: "string \<Rightarrow> bytes option"
  cw_ed25519_verify :: "bytes \<Rightarrow> bytes \<Rightarrow> bytes \<Rightarrow> bool option"
  addr_validate :: "string \<Rightarrow> string option"

text \<open>
  The documented behaviour of \<^verbatim>\<open>Uint128\<close>: \<open>+\<close> panics on overflow, \<^verbatim>\<open>checked_sub\<close>
  fails below zero, \<^verbatim>\<open>multiply_ratio\<close> is the floor of the exact quotient and panics if
  that does not fit. It is an assumption of the properties that need it.
\<close>

definition uint128_documented :: "cw_api \<Rightarrow> bool" where
  "uint128_documented api \<longleftrightarrow>
     (\<forall>a b c. uint_add api a b = Some c \<longleftrightarrow> unat c = unat a + unat b) \<and>
     (\<forall>a b c. uint_checked_sub api a b = Some c \<longleftrightarrow> unat b \<le> unat a \<and> unat c = unat a - unat b) \<and>
     (\<forall>a n d c. d \<noteq> 0 \<longrightarrow> (uint_multiply_ratio api a n d = Some c \<longleftrightarrow>
        unat c = unat a * unat n div unat d))"

section \<open>Entry points and handlers\<close>

definition cw_load_config :: "cw_storage \<Rightarrow> cw_error + cw_config" where
  "cw_load_config s = ok_or (cw_CONFIG s) Cw_not_found"

definition cw_instantiate :: "cw_storage \<Rightarrow> cw_info \<Rightarrow> cw_instantiate_msg \<Rightarrow> cw_error + cw_storage \<times> cw_response" where
  "cw_instantiate s info msg =
     Inr (s\<lparr>cw_CONFIG := Some
       \<lparr>cw_admin = cw_sender info,
        cw_mpc_signers = cw_init_signers msg,
        cw_threshold = cw_init_threshold msg,
        cw_fee_bps = cw_init_fee_bps msg,
        cw_fee_collector = cw_sender info,
        cw_paused = False,
        cw_outbound_nonce = 0,
        cw_chain_id = cw_init_chain_id msg,
        cw_total_locked = 0,
        cw_total_burned = 0\<rparr>\<rparr>,
      cw_action ''instantiate'')"

definition cw_build_mint_message :: "u64 \<Rightarrow> u64 \<Rightarrow> string \<Rightarrow> u128 \<Rightarrow> bytes" where
  "cw_build_mint_message chain_id nonce recipient amount =
     str_bytes ''KNT_BRIDGE_MINT''
       @ to_le_bytes chain_id
       @ to_le_bytes nonce
       @ str_bytes recipient
       @ to_le_bytes amount"

definition cw_build_release_message :: "u64 \<Rightarrow> u64 \<Rightarrow> string \<Rightarrow> u128 \<Rightarrow> bytes" where
  "cw_build_release_message chain_id nonce recipient amount =
     str_bytes ''KNT_BRIDGE_RELEASE''
       @ to_le_bytes chain_id
       @ to_le_bytes nonce
       @ str_bytes recipient
       @ to_le_bytes amount"

text \<open>
  The limit check updates its argument in place and may fail afterwards; a failure ends
  the call, so it returns the updated token or the error.
\<close>

definition cw_check_daily_limit ::
    "cw_api \<Rightarrow> bool \<Rightarrow> cw_token_config \<Rightarrow> u128 \<Rightarrow> u64 \<Rightarrow> cw_error + cw_token_config" where
  "cw_check_daily_limit api oc k amount now =
     (if cw_daily_mint_limit k = 0 then Inr k
      else
        and_then (ok_or (add_op oc (cw_period_start k) 86400) (Cw_panicked Arithmetic_overflow)) (\<lambda>period_end.
        let k' = (if period_end \<le> now then k\<lparr>cw_daily_minted := 0, cw_period_start := now\<rparr> else k) in
        and_then (ok_or (uint_add api (cw_daily_minted k') amount) (Cw_panicked Arithmetic_overflow)) (\<lambda>new_total.
        and_then (ensure (new_total \<le> cw_daily_mint_limit k')
          (Cw_generic_err ''Daily mint limit exceeded'')) (\<lambda>_.
        Inr (k'\<lparr>cw_daily_minted := new_total\<rparr>)))))"

definition cw_lock_and_bridge ::
    "cw_api \<Rightarrow> bool \<Rightarrow> cw_storage \<Rightarrow> cw_info \<Rightarrow> u64 \<Rightarrow> string \<Rightarrow> cw_error + cw_storage \<times> cw_response" where
  "cw_lock_and_bridge api oc s info dest_chain_id recipient =
     and_then (cw_load_config s) (\<lambda>config.
     and_then (ensure (\<not> cw_paused config) (Cw_generic_err ''Bridge is paused'')) (\<lambda>_.
     and_then (ensure (length (cw_funds info) = 1) (Cw_generic_err ''Send exactly one coin type'')) (\<lambda>_.
     let sent = cw_funds info ! 0; amount = cw_amount sent in
     and_then (ok_or (uint_multiply_ratio api amount (cw_fee_bps config) 10000)
       (Cw_panicked Arithmetic_overflow)) (\<lambda>fee.
     and_then (ok_or (uint_checked_sub api amount fee) (Cw_generic_err ''Fee exceeds amount'')) (\<lambda>bridge_amount.
     and_then (ok_or (uint_add api (cw_total_locked config) bridge_amount)
       (Cw_panicked Arithmetic_overflow)) (\<lambda>locked.
     and_then (ok_or (add_op oc (cw_outbound_nonce config) 1) (Cw_panicked Arithmetic_overflow)) (\<lambda>nonce.
     Inr (s\<lparr>cw_CONFIG := Some (config\<lparr>cw_total_locked := locked, cw_outbound_nonce := nonce\<rparr>)\<rparr>,
       \<lparr>cw_messages = [],
        cw_events = [\<lparr>cw_type = ''lock'',
          cw_attributes = [
            (''source_chain'', show_dec (unat (cw_chain_id config))),
            (''dest_chain'', show_dec (unat dest_chain_id)),
            (''nonce'', show_dec (unat nonce)),
            (''denom'', cw_denom sent),
            (''sender'', cw_sender info),
            (''recipient'', recipient),
            (''amount'', show_dec (unat bridge_amount)),
            (''fee'', show_dec (unat fee))]\<rparr>],
        cw_attrs = []\<rparr>))))))))"

definition cw_nonce_processed :: "cw_storage \<Rightarrow> u64 \<times> u64 \<Rightarrow> bool" where
  "cw_nonce_processed s key = (case cw_PROCESSED_NONCES s key of None \<Rightarrow> False | Some b \<Rightarrow> b)"

definition cw_mint_bridged ::
    "cw_api \<Rightarrow> bool \<Rightarrow> cw_env \<Rightarrow> cw_storage \<Rightarrow> u64 \<Rightarrow> u64 \<Rightarrow> string \<Rightarrow> u128 \<Rightarrow> string \<Rightarrow> string \<Rightarrow> string \<Rightarrow>
      cw_error + cw_storage \<times> cw_response" where
  "cw_mint_bridged api oc env s source_chain_id nonce recipient amount denom signature signer_pubkey =
     and_then (cw_load_config s) (\<lambda>config.
     and_then (ensure (\<not> cw_paused config) (Cw_generic_err ''Bridge is paused'')) (\<lambda>_.
     and_then (ensure (\<not> cw_nonce_processed s (source_chain_id, nonce))
       (Cw_generic_err ''Nonce already processed'')) (\<lambda>_.
     and_then (ensure (signer_pubkey \<in> set (cw_mpc_signers config))
       (Cw_generic_err ''Unauthorized signer'')) (\<lambda>_.
     let message = cw_build_mint_message source_chain_id nonce recipient amount in
     and_then (ok_or (hex_decode api signature) (Cw_generic_err ''Invalid signature hex'')) (\<lambda>sig_bytes.
     and_then (ok_or (hex_decode api signer_pubkey) (Cw_generic_err ''Invalid pubkey hex'')) (\<lambda>pk_bytes.
     and_then (ok_or (cw_ed25519_verify api message sig_bytes pk_bytes)
       (Cw_generic_err ''Signature verification failed'')) (\<lambda>valid.
     and_then (ensure valid (Cw_generic_err ''Invalid signature'')) (\<lambda>_.
     and_then (ok_or (cw_TOKEN_CONFIGS s denom) Cw_not_found) (\<lambda>token_config.
     and_then (cw_check_daily_limit api oc token_config amount (cw_seconds env)) (\<lambda>token_config'.
     and_then (ok_or (addr_validate api recipient) Cw_api_error) (\<lambda>recipient_addr.
     Inr (s\<lparr>cw_TOKEN_CONFIGS := (cw_TOKEN_CONFIGS s)(denom \<mapsto> token_config'),
            cw_PROCESSED_NONCES := (cw_PROCESSED_NONCES s)((source_chain_id, nonce) \<mapsto> True)\<rparr>,
       \<lparr>cw_messages = [Cw_Send recipient_addr [\<lparr>cw_denom = denom, cw_amount = amount\<rparr>]],
        cw_events = [\<lparr>cw_type = ''mint'',
          cw_attributes = [
            (''source_chain'', show_dec (unat source_chain_id)),
            (''nonce'', show_dec (unat nonce)),
            (''recipient'', recipient),
            (''amount'', show_dec (unat amount)),
            (''denom'', denom)]\<rparr>],
        cw_attrs = []\<rparr>))))))))))))"

definition cw_burn_bridged ::
    "cw_api \<Rightarrow> bool \<Rightarrow> cw_storage \<Rightarrow> cw_info \<Rightarrow> u64 \<Rightarrow> string \<Rightarrow> string \<Rightarrow> u128 \<Rightarrow>
      cw_error + cw_storage \<times> cw_response" where
  "cw_burn_bridged api oc s info dest_chain_id recipient denom amount =
     and_then (cw_load_config s) (\<lambda>config.
     and_then (ensure (\<not> cw_paused config) (Cw_generic_err ''Bridge is paused'')) (\<lambda>_.
     and_then (ok_or (uint_add api (cw_total_burned config) amount) (Cw_panicked Arithmetic_overflow)) (\<lambda>burned.
     and_then (ok_or (add_op oc (cw_outbound_nonce config) 1) (Cw_panicked Arithmetic_overflow)) (\<lambda>nonce.
     Inr (s\<lparr>cw_CONFIG := Some (config\<lparr>cw_total_burned := burned, cw_outbound_nonce := nonce\<rparr>)\<rparr>,
       \<lparr>cw_messages = [Cw_Burn [\<lparr>cw_denom = denom, cw_amount = amount\<rparr>]],
        cw_events = [\<lparr>cw_type = ''burn'',
          cw_attributes = [
            (''source_chain'', show_dec (unat (cw_chain_id config))),
            (''dest_chain'', show_dec (unat dest_chain_id)),
            (''nonce'', show_dec (unat nonce)),
            (''denom'', denom),
            (''sender'', cw_sender info),
            (''recipient'', recipient),
            (''amount'', show_dec (unat amount))]\<rparr>],
        cw_attrs = []\<rparr>)))))"

definition cw_release ::
    "cw_api \<Rightarrow> cw_storage \<Rightarrow> u64 \<Rightarrow> u64 \<Rightarrow> string \<Rightarrow> u128 \<Rightarrow> string \<Rightarrow> string \<Rightarrow> string \<Rightarrow>
      cw_error + cw_storage \<times> cw_response" where
  "cw_release api s source_chain_id nonce recipient amount denom signature signer_pubkey =
     and_then (cw_load_config s) (\<lambda>config.
     and_then (ensure (\<not> cw_paused config) (Cw_generic_err ''Bridge is paused'')) (\<lambda>_.
     and_then (ensure (\<not> cw_nonce_processed s (source_chain_id, nonce))
       (Cw_generic_err ''Nonce already processed'')) (\<lambda>_.
     and_then (ensure (signer_pubkey \<in> set (cw_mpc_signers config))
       (Cw_generic_err ''Unauthorized signer'')) (\<lambda>_.
     let message = cw_build_release_message source_chain_id nonce recipient amount in
     and_then (ok_or (hex_decode api signature) (Cw_generic_err ''Invalid sig'')) (\<lambda>sig_bytes.
     and_then (ok_or (hex_decode api signer_pubkey) (Cw_generic_err ''Invalid pk'')) (\<lambda>pk_bytes.
     and_then (ok_or (cw_ed25519_verify api message sig_bytes pk_bytes)
       (Cw_generic_err ''Sig verify failed'')) (\<lambda>valid.
     and_then (ensure valid (Cw_generic_err ''Invalid signature'')) (\<lambda>_.
     and_then (ok_or (addr_validate api recipient) Cw_api_error) (\<lambda>recipient_addr.
     Inr (s\<lparr>cw_PROCESSED_NONCES := (cw_PROCESSED_NONCES s)((source_chain_id, nonce) \<mapsto> True)\<rparr>,
       \<lparr>cw_messages = [Cw_Send recipient_addr [\<lparr>cw_denom = denom, cw_amount = amount\<rparr>]],
        cw_events = [\<lparr>cw_type = ''release'',
          cw_attributes = [
            (''source_chain'', show_dec (unat source_chain_id)),
            (''nonce'', show_dec (unat nonce)),
            (''recipient'', recipient),
            (''amount'', show_dec (unat amount))]\<rparr>],
        cw_attrs = []\<rparr>))))))))))"

definition cw_require_admin :: "cw_config \<Rightarrow> cw_info \<Rightarrow> cw_error + unit" where
  "cw_require_admin config info = ensure (cw_sender info = cw_admin config) (Cw_generic_err ''Unauthorized'')"

definition cw_register_token ::
    "cw_storage \<Rightarrow> cw_info \<Rightarrow> string \<Rightarrow> bool \<Rightarrow> u128 \<Rightarrow> cw_error + cw_storage \<times> cw_response" where
  "cw_register_token s info denom is_native daily_limit =
     and_then (cw_load_config s) (\<lambda>config.
     and_then (cw_require_admin config info) (\<lambda>_.
     Inr (s\<lparr>cw_TOKEN_CONFIGS := (cw_TOKEN_CONFIGS s)(denom \<mapsto>
            \<lparr>cw_token_denom = denom, cw_is_native = is_native, cw_daily_mint_limit = daily_limit,
             cw_daily_minted = 0, cw_period_start = 0, cw_active = True\<rparr>)\<rparr>,
          (cw_action ''register_token'')
            \<lparr>cw_attrs := [(''action'', ''register_token''), (''denom'', denom)]\<rparr>)))"

definition cw_update_signers ::
    "cw_storage \<Rightarrow> cw_info \<Rightarrow> string list \<Rightarrow> u8 \<Rightarrow> cw_error + cw_storage \<times> cw_response" where
  "cw_update_signers s info signers threshold =
     and_then (cw_load_config s) (\<lambda>config.
     and_then (cw_require_admin config info) (\<lambda>_.
     Inr (s\<lparr>cw_CONFIG := Some (config\<lparr>cw_mpc_signers := signers, cw_threshold := threshold\<rparr>)\<rparr>,
          cw_action ''update_signers'')))"

definition cw_update_fee :: "cw_storage \<Rightarrow> cw_info \<Rightarrow> u64 \<Rightarrow> cw_error + cw_storage \<times> cw_response" where
  "cw_update_fee s info fee_bps =
     and_then (cw_load_config s) (\<lambda>config.
     and_then (cw_require_admin config info) (\<lambda>_.
     and_then (ensure (\<not> 500 < fee_bps) (Cw_generic_err ''Fee exceeds 5%'')) (\<lambda>_.
     Inr (s\<lparr>cw_CONFIG := Some (config\<lparr>cw_fee_bps := fee_bps\<rparr>)\<rparr>, cw_action ''update_fee''))))"

definition cw_pause :: "cw_storage \<Rightarrow> cw_info \<Rightarrow> cw_error + cw_storage \<times> cw_response" where
  "cw_pause s info =
     and_then (cw_load_config s) (\<lambda>config.
     and_then (cw_require_admin config info) (\<lambda>_.
     Inr (s\<lparr>cw_CONFIG := Some (config\<lparr>cw_paused := True\<rparr>)\<rparr>, cw_action ''pause'')))"

definition cw_unpause :: "cw_storage \<Rightarrow> cw_info \<Rightarrow> cw_error + cw_storage \<times> cw_response" where
  "cw_unpause s info =
     and_then (cw_load_config s) (\<lambda>config.
     and_then (cw_require_admin config info) (\<lambda>_.
     Inr (s\<lparr>cw_CONFIG := Some (config\<lparr>cw_paused := False\<rparr>)\<rparr>, cw_action ''unpause'')))"

fun cw_execute ::
    "cw_api \<Rightarrow> bool \<Rightarrow> cw_storage \<Rightarrow> cw_env \<Rightarrow> cw_info \<Rightarrow> cw_execute_msg \<Rightarrow>
      cw_error + cw_storage \<times> cw_response" where
  "cw_execute api oc s env info (Cw_LockAndBridge d r) = cw_lock_and_bridge api oc s info d r"
| "cw_execute api oc s env info (Cw_MintBridged c n r a denom sig pk) =
     cw_mint_bridged api oc env s c n r a denom sig pk"
| "cw_execute api oc s env info (Cw_BurnBridged d r denom a) = cw_burn_bridged api oc s info d r denom a"
| "cw_execute api oc s env info (Cw_Release c n r a denom sig pk) = cw_release api s c n r a denom sig pk"
| "cw_execute api oc s env info (Cw_RegisterToken denom native limit) =
     cw_register_token s info denom native limit"
| "cw_execute api oc s env info (Cw_UpdateSigners ks t) = cw_update_signers s info ks t"
| "cw_execute api oc s env info (Cw_UpdateFee f) = cw_update_fee s info f"
| "cw_execute api oc s env info Cw_Pause = cw_pause s info"
| "cw_execute api oc s env info Cw_Unpause = cw_unpause s info"

fun cw_query :: "cw_storage \<Rightarrow> cw_query_msg \<Rightarrow> cw_error + cw_answer" where
  "cw_query s Cw_QConfig = and_then (cw_load_config s) (\<lambda>c. Inr (Cw_config_is c))"
| "cw_query s (Cw_QTokenConfig denom) =
     and_then (ok_or (cw_TOKEN_CONFIGS s denom) Cw_not_found) (\<lambda>k. Inr (Cw_token_config_is k))"
| "cw_query s (Cw_QIsNonceProcessed c n) = Inr (Cw_bool_is (cw_nonce_processed s (c, n)))"
| "cw_query s Cw_QTotalLocked = and_then (cw_load_config s) (\<lambda>c. Inr (Cw_uint_is (cw_total_locked c)))"
| "cw_query s Cw_QTotalBurned = and_then (cw_load_config s) (\<lambda>c. Inr (Cw_uint_is (cw_total_burned c)))"

text \<open>A transaction: the entry point, then the messages it returned.\<close>

type_synonym cw_call = "cw_env \<times> cw_info \<times> cw_execute_msg"

definition cw_exec :: "cw_api \<Rightarrow> bool \<Rightarrow> cw_storage \<Rightarrow> cw_call \<Rightarrow> cw_error + cw_storage \<times> cw_response" where
  "cw_exec api oc s call =
     (let (env, info, msg) = call in
      and_then (cw_execute api oc s env info msg) (\<lambda>(s', out).
      and_then (ensure (\<forall>m \<in> set (cw_messages out). cw_bank env m) Cw_bank_refused) (\<lambda>_.
      Inr (s', out))))"

section \<open>Accepted calls\<close>

lemma cw_guards [accept]:
  "cw_load_config s = Inr c \<longleftrightarrow> cw_CONFIG s = Some c"
  "cw_require_admin c info = Inr u \<longleftrightarrow> cw_sender info = cw_admin c"
  by (simp_all add: cw_load_config_def cw_require_admin_def accept)

lemma uint_laws:
  assumes "uint128_documented api"
  shows "uint_add api a b = Some c \<longleftrightarrow> unat c = unat a + unat b"
    and "uint_checked_sub api a b = Some c \<longleftrightarrow> unat b \<le> unat a \<and> unat c = unat a - unat b"
    and "uint_multiply_ratio api a n 10000 = Some c \<longleftrightarrow> unat c = unat a * unat n div 10000"
  using assms by (auto simp: uint128_documented_def)

lemma cw_processed_upd [simp]:
  "cw_nonce_processed (s\<lparr>cw_PROCESSED_NONCES := (cw_PROCESSED_NONCES s)(key \<mapsto> True)\<rparr>) key'
     \<longleftrightarrow> key' = key \<or> cw_nonce_processed s key'"
  "cw_nonce_processed (s\<lparr>cw_TOKEN_CONFIGS := T,
      cw_PROCESSED_NONCES := (cw_PROCESSED_NONCES s)(key \<mapsto> True)\<rparr>) key'
     \<longleftrightarrow> key' = key \<or> cw_nonce_processed s key'"
  "cw_nonce_processed (s\<lparr>cw_CONFIG := C\<rparr>) key' \<longleftrightarrow> cw_nonce_processed s key'"
  "cw_nonce_processed (s\<lparr>cw_TOKEN_CONFIGS := T\<rparr>) key' \<longleftrightarrow> cw_nonce_processed s key'"
  by (simp_all add: cw_nonce_processed_def)

lemma cw_exec_accept [accept]:
  "cw_exec api oc s (env, info, msg) = Inr (s', out) \<longleftrightarrow>
     cw_execute api oc s env info msg = Inr (s', out) \<and> (\<forall>m \<in> set (cw_messages out). cw_bank env m)"
  by (auto simp: cw_exec_def accept)

lemma cw_lock_accept:
  assumes "cw_lock_and_bridge api oc s info d r = Inr (s', out)"
  obtains c coin fee amt locked nonce where "cw_CONFIG s = Some c" and "\<not> cw_paused c"
    and "cw_funds info = [coin]"
    and "uint_multiply_ratio api (cw_amount coin) (cw_fee_bps c) 10000 = Some fee"
    and "uint_checked_sub api (cw_amount coin) fee = Some amt"
    and "uint_add api (cw_total_locked c) amt = Some locked"
    and "add_op oc (cw_outbound_nonce c) 1 = Some nonce"
    and "s' = s\<lparr>cw_CONFIG := Some (c\<lparr>cw_total_locked := locked, cw_outbound_nonce := nonce\<rparr>)\<rparr>"
    and "out = \<lparr>cw_messages = [], cw_events = [\<lparr>cw_type = ''lock'', cw_attributes = [
            (''source_chain'', show_dec (unat (cw_chain_id c))),
            (''dest_chain'', show_dec (unat d)),
            (''nonce'', show_dec (unat nonce)),
            (''denom'', cw_denom coin),
            (''sender'', cw_sender info),
            (''recipient'', r),
            (''amount'', show_dec (unat amt)),
            (''fee'', show_dec (unat fee))]\<rparr>], cw_attrs = []\<rparr>"
proof -
  from assms have "length (cw_funds info) = 1"
    by (auto simp: cw_lock_and_bridge_def Let_def accept)
  then obtain coin where coin: "cw_funds info = [coin]" by (auto simp: length_Suc_conv)
  from assms show thesis
    by (auto simp: cw_lock_and_bridge_def Let_def accept coin intro: that [OF _ _ coin])
qed

lemma cw_burn_accept:
  assumes "cw_burn_bridged api oc s info d r denom a = Inr (s', out)"
  obtains c burned nonce where "cw_CONFIG s = Some c" and "\<not> cw_paused c"
    and "uint_add api (cw_total_burned c) a = Some burned"
    and "add_op oc (cw_outbound_nonce c) 1 = Some nonce"
    and "s' = s\<lparr>cw_CONFIG := Some (c\<lparr>cw_total_burned := burned, cw_outbound_nonce := nonce\<rparr>)\<rparr>"
    and "out = \<lparr>cw_messages = [Cw_Burn [\<lparr>cw_denom = denom, cw_amount = a\<rparr>]],
        cw_events = [\<lparr>cw_type = ''burn'', cw_attributes = [
            (''source_chain'', show_dec (unat (cw_chain_id c))),
            (''dest_chain'', show_dec (unat d)),
            (''nonce'', show_dec (unat nonce)),
            (''denom'', denom),
            (''sender'', cw_sender info),
            (''recipient'', r),
            (''amount'', show_dec (unat a))]\<rparr>], cw_attrs = []\<rparr>"
  using assms by (auto simp: cw_burn_bridged_def accept)

lemma cw_mint_accept:
  assumes "cw_mint_bridged api oc env s c n r a denom sig pk = Inr (s', out)"
  obtains cfg k k' addr sig_bytes pk_bytes where "cw_CONFIG s = Some cfg" and "\<not> cw_paused cfg"
    and "\<not> cw_nonce_processed s (c, n)" and "pk \<in> set (cw_mpc_signers cfg)"
    and "hex_decode api sig = Some sig_bytes" and "hex_decode api pk = Some pk_bytes"
    and "cw_ed25519_verify api (cw_build_mint_message c n r a) sig_bytes pk_bytes = Some True"
    and "cw_TOKEN_CONFIGS s denom = Some k"
    and "cw_check_daily_limit api oc k a (cw_seconds env) = Inr k'"
    and "addr_validate api r = Some addr"
    and "s' = s\<lparr>cw_TOKEN_CONFIGS := (cw_TOKEN_CONFIGS s)(denom \<mapsto> k'),
           cw_PROCESSED_NONCES := (cw_PROCESSED_NONCES s)((c, n) \<mapsto> True)\<rparr>"
    and "cw_messages out = [Cw_Send addr [\<lparr>cw_denom = denom, cw_amount = a\<rparr>]]"
  using assms by (auto simp: cw_mint_bridged_def Let_def accept)

lemma cw_release_accept:
  assumes "cw_release api s c n r a denom sig pk = Inr (s', out)"
  obtains cfg addr sig_bytes pk_bytes where "cw_CONFIG s = Some cfg" and "\<not> cw_paused cfg"
    and "\<not> cw_nonce_processed s (c, n)" and "pk \<in> set (cw_mpc_signers cfg)"
    and "hex_decode api sig = Some sig_bytes" and "hex_decode api pk = Some pk_bytes"
    and "cw_ed25519_verify api (cw_build_release_message c n r a) sig_bytes pk_bytes = Some True"
    and "addr_validate api r = Some addr"
    and "s' = s\<lparr>cw_PROCESSED_NONCES := (cw_PROCESSED_NONCES s)((c, n) \<mapsto> True)\<rparr>"
    and "cw_messages out = [Cw_Send addr [\<lparr>cw_denom = denom, cw_amount = a\<rparr>]]"
  using assms by (auto simp: cw_release_def Let_def accept)

text \<open>The calls of the administrator, with what each may change.\<close>

definition cw_is_admin_msg :: "cw_execute_msg \<Rightarrow> bool" where
  "cw_is_admin_msg m = (case m of Cw_RegisterToken _ _ _ \<Rightarrow> True | Cw_UpdateSigners _ _ \<Rightarrow> True
     | Cw_UpdateFee _ \<Rightarrow> True | Cw_Pause \<Rightarrow> True | Cw_Unpause \<Rightarrow> True | _ \<Rightarrow> False)"

definition cw_registers :: "cw_execute_msg \<Rightarrow> string \<Rightarrow> bool" where
  "cw_registers m d = (case m of Cw_RegisterToken denom _ _ \<Rightarrow> denom = d | _ \<Rightarrow> False)"

definition cw_installs :: "cw_execute_msg \<Rightarrow> string set" where
  "cw_installs m = (case m of Cw_UpdateSigners ks _ \<Rightarrow> set ks | _ \<Rightarrow> {})"

text \<open>The part of the configuration no message of the administrator touches.\<close>

definition cw_books :: "cw_config \<Rightarrow> string \<times> string \<times> u64 \<times> u64 \<times> u128 \<times> u128" where
  "cw_books c = (cw_admin c, cw_fee_collector c, cw_outbound_nonce c, cw_chain_id c,
     cw_total_locked c, cw_total_burned c)"

lemma cw_admin_accept:
  assumes "cw_execute api oc s env info m = Inr (s', out)" and "cw_is_admin_msg m"
  defines "c \<equiv> the (cw_CONFIG s)" and "c' \<equiv> the (cw_CONFIG s')"
  shows "cw_CONFIG s = Some c" and "cw_CONFIG s' = Some c'" and "cw_sender info = cw_admin c"
    and "cw_books c' = cw_books c"
    and "cw_fee_bps c' = cw_fee_bps c \<or> unat (cw_fee_bps c') \<le> 500"
    and "cw_PROCESSED_NONCES s' = cw_PROCESSED_NONCES s" and "cw_messages out = []"
    and "\<not> cw_registers m d \<Longrightarrow> cw_TOKEN_CONFIGS s' d = cw_TOKEN_CONFIGS s d"
    and "set (cw_mpc_signers c') \<subseteq> set (cw_mpc_signers c) \<union> cw_installs m"
  using assms(1,2)
  by (cases m; auto simp: cw_is_admin_msg_def cw_registers_def cw_installs_def cw_books_def c_def c'_def
      cw_register_token_def cw_update_signers_def cw_update_fee_def cw_pause_def cw_unpause_def
      cw_action_def accept word_less_nat_alt split: if_splits)+

section \<open>The contract implements the abstract bridge\<close>

definition cw_abs :: "cw_storage \<Rightarrow> (u64 \<times> u64, string, string) abs_bridge" where
  "cw_abs s = (let c = the (cw_CONFIG s) in
     \<lparr>a_admin = cw_admin c,
      a_signers = set (cw_mpc_signers c),
      a_fee = unat (cw_fee_bps c),
      a_paused = cw_paused c,
      a_nonce = unat (cw_outbound_nonce c),
      a_locked = unat (cw_total_locked c),
      a_burned = unat (cw_total_burned c),
      a_done = {key. cw_nonce_processed s key}\<rparr>)"

text \<open>What an observer of the chain reads in the event of a lock or burn.\<close>

definition cw_attr_num :: "string \<Rightarrow> cw_response \<Rightarrow> nat" where
  "cw_attr_num key out = dec_value (the (map_of (cw_attributes (hd (cw_events out))) key))"

fun cw_label :: "cw_call \<Rightarrow> cw_response \<Rightarrow> (u64 \<times> u64, string, string) blabel" where
  "cw_label (env, info, Cw_LockAndBridge d r) out =
     LLock (cw_attr_num ''nonce'' out) (cw_attr_num ''amount'' out) (cw_attr_num ''fee'' out)"
| "cw_label (env, info, Cw_MintBridged c n r a denom sig pk) out = LClaim (c, n) pk"
| "cw_label (env, info, Cw_BurnBridged d r denom a) out =
     LBurn (cw_attr_num ''nonce'' out) (cw_attr_num ''amount'' out)"
| "cw_label (env, info, Cw_Release c n r a denom sig pk) out = LClaim (c, n) pk"
| "cw_label (env, info, _) out = LConfig (cw_sender info)"

text \<open>
  The outbound counter is exact in a build with overflow checks, and in one without as
  long as it has not reached the end of \<^verbatim>\<open>u64\<close>.
\<close>

definition cw_counts :: "bool \<Rightarrow> cw_storage \<Rightarrow> bool" where
  "cw_counts oc s \<longleftrightarrow> oc \<or> Suc (unat (cw_outbound_nonce (the (cw_CONFIG s)))) < 2 ^ 64"

lemma cw_counts_step:
  assumes "cw_counts oc s" and "cw_CONFIG s = Some c" and "add_op oc (cw_outbound_nonce c) 1 = Some n"
  shows "unat n = Suc (unat (cw_outbound_nonce c))"
  using assms
  by (cases oc) (auto simp: cw_counts_def checked_ops add_op_def unat_word_ariths)

lemma cw_lock_step:
  assumes laws: "uint128_documented api" and counts: "cw_counts oc s"
    and "cw_lock_and_bridge api oc s info d r = Inr (s', out)"
  shows "bstep (cw_abs s) (cw_label (env, info, Cw_LockAndBridge d r) out) (cw_abs s')"
  using assms(3)
proof (rule cw_lock_accept)
  fix c coin fee amt locked nonce
  assume c: "cw_CONFIG s = Some c" "\<not> cw_paused c"
    and "uint_multiply_ratio api (cw_amount coin) (cw_fee_bps c) 10000 = Some fee"
    and "uint_checked_sub api (cw_amount coin) fee = Some amt"
    and "uint_add api (cw_total_locked c) amt = Some locked"
    and nonce: "add_op oc (cw_outbound_nonce c) 1 = Some nonce"
    and s': "s' = s\<lparr>cw_CONFIG := Some (c\<lparr>cw_total_locked := locked, cw_outbound_nonce := nonce\<rparr>)\<rparr>"
    and out: "out = \<lparr>cw_messages = [], cw_events = [\<lparr>cw_type = ''lock'', cw_attributes = [
            (''source_chain'', show_dec (unat (cw_chain_id c))),
            (''dest_chain'', show_dec (unat d)),
            (''nonce'', show_dec (unat nonce)),
            (''denom'', cw_denom coin),
            (''sender'', cw_sender info),
            (''recipient'', r),
            (''amount'', show_dec (unat amt)),
            (''fee'', show_dec (unat fee))]\<rparr>], cw_attrs = []\<rparr>"
  then have sums: "unat fee = unat (cw_amount coin) * unat (cw_fee_bps c) div 10000"
      "unat fee \<le> unat (cw_amount coin)" "unat amt = unat (cw_amount coin) - unat fee"
      "unat locked = unat (cw_total_locked c) + unat amt"
    by (auto simp: uint_laws [OF laws])
  note n = cw_counts_step [OF counts c(1) nonce]
  have "cw_abs s' = (cw_abs s)\<lparr>a_nonce := Suc (a_nonce (cw_abs s)),
      a_locked := a_locked (cw_abs s) + unat amt\<rparr>"
    by (simp add: cw_abs_def s' c sums n)
  moreover have "cw_label (env, info, Cw_LockAndBridge d r) out =
      LLock (Suc (a_nonce (cw_abs s))) (unat amt) (unat fee)"
    by (simp add: cw_abs_def out c n cw_attr_num_def)
  moreover have "unat fee = (unat amt + unat fee) * a_fee (cw_abs s) div 10000"
    using sums by (simp add: cw_abs_def c)
  moreover have "\<not> a_paused (cw_abs s)" by (simp add: cw_abs_def c)
  ultimately show ?thesis by (rule bstep_lockI)
qed

lemma cw_burn_step:
  assumes laws: "uint128_documented api" and counts: "cw_counts oc s"
    and "cw_burn_bridged api oc s info d r denom a = Inr (s', out)"
  shows "bstep (cw_abs s) (cw_label (env, info, Cw_BurnBridged d r denom a) out) (cw_abs s')"
  using assms(3)
proof (rule cw_burn_accept)
  fix c burned nonce
  assume c: "cw_CONFIG s = Some c" "\<not> cw_paused c"
    and "uint_add api (cw_total_burned c) a = Some burned"
    and nonce: "add_op oc (cw_outbound_nonce c) 1 = Some nonce"
    and s': "s' = s\<lparr>cw_CONFIG := Some (c\<lparr>cw_total_burned := burned, cw_outbound_nonce := nonce\<rparr>)\<rparr>"
    and out: "out = \<lparr>cw_messages = [Cw_Burn [\<lparr>cw_denom = denom, cw_amount = a\<rparr>]],
        cw_events = [\<lparr>cw_type = ''burn'', cw_attributes = [
            (''source_chain'', show_dec (unat (cw_chain_id c))),
            (''dest_chain'', show_dec (unat d)),
            (''nonce'', show_dec (unat nonce)),
            (''denom'', denom),
            (''sender'', cw_sender info),
            (''recipient'', r),
            (''amount'', show_dec (unat a))]\<rparr>], cw_attrs = []\<rparr>"
  then have sums: "unat burned = unat (cw_total_burned c) + unat a"
    by (simp add: uint_laws [OF laws])
  note n = cw_counts_step [OF counts c(1) nonce]
  have "cw_abs s' = (cw_abs s)\<lparr>a_nonce := Suc (a_nonce (cw_abs s)),
      a_burned := a_burned (cw_abs s) + unat a\<rparr>"
    by (simp add: cw_abs_def s' c sums n)
  moreover have "cw_label (env, info, Cw_BurnBridged d r denom a) out =
      LBurn (Suc (a_nonce (cw_abs s))) (unat a)"
    by (simp add: cw_abs_def out c n cw_attr_num_def)
  moreover have "\<not> a_paused (cw_abs s)" by (simp add: cw_abs_def c)
  ultimately show ?thesis by (rule bstep_burnI)
qed

lemma cw_claim_step:
  assumes "cw_CONFIG s = Some cfg" and "\<not> cw_paused cfg" and "pk \<in> set (cw_mpc_signers cfg)"
    and "\<not> cw_nonce_processed s key"
    and "cw_CONFIG s' = cw_CONFIG s" and "\<And>key'. cw_nonce_processed s' key' \<longleftrightarrow> key' = key \<or> cw_nonce_processed s key'"
  shows "bstep (cw_abs s) (LClaim key pk) (cw_abs s')"
proof -
  have "cw_abs s' = (cw_abs s)\<lparr>a_done := insert key (a_done (cw_abs s))\<rparr>"
    using assms(5,6) by (auto simp: cw_abs_def Let_def)
  then show ?thesis
    by (rule bstep_claimI) (use assms in \<open>simp_all add: cw_abs_def\<close>)
qed

lemma cw_admin_step:
  assumes "cw_execute api oc s env info m = Inr (s', out)" and "cw_is_admin_msg m"
  shows "bstep (cw_abs s) (LConfig (cw_sender info)) (cw_abs s')"
proof -
  note facts = cw_admin_accept [OF assms]
  obtain c' where c': "cw_CONFIG s' = Some c'" using facts(2) by simp
  have "cw_abs s' = (cw_abs s)\<lparr>a_paused := cw_paused c', a_signers := set (cw_mpc_signers c'),
      a_fee := unat (cw_fee_bps c')\<rparr>"
    using facts(4,6) c' by (simp add: cw_abs_def cw_books_def Let_def cw_nonce_processed_def)
  then show ?thesis
    by (rule bstep_configI) (use facts(3,5) c' in \<open>auto simp: cw_abs_def Let_def\<close>)
qed

lemma cw_exec_step:
  assumes laws: "uint128_documented api" and counts: "cw_counts oc s"
    and step: "cw_exec api oc s call = Inr (s', out)"
  shows "bstep (cw_abs s) (cw_label call out) (cw_abs s')"
proof (cases call)
  case (fields env info m)
  with step have m: "cw_execute api oc s env info m = Inr (s', out)" by (simp add: accept)
  show ?thesis
  proof (cases m)
    case (Cw_LockAndBridge d r)
    with m fields cw_lock_step [OF laws counts, of info d r] show ?thesis by simp
  next
    case (Cw_BurnBridged d r denom a)
    with m fields cw_burn_step [OF laws counts, of info d r denom a] show ?thesis by simp
  next
    case (Cw_MintBridged c n r a denom sig pk)
    with m have "cw_mint_bridged api oc env s c n r a denom sig pk = Inr (s', out)" by simp
    then show ?thesis
      by (rule cw_mint_accept) (simp add: fields Cw_MintBridged, rule cw_claim_step, simp_all)
  next
    case (Cw_Release c n r a denom sig pk)
    with m have "cw_release api s c n r a denom sig pk = Inr (s', out)" by simp
    then show ?thesis
      by (rule cw_release_accept) (simp add: fields Cw_Release, rule cw_claim_step, simp_all)
  qed (use cw_admin_step [OF m] fields in \<open>simp_all add: cw_is_admin_msg_def\<close>)
qed

section \<open>The two builds agree\<close>

text \<open>
  Block times count nanoseconds in a \<^verbatim>\<open>u64\<close>, so \<^verbatim>\<open>seconds()\<close> is at most
  \<open>cw_max_seconds\<close>. A storage whose periods started at such times and whose nonce is not
  exhausted behaves the same in a build with and without overflow checks.
\<close>

definition cw_max_seconds :: nat where "cw_max_seconds = 2 ^ 64 div 10 ^ 9"

definition cw_periods_ok :: "cw_storage \<Rightarrow> bool" where
  "cw_periods_ok s \<longleftrightarrow> (\<forall>d k. cw_TOKEN_CONFIGS s d = Some k \<longrightarrow> unat (cw_period_start k) \<le> cw_max_seconds)"

definition cw_ready :: "bool \<Rightarrow> cw_storage \<Rightarrow> cw_call list \<Rightarrow> bool" where
  "cw_ready oc s calls \<longleftrightarrow> oc \<or>
     unat (cw_outbound_nonce (the (cw_CONFIG s))) + length calls < 2 ^ 64 \<and> cw_periods_ok s \<and>
     (\<forall>(env, info, m) \<in> set calls. unat (cw_seconds env) \<le> cw_max_seconds)"

lemma cw_period_end:
  assumes "unat p \<le> cw_max_seconds"
  shows "add_op oc p 86400 = Some (p + 86400)" and "unat (p + 86400 :: u64) = unat p + 86400"
  using assms by (auto simp: add_op_def checked_add_def cw_max_seconds_def unat_word_ariths)

lemma cw_check_daily_limit_build:
  "unat (cw_period_start k) \<le> cw_max_seconds \<Longrightarrow>
     cw_check_daily_limit api oc k a now = cw_check_daily_limit api True k a now"
  unfolding cw_check_daily_limit_def by (simp only: cw_period_end(1))

lemma cw_check_daily_limit_start:
  "cw_check_daily_limit api oc k a now = Inr k' \<Longrightarrow> cw_period_start k' \<in> {cw_period_start k, now}"
  by (auto simp: cw_check_daily_limit_def Let_def accept split: if_splits)

lemma cw_execute_build:
  assumes "cw_counts False s" and "cw_periods_ok s"
  shows "cw_execute api oc s env info m = cw_execute api True s env info m"
proof (cases "cw_CONFIG s")
  case None
  then show ?thesis
    by (cases m) (simp_all add: cw_lock_and_bridge_def cw_burn_bridged_def cw_mint_bridged_def
        cw_load_config_def)
next
  case (Some c)
  with assms(1) have "add_op oc (cw_outbound_nonce c) 1 = checked_add (cw_outbound_nonce c) 1"
    by (auto simp: cw_counts_def add_op_def checked_add_def)
  then have "cw_lock_and_bridge api oc s info d r = cw_lock_and_bridge api True s info d r"
    and "cw_burn_bridged api oc s info d r denom a = cw_burn_bridged api True s info d r denom a"
    for d r denom a
    unfolding cw_lock_and_bridge_def cw_burn_bridged_def cw_load_config_def Some
    by (simp_all only: ok_or_simps and_then_simps op_checked)
  moreover have "cw_mint_bridged api oc env s c' n r a denom sig pk =
      cw_mint_bridged api True env s c' n r a denom sig pk" for c' n r a denom sig pk
  proof (cases "cw_TOKEN_CONFIGS s denom")
    case None
    then show ?thesis by (simp add: cw_mint_bridged_def)
  next
    case (Some k)
    with assms(2) have "unat (cw_period_start k) \<le> cw_max_seconds" by (simp add: cw_periods_ok_def)
    then have "cw_check_daily_limit api oc k a now = cw_check_daily_limit api True k a now" for now
      by (rule cw_check_daily_limit_build)
    then show ?thesis unfolding cw_mint_bridged_def Some by (simp only: ok_or_simps and_then_simps)
  qed
  ultimately show ?thesis by (cases m) simp_all
qed

lemma cw_execute_nonce:
  assumes "cw_execute api True s env info m = Inr (s', out)"
  shows "unat (cw_outbound_nonce (the (cw_CONFIG s'))) \<le> Suc (unat (cw_outbound_nonce (the (cw_CONFIG s))))"
proof (cases "cw_is_admin_msg m")
  case True
  from cw_admin_accept(4) [OF assms True] show ?thesis by (simp add: cw_books_def)
next
  case False
  with assms show ?thesis
    by (cases m) (auto simp: cw_is_admin_msg_def checked_ops
        elim!: cw_lock_accept cw_burn_accept cw_mint_accept cw_release_accept)
qed

lemma cw_execute_periods:
  assumes "cw_execute api oc s env info m = Inr (s', out)" and "cw_periods_ok s"
    and "unat (cw_seconds env) \<le> cw_max_seconds"
  shows "cw_periods_ok s'"
proof (cases m)
  case (Cw_MintBridged c n r a denom sig pk)
  with assms show ?thesis
    by (auto simp: cw_periods_ok_def elim!: cw_mint_accept
        dest!: cw_check_daily_limit_start split: if_splits)
qed (use assms in \<open>auto simp: cw_periods_ok_def cw_register_token_def cw_update_signers_def
      cw_update_fee_def cw_pause_def cw_unpause_def accept
      elim!: cw_lock_accept cw_burn_accept cw_release_accept split: if_splits\<close>)

lemma cw_ready_step:
  assumes "cw_ready oc s (call # calls)"
  shows "cw_exec api oc s call = cw_exec api True s call"
    and "cw_exec api True s call = Inr (s', out) \<Longrightarrow> cw_ready oc s' calls"
    and "cw_ready oc s calls"
proof -
  obtain env info m where call: "call = (env, info, m)" by (cases call)
  show "cw_ready oc s calls" using assms by (auto simp: cw_ready_def)
  show "cw_exec api oc s call = cw_exec api True s call"
  proof (cases oc)
    case False
    with assms have "cw_counts False s" "cw_periods_ok s"
      by (auto simp: cw_ready_def cw_counts_def)
    then show ?thesis by (simp add: cw_exec_def call cw_execute_build [of s api oc])
  qed simp
  assume "cw_exec api True s call = Inr (s', out)"
  then have "cw_execute api True s env info m = Inr (s', out)" by (simp add: call accept)
  from cw_execute_nonce [OF this] cw_execute_periods [OF this] assms show "cw_ready oc s' calls"
    by (auto simp: cw_ready_def call)
qed

interpretation cw_builds: agreeing_builds "cw_exec api oc" "cw_exec api True" "cw_ready oc" for api oc
  by unfold_locales (rule cw_ready_step; assumption)+

section \<open>Interfaces\<close>

text \<open>The claim a call presents, what signers vouch for, and what the contract pays.\<close>

datatype cw_claim = Cw_claim bool u64 u64 string u128

primrec cw_claim_key :: "cw_claim \<Rightarrow> u64 \<times> u64" where
  "cw_claim_key (Cw_claim is_mint c n r a) = (c, n)"

primrec cw_claim_amount :: "cw_claim \<Rightarrow> nat" where
  "cw_claim_amount (Cw_claim is_mint c n r a) = unat a"

primrec cw_claim_message :: "cw_claim \<Rightarrow> bytes" where
  "cw_claim_message (Cw_claim is_mint c n r a) =
     (if is_mint then cw_build_mint_message c n r a else cw_build_release_message c n r a)"

definition cw_content :: "cw_call \<Rightarrow> cw_claim option" where
  "cw_content call = (case call of (env, info, m) \<Rightarrow> (case m of
       Cw_MintBridged c n r a denom sig pk \<Rightarrow> Some (Cw_claim True c n r a)
     | Cw_Release c n r a denom sig pk \<Rightarrow> Some (Cw_claim False c n r a)
     | _ \<Rightarrow> None))"

definition cw_attests :: "cw_api \<Rightarrow> string \<Rightarrow> cw_claim \<Rightarrow> bool" where
  "cw_attests api pk m \<longleftrightarrow> (\<exists>sig pk_bytes. hex_decode api pk = Some pk_bytes \<and>
     cw_ed25519_verify api (cw_claim_message m) sig pk_bytes = Some True)"

primrec cw_paid :: "cw_msg \<Rightarrow> nat" where
  "cw_paid (Cw_Send who coins) = sum_list (map (unat \<circ> cw_amount) coins)"
| "cw_paid (Cw_Burn coins) = 0"

definition cw_outflow :: "cw_response \<Rightarrow> nat" where
  "cw_outflow out = sum_list (map cw_paid (cw_messages out))"

definition cw_rotates :: "cw_call \<Rightarrow> string set" where
  "cw_rotates call = (case call of (env, info, m) \<Rightarrow> cw_installs m)"

lemma cw_outflow_step:
  assumes "cw_exec api oc s call = Inr (s', out)"
  shows "cw_outflow out = 0 \<or> (\<exists>m g. cw_content call = Some m \<and>
    cw_label call out = LClaim (cw_claim_key m) g \<and> cw_attests api g m \<and> cw_outflow out = cw_claim_amount m)"
proof (cases call)
  case (fields env info m)
  with assms have step: "cw_execute api oc s env info m = Inr (s', out)" by (simp add: accept)
  show ?thesis
  proof (cases "cw_is_admin_msg m")
    case True
    from cw_admin_accept(7) [OF step True] show ?thesis by (simp add: cw_outflow_def)
  next
    case False
    with step show ?thesis
      by (cases m) (force simp: fields cw_is_admin_msg_def cw_outflow_def cw_content_def cw_attests_def
          elim!: cw_lock_accept cw_burn_accept cw_mint_accept cw_release_accept)+
  qed
qed

lemma cw_signers_step:
  assumes "cw_exec api oc s call = Inr (s', out)"
  shows "a_signers (cw_abs s') \<subseteq> a_signers (cw_abs s) \<union> cw_rotates call"
proof (cases call)
  case (fields env info m)
  with assms have step: "cw_execute api oc s env info m = Inr (s', out)" by (simp add: accept)
  show ?thesis
  proof (cases "cw_is_admin_msg m")
    case True
    from cw_admin_accept(9) [OF step True] show ?thesis
      by (simp add: fields cw_abs_def Let_def cw_rotates_def)
  next
    case False
    with step show ?thesis
      by (cases m) (auto simp: cw_is_admin_msg_def cw_abs_def Let_def
          elim!: cw_lock_accept cw_burn_accept cw_mint_accept cw_release_accept)
  qed
qed

interpretation cw: attested_bridge
  "cw_exec api True" cw_abs cw_label "\<lambda>_. uint128_documented api"
  cw_content cw_claim_key cw_claim_amount cw_outflow "cw_attests api" cw_rotates
  for api
proof unfold_locales
  fix s call s' out
  assume laws: "uint128_documented api" and step: "cw_exec api True s call = Inr (s', out)"
  show "bstep (cw_abs s) (cw_label call out) (cw_abs s')"
    by (rule cw_exec_step [OF laws _ step]) (simp add: cw_counts_def)
  show "cw_outflow out = 0 \<or> (\<exists>m g. cw_content call = Some m \<and>
      cw_label call out = LClaim (cw_claim_key m) g \<and> cw_attests api g m \<and>
      cw_outflow out = cw_claim_amount m)"
    by (rule cw_outflow_step [OF step])
  show "a_signers (cw_abs s') \<subseteq> a_signers (cw_abs s) \<union> cw_rotates call"
    by (rule cw_signers_step [OF step])
qed

text \<open>Replay protection needs neither the arithmetic nor the build.\<close>

definition cw_consumed :: "cw_call \<Rightarrow> cw_response \<Rightarrow> (u64 \<times> u64) option" where
  "cw_consumed call out = map_option cw_claim_key (cw_content call)"

interpretation cw_replay: replay_guard
  "cw_exec api oc" cw_consumed "\<lambda>s. {key. cw_nonce_processed s key}" "\<lambda>_. True"
  for api oc
proof unfold_locales
  fix s call s' out
  assume exec: "cw_exec api oc s call = Inr (s', out)"
  show "{key. cw_nonce_processed s' key} = {key. cw_nonce_processed s key} \<union> set_option (cw_consumed call out) \<and>
      set_option (cw_consumed call out) \<inter> {key. cw_nonce_processed s key} = {}"
  proof (cases call)
    case (fields env info m)
    with exec have step: "cw_execute api oc s env info m = Inr (s', out)" by (simp add: accept)
    show ?thesis
    proof (cases "cw_is_admin_msg m")
      case True
      from cw_admin_accept(6) [OF step True] True show ?thesis
        by (cases m) (simp_all add: fields cw_is_admin_msg_def cw_consumed_def cw_content_def
            cw_nonce_processed_def)
    next
      case False
      with step show ?thesis
        by (cases m) (auto simp: fields cw_is_admin_msg_def cw_consumed_def cw_content_def
            elim!: cw_lock_accept cw_burn_accept cw_mint_accept cw_release_accept)
    qed
  qed
qed simp

section \<open>The daily limit\<close>

definition cw_lim :: "cw_token_config \<Rightarrow> limiter" where
  "cw_lim k = \<lparr>lim_limit = unat (cw_daily_mint_limit k), lim_minted = unat (cw_daily_minted k),
     lim_start = uint (cw_period_start k)\<rparr>"

lemma cw_uint_add_None:
  fixes l :: u128
  assumes "uint128_documented api" and "uint_add api a b = None"
  shows "unat l < unat a + unat b"
proof -
  have "unat a + unat b \<ge> 2 ^ 128"
  proof (rule ccontr)
    assume "\<not> unat a + unat b \<ge> 2 ^ 128"
    then have "unat (a + b) = unat a + unat b" by (intro checked_add_fits(2)) simp
    with assms show False by (metis option.distinct(1) uint_laws(1))
  qed
  moreover have "unat l < 2 ^ 128" using unsigned_less [where 'a = nat, of l] by simp
  ultimately show ?thesis by linarith
qed

text \<open>
  The counter after the reset \<^verbatim>\<open>check_daily_limit\<close> may make, and the check as a function
  of it.
\<close>

definition cw_rolled :: "cw_token_config \<Rightarrow> u64 \<Rightarrow> cw_token_config" where
  "cw_rolled k now = (if uint (cw_period_start k) + 86400 \<le> uint now
     then k\<lparr>cw_daily_minted := 0, cw_period_start := now\<rparr> else k)"

lemma cw_period_over:
  assumes "unat p \<le> cw_max_seconds"
  shows "p + 86400 \<le> now \<longleftrightarrow> uint p + 86400 \<le> uint (now :: u64)"
proof -
  have "p + 86400 \<le> now \<longleftrightarrow> unat p + 86400 \<le> unat now"
    by (simp add: word_le_nat_alt cw_period_end [OF assms])
  then show ?thesis unfolding uint_nat by linarith
qed

lemma cw_check_daily_limit_rolled:
  assumes "unat (cw_period_start k) \<le> cw_max_seconds" and "cw_daily_mint_limit k \<noteq> 0"
  shows "cw_check_daily_limit api oc k a now =
    (case uint_add api (cw_daily_minted (cw_rolled k now)) a of
       None \<Rightarrow> Inl (Cw_panicked Arithmetic_overflow)
     | Some t \<Rightarrow> if t \<le> cw_daily_mint_limit k then Inr ((cw_rolled k now)\<lparr>cw_daily_minted := t\<rparr>)
         else Inl (Cw_generic_err ''Daily mint limit exceeded''))"
  using assms(2)
  by (simp add: cw_check_daily_limit_def cw_period_end(1) [OF assms(1)]
      cw_period_over [OF assms(1)] cw_rolled_def Let_def ensure_def split: option.split)

lemma cw_lim_rolled:
  "cw_daily_mint_limit k \<noteq> 0 \<Longrightarrow> limiter_next (uint now) amt (cw_lim k) =
     (if unat (cw_daily_minted (cw_rolled k now)) + amt \<le> unat (cw_daily_mint_limit k)
      then Some ((cw_lim (cw_rolled k now))\<lparr>lim_minted := unat (cw_daily_minted (cw_rolled k now)) + amt\<rparr>)
      else None)"
  by (auto simp: limiter_next_def cw_lim_def cw_rolled_def Let_def unat_eq_0)

lemma cw_limit_implements:
  assumes laws: "uint128_documented api" and start: "unat (cw_period_start k) \<le> cw_max_seconds"
  shows "(case cw_check_daily_limit api oc k a now of Inl e \<Rightarrow> None | Inr k' \<Rightarrow> Some (cw_lim k')) =
    limiter_next (uint now) (unat a) (cw_lim k)"
proof (cases "cw_daily_mint_limit k = 0")
  case True
  then show ?thesis by (simp add: cw_check_daily_limit_def limiter_next_def cw_lim_def)
next
  case False
  show ?thesis
  proof (cases "uint_add api (cw_daily_minted (cw_rolled k now)) a")
    case None
    from cw_uint_add_None [OF laws None, of "cw_daily_mint_limit k"] None show ?thesis
      by (simp add: cw_check_daily_limit_rolled [OF start False] cw_lim_rolled [OF False])
  next
    case (Some t)
    then have "unat t = unat (cw_daily_minted (cw_rolled k now)) + unat a"
      by (simp add: uint_laws [OF laws])
    then show ?thesis
      by (simp add: Some cw_check_daily_limit_rolled [OF start False] cw_lim_rolled [OF False]
          word_le_nat_alt) (simp add: cw_lim_def)
  qed
qed

text \<open>The contract as a machine with a limiter per denomination.\<close>

definition cw_limiter_of :: "string \<Rightarrow> cw_storage \<Rightarrow> limiter option" where
  "cw_limiter_of d s = map_option cw_lim (cw_TOKEN_CONFIGS s d)"

definition cw_spent :: "string \<Rightarrow> cw_call \<Rightarrow> cw_response \<Rightarrow> nat option" where
  "cw_spent d call out = (case call of (env, info, m) \<Rightarrow> (case m of
     Cw_MintBridged c n r a denom sig pk \<Rightarrow> if denom = d then Some (unat a) else None | _ \<Rightarrow> None))"

definition cw_clock :: "cw_call \<Rightarrow> int" where
  "cw_clock call = (case call of (env, info, m) \<Rightarrow> uint (cw_seconds env))"

definition cw_quiet :: "string \<Rightarrow> cw_call \<Rightarrow> bool" where
  "cw_quiet d call = (case call of (env, info, m) \<Rightarrow>
     \<not> cw_registers m d \<and> unat (cw_seconds env) \<le> cw_max_seconds)"

lemma cw_limiter_step:
  assumes laws: "uint128_documented api" and periods: "cw_periods_ok s"
    and exec: "cw_exec api oc s call = Inr (s', out)" and quiet: "cw_quiet d call"
    and lim: "cw_limiter_of d s = Some k"
  shows "cw_limiter_of d s' = (case cw_spent d call out of None \<Rightarrow> Some k
      | Some a \<Rightarrow> limiter_next (cw_clock call) a k)" and "cw_limiter_of d s' \<noteq> None"
proof -
  obtain env info m where call: "call = (env, info, m)" by (cases call)
  with exec have step: "cw_execute api oc s env info m = Inr (s', out)" by (simp add: accept)
  have "cw_limiter_of d s' = (case cw_spent d call out of None \<Rightarrow> Some k
      | Some a \<Rightarrow> limiter_next (cw_clock call) a k) \<and> cw_limiter_of d s' \<noteq> None"
  proof (cases "cw_is_admin_msg m")
    case True
    with quiet call have "cw_TOKEN_CONFIGS s' d = cw_TOKEN_CONFIGS s d"
      by (intro cw_admin_accept(8) [OF step True]) (simp add: cw_quiet_def)
    with True lim show ?thesis
      by (cases m) (auto simp: call cw_is_admin_msg_def cw_limiter_of_def cw_spent_def)
  next
    case False
    show ?thesis
    proof (cases m)
      case (Cw_MintBridged c n r a denom sig pk)
      with step have "cw_mint_bridged api oc env s c n r a denom sig pk = Inr (s', out)" by simp
      then show ?thesis
      proof (rule cw_mint_accept)
        fix t t' addr
        assume t: "cw_TOKEN_CONFIGS s denom = Some t"
          and check: "cw_check_daily_limit api oc t a (cw_seconds env) = Inr t'"
          and s': "s' = s\<lparr>cw_TOKEN_CONFIGS := (cw_TOKEN_CONFIGS s)(denom \<mapsto> t'),
             cw_PROCESSED_NONCES := (cw_PROCESSED_NONCES s)((c, n) \<mapsto> True)\<rparr>"
        have "unat (cw_period_start t) \<le> cw_max_seconds"
          using periods t by (simp add: cw_periods_ok_def)
        from cw_limit_implements [OF laws this, of oc a "cw_seconds env"] check lim t s' show ?thesis
          by (auto simp: call Cw_MintBridged cw_limiter_of_def cw_spent_def cw_clock_def)
      qed
    qed (use step False lim in \<open>auto simp: call cw_is_admin_msg_def cw_limiter_of_def cw_spent_def
        elim!: cw_lock_accept cw_burn_accept cw_release_accept\<close>)
  qed
  then show "cw_limiter_of d s' = (case cw_spent d call out of None \<Rightarrow> Some k
      | Some a \<Rightarrow> limiter_next (cw_clock call) a k)" and "cw_limiter_of d s' \<noteq> None"
    by blast+
qed

interpretation cw_rate: rate_limited
  "cw_exec api oc" "cw_limiter_of d" "cw_spent d" cw_clock "cw_quiet d"
  "\<lambda>s. uint128_documented api \<and> cw_periods_ok s"
  for api oc d
proof unfold_locales
  fix s call s' out
  assume wf: "uint128_documented api \<and> cw_periods_ok s"
    and exec: "cw_exec api oc s call = Inr (s', out)" and quiet: "cw_quiet d call"
  show "uint128_documented api \<and> cw_periods_ok s'"
    using wf exec quiet
    by (cases call) (auto simp: cw_quiet_def accept dest: cw_execute_periods)
  fix k
  assume "cw_limiter_of d s = Some k"
  with wf exec quiet
  show "cw_limiter_of d s' = (case cw_spent d call out of None \<Rightarrow> Some k
      | Some a \<Rightarrow> limiter_next (cw_clock call) a k) \<and> cw_limiter_of d s' \<noteq> None"
    using cw_limiter_step by blast
qed

text \<open>Registering a denomination anew replaces its limiter by a fresh one.\<close>

definition cw_renews :: "string \<Rightarrow> cw_call \<Rightarrow> limiter option" where
  "cw_renews d call = (case call of (env, info, m) \<Rightarrow> (case m of
     Cw_RegisterToken denom native limit \<Rightarrow> if denom = d
       then Some \<lparr>lim_limit = unat limit, lim_minted = 0, lim_start = 0\<rparr> else None
   | _ \<Rightarrow> None))"

definition cw_dated :: "cw_call \<Rightarrow> bool" where
  "cw_dated call = (case call of (env, info, m) \<Rightarrow> unat (cw_seconds env) \<le> cw_max_seconds)"

lemma cw_no_limiter:
  assumes exec: "cw_exec api oc s call = Inr (s', out)" and quiet: "cw_quiet d call"
    and none: "cw_limiter_of d s = None"
  shows "cw_limiter_of d s' = None \<and> cw_spent d call out = None"
proof -
  obtain env info m where call: "call = (env, info, m)" by (cases call)
  with exec have step: "cw_execute api oc s env info m = Inr (s', out)" by (simp add: accept)
  show ?thesis
  proof (cases "cw_is_admin_msg m")
    case True
    with quiet call have "cw_TOKEN_CONFIGS s' d = cw_TOKEN_CONFIGS s d"
      by (intro cw_admin_accept(8) [OF step True]) (simp add: cw_quiet_def)
    with True none show ?thesis
      by (cases m) (auto simp: call cw_is_admin_msg_def cw_limiter_of_def cw_spent_def)
  next
    case False
    with step none show ?thesis
      by (cases m) (auto simp: call cw_is_admin_msg_def cw_limiter_of_def cw_spent_def
        elim!: cw_lock_accept cw_burn_accept cw_release_accept cw_mint_accept)
  qed
qed

interpretation cw_renewal: renewable_limit
  "cw_exec api oc" "cw_limiter_of d" "cw_spent d" cw_clock "cw_quiet d"
  "\<lambda>s. uint128_documented api \<and> cw_periods_ok s" "cw_renews d" cw_dated
  for api oc d
proof unfold_locales
  fix call
  assume "cw_dated call" and "cw_renews d call = None"
  then show "cw_quiet d call"
    by (auto simp: cw_dated_def cw_renews_def cw_quiet_def cw_registers_def
        split: prod.splits cw_execute_msg.splits if_splits)
next
  fix s call s' out k
  assume wf: "uint128_documented api \<and> cw_periods_ok s" and exec: "cw_exec api oc s call = Inr (s', out)"
    and "cw_dated call" and renews: "cw_renews d call = Some k"
  then have "cw_periods_ok s'"
    by (cases call) (auto simp: cw_dated_def accept dest: cw_execute_periods)
  with wf exec renews show "(uint128_documented api \<and> cw_periods_ok s') \<and> cw_limiter_of d s' = Some k \<and>
      cw_spent d call out = None \<and> lim_minted k = 0 \<and> lim_start k = 0"
    by (auto simp: cw_renews_def cw_spent_def cw_limiter_of_def cw_lim_def cw_register_token_def accept
        split: prod.splits cw_execute_msg.splits if_splits)
next
  fix s call s' out
  assume "cw_exec api oc s call = Inr (s', out)" and "cw_quiet d call" and "cw_limiter_of d s = None"
  then show "cw_limiter_of d s' = None \<and> cw_spent d call out = None" by (rule cw_no_limiter)
qed

section \<open>Guarded configuration\<close>

definition cw_settings :: "cw_storage \<Rightarrow> (string \<times> string list \<times> u8 \<times> u64 \<times> bool \<times> string \<times> u64) option" where
  "cw_settings s = map_option (\<lambda>c. (cw_admin c, cw_mpc_signers c, cw_threshold c, cw_fee_bps c,
     cw_paused c, cw_fee_collector c, cw_chain_id c)) (cw_CONFIG s)"

definition cw_from_admin :: "(string \<times> 'a) option \<Rightarrow> cw_call \<Rightarrow> bool" where
  "cw_from_admin settings call = (case call of (env, info, m) \<Rightarrow>
     settings \<noteq> None \<and> cw_sender info = fst (the settings))"

interpretation cw_guard: guarded_config "cw_exec api oc" cw_settings cw_from_admin
  for api oc
proof unfold_locales
  fix s call s' out
  assume exec: "cw_exec api oc s call = Inr (s', out)" and other: "\<not> cw_from_admin (cw_settings s) call"
  obtain env info m where call: "call = (env, info, m)" by (cases call)
  with exec have step: "cw_execute api oc s env info m = Inr (s', out)" by (simp add: accept)
  have "\<not> cw_is_admin_msg m"
  proof
    assume "cw_is_admin_msg m"
    from cw_admin_accept(1,3) [OF step this] other show False
      by (cases "cw_CONFIG s") (simp_all add: call cw_from_admin_def cw_settings_def)
  qed
  with step show "cw_settings s' = cw_settings s"
    by (cases m) (auto simp: cw_is_admin_msg_def cw_settings_def
        elim!: cw_lock_accept cw_burn_accept cw_mint_accept cw_release_accept)
qed

section \<open>The signed messages\<close>

lemma cw_mint_release_differ:
  "cw_build_mint_message c n r a \<noteq> cw_build_release_message c' n' r' a'"
  by (simp add: cw_build_mint_message_def cw_build_release_message_def str_bytes_def)

lemma cw_messages_inject:
  "cw_build_mint_message c n r a = cw_build_mint_message c' n' r' a' \<longleftrightarrow>
     c = c' \<and> n = n' \<and> r = r' \<and> a = a'"
  "cw_build_release_message c n r a = cw_build_release_message c' n' r' a' \<longleftrightarrow>
     c = c' \<and> n = n' \<and> r = r' \<and> a = a'"
  "cw_build_mint_message c n r a \<noteq> cw_build_release_message c' n' r' a'"
  "cw_build_release_message c n r a \<noteq> cw_build_mint_message c' n' r' a'"
  by (simp_all only: cw_build_mint_message_def cw_build_release_message_def layout_inject str_bytes_inject)
    (use cw_mint_release_differ [of c n r a c' n' r' a'] cw_mint_release_differ [of c' n' r' a' c n r a]
      in \<open>simp_all add: cw_build_mint_message_def cw_build_release_message_def\<close>)

section \<open>The denomination is not signed\<close>

lemma cw_release_any_denom:
  assumes "cw_release api s c n r a denom sig pk = Inr (s', out)"
  shows "\<exists>out' addr. cw_release api s c n r a denom' sig pk = Inr (s', out') \<and>
    cw_messages out = [Cw_Send addr [\<lparr>cw_denom = denom, cw_amount = a\<rparr>]] \<and>
    cw_messages out' = [Cw_Send addr [\<lparr>cw_denom = denom', cw_amount = a\<rparr>]]"
  using assms
  by (rule cw_release_accept) (simp add: cw_release_def cw_load_config_def Let_def)

lemma cw_mint_any_denom:
  assumes "cw_mint_bridged api oc env s c n r a denom sig pk = Inr (s', out)"
    and "cw_TOKEN_CONFIGS s denom' = Some k"
    and "cw_check_daily_limit api oc k a (cw_seconds env) = Inr k'"
  shows "\<exists>s'' out' addr. cw_mint_bridged api oc env s c n r a denom' sig pk = Inr (s'', out') \<and>
    cw_messages out = [Cw_Send addr [\<lparr>cw_denom = denom, cw_amount = a\<rparr>]] \<and>
    cw_messages out' = [Cw_Send addr [\<lparr>cw_denom = denom', cw_amount = a\<rparr>]]"
  using assms(1)
  by (rule cw_mint_accept) (simp add: cw_mint_bridged_def cw_load_config_def Let_def assms(2,3))

section \<open>A deployment the witnesses run\<close>

definition cw_demo_api :: cw_api where
  "cw_demo_api = \<lparr>uint_add = checked_add, uint_checked_sub = checked_sub,
     uint_multiply_ratio = (\<lambda>a n d. if unat a * unat n div unat d < 2 ^ 128
       then Some (of_nat (unat a * unat n div unat d)) else None),
     hex_decode = (\<lambda>s. Some (str_bytes s)),
     cw_ed25519_verify = (\<lambda>msg sig pk. Some (msg = cw_build_mint_message 1 7 ''bob'' 500 \<or>
        msg = cw_build_release_message 1 8 ''bob'' 300)),
     addr_validate = Some\<rparr>"

definition cw_demo_token :: cw_token_config where
  "cw_demo_token = \<lparr>cw_token_denom = ''uknt'', cw_is_native = True, cw_daily_mint_limit = 700,
     cw_daily_minted = 0, cw_period_start = 0, cw_active = True\<rparr>"

definition cw_demo :: cw_storage where
  "cw_demo = \<lparr>cw_CONFIG = Some \<lparr>cw_admin = ''admin'', cw_mpc_signers = [''ab''], cw_threshold = 2,
       cw_fee_bps = 100, cw_fee_collector = ''admin'', cw_paused = False, cw_outbound_nonce = 0,
       cw_chain_id = 118, cw_total_locked = 0, cw_total_burned = 0\<rparr>,
     cw_TOKEN_CONFIGS = [''uknt'' \<mapsto> cw_demo_token],
     cw_PROCESSED_NONCES = Map.empty\<rparr>"

definition cw_demo_env :: "u64 \<Rightarrow> cw_env" where
  "cw_demo_env now = \<lparr>cw_seconds = now, cw_bank = (\<lambda>_. True)\<rparr>"

definition cw_demo_info :: "string \<Rightarrow> cw_coin list \<Rightarrow> cw_info" where
  "cw_demo_info who coins = \<lparr>cw_sender = who, cw_funds = coins\<rparr>"

definition cw_demo_mint :: cw_call where
  "cw_demo_mint = (cw_demo_env 100000, cw_demo_info ''relayer'' [],
     Cw_MintBridged 1 7 ''bob'' 500 ''uknt'' ''cd'' ''ab'')"

lemma uint128_demo: "uint128_documented cw_demo_api"
proof -
  have "(if q < 2 ^ 128 then Some (of_nat q) else None) = Some (c :: u128) \<longleftrightarrow> unat c = q" for q c
    using unsigned_less [where 'a = nat, of c] by (auto simp: unat_of_nat)
  then show ?thesis
    by (simp add: uint128_documented_def cw_demo_api_def checked_ops)
qed

lemma uint128_demo_update:
  "uint128_documented (cw_demo_api\<lparr>cw_ed25519_verify := f\<rparr>)"
  using uint128_demo by (simp add: uint128_documented_def)

lemma cw_demo_ready: "cw_periods_ok cw_demo"
  by (simp add: cw_periods_ok_def cw_demo_def cw_demo_token_def cw_max_seconds_def)

lemma cw_demo_mint_accepted:
  "\<exists>out. cw_exec cw_demo_api oc cw_demo cw_demo_mint =
     Inr (cw_demo\<lparr>cw_TOKEN_CONFIGS := [''uknt'' \<mapsto>
            cw_demo_token\<lparr>cw_daily_minted := 500, cw_period_start := 100000\<rparr>],
          cw_PROCESSED_NONCES := [(1, 7) \<mapsto> True]\<rparr>, out) \<and>
     cw_messages out = [Cw_Send ''bob'' [\<lparr>cw_denom = ''uknt'', cw_amount = 500\<rparr>]]"
  by (simp add: cw_exec_def cw_demo_mint_def cw_mint_bridged_def cw_demo_def cw_demo_token_def
      cw_demo_api_def cw_demo_env_def cw_demo_info_def cw_load_config_def cw_nonce_processed_def
      cw_check_daily_limit_def add_op_def checked_add_def Let_def)

section \<open>Properties\<close>

text \<open>C2: The CosmWasm contract pays out on attestations only, in either build: over any
  sequence of transactions the number of units it sends is at most the sum of the amounts
  of the claims that a trusted key signed and that were not used before, each claim counted
  once, if every key the administrator installs is trusted.\<close>

theorem cw_payouts_attested:
  assumes "uint128_documented api" and ready: "cw_ready oc s calls"
    and "set (cw_mpc_signers (the (cw_CONFIG s))) \<subseteq> H"
    and "\<forall>call \<in> set calls. cw_rotates call \<subseteq> H"
    and "finite M" and "\<forall>g m. g \<in> H \<longrightarrow> cw_attests api g m \<longrightarrow> m \<in> M"
  shows "sum_list (map (\<lambda>(call, out). cw_outflow out) (exec_trace (cw_exec api oc) s calls))
    \<le> (\<Sum>m | m \<in> M \<and> \<not> cw_nonce_processed s (cw_claim_key m). cw_claim_amount m)"
  using cw.payouts.outflow_bounded [of api s H calls M] cw_builds.builds_agree [OF ready, where api = api] assms
  by (simp add: cw_abs_def Let_def)

theorem cw_payouts_attested_witness:
  "sum_list (map (\<lambda>(call, out). cw_outflow out)
     (exec_trace (cw_exec cw_demo_api False) cw_demo [cw_demo_mint, cw_demo_mint])) \<le> 800"
proof -
  let ?M = "{Cw_claim True 1 7 ''bob'' 500, Cw_claim False 1 8 ''bob'' 300}"
  have "cw_attests cw_demo_api g m \<Longrightarrow> m \<in> ?M" for g m
    by (cases m) (auto simp: cw_attests_def cw_demo_api_def cw_messages_inject split: if_splits)
  moreover have "cw_ready False cw_demo [cw_demo_mint, cw_demo_mint]"
    using cw_demo_ready
    by (simp add: cw_ready_def cw_demo_mint_def cw_demo_env_def cw_max_seconds_def, simp add: cw_demo_def)
  ultimately have "sum_list (map (\<lambda>(call, out). cw_outflow out)
      (exec_trace (cw_exec cw_demo_api False) cw_demo [cw_demo_mint, cw_demo_mint]))
    \<le> (\<Sum>m | m \<in> ?M \<and> \<not> cw_nonce_processed cw_demo (cw_claim_key m). cw_claim_amount m)"
    by (intro cw_payouts_attested [where H = "{''ab''}"] uint128_demo)
      (auto simp: cw_rotates_def cw_demo_mint_def cw_installs_def cw_demo_def)
  also have "{m. m \<in> ?M \<and> \<not> cw_nonce_processed cw_demo (cw_claim_key m)} = ?M"
    by (auto simp: cw_nonce_processed_def cw_demo_def)
  finally show ?thesis by simp
qed

text \<open>C11: Every transaction the CosmWasm contract accepts is a step of the abstract bridge,
  read off the numbers in its events: exact amount and fee of a lock, the next outbound
  nonce, a fresh inbound nonce under a listed key, configuration by the administrator. It
  holds with overflow checks, and without them until the last \<^verbatim>\<open>u64\<close> nonce is used.\<close>

theorem cw_refines_bridge:
  assumes "uint128_documented api" and "cw_counts oc s"
    and "cw_exec api oc s call = Inr (s', out)"
  shows "bstep (cw_abs s) (cw_label call out) (cw_abs s')"
  using assms by (rule cw_exec_step)

theorem cw_refines_bridge_witness:
  "\<exists>s'. bstep (cw_abs cw_demo) (LClaim (1, 7) ''ab'') (cw_abs s')"
proof -
  obtain s' out where step: "cw_exec cw_demo_api False cw_demo cw_demo_mint = Inr (s', out)"
    using cw_demo_mint_accepted [of False] by blast
  have "cw_counts False cw_demo" by (simp add: cw_counts_def cw_demo_def)
  from cw_refines_bridge [OF uint128_demo this step] show ?thesis
    by (auto simp: cw_demo_mint_def)
qed

text \<open>C17: The CosmWasm contract never pays twice for an inbound (source chain, nonce) pair,
  whatever the crates it calls do and in either build: over any sequence of transactions
  the pairs of the accepted mints and releases are distinct, were not processed before, and
  are processed after, with nothing else.\<close>

theorem cw_replay_protected:
  fixes s calls api oc
  defines "keys \<equiv> List.map_filter (\<lambda>(call, out). cw_consumed call out) (exec_trace (cw_exec api oc) s calls)"
  shows "distinct keys \<and> (\<forall>key \<in> set keys. \<not> cw_nonce_processed s key) \<and>
    (\<forall>key. cw_nonce_processed (exec_final (cw_exec api oc) s calls) key \<longleftrightarrow>
       cw_nonce_processed s key \<or> key \<in> set keys)"
  using cw_replay.consumed_once [where s = s and api = api and oc = oc and cs = calls]
  unfolding keys_def by blast

theorem cw_replay_protected_witness:
  "\<not> cw_nonce_processed cw_demo (1, 7) \<and>
   cw_nonce_processed (exec_final (cw_exec cw_demo_api False) cw_demo [cw_demo_mint]) (1, 7)"
proof -
  obtain s' out where step: "cw_exec cw_demo_api False cw_demo cw_demo_mint = Inr (s', out)"
    using cw_demo_mint_accepted [of False] by blast
  then have "List.map_filter (\<lambda>(call, out). cw_consumed call out)
      (exec_trace (cw_exec cw_demo_api False) cw_demo [cw_demo_mint]) = [(1, 7)]"
    by (simp add: List.map_filter_simps cw_consumed_def cw_content_def cw_demo_mint_def)
  with cw_replay_protected [of cw_demo_api False cw_demo "[cw_demo_mint]"] show ?thesis by simp
qed

text \<open>C21: \<^verbatim>\<open>check_daily_limit\<close> is the abstract limiter: it accepts exactly the amounts that
  fit, counts them, starts a new period at the first mint a day or more after the last
  start, and no overflow check can reject an amount that fits.\<close>

theorem cw_daily_limit_exact:
  assumes "uint128_documented api" and "unat (cw_period_start k) \<le> cw_max_seconds"
  shows "(case cw_check_daily_limit api oc k a now of Inl e \<Rightarrow> None | Inr k' \<Rightarrow> Some (cw_lim k')) =
    limiter_next (uint now) (unat a) (cw_lim k)"
  using assms by (rule cw_limit_implements)

theorem cw_daily_limit_exact_witness:
  "\<exists>e. cw_check_daily_limit cw_demo_api False cw_demo_token 701 100000 = Inl e"
proof -
  have "(case cw_check_daily_limit cw_demo_api False cw_demo_token 701 100000 of
      Inl e \<Rightarrow> None | Inr k' \<Rightarrow> Some (cw_lim k')) = None"
    by (subst cw_daily_limit_exact [OF uint128_demo])
      (simp_all add: cw_demo_token_def cw_max_seconds_def cw_lim_def limiter_next_def)
  then show ?thesis
    by (cases "cw_check_daily_limit cw_demo_api False cw_demo_token 701 100000") simp_all
qed

text \<open>C19: The daily limit of a denomination bounds its mints over any 24 hours, aligned with
  the periods or not, and a registration of the denomination opens it once more: over any
  transactions in the order of their block times, registrations by the administrator
  included, what the contract mints of the denomination within a day from any moment is at
  most two limits, and one more for each time the denomination was registered within the
  day. The limit is the highest in force or registered, and none of them is zero, which the
  contract reads as no limit; block times are those a chain can have, and the day begins
  after the first of the clock (registrations date the period to its zero).\<close>

theorem cw_daily_window:
  assumes "uint128_documented api" and "cw_periods_ok s"
    and "sorted (map cw_clock calls)" and "\<forall>call \<in> set calls. cw_dated call" and "86400 \<le> T"
    and limits: "\<And>k. cw_TOKEN_CONFIGS s d = Some k \<Longrightarrow>
      0 < unat (cw_daily_mint_limit k) \<and> unat (cw_daily_mint_limit k) \<le> L"
    and registered: "\<And>env info native limit. (env, info, Cw_RegisterToken d native limit) \<in> set calls \<Longrightarrow>
      0 < unat limit \<and> unat limit \<le> L"
  shows "spent_in_day T (spendings (cw_exec api oc) (cw_spent d) cw_clock s calls)
    \<le> (2 + length (filter (\<lambda>((env, info, m), out). cw_registers m d \<and> in_day T (uint (cw_seconds env)))
        (exec_trace (cw_exec api oc) s calls))) * L"
proof -
  have "cw_renewal.within_in d L s"
    using limits by (auto simp: cw_renewal.within_in_def cw_limiter_of_def lim_within_def cw_lim_def
        split: option.splits)
  moreover have "\<forall>call \<in> set calls. cw_dated call \<and> (\<forall>k. cw_renews d call = Some k \<longrightarrow> lim_within L k)"
    using assms(4) registered by (force simp: cw_renews_def lim_within_def
        split: prod.splits cw_execute_msg.splits if_splits)
  moreover have "renewals_in_day T (cw_renews d) cw_clock es =
      length (filter (\<lambda>((env, info, m), out). cw_registers m d \<and> in_day T (uint (cw_seconds env))) es)"
    for es :: "(cw_call \<times> cw_response) list"
    unfolding renewals_in_day_def
    by (rule arg_cong [where f = length], rule filter_cong)
      (auto simp: cw_renews_def cw_registers_def cw_clock_def split: cw_execute_msg.splits if_splits)
  ultimately show ?thesis
    using cw_renewal.any_day_renewed [of api s d L calls T oc] assms(1-3,5) by simp
qed

text \<open>
  A mint of 500, a registration with a limit of 700 again, and a second mint of 500: the
  limit alone would have stopped it.
\<close>

definition cw_renewal_api :: cw_api where
  "cw_renewal_api = cw_demo_api\<lparr>cw_ed25519_verify := (\<lambda>_ _ _. Some True)\<rparr>"

definition cw_demo_renewal :: "cw_call list" where
  "cw_demo_renewal = [cw_demo_mint,
     (cw_demo_env 100001, cw_demo_info ''admin'' [], Cw_RegisterToken ''uknt'' True 700),
     (cw_demo_env 100002, cw_demo_info ''relayer'' [], Cw_MintBridged 1 8 ''bob'' 500 ''uknt'' ''cd'' ''ab'')]"

lemma cw_demo_renewal_trace:
  "\<exists>a b c. exec_trace (cw_exec cw_renewal_api False) cw_demo cw_demo_renewal =
     [(cw_demo_renewal ! 0, a), (cw_demo_renewal ! 1, b), (cw_demo_renewal ! 2, c)]"
  by (simp add: cw_demo_renewal_def cw_exec_def cw_demo_mint_def cw_mint_bridged_def cw_register_token_def
      cw_require_admin_def cw_action_def cw_renewal_api_def cw_demo_def cw_demo_token_def cw_demo_api_def
      cw_demo_env_def cw_demo_info_def cw_load_config_def cw_nonce_processed_def
      cw_check_daily_limit_def add_op_def checked_add_def Let_def)

theorem cw_daily_window_witness:
  "spent_in_day 100000 (spendings (cw_exec cw_renewal_api False) (cw_spent ''uknt'') cw_clock cw_demo
     cw_demo_renewal) = 1000 \<and>
   spent_in_day 100000 (spendings (cw_exec cw_renewal_api False) (cw_spent ''uknt'') cw_clock cw_demo
     cw_demo_renewal) \<le> 2100"
proof -
  have documented: "uint128_documented cw_renewal_api"
    by (simp add: cw_renewal_api_def uint128_demo_update)
  have limit: "\<And>k. cw_TOKEN_CONFIGS cw_demo ''uknt'' = Some k \<Longrightarrow>
      0 < unat (cw_daily_mint_limit k) \<and> unat (cw_daily_mint_limit k) \<le> 700"
    by (auto simp: cw_demo_def cw_demo_token_def)
  have "spent_in_day 100000 (spendings (cw_exec cw_renewal_api False) (cw_spent ''uknt'') cw_clock cw_demo
     cw_demo_renewal) \<le> (2 + length (filter (\<lambda>((env, info, m), out). cw_registers m ''uknt'' \<and>
        in_day 100000 (uint (cw_seconds env)))
        (exec_trace (cw_exec cw_renewal_api False) cw_demo cw_demo_renewal))) * 700"
    by (rule cw_daily_window [OF documented cw_demo_ready _ _ _ limit])
      (auto simp: cw_demo_renewal_def cw_dated_def cw_clock_def cw_demo_mint_def cw_demo_env_def cw_max_seconds_def)
  moreover obtain a b c where "exec_trace (cw_exec cw_renewal_api False) cw_demo cw_demo_renewal =
     [(cw_demo_renewal ! 0, a), (cw_demo_renewal ! 1, b), (cw_demo_renewal ! 2, c)]"
    using cw_demo_renewal_trace by blast
  ultimately show ?thesis
    by (simp add: spendings_def List.map_filter_simps cw_demo_renewal_def cw_spent_def cw_demo_mint_def
        cw_clock_def cw_demo_env_def in_day_def cw_registers_def)
qed

text \<open>C32: The denomination is no part of a signed CosmWasm message: whoever holds the
  attestation of a release can have the same number of units of any denomination the
  contract owns paid to the recipient, and the attestation of a mint serves for every
  registered denomination whose daily limit has room.\<close>

theorem cw_denom_substitution:
  "(cw_release api s c n r a denom sig pk = Inr (s', out) \<longrightarrow> (\<exists>out' addr.
      cw_release api s c n r a denom' sig pk = Inr (s', out') \<and>
      cw_messages out = [Cw_Send addr [\<lparr>cw_denom = denom, cw_amount = a\<rparr>]] \<and>
      cw_messages out' = [Cw_Send addr [\<lparr>cw_denom = denom', cw_amount = a\<rparr>]])) \<and>
   (cw_mint_bridged api oc env s c n r a denom sig pk = Inr (s', out) \<and>
    cw_TOKEN_CONFIGS s denom' = Some k \<and> cw_check_daily_limit api oc k a (cw_seconds env) = Inr k'
      \<longrightarrow> (\<exists>s'' out' addr.
      cw_mint_bridged api oc env s c n r a denom' sig pk = Inr (s'', out') \<and>
      cw_messages out = [Cw_Send addr [\<lparr>cw_denom = denom, cw_amount = a\<rparr>]] \<and>
      cw_messages out' = [Cw_Send addr [\<lparr>cw_denom = denom', cw_amount = a\<rparr>]]))"
  using cw_release_any_denom [of api s c n r a denom sig pk s' out denom']
    cw_mint_any_denom [of api oc env s c n r a denom sig pk s' out denom' k k']
  by blast

theorem cw_denom_substitution_witness:
  "\<exists>out'. cw_release cw_demo_api cw_demo 1 8 ''bob'' 300 ''uatom'' ''cd'' ''ab'' =
      Inr (cw_demo\<lparr>cw_PROCESSED_NONCES := [(1, 8) \<mapsto> True]\<rparr>, out') \<and>
    cw_messages out' = [Cw_Send ''bob'' [\<lparr>cw_denom = ''uatom'', cw_amount = 300\<rparr>]]"
proof -
  let ?out = "\<lparr>cw_messages = [Cw_Send ''bob'' [\<lparr>cw_denom = ''uknt'', cw_amount = 300\<rparr>]],
    cw_events = [\<lparr>cw_type = ''release'', cw_attributes = [
      (''source_chain'', show_dec (unat (1 :: u64))), (''nonce'', show_dec (unat (8 :: u64))),
      (''recipient'', ''bob''), (''amount'', show_dec (unat (300 :: u128)))]\<rparr>], cw_attrs = []\<rparr>"
  have "cw_release cw_demo_api cw_demo 1 8 ''bob'' 300 ''uknt'' ''cd'' ''ab'' =
      Inr (cw_demo\<lparr>cw_PROCESSED_NONCES := [(1, 8) \<mapsto> True]\<rparr>, ?out)"
    by (simp add: cw_release_def cw_demo_def cw_demo_api_def cw_load_config_def cw_nonce_processed_def Let_def)
  with cw_denom_substitution [of cw_demo_api cw_demo 1 8 "''bob''" 300 "''uknt''" "''cd''" "''ab''"
      "cw_demo\<lparr>cw_PROCESSED_NONCES := [(1, 8) \<mapsto> True]\<rparr>" ?out "''uatom''"]
  show ?thesis by fastforce
qed

text \<open>A burn on the CosmWasm contract needs no tokens: a caller who sends no funds at all
  has the contract burn its own holding of any denomination and announce, under the next
  outbound nonce, a burn of that amount to a recipient of the caller's choice, which is
  what the signers of the other chain release against.\<close>

lemma cw_burn_unfunded:
  assumes laws: "uint128_documented api" and "cw_CONFIG s = Some c" and "\<not> cw_paused c"
    and room: "unat (cw_total_burned c) + unat a < 2 ^ 128"
    and nonce: "Suc (unat (cw_outbound_nonce c)) < 2 ^ 64"
    and "cw_funds info = []" and bank: "cw_bank env (Cw_Burn [\<lparr>cw_denom = denom, cw_amount = a\<rparr>])"
  shows "\<exists>s' out. cw_exec api oc s (env, info, Cw_BurnBridged d r denom a) = Inr (s', out) \<and>
    cw_messages out = [Cw_Burn [\<lparr>cw_denom = denom, cw_amount = a\<rparr>]] \<and>
    cw_label (env, info, Cw_BurnBridged d r denom a) out =
      LBurn (Suc (unat (cw_outbound_nonce c))) (unat a) \<and>
    map_of (cw_attributes (hd (cw_events out))) ''recipient'' = Some r"
proof -
  have "unat (cw_total_burned c + a) = unat (cw_total_burned c) + unat a"
    using room by (intro checked_add_fits(2)) simp
  then have "uint_add api (cw_total_burned c) a = Some (cw_total_burned c + a)"
    by (simp add: uint_laws [OF laws])
  moreover have "add_op oc (cw_outbound_nonce c) 1 = Some (cw_outbound_nonce c + 1)"
    and "unat (cw_outbound_nonce c + 1) = Suc (unat (cw_outbound_nonce c))"
    using nonce by (auto simp: add_op_def checked_add_def unat_word_ariths)
  ultimately show ?thesis
    using assms by (simp add: cw_exec_def cw_burn_bridged_def cw_load_config_def cw_attr_num_def)
qed

lemma cw_burn_unfunded_demo:
  "\<exists>s' out. cw_exec cw_demo_api False cw_demo
      (cw_demo_env 1, cw_demo_info ''mallory'' [], Cw_BurnBridged 96369 ''mallory_evm'' ''uknt'' 10) = Inr (s', out) \<and>
    cw_label (cw_demo_env 1, cw_demo_info ''mallory'' [], Cw_BurnBridged 96369 ''mallory_evm'' ''uknt'' 10) out = LBurn 1 10"
  using cw_burn_unfunded [OF uint128_demo, of cw_demo "the (cw_CONFIG cw_demo)" 10
      "cw_demo_info ''mallory'' []" "cw_demo_env 1" "''uknt''" False 96369 "''mallory_evm''"]
  by (auto simp: cw_demo_def cw_demo_info_def cw_demo_env_def simp del: cw_label.simps)

text \<open>What a lock of one coin does at the rate in force, overflows apart.\<close>

lemma cw_lock_charges:
  assumes laws: "uint128_documented api" and c: "cw_CONFIG t = Some c" "\<not> cw_paused c"
    and funds: "cw_funds info = [coin]"
  defines "fee \<equiv> unat (cw_amount coin) * unat (cw_fee_bps c) div 10000"
  shows "case cw_exec api oc t (env, info, Cw_LockAndBridge d r) of
      Inr (t', out) \<Rightarrow> fee \<le> unat (cw_amount coin) \<and> cw_attr_num ''fee'' out = fee \<and>
        cw_attr_num ''amount'' out = unat (cw_amount coin) - fee
    | Inl e \<Rightarrow> unat (cw_amount coin) < fee \<or>
        2 ^ 128 \<le> unat (cw_total_locked c) + (unat (cw_amount coin) - fee) \<or>
        oc \<and> 2 ^ 64 \<le> Suc (unat (cw_outbound_nonce c))"
proof (cases "cw_exec api oc t (env, info, Cw_LockAndBridge d r)")
  case (Inr res)
  then have "cw_lock_and_bridge api oc t info d r = Inr (fst res, snd res)" by (cases res) (simp add: accept)
  then show ?thesis
    by (rule cw_lock_accept)
      (use Inr c(1) funds in \<open>auto simp: fee_def uint_laws [OF laws] cw_attr_num_def split: prod.splits\<close>)
next
  case (Inl e)
  have "\<exists>t' out. cw_exec api oc t (env, info, Cw_LockAndBridge d r) = Inr (t', out)"
    if le: "fee \<le> unat (cw_amount coin)"
      and sum: "unat (cw_total_locked c) + (unat (cw_amount coin) - fee) < 2 ^ 128"
      and nonce: "oc \<longrightarrow> Suc (unat (cw_outbound_nonce c)) < 2 ^ 64"
  proof -
    define f where "f = (of_nat fee :: u128)"
    define amt where "amt = (of_nat (unat (cw_amount coin) - fee) :: u128)"
    have small: "unat (cw_amount coin) < 2 ^ LENGTH(128)" by (rule unsigned_less)
    with le have f: "unat f = fee" by (simp add: f_def unat_of_nat)
    from small have amt: "unat amt = unat (cw_amount coin) - fee" by (simp add: amt_def unat_of_nat)
    have "uint_multiply_ratio api (cw_amount coin) (cw_fee_bps c) 10000 = Some f"
      using f by (simp add: uint_laws [OF laws] fee_def)
    moreover have "uint_checked_sub api (cw_amount coin) f = Some amt"
      using f amt le by (simp add: uint_laws [OF laws])
    moreover have "uint_add api (cw_total_locked c) amt = Some (cw_total_locked c + amt)"
      using checked_add_fits(2) [of "cw_total_locked c" amt] sum amt by (simp add: uint_laws [OF laws])
    moreover have "add_op oc (cw_outbound_nonce c) 1 = Some (cw_outbound_nonce c + 1)"
      using nonce by (cases oc) (simp_all add: add_op_def checked_add_def)
    ultimately show ?thesis
      using c funds by (simp add: cw_exec_def cw_lock_and_bridge_def cw_load_config_def Let_def)
  qed
  with Inl show ?thesis by force
qed

text \<open>C38: The fee cap of five percent is enforced by \<^verbatim>\<open>update_fee\<close> but not by
  \<^verbatim>\<open>instantiate\<close>: a contract can be instantiated with any rate, and over any transactions
  the administrator does not send it charges that rate in full. A lock whose fee is at most
  its amount is accepted, overflows of the total and the nonce apart, and announces that fee
  however far above the cap; one whose fee exceeds the amount is rejected, which from a rate
  of 20000 on is every lock of a non-zero amount.\<close>

theorem cw_overpriced_deployment:
  fixes msg :: cw_instantiate_msg
  assumes "uint128_documented api"
    and "\<forall>(env, info, m) \<in> set calls. cw_sender info \<noteq> cw_sender info0"
    and "cw_funds info = [coin]"
  defines "amount \<equiv> unat (cw_amount coin)" and "rate \<equiv> unat (cw_init_fee_bps msg)"
  shows "\<exists>s out0 t c. cw_instantiate s0 info0 msg = Inr (s, out0) \<and>
    t = exec_final (cw_exec api oc) s calls \<and> cw_CONFIG t = Some c \<and>
    (case cw_exec api oc t (env, info, Cw_LockAndBridge d r) of
       Inr (t', out) \<Rightarrow> amount * rate div 10000 \<le> amount \<and>
         cw_attr_num ''fee'' out = amount * rate div 10000 \<and>
         cw_attr_num ''amount'' out = amount - amount * rate div 10000 \<and>
         (20000 \<le> rate \<longrightarrow> amount = 0)
     | Inl e \<Rightarrow> amount < amount * rate div 10000 \<or>
         2 ^ 128 \<le> unat (cw_total_locked c) + (amount - amount * rate div 10000) \<or>
         oc \<and> 2 ^ 64 \<le> Suc (unat (cw_outbound_nonce c)))"
proof -
  obtain s out0 where init: "cw_instantiate s0 info0 msg = Inr (s, out0)"
    by (simp add: cw_instantiate_def)
  then have settings: "cw_settings s = Some (cw_sender info0, cw_init_signers msg, cw_init_threshold msg,
      cw_init_fee_bps msg, False, cw_sender info0, cw_init_chain_id msg)"
    by (auto simp: cw_instantiate_def cw_settings_def)
  let ?t = "exec_final (cw_exec api oc) s calls"
  have "cw_settings ?t = cw_settings s"
    by (rule cw_guard.config_constant) (use assms(2) settings in \<open>auto simp: cw_from_admin_def\<close>)
  with settings obtain c where c: "cw_CONFIG ?t = Some c" "\<not> cw_paused c" "cw_fee_bps c = cw_init_fee_bps msg"
    by (auto simp: cw_settings_def)
  have "amount = 0" if "20000 \<le> rate" and "amount * rate div 10000 \<le> amount"
  proof -
    have "amount * 2 \<le> amount * rate div 10000" using mult_le_mono2 [OF that(1), of amount] by linarith
    with that(2) show ?thesis by linarith
  qed
  with cw_lock_charges [OF assms(1) c(1,2) assms(3), of oc env d r]
  have "case cw_exec api oc ?t (env, info, Cw_LockAndBridge d r) of
       Inr (t', out) \<Rightarrow> amount * rate div 10000 \<le> amount \<and>
         cw_attr_num ''fee'' out = amount * rate div 10000 \<and>
         cw_attr_num ''amount'' out = amount - amount * rate div 10000 \<and>
         (20000 \<le> rate \<longrightarrow> amount = 0)
     | Inl e \<Rightarrow> amount < amount * rate div 10000 \<or>
         2 ^ 128 \<le> unat (cw_total_locked c) + (amount - amount * rate div 10000) \<or>
         oc \<and> 2 ^ 64 \<le> Suc (unat (cw_outbound_nonce c))"
    unfolding amount_def rate_def c(3) by (auto split: sum.splits)
  with init c(1) show ?thesis by blast
qed

theorem cw_overpriced_deployment_witness:
  "\<exists>s out0 t' out. cw_instantiate cw_demo (cw_demo_info ''admin'' [])
      \<lparr>cw_init_signers = [], cw_init_threshold = 0, cw_init_fee_bps = 9000, cw_init_chain_id = 118\<rparr> =
      Inr (s, out0) \<and>
    cw_exec cw_demo_api False s (cw_demo_env 1, cw_demo_info ''bob'' [\<lparr>cw_denom = ''uknt'', cw_amount = 1000\<rparr>],
      Cw_LockAndBridge 5 []) = Inr (t', out) \<and> cw_attr_num ''fee'' out = 900"
proof -
  let ?msg = "\<lparr>cw_init_signers = [], cw_init_threshold = 0, cw_init_fee_bps = 9000, cw_init_chain_id = 118\<rparr>"
  let ?info = "cw_demo_info ''bob'' [\<lparr>cw_denom = ''uknt'', cw_amount = 1000\<rparr>]"
  have funds: "cw_funds ?info = [\<lparr>cw_denom = ''uknt'', cw_amount = 1000\<rparr>]" by (simp add: cw_demo_info_def)
  have nobody: "\<forall>(env, info, m) \<in> set []. cw_sender info \<noteq> cw_sender (cw_demo_info ''admin'' [])" by simp
  from cw_overpriced_deployment [OF uint128_demo nobody funds, where msg = ?msg and ?s0.0 = cw_demo and oc = False
      and env = "cw_demo_env 1" and d = 5 and r = "[]"]
  show ?thesis
    by (auto simp: cw_instantiate_def split: sum.splits)
qed

end
