(* ===== verification/Solana_State.thy ===== *)
theory Solana_State
  imports Bridge_Bytes Bridge_Limits
begin

text \<open>
  The accounts of the Solana program, \<^verbatim>\<open>programs/solana-bridge/programs/knt-bridge/src\<close>:
  \<^verbatim>\<open>state/bridge_config.rs\<close>, \<^verbatim>\<open>state/token_config.rs\<close>, \<^verbatim>\<open>errors.rs\<close> and
  \<^verbatim>\<open>events.rs\<close>, with the methods of the account types and what makes them correct: the
  daily limit is the abstract limiter, the nonce bitmap is a set of nonces. The program's
  build profile switches overflow checks on.
\<close>

text \<open>
  A \<^verbatim>\<open>Pubkey\<close> is 32 bytes, here one word: \<^verbatim>\<open>as_ref()\<close> is \<open>to_le_bytes\<close> and
  \<^verbatim>\<open>Pubkey::from\<close> is \<open>from_le_bytes\<close>, inverse to each other.
\<close>

type_synonym pubkey = "256 word"

section \<open>Errors and events\<close>

datatype sol_bridge_error =
    Sol_Paused
  | Sol_InvalidSignature
  | Sol_NonceAlreadyProcessed
  | Sol_DailyMintLimitExceeded
  | Sol_UnauthorizedSigner
  | Sol_InvalidSourceChain
  | Sol_AmountTooSmall
  | Sol_FeeRateExceedsMax
  | Sol_TokenNotRegistered
  | Sol_InsufficientVaultBalance
  | Sol_Ed25519InstructionMissing
  | Sol_Ed25519VerificationFailed
  | Sol_Overflow
  | Sol_NoPendingRotation
  | Sol_TimelockNotElapsed

text \<open>
  What ends a transaction: an error of the program, an account constraint of Anchor, a
  failed call of the token program, a rejected signature-verification instruction, a panic.
\<close>

datatype sol_error =
    Bridge_error sol_bridge_error
  | Sol_constraint
  | Sol_cpi_failed
  | Sol_precompile_failed
  | Sol_panicked rust_panic

datatype sol_event =
    Sol_LockEvent u64 u64 u64 pubkey pubkey bytes u64 u64 i64
  | Sol_MintEvent u64 u64 pubkey pubkey u64 i64
  | Sol_BurnEvent u64 u64 u64 pubkey pubkey bytes u64 i64
  | Sol_ReleaseEvent u64 u64 pubkey pubkey u64 i64

section \<open>The bridge configuration\<close>

definition DEFAULT_ROTATION_DELAY :: int where "DEFAULT_ROTATION_DELAY = 24 * 60 * 60"
definition MAX_ROTATION_DELAY :: int where "MAX_ROTATION_DELAY = 7 * 24 * 60 * 60"

record sol_bridge_config =
  sol_admin :: pubkey
  sol_mpc_signers :: "pubkey list"
  sol_threshold :: u8
  sol_fee_bps :: u16
  sol_fee_collector :: pubkey
  sol_paused :: bool
  sol_outbound_nonce :: u64
  sol_chain_id :: u64
  sol_bump :: u8
  sol_rotation_delay :: i64
  sol_pending_signers :: "pubkey list"
  sol_pending_threshold :: u8
  sol_pending_signers_eta :: i64

definition BRIDGE_CONFIG_LEN :: nat where
  "BRIDGE_CONFIG_LEN = 8 + 32 + 32 * 3 + 1 + 2 + 32 + 1 + 8 + 8 + 1 + 8 + 32 * 3 + 1 + 8"

definition BRIDGE_CONFIG_SEED :: bytes where "BRIDGE_CONFIG_SEED = str_bytes ''bridge_config''"

definition default_pubkey :: pubkey where "default_pubkey = 0"

text \<open>The account Anchor creates: every field zero.\<close>

definition sol_zeroed_config :: sol_bridge_config where
  "sol_zeroed_config = \<lparr>sol_admin = default_pubkey, sol_mpc_signers = replicate 3 default_pubkey,
     sol_threshold = 0, sol_fee_bps = 0, sol_fee_collector = default_pubkey, sol_paused = False,
     sol_outbound_nonce = 0, sol_chain_id = 0, sol_bump = 0, sol_rotation_delay = 0,
     sol_pending_signers = replicate 3 default_pubkey, sol_pending_threshold = 0,
     sol_pending_signers_eta = 0\<rparr>"

definition sol_next_nonce :: "sol_bridge_config \<Rightarrow> sol_error + sol_bridge_config \<times> u64" where
  "sol_next_nonce c =
     (let nonce = sol_outbound_nonce c in
      and_then (ok_or (checked_add (sol_outbound_nonce c) 1) (Sol_panicked Arithmetic_overflow)) (\<lambda>n.
      Inr (c\<lparr>sol_outbound_nonce := n\<rparr>, nonce)))"

definition sol_has_pending_rotation :: "sol_bridge_config \<Rightarrow> bool" where
  "sol_has_pending_rotation c \<longleftrightarrow> 0 < sint (sol_pending_signers_eta c)"

lemma sol_next_nonce_Inr [accept]:
  "sol_next_nonce c = Inr (c', n) \<longleftrightarrow> n = sol_outbound_nonce c \<and>
     (\<exists>n'. unat n' = Suc (unat n) \<and> c' = c\<lparr>sol_outbound_nonce := n'\<rparr>)"
  by (auto simp: sol_next_nonce_def Let_def accept checked_ops)

section \<open>The token configuration\<close>

record sol_token_config =
  sol_mint :: pubkey
  sol_vault :: pubkey
  sol_wrapped_mint :: pubkey
  sol_is_native :: bool
  sol_daily_mint_limit :: u64
  sol_daily_minted :: u64
  sol_period_start :: i64
  sol_active :: bool
  sol_token_bump :: u8

definition TOKEN_CONFIG_LEN :: nat where
  "TOKEN_CONFIG_LEN = 8 + 32 + 32 + 32 + 1 + 8 + 8 + 8 + 1 + 1"

definition TOKEN_CONFIG_SEED :: bytes where "TOKEN_CONFIG_SEED = str_bytes ''token_config''"

definition sol_check_daily_limit :: "sol_token_config \<Rightarrow> u64 \<Rightarrow> i64 \<Rightarrow> sol_error + sol_token_config" where
  "sol_check_daily_limit k amount now =
     (if sol_daily_mint_limit k = 0 then Inr k
      else
        and_then (ok_or (signed_add (sol_period_start k) 86400) (Sol_panicked Arithmetic_overflow)) (\<lambda>period_end.
        let k' = (if period_end \<le>s now then k\<lparr>sol_daily_minted := 0, sol_period_start := now\<rparr> else k) in
        and_then (ok_or (checked_add (sol_daily_minted k') amount) (Bridge_error Sol_Overflow)) (\<lambda>new_total.
        and_then (ensure (\<not> sol_daily_mint_limit k' < new_total) (Bridge_error Sol_DailyMintLimitExceeded)) (\<lambda>_.
        Inr (k'\<lparr>sol_daily_minted := new_total\<rparr>)))))"

text \<open>The account as a limiter. The check is the limiter's step, except that it panics when
  the end of the period is past the last \<^verbatim>\<open>i64\<close>.\<close>

definition sol_lim :: "sol_token_config \<Rightarrow> limiter" where
  "sol_lim k = \<lparr>lim_limit = unat (sol_daily_mint_limit k), lim_minted = unat (sol_daily_minted k),
     lim_start = sint (sol_period_start k)\<rparr>"

definition sol_rolled :: "sol_token_config \<Rightarrow> i64 \<Rightarrow> sol_token_config" where
  "sol_rolled k now = (if sint (sol_period_start k) + 86400 \<le> sint now
     then k\<lparr>sol_daily_minted := 0, sol_period_start := now\<rparr> else k)"

lemma sol_check_daily_limit_rolled:
  assumes "sol_check_daily_limit k a now = Inr k'" and "sol_daily_mint_limit k \<noteq> 0"
  obtains t where "unat t = unat (sol_daily_minted (sol_rolled k now)) + unat a"
    and "unat t \<le> unat (sol_daily_mint_limit k)" and "k' = (sol_rolled k now)\<lparr>sol_daily_minted := t\<rparr>"
proof -
  have same: "sol_daily_mint_limit (if b then k\<lparr>sol_daily_minted := 0, sol_period_start := now\<rparr> else k) =
      sol_daily_mint_limit k" for b by simp
  from assms obtain pe t where "sint pe = sint (sol_period_start k) + 86400"
    and t: "checked_add (sol_daily_minted (if pe \<le>s now then k\<lparr>sol_daily_minted := 0, sol_period_start := now\<rparr> else k)) a = Some t"
    "\<not> sol_daily_mint_limit k < t"
    "k' = (if pe \<le>s now then k\<lparr>sol_daily_minted := 0, sol_period_start := now\<rparr> else k)\<lparr>sol_daily_minted := t\<rparr>"
    by (simp add: sol_check_daily_limit_def Let_def accept signed_ops same) blast
  then have "(if pe \<le>s now then k\<lparr>sol_daily_minted := 0, sol_period_start := now\<rparr> else k) = sol_rolled k now"
    by (simp add: sol_rolled_def word_sle_eq)
  with t show thesis
    by (intro that [of t]) (simp_all add: checked_ops word_less_nat_alt not_less)
qed

lemma sol_check_daily_limit_accept:
  assumes "sol_check_daily_limit k a now = Inr k'"
  shows "limiter_next (sint now) (unat a) (sol_lim k) = Some (sol_lim k')"
    and "sol_wrapped_mint k' = sol_wrapped_mint k" and "sol_active k' = sol_active k"
proof -
  have "limiter_next (sint now) (unat a) (sol_lim k) = Some (sol_lim k') \<and>
    sol_wrapped_mint k' = sol_wrapped_mint k \<and> sol_active k' = sol_active k"
  proof (cases "sol_daily_mint_limit k = 0")
    case True
    with assms show ?thesis
      by (simp add: sol_check_daily_limit_def limiter_next_def sol_lim_def)
  next
    case False
    with assms obtain t where t: "unat t = unat (sol_daily_minted (sol_rolled k now)) + unat a"
      "unat t \<le> unat (sol_daily_mint_limit k)" "k' = (sol_rolled k now)\<lparr>sol_daily_minted := t\<rparr>"
      by (rule sol_check_daily_limit_rolled)
    with False show ?thesis
      by (simp add: limiter_next_def sol_lim_def sol_rolled_def unat_eq_0 Let_def split: if_splits)
  qed
  then show "limiter_next (sint now) (unat a) (sol_lim k) = Some (sol_lim k')"
    and "sol_wrapped_mint k' = sol_wrapped_mint k" and "sol_active k' = sol_active k"
    by simp_all
qed

section \<open>The nonce bitmap\<close>

record sol_nonce_tracker =
  sol_source_chain_id :: u64
  sol_bitmap :: bytes
  sol_tracker_bump :: u8

definition NONCE_TRACKER_LEN :: nat where "NONCE_TRACKER_LEN = 8 + 8 + 1024 + 1"

definition NONCE_TRACKER_SEED :: bytes where "NONCE_TRACKER_SEED = str_bytes ''nonce_tracker''"

unbundle bit_operations_syntax

definition sol_is_processed :: "sol_nonce_tracker \<Rightarrow> u64 \<Rightarrow> bool" where
  "sol_is_processed t nonce =
     (let idx = unat nonce div 8; bit = unat nonce mod 8 in
      if idx \<ge> length (sol_bitmap t) then False
      else drop_bit bit (sol_bitmap t ! idx) AND 1 = 1)"

definition sol_mark_processed :: "sol_nonce_tracker \<Rightarrow> u64 \<Rightarrow> sol_error + sol_nonce_tracker" where
  "sol_mark_processed t nonce =
     (let idx = unat nonce div 8; bit = unat nonce mod 8 in
      if idx \<ge> length (sol_bitmap t) then Inl (Bridge_error Sol_Overflow)
      else Inr (t\<lparr>sol_bitmap := (sol_bitmap t)[idx := (sol_bitmap t ! idx) OR push_bit bit 1]\<rparr>))"

lemma drop_bit_and_one: "drop_bit n (w :: u8) AND 1 = 1 \<longleftrightarrow> bit w n"
  by (simp only: bit_iff_odd_drop_bit and_one_eq odd_iff_mod_2_eq_one)

lemma sol_is_processed_bit:
  "sol_is_processed t n \<longleftrightarrow> unat n div 8 < length (sol_bitmap t) \<and>
     bit (sol_bitmap t ! (unat n div 8)) (unat n mod 8)"
  unfolding sol_is_processed_def Let_def drop_bit_and_one by (simp add: not_le)

lemma sol_mark_processed_Inr [accept]:
  "sol_mark_processed t n = Inr t' \<longleftrightarrow> unat n div 8 < length (sol_bitmap t) \<and>
     t' = t\<lparr>sol_bitmap := (sol_bitmap t)[unat n div 8 :=
       (sol_bitmap t ! (unat n div 8)) OR push_bit (unat n mod 8) 1]\<rparr>"
  unfolding sol_mark_processed_def Let_def
  by (cases "unat n div 8 < length (sol_bitmap t)") (simp_all only: not_le if_True if_False
      not_less [symmetric] sum.inject sum.distinct simp_thms eq_commute [of t'])

lemma sol_mark_processed_sets:
  assumes "sol_mark_processed t n = Inr t'"
  shows "sol_is_processed t' m \<longleftrightarrow> m = n \<or> sol_is_processed t m"
    and "length (sol_bitmap t') = length (sol_bitmap t)" and "sol_tracker_bump t' = sol_tracker_bump t"
proof -
  from assms have t': "unat n div 8 < length (sol_bitmap t)"
    "t' = t\<lparr>sol_bitmap := (sol_bitmap t)[unat n div 8 :=
       (sol_bitmap t ! (unat n div 8)) OR push_bit (unat n mod 8) 1]\<rparr>"
    by (simp_all add: accept)
  have same: "m = n" if "unat m div 8 = unat n div 8" "unat m mod 8 = unat n mod 8"
    using that by (metis div_mult_mod_eq word_unat_eq_iff)
  show "sol_is_processed t' m \<longleftrightarrow> m = n \<or> sol_is_processed t m"
    using t' same by (auto simp: sol_is_processed_bit nth_list_update bit_or_iff bit_exp_iff)
  show "length (sol_bitmap t') = length (sol_bitmap t)" "sol_tracker_bump t' = sol_tracker_bump t"
    using t' by simp_all
qed

end
