(* ===== verification/Solana_Ed25519.thy ===== *)
theory Solana_Ed25519
  imports Solana_State
begin

text \<open>
  How the Solana program checks a signature: it does not verify one itself but reads the
  instruction before its own, which must be addressed to the native Ed25519 program, and
  compares the key and the message found there. The three checks of the source are here
  (\<^verbatim>\<open>verify_ed25519_signature\<close> of \<^verbatim>\<open>instructions/mint_bridged.rs\<close>,
  \<^verbatim>\<open>verify_release_signature\<close> of \<^verbatim>\<open>instructions/release.rs\<close>,
  \<^verbatim>\<open>verify_propose_signers_signature\<close> of \<^verbatim>\<open>instructions/admin.rs\<close>), with what each
  guarantees about a transaction the native program let through. The native program is a
  parameter with its documented behaviour as hypotheses.
\<close>

section \<open>Transactions\<close>

record sol_ix =
  ix_program_id :: pubkey
  ix_data :: bytes

text \<open>
  What an instruction sees of its transaction: who signed, the clock, the instruction just
  before it (the result of \<^verbatim>\<open>get_instruction_relative(-1, ..)\<close>), all instructions.
\<close>

record sol_env =
  sol_signers :: "pubkey set"
  sol_unix_timestamp :: i64
  sol_previous_ix :: "sol_ix option"
  sol_instructions :: "sol_ix list"

definition ix_u16 :: "bytes \<Rightarrow> nat \<Rightarrow> u16" where
  "ix_u16 data i = from_le_bytes [data ! i, data ! (i + 1)]"

definition ix_slice :: "bytes \<Rightarrow> nat \<Rightarrow> nat \<Rightarrow> bytes" where
  "ix_slice data offset len = take len (drop offset data)"

section \<open>The native Ed25519 program\<close>

text \<open>
  Documented layout: the number of signatures, a padding byte, then 14 bytes per
  signature: three offsets, each with the index of the instruction it points into
  (\<^verbatim>\<open>0xFFFF\<close>: this instruction), and the message size.
\<close>

definition ix_source :: "sol_ix list \<Rightarrow> bytes \<Rightarrow> u16 \<Rightarrow> bytes option" where
  "ix_source ixs data index =
     (if index = 0xFFFF then Some data
      else if unat index < length ixs then Some (ix_data (ixs ! unat index)) else None)"

definition ix_read :: "sol_ix list \<Rightarrow> bytes \<Rightarrow> u16 \<Rightarrow> nat \<Rightarrow> nat \<Rightarrow> bytes option" where
  "ix_read ixs data index offset len =
     (case ix_source ixs data index of
        None \<Rightarrow> None
      | Some src \<Rightarrow> if offset + len \<le> length src then Some (ix_slice src offset len) else None)"

definition entry_verified :: "(bytes \<Rightarrow> bytes \<Rightarrow> pubkey \<Rightarrow> bool) \<Rightarrow> sol_ix list \<Rightarrow> bytes \<Rightarrow> nat \<Rightarrow> bool" where
  "entry_verified verify ixs data i =
     (let o1 = 2 + 14 * i in
      o1 + 14 \<le> length data \<and>
      (case (ix_read ixs data (ix_u16 data (o1 + 2)) (unat (ix_u16 data o1)) 64,
             ix_read ixs data (ix_u16 data (o1 + 6)) (unat (ix_u16 data (o1 + 4))) 32,
             ix_read ixs data (ix_u16 data (o1 + 12)) (unat (ix_u16 data (o1 + 8)))
               (unat (ix_u16 data (o1 + 10)))) of
         (Some sig, Some pk, Some msg) \<Rightarrow> verify sig msg (from_le_bytes pk)
       | _ \<Rightarrow> False))"

text \<open>
  Documented behaviour of a program \<open>accepts\<close> for signatures as \<open>verify\<close> decides them: it
  rejects an instruction that announces no signature but carries data, and accepts
  otherwise exactly if every announced entry verifies.
\<close>

definition ed25519_documented ::
    "(bytes \<Rightarrow> bytes \<Rightarrow> pubkey \<Rightarrow> bool) \<Rightarrow> (sol_ix list \<Rightarrow> bytes \<Rightarrow> bool) \<Rightarrow> bool" where
  "ed25519_documented verify accepts \<longleftrightarrow> (\<forall>ixs data. 2 < length data \<longrightarrow>
     (accepts ixs data \<longleftrightarrow> data ! 0 \<noteq> 0 \<and> (\<forall>i < unat (data ! 0). entry_verified verify ixs data i)))"

section \<open>Messages\<close>

definition sol_mint_message :: "u64 \<Rightarrow> u64 \<Rightarrow> pubkey \<Rightarrow> pubkey \<Rightarrow> u64 \<Rightarrow> bytes" where
  "sol_mint_message source_chain_id nonce recipient mint amount =
     str_bytes ''KNT_BRIDGE_MINT''
       @ to_le_bytes source_chain_id
       @ to_le_bytes nonce
       @ to_le_bytes recipient
       @ to_le_bytes mint
       @ to_le_bytes amount"

definition sol_release_message :: "u64 \<Rightarrow> u64 \<Rightarrow> pubkey \<Rightarrow> pubkey \<Rightarrow> u64 \<Rightarrow> bytes" where
  "sol_release_message source_chain_id nonce recipient mint amount =
     str_bytes ''KNT_BRIDGE_RELEASE''
       @ to_le_bytes source_chain_id
       @ to_le_bytes nonce
       @ to_le_bytes recipient
       @ to_le_bytes mint
       @ to_le_bytes amount"

definition sol_propose_message :: "pubkey list \<Rightarrow> u8 \<Rightarrow> bytes" where
  "sol_propose_message new_signers threshold =
     str_bytes ''KNT_BRIDGE_PROPOSE'' @ concat (map to_le_bytes new_signers) @ [threshold]"

section \<open>The three checks\<close>

abbreviation sol_require :: "bool \<Rightarrow> sol_bridge_error \<Rightarrow> sol_error + unit" where
  "sol_require b e \<equiv> ensure b (Bridge_error e)"

definition sol_verify_ed25519_signature ::
    "pubkey \<Rightarrow> sol_env \<Rightarrow> sol_bridge_config \<Rightarrow> u64 \<Rightarrow> u64 \<Rightarrow> pubkey \<Rightarrow> pubkey \<Rightarrow> u64 \<Rightarrow> sol_error + unit" where
  "sol_verify_ed25519_signature ed25519_id env config source_chain_id nonce recipient mint amount =
     (let message = sol_mint_message source_chain_id nonce recipient mint amount in
      and_then (ok_or (sol_previous_ix env) (Bridge_error Sol_Ed25519InstructionMissing)) (\<lambda>ix.
      and_then (sol_require (ix_program_id ix = ed25519_id) Sol_Ed25519InstructionMissing) (\<lambda>_.
      let data = ix_data ix in
      and_then (sol_require (16 + 64 + 32 \<le> length data) Sol_Ed25519VerificationFailed) (\<lambda>_.
      and_then (sol_require (1 \<le> data ! 0) Sol_Ed25519VerificationFailed) (\<lambda>_.
      and_then (sol_require (ix_u16 data 4 = 0xFFFF) Sol_Ed25519VerificationFailed) (\<lambda>_.
      and_then (sol_require (ix_u16 data 8 = 0xFFFF) Sol_Ed25519VerificationFailed) (\<lambda>_.
      and_then (sol_require (ix_u16 data 14 = 0xFFFF) Sol_Ed25519VerificationFailed) (\<lambda>_.
      let pk_offset = unat (ix_u16 data 6) in
      and_then (sol_require (pk_offset + 32 \<le> length data) Sol_Ed25519VerificationFailed) (\<lambda>_.
      let signer_pubkey = from_le_bytes (ix_slice data pk_offset 32) in
      and_then (sol_require (signer_pubkey \<in> set (sol_mpc_signers config)) Sol_UnauthorizedSigner) (\<lambda>_.
      let msg_offset = unat (ix_u16 data 10); msg_size = unat (ix_u16 data 12) in
      and_then (sol_require (msg_offset + msg_size \<le> length data) Sol_Ed25519VerificationFailed) (\<lambda>_.
      sol_require (ix_slice data msg_offset msg_size = message) Sol_Ed25519VerificationFailed)))))))))))"

definition sol_verify_release_signature ::
    "pubkey \<Rightarrow> sol_env \<Rightarrow> sol_bridge_config \<Rightarrow> u64 \<Rightarrow> u64 \<Rightarrow> pubkey \<Rightarrow> pubkey \<Rightarrow> u64 \<Rightarrow> sol_error + unit" where
  "sol_verify_release_signature ed25519_id env config source_chain_id nonce recipient mint amount =
     (let message = sol_release_message source_chain_id nonce recipient mint amount in
      and_then (ok_or (sol_previous_ix env) (Bridge_error Sol_Ed25519InstructionMissing)) (\<lambda>ix.
      and_then (sol_require (ix_program_id ix = ed25519_id) Sol_Ed25519InstructionMissing) (\<lambda>_.
      let data = ix_data ix in
      and_then (sol_require (16 + 64 + 32 \<le> length data) Sol_Ed25519VerificationFailed) (\<lambda>_.
      let pk_offset = unat (ix_u16 data 6) in
      and_then (sol_require (pk_offset + 32 \<le> length data) Sol_Ed25519VerificationFailed) (\<lambda>_.
      let signer_pubkey = from_le_bytes (ix_slice data pk_offset 32) in
      and_then (sol_require (signer_pubkey \<in> set (sol_mpc_signers config)) Sol_UnauthorizedSigner) (\<lambda>_.
      let msg_offset = unat (ix_u16 data 10); msg_size = unat (ix_u16 data 12) in
      and_then (sol_require (msg_offset + msg_size \<le> length data) Sol_Ed25519VerificationFailed) (\<lambda>_.
      sol_require (ix_slice data msg_offset msg_size = message) Sol_Ed25519VerificationFailed)))))))"

definition sol_verify_propose_signers_signature ::
    "pubkey \<Rightarrow> sol_env \<Rightarrow> sol_bridge_config \<Rightarrow> pubkey list \<Rightarrow> u8 \<Rightarrow> bytes \<Rightarrow> sol_error + unit" where
  "sol_verify_propose_signers_signature ed25519_id env config new_signers threshold message =
     (let expected = sol_propose_message new_signers threshold in
      and_then (sol_require (message = expected) Sol_Ed25519VerificationFailed) (\<lambda>_.
      and_then (ok_or (sol_previous_ix env) (Bridge_error Sol_Ed25519InstructionMissing)) (\<lambda>ix.
      and_then (sol_require (ix_program_id ix = ed25519_id) Sol_Ed25519InstructionMissing) (\<lambda>_.
      let data = ix_data ix in
      and_then (sol_require (16 + 64 + 32 \<le> length data) Sol_Ed25519VerificationFailed) (\<lambda>_.
      and_then (sol_require (1 \<le> data ! 0) Sol_Ed25519VerificationFailed) (\<lambda>_.
      and_then (sol_require (ix_u16 data 4 = 0xFFFF) Sol_Ed25519VerificationFailed) (\<lambda>_.
      and_then (sol_require (ix_u16 data 8 = 0xFFFF) Sol_Ed25519VerificationFailed) (\<lambda>_.
      and_then (sol_require (ix_u16 data 14 = 0xFFFF) Sol_Ed25519VerificationFailed) (\<lambda>_.
      let pk_offset = unat (ix_u16 data 6) in
      and_then (sol_require (pk_offset + 32 \<le> length data) Sol_Ed25519VerificationFailed) (\<lambda>_.
      let signer_pubkey = from_le_bytes (ix_slice data pk_offset 32) in
      and_then (sol_require (signer_pubkey \<in> set (sol_mpc_signers config)) Sol_UnauthorizedSigner) (\<lambda>_.
      let msg_offset = unat (ix_u16 data 10); msg_size = unat (ix_u16 data 12) in
      and_then (sol_require (msg_offset + msg_size \<le> length data) Sol_Ed25519VerificationFailed) (\<lambda>_.
      sol_require (ix_slice data msg_offset msg_size = expected) Sol_Ed25519VerificationFailed))))))))))))"

section \<open>What a check guarantees\<close>

text \<open>The runtime verifies Ed25519 instructions before the program runs.\<close>

definition sol_precompiles_ok ::
    "pubkey \<Rightarrow> (sol_ix list \<Rightarrow> bytes \<Rightarrow> bool) \<Rightarrow> sol_env \<Rightarrow> bool" where
  "sol_precompiles_ok ed25519_id accepts env \<longleftrightarrow>
     (case sol_previous_ix env of None \<Rightarrow> True
      | Some ix \<Rightarrow> ix_program_id ix = ed25519_id \<longrightarrow> accepts (sol_instructions env) (ix_data ix))"

text \<open>
  An instruction that passed the native program and keeps its first entry to itself shows
  the program the key and the message that were verified.
\<close>

lemma sol_self_contained:
  assumes doc: "ed25519_documented verify accepts"
    and ok: "accepts ixs data" and "16 + 64 + 32 \<le> length data" and "1 \<le> data ! 0"
    and ixs: "ix_u16 data 4 = 0xFFFF" "ix_u16 data 8 = 0xFFFF" "ix_u16 data 14 = 0xFFFF"
  shows "\<exists>sig. verify sig (ix_slice data (unat (ix_u16 data 10)) (unat (ix_u16 data 12)))
    (from_le_bytes (ix_slice data (unat (ix_u16 data 6)) 32))"
proof -
  have "0 < unat (data ! 0)" using assms(4) by (simp add: word_le_nat_alt)
  moreover have "2 < length data" using assms(3) by simp
  ultimately have "entry_verified verify ixs data 0"
    using doc ok unfolding ed25519_documented_def by blast
  then show ?thesis
    by (auto simp: entry_verified_def ix_read_def ix_source_def ixs split: option.splits if_splits)
qed

lemma sol_mint_signature_authentic:
  assumes "sol_verify_ed25519_signature ed env config c n r mint a = Inr ()"
    and doc: "ed25519_documented verify accepts" and "sol_precompiles_ok ed accepts env"
  shows "\<exists>pk \<in> set (sol_mpc_signers config). \<exists>sig. verify sig (sol_mint_message c n r mint a) pk"
proof -
  from assms(1) obtain ix where ix: "sol_previous_ix env = Some ix" "ix_program_id ix = ed"
    and data: "16 + 64 + 32 \<le> length (ix_data ix)" "1 \<le> ix_data ix ! 0"
      "ix_u16 (ix_data ix) 4 = 0xFFFF" "ix_u16 (ix_data ix) 8 = 0xFFFF" "ix_u16 (ix_data ix) 14 = 0xFFFF"
    and pk: "from_le_bytes (ix_slice (ix_data ix) (unat (ix_u16 (ix_data ix) 6)) 32) \<in> set (sol_mpc_signers config)"
    and msg: "ix_slice (ix_data ix) (unat (ix_u16 (ix_data ix) 10)) (unat (ix_u16 (ix_data ix) 12))
       = sol_mint_message c n r mint a"
    by (auto simp: sol_verify_ed25519_signature_def Let_def accept)
  have "accepts (sol_instructions env) (ix_data ix)"
    using assms(3) ix by (simp add: sol_precompiles_ok_def)
  from sol_self_contained [OF doc this data] pk msg show ?thesis by auto
qed

lemma sol_propose_signature_authentic:
  assumes "sol_verify_propose_signers_signature ed env config ks t message = Inr ()"
    and doc: "ed25519_documented verify accepts" and "sol_precompiles_ok ed accepts env"
  shows "\<exists>pk \<in> set (sol_mpc_signers config). \<exists>sig. verify sig (sol_propose_message ks t) pk"
proof -
  from assms(1) obtain ix where ix: "sol_previous_ix env = Some ix" "ix_program_id ix = ed"
    and data: "16 + 64 + 32 \<le> length (ix_data ix)" "1 \<le> ix_data ix ! 0"
      "ix_u16 (ix_data ix) 4 = 0xFFFF" "ix_u16 (ix_data ix) 8 = 0xFFFF" "ix_u16 (ix_data ix) 14 = 0xFFFF"
    and pk: "from_le_bytes (ix_slice (ix_data ix) (unat (ix_u16 (ix_data ix) 6)) 32) \<in> set (sol_mpc_signers config)"
    and msg: "ix_slice (ix_data ix) (unat (ix_u16 (ix_data ix) 10)) (unat (ix_u16 (ix_data ix) 12))
       = sol_propose_message ks t"
    by (auto simp: sol_verify_propose_signers_signature_def Let_def accept)
  have "accepts (sol_instructions env) (ix_data ix)"
    using assms(3) ix by (simp add: sol_precompiles_ok_def)
  from sol_self_contained [OF doc this data] pk msg show ?thesis by auto
qed

section \<open>Signature instructions\<close>

text \<open>
  The usual instruction with one entry: header, signature, key, message, all offsets into
  the instruction of the given index.
\<close>

definition le16 :: "u16 \<Rightarrow> bytes" where "le16 w = [ucast w, ucast (drop_bit 8 w)]"

definition ed25519_data :: "u16 \<Rightarrow> bytes \<Rightarrow> pubkey \<Rightarrow> bytes \<Rightarrow> bytes" where
  "ed25519_data index sig pk msg =
     [1, 0] @ le16 16 @ le16 index @ le16 80 @ le16 index @ le16 112 @ le16 (of_nat (length msg))
       @ le16 index @ sig @ to_le_bytes pk @ msg"

lemma le16_read [simp]: "from_le_bytes [ucast w, ucast (drop_bit 8 w)] = (w :: u16)"
  using from_to_le_bytes [of w] by (simp add: to_le_bytes_def upt_rec)

lemma ed25519_data_fields:
  fixes index sig pk msg
  defines "d \<equiv> ed25519_data index sig pk msg"
  shows "d ! 0 = 1" and "ix_u16 d 2 = 16" and "ix_u16 d 4 = index" and "ix_u16 d 6 = 80"
    and "ix_u16 d 8 = index" and "ix_u16 d 10 = 112" and "ix_u16 d 12 = of_nat (length msg)"
    and "ix_u16 d 14 = index" and "length d = 48 + length sig + length msg"
proof -
  have "from_le_bytes [16, 0] = (16 :: u16)" "from_le_bytes [80, 0] = (80 :: u16)"
    "from_le_bytes [112, 0] = (112 :: u16)" by simp_all
  then show "d ! 0 = 1" and "ix_u16 d 2 = 16" and "ix_u16 d 4 = index" and "ix_u16 d 6 = 80"
    and "ix_u16 d 8 = index" and "ix_u16 d 10 = 112" and "ix_u16 d 12 = of_nat (length msg)"
    and "ix_u16 d 14 = index" and "length d = 48 + length sig + length msg"
    by (simp_all add: d_def ed25519_data_def ix_u16_def le16_def del: from_le_bytes.simps)
qed

lemma ed25519_data_slices:
  assumes "length sig = 64"
  shows "ix_slice (ed25519_data index sig pk msg) 16 64 = sig"
    and "ix_slice (ed25519_data index sig pk msg) 80 32 = to_le_bytes pk"
    and "ix_slice (ed25519_data index sig pk msg) 112 (length msg) = msg"
  using assms by (simp_all add: ed25519_data_def ix_slice_def le16_def)

text \<open>
  An entry that points into an instruction with the same layout is verified with that
  instruction's signature, key and message.
\<close>

lemma ed25519_entry:
  assumes "ix_source ixs (ed25519_data index sig pk msg) index = Some (ed25519_data index' sig' pk' msg')"
    and len: "length sig' = 64" "length sig = 64"
    and msgs: "length msg = length msg'" "length msg' < 2 ^ 16"
  shows "entry_verified verify ixs (ed25519_data index sig pk msg) 0 \<longleftrightarrow> verify sig' msg' pk'"
proof -
  have size: "unat (of_nat (length msg') :: u16) = length msg'"
    using msgs(2) by (simp add: unat_of_nat)
  note read = ix_read_def assms(1) ed25519_data_fields(9) ed25519_data_slices [OF len(1)]
  have "ix_read ixs (ed25519_data index sig pk msg) index 16 64 = Some sig'"
    and "ix_read ixs (ed25519_data index sig pk msg) index 80 32 = Some (to_le_bytes pk')"
    and "ix_read ixs (ed25519_data index sig pk msg) index 112 (length msg') = Some msg'"
    by (simp_all add: read len)
  then show ?thesis
    by (simp add: entry_verified_def Let_def ed25519_data_fields msgs(1) size len
        numeral_2_eq_2 [symmetric])
qed

section \<open>A check that guarantees nothing\<close>

text \<open>
  The check of a release does not ask that the entry is self-contained. A transaction with
  an honest instruction of the attacker (own key, own signature over the message) and a
  second one whose entry points into the first passes the native program, and shows the
  check a listed key that signed nothing.
\<close>

definition sol_forged_ixs :: "pubkey \<Rightarrow> bytes \<Rightarrow> pubkey \<Rightarrow> pubkey \<Rightarrow> bytes \<Rightarrow> sol_ix list" where
  "sol_forged_ixs ed sig attacker victim msg =
     [\<lparr>ix_program_id = ed, ix_data = ed25519_data 0xFFFF sig attacker msg\<rparr>,
      \<lparr>ix_program_id = ed, ix_data = ed25519_data 0 (replicate 64 0) victim msg\<rparr>]"

lemma length_sol_release_message:
  "length (sol_release_message c n r mint a) = 106"
  by (simp add: sol_release_message_def)

lemma sol_forged_accepted:
  assumes doc: "ed25519_documented verify accepts" and "verify sig msg attacker"
    and "length sig = 64" "length msg < 2 ^ 16"
    and ixs: "ixs = sol_forged_ixs ed sig attacker victim msg @ rest" and "ix \<in> set (take 2 ixs)"
  shows "accepts ixs (ix_data ix)"
proof -
  have "entry_verified verify ixs (ix_data ix) 0 \<and> 2 < length (ix_data ix) \<and> ix_data ix ! 0 = 1"
    using assms ed25519_entry [of ixs "0xFFFF" sig attacker msg "0xFFFF" sig attacker msg verify]
      ed25519_entry [of ixs 0 "replicate 64 0" victim msg "0xFFFF" sig attacker msg verify]
    by (auto simp: ixs sol_forged_ixs_def ix_source_def ed25519_data_fields)
  then show ?thesis using doc by (simp add: ed25519_documented_def)
qed

lemma sol_release_check_forged:
  assumes "sol_previous_ix env = Some (sol_forged_ixs ed sig attacker victim (sol_release_message c n r mint a) ! 1)"
    and "victim \<in> set (sol_mpc_signers config)"
  shows "sol_verify_release_signature ed env config c n r mint a = Inr ()"
  using assms ed25519_data_slices(2,3) [of "replicate 64 0" 0 victim "sol_release_message c n r mint a"]
  by (simp add: sol_verify_release_signature_def sol_forged_ixs_def ed25519_data_fields
      length_sol_release_message Let_def)

end
