(* ===== verification/Solana_Bridge.thy ===== *)
theory Solana_Bridge
  imports Solana_Ed25519 Bridge_Spec
begin

text \<open>
  The instructions of the Solana program, \<^verbatim>\<open>lib.rs\<close> and \<^verbatim>\<open>instructions/*.rs\<close>: the
  account constraints Anchor checks and the handler of each. The state is the program's
  accounts by address and the ledger of the token program, an abstract type with the
  operations of \<open>sol_api\<close>. Programs and sysvars at fixed addresses are left out of the
  account lists, the two authority addresses are derived where they are used. An
  instruction that fails leaves no trace.
\<close>

section \<open>State and environment\<close>

datatype sol_cpi =
    Spl_transfer pubkey pubkey pubkey u64
  | Spl_mint_to pubkey pubkey pubkey u64
  | Spl_burn pubkey pubkey pubkey u64
  | Spl_init_account pubkey pubkey pubkey

text \<open>
  \<open>create_pda seeds bump\<close> is the program address of the seeds and that bump, if there is
  one, \<open>find_pda\<close> the canonical address with its bump; \<open>spl\<close> runs an instruction of the
  token program; \<open>token_account_mint\<close> reads the mint of a token account.
\<close>

record 'l sol_api =
  ed25519_id :: pubkey
  precompile :: "sol_ix list \<Rightarrow> bytes \<Rightarrow> bool"
  create_pda :: "bytes list \<Rightarrow> u8 \<Rightarrow> pubkey option"
  find_pda :: "bytes list \<Rightarrow> pubkey \<times> u8"
  token_account_mint :: "'l \<Rightarrow> pubkey \<Rightarrow> pubkey option"
  is_mint_account :: "'l \<Rightarrow> pubkey \<Rightarrow> bool"
  spl :: "'l \<Rightarrow> sol_cpi \<Rightarrow> 'l option"

record 'l sol_state =
  sol_configs :: "pubkey \<rightharpoonup> sol_bridge_config"
  sol_tokens :: "pubkey \<rightharpoonup> sol_token_config"
  sol_trackers :: "pubkey \<rightharpoonup> sol_nonce_tracker"
  sol_ledger :: 'l

record sol_output =
  sol_cpis :: "sol_cpi list"
  sol_events :: "sol_event list"

definition sol_silent :: sol_output where
  "sol_silent = \<lparr>sol_cpis = [], sol_events = []\<rparr>"

section \<open>Account constraints\<close>

definition sol_load_config :: "'l sol_api \<Rightarrow> 'l sol_state \<Rightarrow> pubkey \<Rightarrow> sol_error + sol_bridge_config" where
  "sol_load_config api s addr =
     and_then (ok_or (sol_configs s addr) Sol_constraint) (\<lambda>c.
     and_then (ensure (create_pda api [BRIDGE_CONFIG_SEED] (sol_bump c) = Some addr) Sol_constraint) (\<lambda>_.
     Inr c))"

definition sol_load_token :: "'l sol_api \<Rightarrow> 'l sol_state \<Rightarrow> pubkey \<Rightarrow> sol_error + sol_token_config" where
  "sol_load_token api s addr =
     and_then (ok_or (sol_tokens s addr) Sol_constraint) (\<lambda>k.
     and_then (ensure (create_pda api [TOKEN_CONFIG_SEED, to_le_bytes (sol_mint k)] (sol_token_bump k) = Some addr)
       Sol_constraint) (\<lambda>_.
     Inr k))"

definition sol_load_tracker ::
    "'l sol_api \<Rightarrow> 'l sol_state \<Rightarrow> u64 \<Rightarrow> pubkey \<Rightarrow> sol_error + sol_nonce_tracker" where
  "sol_load_tracker api s source_chain_id addr =
     and_then (ok_or (sol_trackers s addr) Sol_constraint) (\<lambda>t.
     and_then (ensure (create_pda api [NONCE_TRACKER_SEED, to_le_bytes source_chain_id]
       (sol_tracker_bump t) = Some addr) Sol_constraint) (\<lambda>_.
     Inr t))"

text \<open>\<^verbatim>\<open>has_one = admin\<close> with \<^verbatim>\<open>admin: Signer\<close>.\<close>

definition sol_load_admin_config ::
    "'l sol_api \<Rightarrow> sol_env \<Rightarrow> 'l sol_state \<Rightarrow> pubkey \<Rightarrow> pubkey \<Rightarrow> sol_error + sol_bridge_config" where
  "sol_load_admin_config api env s addr admin =
     and_then (sol_load_config api s addr) (\<lambda>c.
     and_then (ensure (admin \<in> sol_signers env) Sol_constraint) (\<lambda>_.
     and_then (ensure (sol_admin c = admin) Sol_constraint) (\<lambda>_.
     Inr c)))"

definition sol_run_spl :: "'l sol_api \<Rightarrow> 'l \<Rightarrow> sol_cpi \<Rightarrow> sol_error + 'l" where
  "sol_run_spl api ledger cpi = ok_or (spl api ledger cpi) Sol_cpi_failed"

section \<open>Initialization and registration\<close>

record sol_initialize_accounts =
  ini_bridge_config :: pubkey
  ini_admin :: pubkey

definition sol_initialize ::
    "'l sol_api \<Rightarrow> sol_env \<Rightarrow> 'l sol_state \<Rightarrow> sol_initialize_accounts \<Rightarrow> pubkey list \<Rightarrow> u8 \<Rightarrow> u16 \<Rightarrow> u64 \<Rightarrow>
      sol_error + 'l sol_state \<times> sol_output" where
  "sol_initialize api env s acc mpc_signers threshold fee_bps chain_id =
     and_then (ensure ((ini_bridge_config acc) = fst (find_pda api [BRIDGE_CONFIG_SEED])) Sol_constraint) (\<lambda>_.
     and_then (ensure (sol_configs s (ini_bridge_config acc) = None) Sol_constraint) (\<lambda>_.
     and_then (ensure (ini_admin acc \<in> sol_signers env) Sol_constraint) (\<lambda>_.
     and_then (sol_require (1 \<le> threshold \<and> threshold \<le> 3) Sol_UnauthorizedSigner) (\<lambda>_.
     and_then (sol_require (fee_bps \<le> 500) Sol_FeeRateExceedsMax) (\<lambda>_.
     Inr (s\<lparr>sol_configs := (sol_configs s)(ini_bridge_config acc \<mapsto> sol_zeroed_config
            \<lparr>sol_admin := ini_admin acc,
             sol_mpc_signers := mpc_signers,
             sol_threshold := threshold,
             sol_fee_bps := fee_bps,
             sol_fee_collector := ini_admin acc,
             sol_paused := False,
             sol_outbound_nonce := 0,
             sol_chain_id := chain_id,
             sol_bump := snd (find_pda api [BRIDGE_CONFIG_SEED])\<rparr>)\<rparr>,
          sol_silent))))))"

record sol_register_token_accounts =
  reg_bridge_config :: pubkey
  reg_token_config :: pubkey
  reg_mint :: pubkey
  reg_vault :: pubkey
  reg_wrapped_mint :: "pubkey option"
  reg_admin :: pubkey

definition sol_register_token ::
    "'l sol_api \<Rightarrow> sol_env \<Rightarrow> 'l sol_state \<Rightarrow> sol_register_token_accounts \<Rightarrow> bool \<Rightarrow> u64 \<Rightarrow>
      sol_error + 'l sol_state \<times> sol_output" where
  "sol_register_token api env s acc is_native daily_mint_limit =
     and_then (sol_load_admin_config api env s (reg_bridge_config acc) (reg_admin acc)) (\<lambda>_.
     and_then (ensure (reg_token_config acc = fst (find_pda api [TOKEN_CONFIG_SEED, to_le_bytes (reg_mint acc)]))
       Sol_constraint) (\<lambda>_.
     and_then (ensure (sol_tokens s (reg_token_config acc) = None) Sol_constraint) (\<lambda>_.
     and_then (ensure (is_mint_account api (sol_ledger s) (reg_mint acc)) Sol_constraint) (\<lambda>_.
     and_then (ensure (reg_vault acc = fst (find_pda api [str_bytes ''vault'', to_le_bytes (reg_mint acc)]))
       Sol_constraint) (\<lambda>_.
     and_then (ensure (\<forall>m \<in> set_option (reg_wrapped_mint acc). is_mint_account api (sol_ledger s) m)
       Sol_constraint) (\<lambda>_.
     let init = Spl_init_account (reg_vault acc) (reg_mint acc)
       (fst (find_pda api [str_bytes ''vault_authority''])) in
     and_then (sol_run_spl api (sol_ledger s) init) (\<lambda>ledger.
     Inr (s\<lparr>sol_ledger := ledger,
            sol_tokens := (sol_tokens s)(reg_token_config acc \<mapsto>
              \<lparr>sol_mint = reg_mint acc,
               sol_vault = reg_vault acc,
               sol_wrapped_mint = (case reg_wrapped_mint acc of None \<Rightarrow> reg_mint acc | Some m \<Rightarrow> m),
               sol_is_native = is_native,
               sol_daily_mint_limit = daily_mint_limit,
               sol_daily_minted = 0,
               sol_period_start = sol_unix_timestamp env,
               sol_active = True,
               sol_token_bump = snd (find_pda api [TOKEN_CONFIG_SEED, to_le_bytes (reg_mint acc)])\<rparr>)\<rparr>,
          \<lparr>sol_cpis = [init], sol_events = []\<rparr>))))))))"

section \<open>Locking and burning\<close>

record sol_lock_accounts =
  lock_bridge_config :: pubkey
  lock_token_config :: pubkey
  lock_user_token :: pubkey
  lock_vault :: pubkey
  lock_fee_account :: "pubkey option"
  lock_sender :: pubkey

definition sol_lock_and_bridge ::
    "'l sol_api \<Rightarrow> sol_env \<Rightarrow> 'l sol_state \<Rightarrow> sol_lock_accounts \<Rightarrow> u64 \<Rightarrow> u64 \<Rightarrow> bytes \<Rightarrow>
      sol_error + 'l sol_state \<times> sol_output" where
  "sol_lock_and_bridge api env s acc amount dest_chain_id recipient =
     and_then (sol_load_config api s (lock_bridge_config acc)) (\<lambda>config.
     and_then (sol_require (\<not> sol_paused config) Sol_Paused) (\<lambda>_.
     and_then (sol_load_token api s (lock_token_config acc)) (\<lambda>token.
     and_then (sol_require (sol_active token) Sol_TokenNotRegistered) (\<lambda>_.
     and_then (ensure (token_account_mint api (sol_ledger s) (lock_user_token acc) = Some (sol_mint token))
       Sol_constraint) (\<lambda>_.
     and_then (ensure (token_account_mint api (sol_ledger s) (lock_vault acc) \<noteq> None \<and>
       lock_vault acc = sol_vault token) Sol_constraint) (\<lambda>_.
     and_then (ensure (\<forall>f \<in> set_option (lock_fee_account acc).
       token_account_mint api (sol_ledger s) f \<noteq> None) Sol_constraint) (\<lambda>_.
     and_then (ensure (lock_sender acc \<in> sol_signers env) Sol_constraint) (\<lambda>_.
     and_then (sol_require (0 < amount) Sol_AmountTooSmall) (\<lambda>_.
     let fee_bps = ucast (sol_fee_bps config) :: u64 in
     and_then (ok_or (checked_mul amount fee_bps) (Sol_panicked Unwrap_failed)) (\<lambda>product.
     let fee = product div 10000 in
     and_then (ok_or (checked_sub amount fee) (Sol_panicked Unwrap_failed)) (\<lambda>bridge_amount.
     let to_vault = Spl_transfer (lock_user_token acc) (lock_vault acc) (lock_sender acc) bridge_amount;
         fee_cpis = (if 0 < fee
           then (case lock_fee_account acc of None \<Rightarrow> []
             | Some f \<Rightarrow> [Spl_transfer (lock_user_token acc) f (lock_sender acc) fee])
           else []) in
     and_then (sol_run_spl api (sol_ledger s) to_vault) (\<lambda>ledger.
     and_then (case fee_cpis of [] \<Rightarrow> Inr ledger | cpi # _ \<Rightarrow> sol_run_spl api ledger cpi) (\<lambda>ledger'.
     and_then (sol_next_nonce config) (\<lambda>(config', nonce).
     Inr (s\<lparr>sol_configs := (sol_configs s)(lock_bridge_config acc \<mapsto> config'), sol_ledger := ledger'\<rparr>,
          \<lparr>sol_cpis = to_vault # fee_cpis,
           sol_events = [Sol_LockEvent (sol_chain_id config) dest_chain_id nonce (sol_mint token)
             (lock_sender acc) recipient bridge_amount fee (sol_unix_timestamp env)]\<rparr>)))))))))))))))"

record sol_burn_accounts =
  burn_bridge_config :: pubkey
  burn_token_config :: pubkey
  burn_wrapped_mint :: pubkey
  burn_user_token :: pubkey
  burn_sender :: pubkey

definition sol_burn_bridged ::
    "'l sol_api \<Rightarrow> sol_env \<Rightarrow> 'l sol_state \<Rightarrow> sol_burn_accounts \<Rightarrow> u64 \<Rightarrow> u64 \<Rightarrow> bytes \<Rightarrow>
      sol_error + 'l sol_state \<times> sol_output" where
  "sol_burn_bridged api env s acc amount dest_chain_id recipient =
     and_then (sol_load_config api s (burn_bridge_config acc)) (\<lambda>config.
     and_then (sol_require (\<not> sol_paused config) Sol_Paused) (\<lambda>_.
     and_then (sol_load_token api s (burn_token_config acc)) (\<lambda>token.
     and_then (sol_require (sol_active token) Sol_TokenNotRegistered) (\<lambda>_.
     and_then (ensure (is_mint_account api (sol_ledger s) (burn_wrapped_mint acc) \<and>
       burn_wrapped_mint acc = sol_wrapped_mint token) Sol_constraint) (\<lambda>_.
     and_then (ensure (token_account_mint api (sol_ledger s) (burn_user_token acc) =
       Some (burn_wrapped_mint acc)) Sol_constraint) (\<lambda>_.
     and_then (ensure (burn_sender acc \<in> sol_signers env) Sol_constraint) (\<lambda>_.
     and_then (sol_require (0 < amount) Sol_AmountTooSmall) (\<lambda>_.
     let burn = Spl_burn (burn_wrapped_mint acc) (burn_user_token acc) (burn_sender acc) amount in
     and_then (sol_run_spl api (sol_ledger s) burn) (\<lambda>ledger.
     and_then (sol_next_nonce config) (\<lambda>(config', nonce).
     Inr (s\<lparr>sol_configs := (sol_configs s)(burn_bridge_config acc \<mapsto> config'), sol_ledger := ledger\<rparr>,
          \<lparr>sol_cpis = [burn],
           sol_events = [Sol_BurnEvent (sol_chain_id config) dest_chain_id nonce (sol_mint token)
             (burn_sender acc) recipient amount (sol_unix_timestamp env)]\<rparr>)))))))))))"

section \<open>Minting and releasing\<close>

record sol_mint_accounts =
  mint_bridge_config :: pubkey
  mint_token_config :: pubkey
  mint_nonce_tracker :: pubkey
  mint_wrapped_mint :: pubkey
  mint_recipient_token :: pubkey
  mint_relayer :: pubkey

definition sol_mint_bridged ::
    "'l sol_api \<Rightarrow> sol_env \<Rightarrow> 'l sol_state \<Rightarrow> sol_mint_accounts \<Rightarrow> u64 \<Rightarrow> u64 \<Rightarrow> pubkey \<Rightarrow> u64 \<Rightarrow>
      sol_error + 'l sol_state \<times> sol_output" where
  "sol_mint_bridged api env s acc source_chain_id nonce recipient amount =
     and_then (sol_load_config api s (mint_bridge_config acc)) (\<lambda>config.
     and_then (sol_require (\<not> sol_paused config) Sol_Paused) (\<lambda>_.
     and_then (sol_load_token api s (mint_token_config acc)) (\<lambda>token.
     and_then (sol_require (sol_active token) Sol_TokenNotRegistered) (\<lambda>_.
     and_then (sol_load_tracker api s source_chain_id (mint_nonce_tracker acc)) (\<lambda>tracker.
     and_then (ensure (is_mint_account api (sol_ledger s) (mint_wrapped_mint acc) \<and>
       mint_wrapped_mint acc = sol_wrapped_mint token) Sol_constraint) (\<lambda>_.
     and_then (ensure (token_account_mint api (sol_ledger s) (mint_recipient_token acc) \<noteq> None)
       Sol_constraint) (\<lambda>_.
     and_then (ensure (mint_relayer acc \<in> sol_signers env) Sol_constraint) (\<lambda>_.
     and_then (sol_require (\<not> sol_is_processed tracker nonce) Sol_NonceAlreadyProcessed) (\<lambda>_.
     and_then (sol_verify_ed25519_signature (ed25519_id api) env config source_chain_id nonce recipient
       (sol_mint token) amount) (\<lambda>_.
     and_then (sol_check_daily_limit token amount (sol_unix_timestamp env)) (\<lambda>token'.
     let mint_to = Spl_mint_to (mint_wrapped_mint acc) (mint_recipient_token acc)
       (fst (find_pda api [str_bytes ''mint_authority''])) amount in
     and_then (sol_run_spl api (sol_ledger s) mint_to) (\<lambda>ledger.
     and_then (sol_mark_processed tracker nonce) (\<lambda>tracker'.
     Inr (s\<lparr>sol_tokens := (sol_tokens s)(mint_token_config acc \<mapsto> token'),
            sol_trackers := (sol_trackers s)(mint_nonce_tracker acc \<mapsto> tracker'),
            sol_ledger := ledger\<rparr>,
          \<lparr>sol_cpis = [mint_to],
           sol_events = [Sol_MintEvent source_chain_id nonce (sol_mint token) recipient amount
             (sol_unix_timestamp env)]\<rparr>))))))))))))))"

record sol_release_accounts =
  rel_bridge_config :: pubkey
  rel_token_config :: pubkey
  rel_nonce_tracker :: pubkey
  rel_vault :: pubkey
  rel_recipient_token :: pubkey
  rel_relayer :: pubkey

definition sol_release ::
    "'l sol_api \<Rightarrow> sol_env \<Rightarrow> 'l sol_state \<Rightarrow> sol_release_accounts \<Rightarrow> u64 \<Rightarrow> u64 \<Rightarrow> pubkey \<Rightarrow> u64 \<Rightarrow>
      sol_error + 'l sol_state \<times> sol_output" where
  "sol_release api env s acc source_chain_id nonce recipient amount =
     and_then (sol_load_config api s (rel_bridge_config acc)) (\<lambda>config.
     and_then (sol_require (\<not> sol_paused config) Sol_Paused) (\<lambda>_.
     and_then (sol_load_token api s (rel_token_config acc)) (\<lambda>token.
     and_then (sol_require (sol_active token) Sol_TokenNotRegistered) (\<lambda>_.
     and_then (sol_require (sol_is_native token) Sol_TokenNotRegistered) (\<lambda>_.
     and_then (sol_load_tracker api s source_chain_id (rel_nonce_tracker acc)) (\<lambda>tracker.
     and_then (ensure (token_account_mint api (sol_ledger s) (rel_vault acc) \<noteq> None \<and>
       rel_vault acc = sol_vault token) Sol_constraint) (\<lambda>_.
     and_then (ensure (token_account_mint api (sol_ledger s) (rel_recipient_token acc) \<noteq> None)
       Sol_constraint) (\<lambda>_.
     and_then (ensure (rel_relayer acc \<in> sol_signers env) Sol_constraint) (\<lambda>_.
     and_then (sol_require (\<not> sol_is_processed tracker nonce) Sol_NonceAlreadyProcessed) (\<lambda>_.
     and_then (sol_verify_release_signature (ed25519_id api) env config source_chain_id nonce recipient
       (sol_mint token) amount) (\<lambda>_.
     let transfer = Spl_transfer (rel_vault acc) (rel_recipient_token acc)
       (fst (find_pda api [str_bytes ''vault_authority''])) amount in
     and_then (sol_run_spl api (sol_ledger s) transfer) (\<lambda>ledger.
     and_then (sol_mark_processed tracker nonce) (\<lambda>tracker'.
     Inr (s\<lparr>sol_trackers := (sol_trackers s)(rel_nonce_tracker acc \<mapsto> tracker'),
            sol_ledger := ledger\<rparr>,
          \<lparr>sol_cpis = [transfer],
           sol_events = [Sol_ReleaseEvent source_chain_id nonce (sol_mint token) recipient amount
             (sol_unix_timestamp env)]\<rparr>))))))))))))))"

section \<open>Administration\<close>

text \<open>\<^verbatim>\<open>Pause\<close>, \<^verbatim>\<open>ProposeSigners\<close>, \<^verbatim>\<open>ExecuteSigners\<close>, \<^verbatim>\<open>CancelSigners\<close> and \<^verbatim>\<open>UpdateFee\<close>
  have the same two accounts.\<close>

record sol_admin_accounts =
  adm_bridge_config :: pubkey
  adm_admin :: pubkey

definition sol_save_config :: "'l sol_state \<Rightarrow> sol_admin_accounts \<Rightarrow> sol_bridge_config \<Rightarrow> 'l sol_state \<times> sol_output" where
  "sol_save_config s acc c = (s\<lparr>sol_configs := (sol_configs s)(adm_bridge_config acc \<mapsto> c)\<rparr>, sol_silent)"

definition sol_pause :: "'l sol_api \<Rightarrow> sol_env \<Rightarrow> 'l sol_state \<Rightarrow> sol_admin_accounts \<Rightarrow> sol_error + 'l sol_state \<times> sol_output" where
  "sol_pause api env s acc =
     and_then (sol_load_admin_config api env s (adm_bridge_config acc) (adm_admin acc)) (\<lambda>config.
     Inr (sol_save_config s acc (config\<lparr>sol_paused := True\<rparr>)))"

definition sol_unpause :: "'l sol_api \<Rightarrow> sol_env \<Rightarrow> 'l sol_state \<Rightarrow> sol_admin_accounts \<Rightarrow> sol_error + 'l sol_state \<times> sol_output" where
  "sol_unpause api env s acc =
     and_then (sol_load_admin_config api env s (adm_bridge_config acc) (adm_admin acc)) (\<lambda>config.
     Inr (sol_save_config s acc (config\<lparr>sol_paused := False\<rparr>)))"

definition sol_propose_signers ::
    "'l sol_api \<Rightarrow> sol_env \<Rightarrow> 'l sol_state \<Rightarrow> sol_admin_accounts \<Rightarrow> pubkey list \<Rightarrow> u8 \<Rightarrow> bytes \<Rightarrow>
      sol_error + 'l sol_state \<times> sol_output" where
  "sol_propose_signers api env s acc new_signers threshold message =
     and_then (sol_load_admin_config api env s (adm_bridge_config acc) (adm_admin acc)) (\<lambda>config.
     and_then (sol_require (1 \<le> threshold \<and> threshold \<le> 3) Sol_UnauthorizedSigner) (\<lambda>_.
     and_then (sol_verify_propose_signers_signature (ed25519_id api) env config new_signers threshold message) (\<lambda>_.
     and_then (ok_or (signed_add (sol_unix_timestamp env) (sol_rotation_delay config))
       (Sol_panicked Arithmetic_overflow)) (\<lambda>eta.
     Inr (sol_save_config s acc (config
       \<lparr>sol_pending_signers := new_signers,
        sol_pending_threshold := threshold,
        sol_pending_signers_eta := eta\<rparr>))))))"

definition sol_execute_signers ::
    "'l sol_api \<Rightarrow> sol_env \<Rightarrow> 'l sol_state \<Rightarrow> sol_admin_accounts \<Rightarrow> sol_error + 'l sol_state \<times> sol_output" where
  "sol_execute_signers api env s acc =
     and_then (sol_load_admin_config api env s (adm_bridge_config acc) (adm_admin acc)) (\<lambda>config.
     and_then (sol_require (sol_has_pending_rotation config) Sol_NoPendingRotation) (\<lambda>_.
     and_then (sol_require (sint (sol_pending_signers_eta config) \<le> sint (sol_unix_timestamp env))
       Sol_TimelockNotElapsed) (\<lambda>_.
     Inr (sol_save_config s acc (config
       \<lparr>sol_mpc_signers := sol_pending_signers config,
        sol_threshold := sol_pending_threshold config,
        sol_pending_signers := replicate 3 default_pubkey,
        sol_pending_threshold := 0,
        sol_pending_signers_eta := 0\<rparr>)))))"

definition sol_cancel_signers ::
    "'l sol_api \<Rightarrow> sol_env \<Rightarrow> 'l sol_state \<Rightarrow> sol_admin_accounts \<Rightarrow> sol_error + 'l sol_state \<times> sol_output" where
  "sol_cancel_signers api env s acc =
     and_then (sol_load_admin_config api env s (adm_bridge_config acc) (adm_admin acc)) (\<lambda>config.
     and_then (sol_require (sol_has_pending_rotation config) Sol_NoPendingRotation) (\<lambda>_.
     Inr (sol_save_config s acc (config
       \<lparr>sol_pending_signers := replicate 3 default_pubkey,
        sol_pending_threshold := 0,
        sol_pending_signers_eta := 0\<rparr>))))"

definition sol_update_fee ::
    "'l sol_api \<Rightarrow> sol_env \<Rightarrow> 'l sol_state \<Rightarrow> sol_admin_accounts \<Rightarrow> u16 \<Rightarrow> sol_error + 'l sol_state \<times> sol_output" where
  "sol_update_fee api env s acc fee_bps =
     and_then (sol_load_admin_config api env s (adm_bridge_config acc) (adm_admin acc)) (\<lambda>config.
     and_then (sol_require (fee_bps \<le> 500) Sol_FeeRateExceedsMax) (\<lambda>_.
     Inr (sol_save_config s acc (config\<lparr>sol_fee_bps := fee_bps\<rparr>))))"

definition sol_set_rotation_delay ::
    "'l sol_api \<Rightarrow> sol_env \<Rightarrow> 'l sol_state \<Rightarrow> sol_admin_accounts \<Rightarrow> i64 \<Rightarrow> sol_error + 'l sol_state \<times> sol_output" where
  "sol_set_rotation_delay api env s acc delay_seconds =
     and_then (sol_load_admin_config api env s (adm_bridge_config acc) (adm_admin acc)) (\<lambda>config.
     and_then (sol_require (0 \<le> sint delay_seconds \<and> sint delay_seconds \<le> MAX_ROTATION_DELAY)
       Sol_FeeRateExceedsMax) (\<lambda>_.
     Inr (sol_save_config s acc (config\<lparr>sol_rotation_delay := delay_seconds\<rparr>))))"

section \<open>The program\<close>

datatype sol_instruction =
    Sol_initialize sol_initialize_accounts "pubkey list" u8 u16 u64
  | Sol_register_token sol_register_token_accounts bool u64
  | Sol_lock_and_bridge sol_lock_accounts u64 u64 bytes
  | Sol_mint_bridged sol_mint_accounts u64 u64 pubkey u64
  | Sol_burn_bridged sol_burn_accounts u64 u64 bytes
  | Sol_release sol_release_accounts u64 u64 pubkey u64
  | Sol_pause sol_admin_accounts
  | Sol_unpause sol_admin_accounts
  | Sol_propose_signers sol_admin_accounts "pubkey list" u8 bytes
  | Sol_execute_signers sol_admin_accounts
  | Sol_cancel_signers sol_admin_accounts
  | Sol_update_fee sol_admin_accounts u16
  | Sol_set_rotation_delay sol_admin_accounts i64

fun sol_dispatch ::
    "'l sol_api \<Rightarrow> sol_env \<Rightarrow> 'l sol_state \<Rightarrow> sol_instruction \<Rightarrow> sol_error + 'l sol_state \<times> sol_output" where
  "sol_dispatch api env s (Sol_initialize acc ks t f c) = sol_initialize api env s acc ks t f c"
| "sol_dispatch api env s (Sol_register_token acc native limit) = sol_register_token api env s acc native limit"
| "sol_dispatch api env s (Sol_lock_and_bridge acc a d r) = sol_lock_and_bridge api env s acc a d r"
| "sol_dispatch api env s (Sol_mint_bridged acc c n r a) = sol_mint_bridged api env s acc c n r a"
| "sol_dispatch api env s (Sol_burn_bridged acc a d r) = sol_burn_bridged api env s acc a d r"
| "sol_dispatch api env s (Sol_release acc c n r a) = sol_release api env s acc c n r a"
| "sol_dispatch api env s (Sol_pause acc) = sol_pause api env s acc"
| "sol_dispatch api env s (Sol_unpause acc) = sol_unpause api env s acc"
| "sol_dispatch api env s (Sol_propose_signers acc ks t m) = sol_propose_signers api env s acc ks t m"
| "sol_dispatch api env s (Sol_execute_signers acc) = sol_execute_signers api env s acc"
| "sol_dispatch api env s (Sol_cancel_signers acc) = sol_cancel_signers api env s acc"
| "sol_dispatch api env s (Sol_update_fee acc f) = sol_update_fee api env s acc f"
| "sol_dispatch api env s (Sol_set_rotation_delay acc d) = sol_set_rotation_delay api env s acc d"

text \<open>The runtime verifies the signature instructions, then runs the program.\<close>

type_synonym sol_call = "sol_env \<times> sol_instruction"

definition sol_exec :: "'l sol_api \<Rightarrow> 'l sol_state \<Rightarrow> sol_call \<Rightarrow> sol_error + 'l sol_state \<times> sol_output" where
  "sol_exec api s call =
     (let (env, instr) = call in
      and_then (ensure (sol_precompiles_ok (ed25519_id api) (precompile api) env) Sol_precompile_failed) (\<lambda>_.
      sol_dispatch api env s instr))"

end
