(* ===== verification/Solana_Proofs.thy ===== *)
theory Solana_Proofs
  imports Solana_Bridge
begin

text \<open>
  What the instructions of the Solana program do, by inversion of an accepted call, and
  with it the laws of the abstract interfaces: replay protection, the daily limit, the keys
  a state trusts, and that what is minted was signed.
\<close>

section \<open>Accepted instructions\<close>

lemma sol_loads [accept]:
  "sol_load_config api s addr = Inr c \<longleftrightarrow> sol_configs s addr = Some c \<and>
     create_pda api [BRIDGE_CONFIG_SEED] (sol_bump c) = Some addr"
  "sol_load_token api s addr = Inr k \<longleftrightarrow> sol_tokens s addr = Some k \<and>
     create_pda api [TOKEN_CONFIG_SEED, to_le_bytes (sol_mint k)] (sol_token_bump k) = Some addr"
  "sol_load_tracker api s chain addr = Inr t \<longleftrightarrow> sol_trackers s addr = Some t \<and>
     create_pda api [NONCE_TRACKER_SEED, to_le_bytes chain] (sol_tracker_bump t) = Some addr"
  "sol_run_spl api ledger cpi = Inr ledger' \<longleftrightarrow> spl api ledger cpi = Some ledger'"
  by (auto simp: sol_load_config_def sol_load_token_def sol_load_tracker_def sol_run_spl_def accept)

lemma sol_load_admin_config_Inr [accept]:
  "sol_load_admin_config api env s addr admin = Inr c \<longleftrightarrow>
     sol_load_config api s addr = Inr c \<and> admin \<in> sol_signers env \<and> sol_admin c = admin"
  by (auto simp: sol_load_admin_config_def accept)

lemma sol_exec_accept [accept]:
  "sol_exec api s (env, instr) = Inr r \<longleftrightarrow>
     sol_precompiles_ok (ed25519_id api) (precompile api) env \<and> sol_dispatch api env s instr = Inr r"
  by (auto simp: sol_exec_def accept)

lemma unat_fee_bps_64 [simp]: "unat (ucast (f :: u16) :: u64) = unat f"
  by (simp add: unsigned_ucast_eq take_bit_nat_eq_self unsigned_less [THEN less_le_trans])

lemma unat_div_10000_64 [simp]: "unat ((p :: u64) div 10000) = unat p div 10000"
  by (simp add: unat_div_distrib)

lemma sol_lock_accept:
  assumes "sol_lock_and_bridge api env s acc a d r = Inr (s', out)"
  obtains c k n fee amt ledger where "sol_configs s (lock_bridge_config acc) = Some c" and "\<not> sol_paused c"
    and "sol_tokens s (lock_token_config acc) = Some k" and "0 < a"
    and "unat fee = unat a * unat (sol_fee_bps c) div 10000" and "unat fee \<le> unat a"
    and "unat amt = unat a - unat fee"
    and "unat n = Suc (unat (sol_outbound_nonce c))"
    and "s' = s\<lparr>sol_configs := (sol_configs s)(lock_bridge_config acc \<mapsto> c\<lparr>sol_outbound_nonce := n\<rparr>),
           sol_ledger := ledger\<rparr>"
    and "sol_cpis out = Spl_transfer (lock_user_token acc) (sol_vault k) (lock_sender acc) amt #
           (if 0 < fee then (case lock_fee_account acc of None \<Rightarrow> []
              | Some f \<Rightarrow> [Spl_transfer (lock_user_token acc) f (lock_sender acc) fee]) else [])"
    and "sol_events out = [Sol_LockEvent (sol_chain_id c) d (sol_outbound_nonce c) (sol_mint k)
           (lock_sender acc) r amt fee (sol_unix_timestamp env)]"
proof -
  from assms obtain c k p n amt ledger where facts: "sol_configs s (lock_bridge_config acc) = Some c" "\<not> sol_paused c"
      "sol_tokens s (lock_token_config acc) = Some k" "0 < a" "lock_vault acc = sol_vault k"
      "unat p = unat a * unat (sol_fee_bps c)" "unat p div 10000 \<le> unat a"
      "unat amt = unat a - unat p div 10000" "unat n = Suc (unat (sol_outbound_nonce c))"
      "s' = s\<lparr>sol_configs := (sol_configs s)(lock_bridge_config acc \<mapsto> c\<lparr>sol_outbound_nonce := n\<rparr>),
           sol_ledger := ledger\<rparr>"
      "sol_cpis out = Spl_transfer (lock_user_token acc) (lock_vault acc) (lock_sender acc) amt #
           (if 0 < p div 10000 then (case lock_fee_account acc of None \<Rightarrow> []
              | Some f \<Rightarrow> [Spl_transfer (lock_user_token acc) f (lock_sender acc) (p div 10000)]) else [])"
      "sol_events out = [Sol_LockEvent (sol_chain_id c) d (sol_outbound_nonce c) (sol_mint k)
           (lock_sender acc) r amt (p div 10000) (sol_unix_timestamp env)]"
    unfolding sol_lock_and_bridge_def Let_def
    by (clarsimp simp: accept checked_ops simp del: if_split)
  show thesis
    by (rule that [of c k "p div 10000" amt n ledger]) (use facts in simp_all)
qed

lemma sol_burn_accept:
  assumes "sol_burn_bridged api env s acc a d r = Inr (s', out)"
  obtains c k n ledger where "sol_configs s (burn_bridge_config acc) = Some c" and "\<not> sol_paused c"
    and "sol_tokens s (burn_token_config acc) = Some k" and "unat n = Suc (unat (sol_outbound_nonce c))"
    and "s' = s\<lparr>sol_configs := (sol_configs s)(burn_bridge_config acc \<mapsto> c\<lparr>sol_outbound_nonce := n\<rparr>),
           sol_ledger := ledger\<rparr>"
    and "sol_cpis out = [Spl_burn (burn_wrapped_mint acc) (burn_user_token acc) (burn_sender acc) a]"
    and "sol_events out = [Sol_BurnEvent (sol_chain_id c) d (sol_outbound_nonce c) (sol_mint k)
           (burn_sender acc) r a (sol_unix_timestamp env)]"
proof -
  from assms obtain c k n ledger where facts: "sol_configs s (burn_bridge_config acc) = Some c" "\<not> sol_paused c"
      "sol_tokens s (burn_token_config acc) = Some k"
      "burn_wrapped_mint acc = sol_wrapped_mint k" "unat n = Suc (unat (sol_outbound_nonce c))"
      "s' = s\<lparr>sol_configs := (sol_configs s)(burn_bridge_config acc \<mapsto> c\<lparr>sol_outbound_nonce := n\<rparr>),
           sol_ledger := ledger\<rparr>"
      "sol_cpis out = [Spl_burn (sol_wrapped_mint k) (burn_user_token acc) (burn_sender acc) a]"
      "sol_events out = [Sol_BurnEvent (sol_chain_id c) d (sol_outbound_nonce c) (sol_mint k)
           (burn_sender acc) r a (sol_unix_timestamp env)]"
    unfolding sol_burn_bridged_def Let_def by (clarsimp simp: accept)
  show thesis
    by (rule that [of c k n ledger]) (use facts in simp_all)
qed

lemma sol_mint_accept:
  assumes "sol_mint_bridged api env s acc c n r a = Inr (s', out)"
  obtains cfg k k' t t' ledger where "sol_configs s (mint_bridge_config acc) = Some cfg" and "\<not> sol_paused cfg"
    and "sol_tokens s (mint_token_config acc) = Some k" and "sol_active k"
    and "sol_load_tracker api s c (mint_nonce_tracker acc) = Inr t" and "\<not> sol_is_processed t n"
    and "sol_verify_ed25519_signature (ed25519_id api) env cfg c n r (sol_mint k) a = Inr ()"
    and "sol_check_daily_limit k a (sol_unix_timestamp env) = Inr k'"
    and "sol_mark_processed t n = Inr t'"
    and "s' = s\<lparr>sol_tokens := (sol_tokens s)(mint_token_config acc \<mapsto> k'),
           sol_trackers := (sol_trackers s)(mint_nonce_tracker acc \<mapsto> t'), sol_ledger := ledger\<rparr>"
    and "sol_cpis out = [Spl_mint_to (sol_wrapped_mint k) (mint_recipient_token acc)
           (fst (find_pda api [str_bytes ''mint_authority''])) a]"
  using assms unfolding sol_mint_bridged_def Let_def
  by (clarsimp simp: accept(1-4) accept(5-) simp del: sol_mark_processed_Inr sol_loads(3))

lemma sol_release_accept:
  assumes "sol_release api env s acc c n r a = Inr (s', out)"
  obtains cfg k t t' ledger where "sol_configs s (rel_bridge_config acc) = Some cfg" and "\<not> sol_paused cfg"
    and "sol_tokens s (rel_token_config acc) = Some k" and "sol_active k" and "sol_is_native k"
    and "sol_load_tracker api s c (rel_nonce_tracker acc) = Inr t" and "\<not> sol_is_processed t n"
    and "sol_verify_release_signature (ed25519_id api) env cfg c n r (sol_mint k) a = Inr ()"
    and "sol_mark_processed t n = Inr t'"
    and "s' = s\<lparr>sol_trackers := (sol_trackers s)(rel_nonce_tracker acc \<mapsto> t'), sol_ledger := ledger\<rparr>"
    and "sol_cpis out = [Spl_transfer (sol_vault k) (rel_recipient_token acc)
           (fst (find_pda api [str_bytes ''vault_authority''])) a]"
  using assms unfolding sol_release_def Let_def
  by (clarsimp simp: accept simp del: sol_mark_processed_Inr sol_loads(3))

lemma sol_register_accept:
  assumes "sol_register_token api env s acc native limit = Inr (s', out)"
  obtains k ledger c where "sol_tokens s (reg_token_config acc) = None"
    and "sol_configs s (reg_bridge_config acc) = Some c" and "sol_admin c \<in> sol_signers env"
    and "s' = s\<lparr>sol_ledger := ledger, sol_tokens := (sol_tokens s)(reg_token_config acc \<mapsto> k)\<rparr>"
    and "sol_cpis out = [Spl_init_account (reg_vault acc) (reg_mint acc)
       (fst (find_pda api [str_bytes ''vault_authority'']))]"
  using assms by (auto simp: sol_register_token_def Let_def accept)

text \<open>The instructions that only touch the configuration: \<open>sol_admin_acc\<close> finds their accounts.\<close>

definition sol_admin_acc :: "sol_instruction \<Rightarrow> sol_admin_accounts option" where
  "sol_admin_acc i = (case i of Sol_pause acc \<Rightarrow> Some acc | Sol_unpause acc \<Rightarrow> Some acc
     | Sol_propose_signers acc _ _ _ \<Rightarrow> Some acc | Sol_execute_signers acc \<Rightarrow> Some acc
     | Sol_cancel_signers acc \<Rightarrow> Some acc | Sol_update_fee acc _ \<Rightarrow> Some acc
     | Sol_set_rotation_delay acc _ \<Rightarrow> Some acc | _ \<Rightarrow> None)"

lemmas sol_admin_defs = sol_pause_def sol_unpause_def sol_propose_signers_def sol_execute_signers_def
  sol_cancel_signers_def sol_update_fee_def sol_set_rotation_delay_def sol_save_config_def

definition sol_reconfigure :: "sol_env \<Rightarrow> sol_instruction \<Rightarrow> sol_bridge_config \<Rightarrow> sol_bridge_config" where
  "sol_reconfigure env i c = (case i of
     Sol_pause acc \<Rightarrow> c\<lparr>sol_paused := True\<rparr>
   | Sol_unpause acc \<Rightarrow> c\<lparr>sol_paused := False\<rparr>
   | Sol_propose_signers acc ks t m \<Rightarrow> c\<lparr>sol_pending_signers := ks, sol_pending_threshold := t,
       sol_pending_signers_eta := sol_unix_timestamp env + sol_rotation_delay c\<rparr>
   | Sol_execute_signers acc \<Rightarrow> c\<lparr>sol_mpc_signers := sol_pending_signers c,
       sol_threshold := sol_pending_threshold c, sol_pending_signers := replicate 3 default_pubkey,
       sol_pending_threshold := 0, sol_pending_signers_eta := 0\<rparr>
   | Sol_cancel_signers acc \<Rightarrow> c\<lparr>sol_pending_signers := replicate 3 default_pubkey,
       sol_pending_threshold := 0, sol_pending_signers_eta := 0\<rparr>
   | Sol_update_fee acc f \<Rightarrow> c\<lparr>sol_fee_bps := f\<rparr>
   | Sol_set_rotation_delay acc d \<Rightarrow> c\<lparr>sol_rotation_delay := d\<rparr>
   | _ \<Rightarrow> c)"

lemma signed_add_plus:
  fixes a b e :: "'a::len word"
  shows "signed_add a b = Some e \<longleftrightarrow> e = a + b \<and> sint (a + b) = sint a + sint b"
proof -
  have "e = a + b" if "sint e = sint a + sint b"
  proof -
    from that have "(word_of_int (sint e) :: 'a word) = word_of_int (sint a) + word_of_int (sint b)"
      by (simp only: of_int_add)
    then show ?thesis by simp
  qed
  then show ?thesis by (auto simp: signed_ops)
qed

lemma sol_admin_accept:
  assumes "sol_dispatch api env s i = Inr (s', out)" and "sol_admin_acc i = Some acc"
  obtains c where "sol_configs s (adm_bridge_config acc) = Some c" and "sol_admin c \<in> sol_signers env"
    and "s' = s\<lparr>sol_configs := (sol_configs s)(adm_bridge_config acc \<mapsto> sol_reconfigure env i c)\<rparr>"
    and "out = sol_silent"
    and "sol_admin (sol_reconfigure env i c) = sol_admin c"
    and "\<And>ks t m. i = Sol_propose_signers acc ks t m \<Longrightarrow>
      sol_verify_propose_signers_signature (ed25519_id api) env c ks t m = Inr () \<and>
      sint (sol_pending_signers_eta (sol_reconfigure env i c)) =
        sint (sol_unix_timestamp env) + sint (sol_rotation_delay c)"
    and "i = Sol_execute_signers acc \<Longrightarrow> sol_has_pending_rotation c \<and>
      sint (sol_pending_signers_eta c) \<le> sint (sol_unix_timestamp env)"
    and "\<And>d. i = Sol_set_rotation_delay acc d \<Longrightarrow> 0 \<le> sint d \<and> sint d \<le> MAX_ROTATION_DELAY"
    and "\<And>f. i = Sol_update_fee acc f \<Longrightarrow> unat f \<le> 500"
  using assms
  by (cases i) (auto simp: sol_admin_acc_def sol_admin_defs sol_reconfigure_def accept signed_add_plus
      word_le_nat_alt)

lemma sol_initialize_accept:
  assumes "sol_initialize api env s acc ks t f chain = Inr (s', out)"
  obtains c where "sol_configs s (ini_bridge_config acc) = None" and "ini_admin acc \<in> sol_signers env"
    and "c = sol_zeroed_config\<lparr>sol_admin := ini_admin acc, sol_mpc_signers := ks, sol_threshold := t,
             sol_fee_bps := f, sol_fee_collector := ini_admin acc, sol_paused := False,
             sol_outbound_nonce := 0, sol_chain_id := chain,
             sol_bump := snd (find_pda api [BRIDGE_CONFIG_SEED])\<rparr>"
    and "s' = s\<lparr>sol_configs := (sol_configs s)(ini_bridge_config acc \<mapsto> c)\<rparr>" and "out = sol_silent"
    and "unat f \<le> 500" and "1 \<le> t" and "t \<le> 3"
  using assms by (auto simp: sol_initialize_def accept word_le_nat_alt)

text \<open>The instructions outside mint and release leave the trackers alone, those outside mint
  and registration the tokens.\<close>

lemma sol_dispatch_cases [consumes 1, case_names initialize register lock mint burn release admin]:
  assumes "sol_dispatch api env s i = Inr (s', out)"
  obtains (initialize) acc ks t f c where "i = Sol_initialize acc ks t f c"
      "sol_initialize api env s acc ks t f c = Inr (s', out)"
    | (register) acc nat l where "i = Sol_register_token acc nat l"
      "sol_register_token api env s acc nat l = Inr (s', out)"
    | (lock) acc a d r where "i = Sol_lock_and_bridge acc a d r"
      "sol_lock_and_bridge api env s acc a d r = Inr (s', out)"
    | (mint) acc c n r a where "i = Sol_mint_bridged acc c n r a"
      "sol_mint_bridged api env s acc c n r a = Inr (s', out)"
    | (burn) acc a d r where "i = Sol_burn_bridged acc a d r"
      "sol_burn_bridged api env s acc a d r = Inr (s', out)"
    | (release) acc c n r a where "i = Sol_release acc c n r a"
      "sol_release api env s acc c n r a = Inr (s', out)"
    | (admin) acc where "sol_admin_acc i = Some acc"
  using assms by (cases i) (auto simp: sol_admin_acc_def)

section \<open>Replay protection\<close>

definition sol_consumed :: "sol_call \<Rightarrow> sol_output \<Rightarrow> (pubkey \<times> u64) option" where
  "sol_consumed call out = (case call of (env, i) \<Rightarrow> (case i of
     Sol_mint_bridged acc c n r a \<Rightarrow> Some (mint_nonce_tracker acc, n)
   | Sol_release acc c n r a \<Rightarrow> Some (rel_nonce_tracker acc, n)
   | _ \<Rightarrow> None))"

definition sol_used :: "'l sol_state \<Rightarrow> (pubkey \<times> u64) set" where
  "sol_used s = {(addr, n). \<exists>t. sol_trackers s addr = Some t \<and> sol_is_processed t n}"

lemma sol_used_mark:
  assumes "sol_trackers s addr = Some t" and "sol_mark_processed t n = Inr t'"
    and "sol_trackers s' = (sol_trackers s)(addr \<mapsto> t')"
  shows "sol_used s' = insert (addr, n) (sol_used s)"
  using assms(1,3) sol_mark_processed_sets(1) [OF assms(2)]
  by (auto simp: sol_used_def split: if_splits)

lemma sol_consumes:
  assumes "sol_exec api s call = Inr (s', out)"
  shows "sol_used s' = sol_used s \<union> set_option (sol_consumed call out) \<and>
    set_option (sol_consumed call out) \<inter> sol_used s = {}"
proof (cases call)
  case (Pair env i)
  with assms have "sol_dispatch api env s i = Inr (s', out)" by (simp add: accept)
  then show ?thesis
  proof (cases rule: sol_dispatch_cases)
    case (mint acc c n r a)
    from mint(2) show ?thesis
    proof (rule sol_mint_accept)
      fix t t' k' ledger
      assume t: "sol_load_tracker api s c (mint_nonce_tracker acc) = Inr t" "\<not> sol_is_processed t n"
        "sol_mark_processed t n = Inr t'"
        and s': "s' = s\<lparr>sol_tokens := (sol_tokens s)(mint_token_config acc \<mapsto> k'),
           sol_trackers := (sol_trackers s)(mint_nonce_tracker acc \<mapsto> t'), sol_ledger := ledger\<rparr>"
      have "sol_used s' = insert (mint_nonce_tracker acc, n) (sol_used s)"
        by (rule sol_used_mark [OF _ t(3)]) (use t(1) s' in \<open>simp_all add: accept\<close>)
      with t(1,2) show ?thesis by (auto simp: Pair mint(1) sol_consumed_def sol_used_def accept)
    qed
  next
    case (release acc c n r a)
    from release(2) show ?thesis
    proof (rule sol_release_accept)
      fix t t' ledger
      assume t: "sol_load_tracker api s c (rel_nonce_tracker acc) = Inr t" "\<not> sol_is_processed t n"
        "sol_mark_processed t n = Inr t'"
        and s': "s' = s\<lparr>sol_trackers := (sol_trackers s)(rel_nonce_tracker acc \<mapsto> t'), sol_ledger := ledger\<rparr>"
      have "sol_used s' = insert (rel_nonce_tracker acc, n) (sol_used s)"
        by (rule sol_used_mark [OF _ t(3)]) (use t(1) s' in \<open>simp_all add: accept\<close>)
      with t(1,2) show ?thesis by (auto simp: Pair release(1) sol_consumed_def sol_used_def accept)
    qed
  next
    case (admin acc)
    with \<open>sol_dispatch api env s i = Inr (s', out)\<close> have "sol_trackers s' = sol_trackers s"
      by (elim sol_admin_accept) auto
    with admin show ?thesis
      by (cases i) (simp_all add: Pair sol_admin_acc_def sol_consumed_def sol_used_def)
  qed (auto simp: Pair sol_consumed_def sol_used_def elim!: sol_initialize_accept sol_register_accept
      sol_lock_accept sol_burn_accept)
qed

interpretation sol_replay: replay_guard "sol_exec api" sol_consumed sol_used "\<lambda>_. True" for api
  by unfold_locales (auto dest: sol_consumes)

section \<open>The daily limit\<close>

definition sol_limiter_of :: "pubkey \<Rightarrow> 'l sol_state \<Rightarrow> limiter option" where
  "sol_limiter_of d s = map_option sol_lim (sol_tokens s d)"

definition sol_spent :: "pubkey \<Rightarrow> sol_call \<Rightarrow> sol_output \<Rightarrow> nat option" where
  "sol_spent d call out = (case call of (env, i) \<Rightarrow> (case i of
     Sol_mint_bridged acc c n r a \<Rightarrow> if mint_token_config acc = d then Some (unat a) else None
   | _ \<Rightarrow> None))"

definition sol_clock :: "sol_call \<Rightarrow> int" where
  "sol_clock call = (case call of (env, i) \<Rightarrow> sint (sol_unix_timestamp env))"

lemma sol_limiter_step:
  assumes "sol_exec api s call = Inr (s', out)" and lim: "sol_limiter_of d s = Some k"
  shows "sol_limiter_of d s' = (case sol_spent d call out of None \<Rightarrow> Some k
      | Some a \<Rightarrow> limiter_next (sol_clock call) a k) \<and> sol_limiter_of d s' \<noteq> None"
proof (cases call)
  case (Pair env i)
  with assms have step: "sol_dispatch api env s i = Inr (s', out)" by (simp add: accept)
  then show ?thesis
  proof (cases rule: sol_dispatch_cases)
    case (mint acc c n r a)
    from mint(2) show ?thesis
      by (rule sol_mint_accept) (use lim in \<open>auto simp: Pair mint(1) sol_limiter_of_def sol_spent_def
          sol_clock_def dest!: sol_check_daily_limit_accept(1)\<close>)
  next
    case (admin acc)
    with step have "sol_tokens s' = sol_tokens s"
      by (elim sol_admin_accept) auto
    with admin lim show ?thesis
      by (cases i) (auto simp: Pair sol_admin_acc_def sol_spent_def sol_limiter_of_def)
  qed (use lim in \<open>auto simp: Pair sol_spent_def sol_limiter_of_def elim!: sol_initialize_accept
      sol_register_accept sol_lock_accept sol_burn_accept sol_release_accept\<close>)
qed

interpretation sol_rate: rate_limited
  "sol_exec api" "sol_limiter_of d" "sol_spent d" sol_clock "\<lambda>_. True" "\<lambda>_. True"
  for api d
proof unfold_locales
  fix s call s' out k
  assume "sol_exec api s call = Inr (s', out)" and "sol_limiter_of d s = Some k"
  then show "sol_limiter_of d s' = (case sol_spent d call out of None \<Rightarrow> Some k
      | Some a \<Rightarrow> limiter_next (sol_clock call) a k) \<and> sol_limiter_of d s' \<noteq> None"
    by (rule sol_limiter_step)
qed simp

section \<open>Custody of the signer keys\<close>

text \<open>The keys a state trusts: the current ones and those waiting for their timelock.\<close>

definition sol_config_keys :: "sol_bridge_config \<Rightarrow> pubkey set" where
  "sol_config_keys c = set (sol_mpc_signers c) \<union>
     (if sol_has_pending_rotation c then set (sol_pending_signers c) else {})"

definition sol_trusted :: "'l sol_state \<Rightarrow> pubkey set" where
  "sol_trusted s = (\<Union>c \<in> ran (sol_configs s). sol_config_keys c)"

definition sol_rotates :: "sol_call \<Rightarrow> pubkey set" where
  "sol_rotates call = (case call of (env, i) \<Rightarrow> (case i of
     Sol_initialize acc ks t f c \<Rightarrow> set ks
   | Sol_propose_signers acc ks t m \<Rightarrow> set ks
   | _ \<Rightarrow> {}))"

lemma sol_trusted_upd:
  fixes s :: "'l sol_state"
  shows "sol_trusted (s\<lparr>sol_configs := (sol_configs s)(addr \<mapsto> c)\<rparr>) \<subseteq> sol_trusted s \<union> sol_config_keys c"
  "sol_trusted (s\<lparr>sol_configs := (sol_configs s)(addr \<mapsto> c), sol_ledger := l\<rparr>) \<subseteq> sol_trusted s \<union> sol_config_keys c"
  by (auto simp: sol_trusted_def ran_def split: if_splits)

lemma sol_config_keys_trusted:
  "sol_configs s addr = Some c \<Longrightarrow> sol_config_keys c \<subseteq> sol_trusted s"
  by (auto simp: sol_trusted_def ran_def)

text \<open>What an administrative instruction may do to the keys of its configuration.\<close>

lemma sol_admin_keys:
  "sol_config_keys (sol_reconfigure env i c) \<subseteq> sol_config_keys c \<union> sol_rotates (env, i) \<or>
   (\<exists>acc. i = Sol_execute_signers acc \<and> \<not> sol_has_pending_rotation c)"
  by (cases i) (auto simp: sol_reconfigure_def sol_config_keys_def sol_rotates_def
      sol_has_pending_rotation_def)

lemma sol_config_keys_nonce [simp]: "sol_config_keys (c\<lparr>sol_outbound_nonce := n\<rparr>) = sol_config_keys c"
  by (simp add: sol_config_keys_def sol_has_pending_rotation_def)

lemma sol_trusts:
  assumes "sol_exec api s call = Inr (s', out)"
  shows "sol_trusted s' \<subseteq> sol_trusted s \<union> sol_rotates call"
proof (cases call)
  case (Pair env i)
  with assms have step: "sol_dispatch api env s i = Inr (s', out)" by (simp add: accept)
  then show ?thesis
  proof (cases rule: sol_dispatch_cases)
    case (initialize acc ks t f c)
    from initialize(2) show ?thesis
      by (rule sol_initialize_accept) (use sol_trusted_upd(1) [of s "ini_bridge_config acc"] in
        \<open>force simp: Pair initialize(1) sol_rotates_def sol_config_keys_def sol_zeroed_config_def
          sol_has_pending_rotation_def\<close>)
  next
    case (lock acc a d r)
    from lock(2) show ?thesis
      by (rule sol_lock_accept) (use sol_trusted_upd(2) [where s = s] sol_config_keys_trusted [of s] in
        \<open>fastforce simp: Pair\<close>)
  next
    case (burn acc a d r)
    from burn(2) show ?thesis
      by (rule sol_burn_accept) (use sol_trusted_upd(2) [where s = s] sol_config_keys_trusted [of s] in
        \<open>fastforce simp: Pair\<close>)
  next
    case (admin acc)
    from step admin show ?thesis
    proof (rule sol_admin_accept)
      fix c
      assume c: "sol_configs s (adm_bridge_config acc) = Some c"
        and s': "s' = s\<lparr>sol_configs := (sol_configs s)(adm_bridge_config acc \<mapsto> sol_reconfigure env i c)\<rparr>"
        and "i = Sol_execute_signers acc \<Longrightarrow> sol_has_pending_rotation c \<and>
          sint (sol_pending_signers_eta c) \<le> sint (sol_unix_timestamp env)"
      with sol_admin_keys [of env i c] admin
      have "sol_config_keys (sol_reconfigure env i c) \<subseteq> sol_config_keys c \<union> sol_rotates (env, i)"
        by (auto simp: sol_admin_acc_def)
      with sol_trusted_upd(1) [of s "adm_bridge_config acc" "sol_reconfigure env i c"]
        sol_config_keys_trusted [OF c]
      show ?thesis unfolding s' Pair by blast
    qed
  qed (auto simp: Pair sol_trusted_def elim!: sol_register_accept sol_mint_accept sol_release_accept)
qed

section \<open>What is minted was signed\<close>

datatype sol_claim = Sol_claim u64 u64 pubkey pubkey u64

definition sol_tracker_address :: "'l sol_api \<Rightarrow> u64 \<Rightarrow> pubkey" where
  "sol_tracker_address api c = fst (find_pda api [NONCE_TRACKER_SEED, to_le_bytes c])"

primrec sol_claim_key :: "'l sol_api \<Rightarrow> sol_claim \<Rightarrow> pubkey \<times> u64" where
  "sol_claim_key api (Sol_claim c n r mint a) = (sol_tracker_address api c, n)"

primrec sol_claim_amount :: "sol_claim \<Rightarrow> nat" where
  "sol_claim_amount (Sol_claim c n r mint a) = unat a"

primrec sol_claim_message :: "sol_claim \<Rightarrow> bytes" where
  "sol_claim_message (Sol_claim c n r mint a) = sol_mint_message c n r mint a"

definition sol_attests :: "(bytes \<Rightarrow> bytes \<Rightarrow> pubkey \<Rightarrow> bool) \<Rightarrow> pubkey \<Rightarrow> sol_claim \<Rightarrow> bool" where
  "sol_attests verify pk m \<longleftrightarrow> (\<exists>sig. verify sig (sol_claim_message m) pk)"

primrec sol_minted :: "sol_cpi \<Rightarrow> nat" where
  "sol_minted (Spl_mint_to mint to auth a) = unat a"
| "sol_minted (Spl_transfer from to auth a) = 0"
| "sol_minted (Spl_burn mint from auth a) = 0"
| "sol_minted (Spl_init_account addr mint auth) = 0"

definition sol_outflow :: "sol_output \<Rightarrow> nat" where
  "sol_outflow out = sum_list (map sol_minted (sol_cpis out))"

text \<open>
  There is one tracker for a source chain: the one at the canonical address. Program
  addresses with another bump are not produced by \<^verbatim>\<open>find_program_address\<close>.
\<close>

definition sol_canonical :: "'l sol_api \<Rightarrow> 'l sol_state \<Rightarrow> bool" where
  "sol_canonical api s \<longleftrightarrow> (\<forall>addr c t. sol_load_tracker api s c addr = Inr t \<longrightarrow>
     addr = sol_tracker_address api c)"

lemma sol_canonical_upd:
  assumes "sol_canonical api s" and t: "sol_trackers s addr = Some t" "sol_tracker_bump t' = sol_tracker_bump t"
    and s': "sol_trackers s' = (sol_trackers s)(addr \<mapsto> t')"
  shows "sol_canonical api s'"
  using assms by (auto simp: sol_canonical_def accept split: if_splits)

lemma sol_canonical_mark:
  assumes "sol_canonical api s" and "sol_load_tracker api s c addr = Inr t"
    and "sol_mark_processed t n = Inr t'" and "sol_trackers s' = (sol_trackers s)(addr \<mapsto> t')"
  shows "sol_canonical api s'"
  by (rule sol_canonical_upd [OF assms(1) _ sol_mark_processed_sets(3) [OF assms(3)] assms(4)])
    (use assms(2) in \<open>simp add: sol_loads\<close>)

lemma sol_canonical_step:
  assumes "sol_exec api s call = Inr (s', out)" and can: "sol_canonical api s"
  shows "sol_canonical api s'"
proof (cases call)
  case (Pair env i)
  with assms have step: "sol_dispatch api env s i = Inr (s', out)" by (simp add: accept)
  then show ?thesis
  proof (cases rule: sol_dispatch_cases)
    case (mint acc c n r a)
    from mint(2) show ?thesis
      by (rule sol_mint_accept) (erule (1) sol_canonical_mark [OF can], simp)
  next
    case (release acc c n r a)
    from release(2) show ?thesis
      by (rule sol_release_accept) (erule (1) sol_canonical_mark [OF can], simp)
  next
    case (admin acc)
    with step have "sol_trackers s' = sol_trackers s" by (elim sol_admin_accept) auto
    with can show ?thesis by (simp add: sol_canonical_def sol_load_tracker_def)
  qed (use can in \<open>auto simp: sol_canonical_def sol_load_tracker_def elim!: sol_initialize_accept
      sol_register_accept sol_lock_accept sol_burn_accept\<close>)
qed

lemma sol_pays:
  assumes doc: "ed25519_documented verify (precompile api)" and can: "sol_canonical api s"
    and exec: "sol_exec api s call = Inr (s', out)"
  shows "sol_outflow out = 0 \<or> (\<exists>m g. sol_consumed call out = Some (sol_claim_key api m) \<and>
    g \<in> sol_trusted s \<and> sol_attests verify g m \<and> sol_outflow out = sol_claim_amount m)"
proof (cases call)
  case (Pair env i)
  with exec have ok: "sol_precompiles_ok (ed25519_id api) (precompile api) env"
    and step: "sol_dispatch api env s i = Inr (s', out)" by (simp_all add: accept)
  from step show ?thesis
  proof (cases rule: sol_dispatch_cases)
    case (mint acc c n r a)
    from mint(2) show ?thesis
    proof (rule sol_mint_accept)
      fix cfg k t
      assume cfg: "sol_configs s (mint_bridge_config acc) = Some cfg"
        and sig: "sol_verify_ed25519_signature (ed25519_id api) env cfg c n r (sol_mint k) a = Inr ()"
        and t: "sol_load_tracker api s c (mint_nonce_tracker acc) = Inr t"
        and out: "sol_cpis out = [Spl_mint_to (sol_wrapped_mint k) (mint_recipient_token acc)
           (fst (find_pda api [str_bytes ''mint_authority''])) a]"
      from sol_mint_signature_authentic [OF sig doc ok]
      obtain pk sig where pk: "pk \<in> set (sol_mpc_signers cfg)"
        "verify sig (sol_mint_message c n r (sol_mint k) a) pk" by blast
      have "sol_consumed call out = Some (sol_claim_key api (Sol_claim c n r (sol_mint k) a))"
        using can t by (auto simp: Pair mint(1) sol_consumed_def sol_canonical_def)
      moreover have "pk \<in> sol_trusted s"
        using sol_config_keys_trusted [OF cfg] pk(1) by (auto simp: sol_config_keys_def)
      moreover have "sol_attests verify pk (Sol_claim c n r (sol_mint k) a)"
        using pk(2) by (auto simp: sol_attests_def)
      moreover have "sol_outflow out = sol_claim_amount (Sol_claim c n r (sol_mint k) a)"
        by (simp add: sol_outflow_def out)
      ultimately show ?thesis by blast
    qed
  next
    case (lock acc a d r)
    from lock(2) show ?thesis
    proof (rule sol_lock_accept)
      fix k :: sol_token_config and fee amt :: u64
      assume "sol_cpis out = Spl_transfer (lock_user_token acc) (sol_vault k) (lock_sender acc) amt #
           (if 0 < fee then (case lock_fee_account acc of None \<Rightarrow> []
              | Some f \<Rightarrow> [Spl_transfer (lock_user_token acc) f (lock_sender acc) fee]) else [])"
      then have "sol_outflow out = 0"
        unfolding sol_outflow_def by (cases "lock_fee_account acc"; cases "0 < fee") simp_all
      then show ?thesis by simp
    qed
  next
    case (admin acc)
    with step show ?thesis by (elim sol_admin_accept) (auto simp: sol_outflow_def sol_silent_def)
  qed (auto simp: sol_outflow_def sol_silent_def elim!: sol_initialize_accept sol_register_accept
      sol_burn_accept sol_release_accept)
qed

end
