(* ===== verification/Solana_Properties.thy ===== *)
theory Solana_Properties
  imports Solana_Proofs
begin

text \<open>
  The properties of the Solana program: what the attestations bound, replay protection, the
  daily limit, the custody of the signer keys with its timelock, who configures, and the
  ways around them the code leaves open. Each is read off the lemmas of
  \<open>Solana_Proofs\<close> and the abstract interfaces; the demonstration state at the start is
  where the witnesses run.
\<close>

section \<open>The configuration account\<close>

lemma sol_config_effect:
  assumes "sol_exec api s (env, i) = Inr (s', out)" and c: "sol_configs s addr = Some c"
  obtains (user) n where "sol_configs s' addr = Some (c\<lparr>sol_outbound_nonce := n\<rparr>)"
    | (admin) acc where "sol_admin_acc i = Some acc" and "adm_bridge_config acc = addr"
        and "sol_admin c \<in> sol_signers env"
        and "sol_configs s' addr = Some (sol_reconfigure env i c)"
        and "\<And>ks t m. i = Sol_propose_signers acc ks t m \<Longrightarrow>
          sint (sol_pending_signers_eta (sol_reconfigure env i c)) =
            sint (sol_unix_timestamp env) + sint (sol_rotation_delay c)"
        and "i = Sol_execute_signers acc \<Longrightarrow> sol_has_pending_rotation c \<and>
          sint (sol_pending_signers_eta c) \<le> sint (sol_unix_timestamp env)"
proof -
  have stays: thesis if "sol_configs s' addr = sol_configs s addr"
    using that c by (intro user [of "sol_outbound_nonce c"]) simp
  from assms have step: "sol_dispatch api env s i = Inr (s', out)" by (simp add: accept)
  then show thesis
  proof (cases rule: sol_dispatch_cases)
    case (initialize acc ks t f ch)
    from initialize(2) show thesis
      by (elim sol_initialize_accept) (rule stays, use c in auto)
  next
    case (register acc nat l)
    from register(2) show thesis by (elim sol_register_accept) (rule stays, simp)
  next
    case (lock acc a d r)
    from lock(2) show thesis
    proof (rule sol_lock_accept)
      fix c' n ledger
      assume "sol_configs s (lock_bridge_config acc) = Some c'"
        and "s' = s\<lparr>sol_configs := (sol_configs s)(lock_bridge_config acc \<mapsto> c'\<lparr>sol_outbound_nonce := n\<rparr>),
           sol_ledger := ledger\<rparr>"
      with c show thesis
        by (cases "lock_bridge_config acc = addr") (auto intro: user stays)
    qed
  next
    case (burn acc a d r)
    from burn(2) show thesis
    proof (rule sol_burn_accept)
      fix c' n ledger
      assume "sol_configs s (burn_bridge_config acc) = Some c'"
        and "s' = s\<lparr>sol_configs := (sol_configs s)(burn_bridge_config acc \<mapsto> c'\<lparr>sol_outbound_nonce := n\<rparr>),
           sol_ledger := ledger\<rparr>"
      with c show thesis
        by (cases "burn_bridge_config acc = addr") (auto intro: user stays)
    qed
  next
    case (mint acc ch n r a)
    from mint(2) show thesis by (elim sol_mint_accept) (rule stays, simp)
  next
    case (release acc ch n r a)
    from release(2) show thesis by (elim sol_release_accept) (rule stays, simp)
  next
    case (admin acc)
    from step admin show thesis
    proof (rule sol_admin_accept)
      fix c'
      assume facts: "sol_configs s (adm_bridge_config acc) = Some c'" "sol_admin c' \<in> sol_signers env"
        "s' = s\<lparr>sol_configs := (sol_configs s)(adm_bridge_config acc \<mapsto> sol_reconfigure env i c')\<rparr>"
        and propose: "\<And>ks t m. i = Sol_propose_signers acc ks t m \<Longrightarrow>
          sol_verify_propose_signers_signature (ed25519_id api) env c' ks t m = Inr () \<and>
          sint (sol_pending_signers_eta (sol_reconfigure env i c')) =
            sint (sol_unix_timestamp env) + sint (sol_rotation_delay c')"
        and exe: "i = Sol_execute_signers acc \<Longrightarrow> sol_has_pending_rotation c' \<and>
          sint (sol_pending_signers_eta c') \<le> sint (sol_unix_timestamp env)"
      show thesis
      proof (cases "adm_bridge_config acc = addr")
        case True
        with facts c have "c' = c" by simp
        with True facts propose exe admin show thesis
          by (intro that(2) [of acc]) auto
      next
        case False
        with facts c show thesis by (intro stays) simp
      qed
    qed
  qed
qed

text \<open>Everything but the outbound nonce is the administrator's.\<close>

definition sol_settings :: "pubkey \<Rightarrow> 'l sol_state \<Rightarrow> sol_bridge_config option" where
  "sol_settings addr s = map_option (\<lambda>c. c\<lparr>sol_outbound_nonce := 0\<rparr>) (sol_configs s addr)"

lemma sol_same_settings:
  "c'\<lparr>sol_outbound_nonce := 0\<rparr> = c\<lparr>sol_outbound_nonce := 0\<rparr> \<Longrightarrow>
    c' = c\<lparr>sol_outbound_nonce := sol_outbound_nonce c'\<rparr>"
  by (cases c; cases c') simp

definition sol_admin_signed :: "sol_bridge_config option \<Rightarrow> sol_call \<Rightarrow> bool" where
  "sol_admin_signed g call \<longleftrightarrow> (case g of None \<Rightarrow> True | Some c \<Rightarrow> sol_admin c \<in> sol_signers (fst call))"

interpretation sol_guard: guarded_config "sol_exec api" "sol_settings addr" sol_admin_signed for api addr
proof unfold_locales
  fix s call s' out
  assume step: "sol_exec api s call = Inr (s', out)"
    and no: "\<not> sol_admin_signed (sol_settings addr s) call"
  then obtain c where c: "sol_configs s addr = Some c"
    by (cases "sol_configs s addr") (simp_all add: sol_admin_signed_def sol_settings_def)
  obtain env i where call: "call = (env, i)" by (cases call)
  from step [unfolded call] c show "sol_settings addr s' = sol_settings addr s"
    by (cases rule: sol_config_effect) (use no c in \<open>auto simp: call sol_admin_signed_def sol_settings_def\<close>)
qed

section \<open>Custody of the signer keys\<close>

text \<open>
  The keys a set of keys answers for: itself, and the members of any signer set one of
  its keys signed a proposal of.
\<close>

inductive_set sol_vouched :: "(bytes \<Rightarrow> bytes \<Rightarrow> pubkey \<Rightarrow> bool) \<Rightarrow> pubkey set \<Rightarrow> pubkey set"
  for verify :: "bytes \<Rightarrow> bytes \<Rightarrow> pubkey \<Rightarrow> bool" and K :: "pubkey set"
  where
    initial: "k \<in> K \<Longrightarrow> k \<in> sol_vouched verify K"
  | signed: "g \<in> sol_vouched verify K \<Longrightarrow> verify sig (sol_propose_message ks t) g \<Longrightarrow>
      k \<in> set ks \<Longrightarrow> k \<in> sol_vouched verify K"

text \<open>The configuration is created once; \<^verbatim>\<open>init\<close> fails on an account that exists.\<close>

definition sol_initialized :: "'l sol_api \<Rightarrow> 'l sol_state \<Rightarrow> bool" where
  "sol_initialized api s \<longleftrightarrow> sol_configs s (fst (find_pda api [BRIDGE_CONFIG_SEED])) \<noteq> None"

lemma sol_initialized_step:
  assumes "sol_exec api s call = Inr (s', out)" and "sol_initialized api s"
  shows "sol_initialized api s'"
proof -
  obtain env i where call: "call = (env, i)" by (cases call)
  from assms(2) obtain c where "sol_configs s (fst (find_pda api [BRIDGE_CONFIG_SEED])) = Some c"
    by (auto simp: sol_initialized_def)
  with assms(1) [unfolded call] show ?thesis
    by (cases rule: sol_config_effect) (simp_all add: sol_initialized_def)
qed

lemma sol_initialize_rejected:
  "sol_initialized api s \<Longrightarrow> sol_exec api s (env, Sol_initialize acc ks t f c) \<noteq> Inr r"
  by (auto simp: sol_exec_accept sol_initialize_def sol_initialized_def accept)

lemma sol_proposal_signed:
  assumes doc: "ed25519_documented verify (precompile api)"
    and exec: "sol_exec api s (env, Sol_propose_signers acc ks t m) = Inr (s', out)"
  shows "\<exists>g \<in> sol_trusted s. \<exists>sig. verify sig (sol_propose_message ks t) g"
proof -
  from exec have ok: "sol_precompiles_ok (ed25519_id api) (precompile api) env"
    and step: "sol_dispatch api env s (Sol_propose_signers acc ks t m) = Inr (s', out)"
    by (simp_all add: sol_exec_accept)
  from step show ?thesis
  proof (rule sol_admin_accept)
    show "sol_admin_acc (Sol_propose_signers acc ks t m) = Some acc" by (simp add: sol_admin_acc_def)
    fix c
    assume c: "sol_configs s (adm_bridge_config acc) = Some c"
      and "\<And>ks' t' m'. Sol_propose_signers acc ks t m = Sol_propose_signers acc ks' t' m' \<Longrightarrow>
        sol_verify_propose_signers_signature (ed25519_id api) env c ks' t' m' = Inr () \<and>
        sint (sol_pending_signers_eta (sol_reconfigure env (Sol_propose_signers acc ks t m) c)) =
          sint (sol_unix_timestamp env) + sint (sol_rotation_delay c)"
    then have "sol_verify_propose_signers_signature (ed25519_id api) env c ks t m = Inr ()" by blast
    from sol_propose_signature_authentic [OF this doc ok] sol_config_keys_trusted [OF c]
    show ?thesis by (auto simp: sol_config_keys_def)
  qed
qed

lemma sol_vouched_step:
  assumes doc: "ed25519_documented verify (precompile api)" and sub: "sol_trusted s \<subseteq> sol_vouched verify K"
    and exec: "sol_exec api s call = Inr (s', out)" and init: "sol_initialized api s"
  shows "sol_trusted s' \<subseteq> sol_vouched verify K"
proof -
  obtain env i where call: "call = (env, i)" by (cases call)
  have "sol_rotates call \<subseteq> sol_vouched verify K"
  proof (cases i)
    case (Sol_initialize acc ks t f c)
    with sol_initialize_rejected [OF init] exec show ?thesis by (simp add: call)
  next
    case (Sol_propose_signers acc ks t m)
    with exec call have "sol_exec api s (env, Sol_propose_signers acc ks t m) = Inr (s', out)" by simp
    from sol_proposal_signed [OF doc this] sub
    obtain g sig where "g \<in> sol_vouched verify K" "verify sig (sol_propose_message ks t) g" by blast
    then show ?thesis
      by (auto simp: call Sol_propose_signers sol_rotates_def intro: sol_vouched.signed)
  qed (simp_all add: call sol_rotates_def)
  with sol_trusts [OF exec] sub show ?thesis by blast
qed

definition sol_sound :: "(bytes \<Rightarrow> bytes \<Rightarrow> pubkey \<Rightarrow> bool) \<Rightarrow> pubkey set \<Rightarrow> 'l sol_api \<Rightarrow> 'l sol_state \<Rightarrow> bool" where
  "sol_sound verify K api s \<longleftrightarrow> ed25519_documented verify (precompile api) \<and> sol_canonical api s \<and>
     sol_initialized api s \<and> sol_trusted s \<subseteq> sol_vouched verify K"

lemma sol_sound_step:
  "sol_exec api s call = Inr (s', out) \<Longrightarrow> sol_sound verify K api s \<Longrightarrow> sol_sound verify K api s'"
  using sol_canonical_step sol_initialized_step sol_vouched_step unfolding sol_sound_def by metis

text \<open>The keys that count are fixed at the start: the vouched ones. No call adds to them.\<close>

interpretation sol: attested_payouts "sol_exec api" sol_consumed sol_used "sol_sound verify K api"
  "\<lambda>s. sol_vouched verify K" "sol_claim_key api" sol_claim_amount sol_outflow "sol_attests verify"
  "\<lambda>call. {}" for api verify K
proof unfold_locales
  fix s call s' out
  assume wf: "sol_sound verify K api s" and exec: "sol_exec api s call = Inr (s', out)"
  show "sol_used s' = sol_used s \<union> set_option (sol_consumed call out) \<and>
      set_option (sol_consumed call out) \<inter> sol_used s = {}"
    by (rule sol_consumes [OF exec])
  show "sol_sound verify K api s'" by (rule sol_sound_step [OF exec wf])
  show "sol_outflow out = 0 \<or> (\<exists>m g. sol_consumed call out = Some (sol_claim_key api m) \<and>
      g \<in> sol_vouched verify K \<and> sol_attests verify g m \<and> sol_outflow out = sol_claim_amount m)"
    using sol_pays [OF _ _ exec, of verify] wf unfolding sol_sound_def by blast
qed simp

section \<open>The timelock\<close>

text \<open>
  What holds of a configuration while no rotation started at or after time \<open>T\<close> can be
  executed: the keys are those of the start, the delay is at least \<open>D\<close>, and a rotation
  that is pending is due at \<open>T + D\<close> or later.
\<close>

definition sol_locked_in :: "pubkey list \<Rightarrow> int \<Rightarrow> int \<Rightarrow> sol_bridge_config \<Rightarrow> bool" where
  "sol_locked_in ks T D c \<longleftrightarrow> sol_mpc_signers c = ks \<and> D \<le> sint (sol_rotation_delay c) \<and>
     (sol_has_pending_rotation c \<longrightarrow> T + D \<le> sint (sol_pending_signers_eta c))"

definition sol_changes_delay :: "sol_call \<Rightarrow> bool" where
  "sol_changes_delay call = (case snd call of Sol_set_rotation_delay acc d \<Rightarrow> True | _ \<Rightarrow> False)"

lemma sol_locked_in_step:
  assumes exec: "sol_exec api s call = Inr (s', out)"
    and c: "sol_configs s addr = Some c" "sol_locked_in ks T D c"
    and clock: "T \<le> sol_clock call" "sol_clock call < T + D" and "\<not> sol_changes_delay call"
  shows "\<exists>c'. sol_configs s' addr = Some c' \<and> sol_locked_in ks T D c'"
proof -
  obtain env i where call: "call = (env, i)" by (cases call)
  from exec [unfolded call] c(1) show ?thesis
  proof (cases rule: sol_config_effect)
    case (user n)
    with c(2) show ?thesis by (auto simp: sol_locked_in_def sol_has_pending_rotation_def)
  next
    case (admin acc)
    have "sol_locked_in ks T D (sol_reconfigure env i c)"
      using c(2) clock admin(5,6) \<open>sol_admin_acc i = Some acc\<close> \<open>\<not> sol_changes_delay call\<close>
      by (cases i) (auto simp: call sol_admin_acc_def sol_locked_in_def sol_reconfigure_def sol_clock_def
          sol_has_pending_rotation_def sol_changes_delay_def)
    with admin(4) show ?thesis by blast
  qed
qed

section \<open>Transactions that go through\<close>

text \<open>
  An honest signature instruction, self-contained with one entry, in front of the program's:
  the native program accepts it exactly if the signature verifies, and both checks take it.
\<close>

definition sol_signed_env :: "pubkey \<Rightarrow> sol_env \<Rightarrow> bytes \<Rightarrow> pubkey \<Rightarrow> bytes \<Rightarrow> sol_env" where
  "sol_signed_env ed env sig pk msg =
     env\<lparr>sol_previous_ix := Some \<lparr>ix_program_id = ed, ix_data = ed25519_data 0xFFFF sig pk msg\<rparr>\<rparr>"

lemma sol_signed_env_simps [simp]:
  "sol_signers (sol_signed_env ed env sig pk msg) = sol_signers env"
  "sol_unix_timestamp (sol_signed_env ed env sig pk msg) = sol_unix_timestamp env"
  by (simp_all add: sol_signed_env_def)

lemma length_sol_mint_message: "length (sol_mint_message c n r mint a) = 103"
  by (simp add: sol_mint_message_def)

lemma sol_signed_precompile:
  assumes "ed25519_documented verify accepts" and "length sig = 64" and "length msg < 2 ^ 16"
  shows "sol_precompiles_ok ed accepts (sol_signed_env ed env sig pk msg) \<longleftrightarrow> verify sig msg pk"
proof -
  have "2 < length (ed25519_data 0xFFFF sig pk msg)"
    by (simp add: ed25519_data_fields)
  with assms(1) have "accepts ixs (ed25519_data 0xFFFF sig pk msg) \<longleftrightarrow>
      entry_verified verify ixs (ed25519_data 0xFFFF sig pk msg) 0" for ixs
    by (simp add: ed25519_documented_def ed25519_data_fields)
  also have "entry_verified verify ixs (ed25519_data 0xFFFF sig pk msg) 0 \<longleftrightarrow> verify sig msg pk" for ixs
    by (rule ed25519_entry) (use assms in \<open>simp_all add: ix_source_def\<close>)
  finally show ?thesis
    by (simp add: sol_precompiles_ok_def sol_signed_env_def)
qed

lemma sol_mint_check_signed:
  assumes "length sig = 64" and "pk \<in> set (sol_mpc_signers config)"
  shows "sol_verify_ed25519_signature ed (sol_signed_env ed env sig pk (sol_mint_message c n r mint a))
    config c n r mint a = Inr ()"
  using assms ed25519_data_slices(2,3) [of sig "0xFFFF" pk "sol_mint_message c n r mint a"]
  by (simp add: sol_verify_ed25519_signature_def sol_signed_env_def ed25519_data_fields
      length_sol_mint_message Let_def)

lemma sol_propose_check_signed:
  assumes "length sig = 64" and "pk \<in> set (sol_mpc_signers config)" and "length ks = 3"
  shows "sol_verify_propose_signers_signature ed
    (sol_signed_env ed env sig pk (sol_propose_message ks t)) config ks t (sol_propose_message ks t) = Inr ()"
proof -
  from assms(3) obtain k1 k2 k3 where "ks = [k1, k2, k3]"
    by (auto simp: length_Suc_conv numeral_3_eq_3)
  then have len: "length (sol_propose_message ks t) = 115" by (simp add: sol_propose_message_def)
  show ?thesis
    using assms ed25519_data_slices(2,3) [of sig "0xFFFF" pk "sol_propose_message ks t"]
    by (simp add: sol_verify_propose_signers_signature_def sol_signed_env_def ed25519_data_fields
        len Let_def)
qed

text \<open>A mint and a release with everything in place.\<close>

lemma sol_mark_processed_in_range:
  assumes "unat n < 8 * length (sol_bitmap t)"
  obtains t' where "sol_mark_processed t n = Inr t'"
proof -
  have "unat n div 8 < length (sol_bitmap t)" using assms by (simp add: less_mult_imp_div_less mult.commute)
  then show thesis by (intro that) (simp only: sol_mark_processed_Inr simp_thms)
qed

lemma sol_mint_accepted:
  assumes "sol_load_config api s (mint_bridge_config acc) = Inr cfg" and "\<not> sol_paused cfg"
    and "sol_load_token api s (mint_token_config acc) = Inr k" and "sol_active k"
    and "sol_load_tracker api s c (mint_nonce_tracker acc) = Inr t" and "\<not> sol_is_processed t n"
    and "mint_wrapped_mint acc = sol_wrapped_mint k" and "is_mint_account api (sol_ledger s) (sol_wrapped_mint k)"
    and "token_account_mint api (sol_ledger s) (mint_recipient_token acc) \<noteq> None"
    and "mint_relayer acc \<in> sol_signers env"
    and "sol_verify_ed25519_signature (ed25519_id api) env cfg c n r (sol_mint k) a = Inr ()"
    and "sol_check_daily_limit k a (sol_unix_timestamp env) = Inr k'"
    and "spl api (sol_ledger s) (Spl_mint_to (sol_wrapped_mint k) (mint_recipient_token acc)
           (fst (find_pda api [str_bytes ''mint_authority''])) a) = Some ledger"
    and "sol_mark_processed t n = Inr t'"
  shows "sol_mint_bridged api env s acc c n r a = Inr
    (s\<lparr>sol_tokens := (sol_tokens s)(mint_token_config acc \<mapsto> k'),
       sol_trackers := (sol_trackers s)(mint_nonce_tracker acc \<mapsto> t'), sol_ledger := ledger\<rparr>,
     \<lparr>sol_cpis = [Spl_mint_to (sol_wrapped_mint k) (mint_recipient_token acc)
           (fst (find_pda api [str_bytes ''mint_authority''])) a],
      sol_events = [Sol_MintEvent c n (sol_mint k) r a (sol_unix_timestamp env)]\<rparr>)"
  using assms by (simp add: sol_mint_bridged_def sol_run_spl_def Let_def)

lemma sol_release_accepted:
  assumes "sol_load_config api s (rel_bridge_config acc) = Inr cfg" and "\<not> sol_paused cfg"
    and "sol_load_token api s (rel_token_config acc) = Inr k" and "sol_active k" and "sol_is_native k"
    and "sol_load_tracker api s c (rel_nonce_tracker acc) = Inr t" and "\<not> sol_is_processed t n"
    and "rel_vault acc = sol_vault k" and "token_account_mint api (sol_ledger s) (sol_vault k) \<noteq> None"
    and "token_account_mint api (sol_ledger s) (rel_recipient_token acc) \<noteq> None"
    and "rel_relayer acc \<in> sol_signers env"
    and "sol_verify_release_signature (ed25519_id api) env cfg c n r (sol_mint k) a = Inr ()"
    and "spl api (sol_ledger s) (Spl_transfer (sol_vault k) (rel_recipient_token acc)
           (fst (find_pda api [str_bytes ''vault_authority''])) a) = Some ledger"
    and "sol_mark_processed t n = Inr t'"
  shows "sol_release api env s acc c n r a = Inr
    (s\<lparr>sol_trackers := (sol_trackers s)(rel_nonce_tracker acc \<mapsto> t'), sol_ledger := ledger\<rparr>,
     \<lparr>sol_cpis = [Spl_transfer (sol_vault k) (rel_recipient_token acc)
           (fst (find_pda api [str_bytes ''vault_authority''])) a],
      sol_events = [Sol_ReleaseEvent c n (sol_mint k) r a (sol_unix_timestamp env)]\<rparr>)"
  using assms by (simp add: sol_release_def sol_run_spl_def Let_def)

section \<open>The messages are unambiguous\<close>

lemma sol_mint_message_inject:
  "sol_mint_message c n r mint a = sol_mint_message c' n' r' mint' a' \<longleftrightarrow>
     c = c' \<and> n = n' \<and> r = r' \<and> mint = mint' \<and> a = a'"
  by (simp add: sol_mint_message_def to_le_bytes_inject)

lemma concat_le_bytes_inject:
  "concat (map to_le_bytes ks) = concat (map to_le_bytes ks') \<longleftrightarrow> ks = (ks' :: pubkey list)"
proof (induction ks arbitrary: ks')
  case Nil
  have "to_le_bytes k \<noteq> []" for k :: pubkey using length_to_le_bytes [of k] by fastforce
  then show ?case by (cases ks') auto
next
  case (Cons k ks)
  have "to_le_bytes k \<noteq> []" using length_to_le_bytes [of k] by fastforce
  with Cons show ?case by (cases ks') (auto simp: to_le_bytes_inject)
qed

lemma sol_propose_message_inject:
  "sol_propose_message ks t = sol_propose_message ks' t' \<longleftrightarrow> ks = ks' \<and> t = t'"
  by (simp add: sol_propose_message_def concat_le_bytes_inject)

lemma sol_message_tags:
  "sol_mint_message c n r mint a \<noteq> sol_release_message c' n' r' mint' a'"
  "sol_mint_message c n r mint a \<noteq> sol_propose_message ks t"
  "sol_release_message c n r mint a \<noteq> sol_propose_message ks t"
proof -
  have heads: "take 12 (sol_mint_message c n r mint a) = str_bytes ''KNT_BRIDGE_M''"
    "take 12 (sol_release_message c n r mint a) = str_bytes ''KNT_BRIDGE_R''"
    "take 12 (sol_release_message c' n' r' mint' a') = str_bytes ''KNT_BRIDGE_R''"
    "take 12 (sol_propose_message ks t) = str_bytes ''KNT_BRIDGE_P''"
    by (simp_all add: sol_mint_message_def sol_release_message_def sol_propose_message_def str_bytes_def)
  have tags: "str_bytes ''KNT_BRIDGE_M'' \<noteq> str_bytes ''KNT_BRIDGE_R''"
    "str_bytes ''KNT_BRIDGE_M'' \<noteq> str_bytes ''KNT_BRIDGE_P''"
    "str_bytes ''KNT_BRIDGE_R'' \<noteq> str_bytes ''KNT_BRIDGE_P''"
    by (simp_all add: str_bytes_inject)
  show "sol_mint_message c n r mint a \<noteq> sol_release_message c' n' r' mint' a'"
    using heads(1,3) tags(1) by metis
  show "sol_mint_message c n r mint a \<noteq> sol_propose_message ks t"
    using heads(1,4) tags(2) by metis
  show "sol_release_message c n r mint a \<noteq> sol_propose_message ks t"
    using heads(2,4) tags(3) by metis
qed

section \<open>What the checks leave open\<close>

text \<open>The transaction that forges a release: the two signature instructions, then the program's.\<close>

definition sol_forged_env :: "pubkey \<Rightarrow> sol_env \<Rightarrow> bytes \<Rightarrow> pubkey \<Rightarrow> pubkey \<Rightarrow> bytes \<Rightarrow> sol_env" where
  "sol_forged_env ed env sig attacker victim msg =
     env\<lparr>sol_previous_ix := Some (sol_forged_ixs ed sig attacker victim msg ! 1),
         sol_instructions := sol_forged_ixs ed sig attacker victim msg @ sol_instructions env\<rparr>"

lemma sol_forged_env_simps [simp]:
  "sol_signers (sol_forged_env ed env sig attacker victim msg) = sol_signers env"
  "sol_unix_timestamp (sol_forged_env ed env sig attacker victim msg) = sol_unix_timestamp env"
  by (simp_all add: sol_forged_env_def)

lemma sol_forged_precompiles:
  assumes "ed25519_documented verify accepts" and "verify sig msg attacker"
    and "length sig = 64" and "length msg < 2 ^ 16"
  shows "sol_precompiles_ok ed accepts (sol_forged_env ed env sig attacker victim msg)"
proof -
  let ?ix = "sol_forged_ixs ed sig attacker victim msg ! 1"
  have "?ix \<in> set (take 2 (sol_forged_ixs ed sig attacker victim msg @ sol_instructions env))"
    by (simp add: sol_forged_ixs_def)
  from sol_forged_accepted [OF assms refl this] show ?thesis
    by (simp add: sol_precompiles_ok_def sol_forged_env_def)
qed

text \<open>The mint check depends on the transaction and the message only: not on the account paid.\<close>

lemma sol_mint_any_recipient:
  assumes "sol_mint_bridged api env s acc c n r a = Inr (s', out)"
    and acc': "acc' = acc\<lparr>mint_recipient_token := x\<rparr>"
    and "token_account_mint api (sol_ledger s) x \<noteq> None"
    and "spl api (sol_ledger s) (Spl_mint_to (mint_wrapped_mint acc) x
      (fst (find_pda api [str_bytes ''mint_authority''])) a) = Some ledger"
  shows "sol_mint_bridged api env s acc' c n r a = Inr (s'\<lparr>sol_ledger := ledger\<rparr>,
      out\<lparr>sol_cpis := [Spl_mint_to (mint_wrapped_mint acc) x
        (fst (find_pda api [str_bytes ''mint_authority''])) a]\<rparr>)"
proof -
  obtain cfg k k' t t' l where facts: "sol_load_config api s (mint_bridge_config acc) = Inr cfg" "\<not> sol_paused cfg"
    "sol_load_token api s (mint_token_config acc) = Inr k" "sol_active k"
    "sol_load_tracker api s c (mint_nonce_tracker acc) = Inr t" "\<not> sol_is_processed t n"
    "mint_wrapped_mint acc = sol_wrapped_mint k" "is_mint_account api (sol_ledger s) (sol_wrapped_mint k)"
    "mint_relayer acc \<in> sol_signers env"
    "sol_verify_ed25519_signature (ed25519_id api) env cfg c n r (sol_mint k) a = Inr ()"
    "sol_check_daily_limit k a (sol_unix_timestamp env) = Inr k'" "sol_mark_processed t n = Inr t'"
    and s': "s' = s\<lparr>sol_tokens := (sol_tokens s)(mint_token_config acc \<mapsto> k'),
       sol_trackers := (sol_trackers s)(mint_nonce_tracker acc \<mapsto> t'), sol_ledger := l\<rparr>"
    and out: "out = \<lparr>sol_cpis = [Spl_mint_to (sol_wrapped_mint k) (mint_recipient_token acc)
           (fst (find_pda api [str_bytes ''mint_authority''])) a],
         sol_events = [Sol_MintEvent c n (sol_mint k) r a (sol_unix_timestamp env)]\<rparr>"
    using assms(1) unfolding sol_mint_bridged_def Let_def
    by (clarsimp simp: accept(1-4) accept(5-) simp del: sol_mark_processed_Inr sol_loads)
  show ?thesis
    using sol_mint_accepted [of api s acc' cfg k c t n env r a k' ledger t'] facts assms(3,4)
    by (simp add: acc' s' out)
qed

lemma sol_lock_without_fee_account:
  assumes "sol_lock_and_bridge api env s acc a d r = Inr (s', out)"
  shows "\<exists>s'' out'. sol_lock_and_bridge api env s (acc\<lparr>lock_fee_account := None\<rparr>) a d r = Inr (s'', out') \<and>
    sol_cpis out' = [hd (sol_cpis out)] \<and> sol_events out' = sol_events out"
  using assms unfolding sol_lock_and_bridge_def Let_def
  by (clarsimp simp: accept) (intro exI conjI, assumption, (rule refl)+, simp_all)

section \<open>The room of the trackers\<close>

definition sol_room :: "'l sol_state \<Rightarrow> pubkey \<Rightarrow> nat" where
  "sol_room s addr = (case sol_trackers s addr of None \<Rightarrow> 0 | Some t \<Rightarrow> 8 * length (sol_bitmap t))"

lemma sol_room_mark:
  assumes "sol_load_tracker api s c addr = Inr t" and mark: "sol_mark_processed t n = Inr t'"
    and "sol_trackers s' = (sol_trackers s)(addr \<mapsto> t')"
  shows "sol_room s' = sol_room s \<and> unat n < sol_room s addr"
proof -
  have "unat n < 8 * length (sol_bitmap t)"
    using mark by (auto simp: sol_mark_processed_def Let_def not_le less_mult_imp_div_less
        div_less_iff_less_mult mult.commute split: if_splits)
  then show ?thesis
    using assms sol_mark_processed_sets(2) [OF mark] by (auto simp: sol_room_def sol_loads)
qed

lemma sol_room_step:
  assumes "sol_exec api s call = Inr (s', out)"
  shows "sol_room s' = sol_room s \<and> set_option (sol_consumed call out) \<subseteq> {(addr, n). unat n < sol_room s addr}"
proof (cases call)
  case (Pair env i)
  with assms have step: "sol_dispatch api env s i = Inr (s', out)" by (simp add: sol_exec_accept)
  then show ?thesis
  proof (cases rule: sol_dispatch_cases)
    case (mint acc c n r a)
    from mint(2) have "sol_room s' = sol_room s \<and> unat n < sol_room s (mint_nonce_tracker acc)"
      by (rule sol_mint_accept) (rule sol_room_mark, assumption, assumption, simp)
    then show ?thesis by (simp add: Pair mint(1) sol_consumed_def)
  next
    case (release acc c n r a)
    from release(2) have "sol_room s' = sol_room s \<and> unat n < sol_room s (rel_nonce_tracker acc)"
      by (rule sol_release_accept) (rule sol_room_mark, assumption, assumption, simp)
    then show ?thesis by (simp add: Pair release(1) sol_consumed_def)
  next
    case (admin acc)
    with step have "sol_trackers s' = sol_trackers s" by (elim sol_admin_accept) auto
    with admin show ?thesis
      by (cases i) (simp_all add: Pair sol_admin_acc_def sol_consumed_def sol_room_def fun_eq_iff)
  qed (auto simp: Pair sol_consumed_def sol_room_def fun_eq_iff elim!: sol_initialize_accept
      sol_register_accept sol_lock_accept sol_burn_accept)
qed

section \<open>A bridge as initialized\<close>

text \<open>Documented: \<^verbatim>\<open>find_program_address\<close> returns an address with the bump that gives it.\<close>

definition sol_pda_documented :: "'l sol_api \<Rightarrow> bool" where
  "sol_pda_documented api \<longleftrightarrow> (\<forall>seeds. create_pda api seeds (snd (find_pda api seeds)) = Some (fst (find_pda api seeds)))"

lemma sol_initialized_config:
  assumes "sol_exec api s0 (env0, Sol_initialize acc0 ks0 t0 f0 chain) = Inr (s, out0)"
  obtains c where "sol_configs s (ini_bridge_config acc0) = Some c" and "sol_rotation_delay c = 0"
    and "sol_mpc_signers c = ks0" and "sol_admin c = ini_admin acc0"
    and "sol_bump c = snd (find_pda api [BRIDGE_CONFIG_SEED])"
    and "ini_bridge_config acc0 = fst (find_pda api [BRIDGE_CONFIG_SEED])"
    and "sol_tokens s = sol_tokens s0" and "sol_trackers s = sol_trackers s0" and "sol_ledger s = sol_ledger s0"
  using assms by (auto simp: sol_exec_accept sol_initialize_def accept sol_zeroed_config_def)

lemma sol_silent_simps [simp]: "sol_cpis sol_silent = []" "sol_events sol_silent = []"
  by (simp_all add: sol_silent_def)

section \<open>A demonstration state\<close>

text \<open>
  One listed key, 7, which signed a mint of 500 and a proposal of a new signer set; key 666
  is not listed and signed a release. The ledger counts the units of token accounts.
\<close>

type_synonym sol_demo_ledger = "pubkey \<Rightarrow> nat"

definition sol_demo_verify :: "bytes \<Rightarrow> bytes \<Rightarrow> pubkey \<Rightarrow> bool" where
  "sol_demo_verify sig msg pk \<longleftrightarrow>
     pk = 7 \<and> (msg = sol_mint_message 1 9 33 44 500 \<or> msg = sol_propose_message [8, 8, 8] 1) \<or>
     pk = 666 \<and> msg = sol_release_message 1 10 33 44 300"

definition sol_demo_precompile :: "sol_ix list \<Rightarrow> bytes \<Rightarrow> bool" where
  "sol_demo_precompile ixs data \<longleftrightarrow> 2 < length data \<and> data ! 0 \<noteq> 0 \<and>
     (\<forall>i < unat (data ! 0). entry_verified sol_demo_verify ixs data i)"

definition sol_demo_pda :: "bytes list \<Rightarrow> pubkey" where
  "sol_demo_pda seeds = foldl (\<lambda>h b. 257 * h + ucast b) 1 (concat seeds)"

primrec sol_demo_spl :: "sol_demo_ledger \<Rightarrow> sol_cpi \<Rightarrow> sol_demo_ledger option" where
  "sol_demo_spl l (Spl_transfer from to auth a) = (if unat a \<le> l from
     then (let l' = l(from := l from - unat a) in Some (l'(to := l' to + unat a))) else None)"
| "sol_demo_spl l (Spl_mint_to mint to auth a) = Some (l(to := l to + unat a))"
| "sol_demo_spl l (Spl_burn mint from auth a) =
     (if unat a \<le> l from then Some (l(from := l from - unat a)) else None)"
| "sol_demo_spl l (Spl_init_account addr mint auth) = Some (l(addr := 0))"

definition sol_demo_api :: "sol_demo_ledger sol_api" where
  "sol_demo_api = \<lparr>ed25519_id = 5, precompile = sol_demo_precompile,
     create_pda = (\<lambda>seeds bump. Some (sol_demo_pda seeds)), find_pda = (\<lambda>seeds. (sol_demo_pda seeds, 255)),
     token_account_mint = (\<lambda>l addr. Some 44), is_mint_account = (\<lambda>l addr. True), spl = sol_demo_spl\<rparr>"

definition sol_demo_config :: sol_bridge_config where
  "sol_demo_config = sol_zeroed_config\<lparr>sol_admin := 2, sol_mpc_signers := [7, 7, 7], sol_threshold := 1,
     sol_fee_bps := 100, sol_fee_collector := 2, sol_chain_id := 900, sol_bump := 255\<rparr>"

definition sol_demo_token :: sol_token_config where
  "sol_demo_token = \<lparr>sol_mint = 44, sol_vault = 50, sol_wrapped_mint = 44, sol_is_native = True,
     sol_daily_mint_limit = 700, sol_daily_minted = 0, sol_period_start = 0, sol_active = True,
     sol_token_bump = 255\<rparr>"

definition sol_demo_config_address :: pubkey where
  "sol_demo_config_address = sol_demo_pda [BRIDGE_CONFIG_SEED]"

definition sol_demo_token_address :: pubkey where
  "sol_demo_token_address = sol_demo_pda [TOKEN_CONFIG_SEED, to_le_bytes (44 :: pubkey)]"

definition sol_demo_tracker_address :: pubkey where
  "sol_demo_tracker_address = sol_demo_pda [NONCE_TRACKER_SEED, to_le_bytes (1 :: u64)]"

definition sol_demo_tracker :: sol_nonce_tracker where
  "sol_demo_tracker = \<lparr>sol_source_chain_id = 1, sol_bitmap = replicate 1024 0, sol_tracker_bump = 255\<rparr>"

definition sol_demo :: "sol_demo_ledger sol_state" where
  "sol_demo = \<lparr>sol_configs = [sol_demo_config_address \<mapsto> sol_demo_config],
     sol_tokens = [sol_demo_token_address \<mapsto> sol_demo_token],
     sol_trackers = [sol_demo_tracker_address \<mapsto> sol_demo_tracker],
     sol_ledger = (\<lambda>addr. if addr = 50 then 1000 else 100)\<rparr>"

definition sol_demo_env :: "i64 \<Rightarrow> pubkey set \<Rightarrow> sol_env" where
  "sol_demo_env now signers = \<lparr>sol_signers = signers, sol_unix_timestamp = now, sol_previous_ix = None,
     sol_instructions = []\<rparr>"

definition sol_demo_mint_accounts :: sol_mint_accounts where
  "sol_demo_mint_accounts = \<lparr>mint_bridge_config = sol_demo_config_address,
     mint_token_config = sol_demo_token_address, mint_nonce_tracker = sol_demo_tracker_address,
     mint_wrapped_mint = 44, mint_recipient_token = 61, mint_relayer = 3\<rparr>"

definition sol_demo_mint :: sol_call where
  "sol_demo_mint = (sol_signed_env 5 (sol_demo_env 100000 {3}) (replicate 64 1) 7
     (sol_mint_message 1 9 33 44 500), Sol_mint_bridged sol_demo_mint_accounts 1 9 33 500)"

lemmas sol_demo_defs = sol_demo_def sol_demo_api_def sol_demo_config_def sol_demo_token_def
  sol_demo_tracker_def sol_demo_env_def sol_zeroed_config_def

lemma ed25519_demo: "ed25519_documented sol_demo_verify (precompile sol_demo_api)"
  by (simp add: ed25519_documented_def sol_demo_api_def sol_demo_precompile_def)

lemma sol_demo_fresh: "\<not> sol_is_processed sol_demo_tracker n"
proof (cases "unat n div 8 < 1024")
  case True
  then have "replicate 1024 (0 :: u8) ! (unat n div 8) = 0" by (rule nth_replicate)
  then show ?thesis by (simp only: sol_is_processed_bit sol_demo_tracker_def sol_nonce_tracker.simps bit_0_eq) simp
next
  case False
  then show ?thesis by (simp only: sol_is_processed_bit sol_demo_tracker_def sol_nonce_tracker.simps length_replicate) simp
qed

lemma sol_demo_loads:
  "sol_load_config sol_demo_api sol_demo sol_demo_config_address = Inr sol_demo_config"
  "sol_load_token sol_demo_api sol_demo sol_demo_token_address = Inr sol_demo_token"
  "sol_load_tracker sol_demo_api sol_demo 1 sol_demo_tracker_address = Inr sol_demo_tracker"
  by (simp_all add: sol_loads, simp_all add: sol_demo_def sol_demo_api_def sol_demo_token_def
      sol_demo_config_address_def sol_demo_token_address_def sol_demo_tracker_address_def)

lemma sol_demo_sound:
  "sol_canonical sol_demo_api sol_demo" "sol_initialized sol_demo_api sol_demo"
  "sol_trusted sol_demo = {7}" "sol_used sol_demo = {}"
proof -
  show "sol_canonical sol_demo_api sol_demo"
    by (simp add: sol_canonical_def sol_tracker_address_def sol_loads) (simp add: sol_demo_api_def)
  show "sol_initialized sol_demo_api sol_demo"
    by (simp add: sol_initialized_def sol_demo_def sol_demo_api_def sol_demo_config_address_def)
  have "\<not> sol_has_pending_rotation sol_demo_config"
    by (simp add: sol_has_pending_rotation_def sol_demo_config_def sol_zeroed_config_def)
  then have "sol_config_keys sol_demo_config = {7}"
    by (simp add: sol_config_keys_def sol_demo_config_def)
  then show "sol_trusted sol_demo = {7}" by (simp add: sol_trusted_def sol_demo_def)
  show "sol_used sol_demo = {}"
    using sol_demo_fresh by (auto simp: sol_used_def sol_demo_def split: if_splits)
qed

lemma sol_demo_vouched: "k \<in> sol_vouched sol_demo_verify {7} \<Longrightarrow> k = 7 \<or> k = 8"
proof (induction rule: sol_vouched.induct)
  case (signed g sig ks t k)
  then show ?case
    by (auto simp: sol_demo_verify_def sol_propose_message_inject sol_message_tags
        sol_message_tags [THEN not_sym])
qed simp

lemma sol_demo_attests:
  "g \<in> sol_vouched sol_demo_verify {7} \<Longrightarrow> sol_attests sol_demo_verify g m \<Longrightarrow> m = Sol_claim 1 9 33 44 500"
  by (cases m) (auto simp: sol_attests_def sol_demo_verify_def sol_mint_message_inject sol_message_tags
      dest: sol_demo_vouched)

lemma sol_demo_mint_accepted:
  obtains s' out where "sol_exec sol_demo_api sol_demo sol_demo_mint = Inr (s', out)"
    and "sol_cpis out = [Spl_mint_to 44 61 (sol_demo_pda [str_bytes ''mint_authority'']) 500]"
    and "sol_tokens s' = [sol_demo_token_address \<mapsto>
      sol_demo_token\<lparr>sol_daily_minted := 500, sol_period_start := 100000\<rparr>]"
proof -
  obtain t' where t': "sol_mark_processed sol_demo_tracker 9 = Inr t'"
    by (rule sol_mark_processed_in_range [of 9 sol_demo_tracker]) (simp_all add: sol_demo_tracker_def)
  let ?sig = "replicate 64 (1 :: u8)"
  have check: "sol_verify_ed25519_signature 5 (sol_signed_env 5 (sol_demo_env 100000 {3}) ?sig 7
      (sol_mint_message 1 9 33 44 500)) sol_demo_config 1 9 33 44 500 = Inr ()"
    by (rule sol_mint_check_signed) (simp_all add: sol_demo_config_def)
  have limit: "sol_check_daily_limit sol_demo_token 500 100000 =
      Inr (sol_demo_token\<lparr>sol_daily_minted := 500, sol_period_start := 100000\<rparr>)"
    by (simp add: sol_check_daily_limit_def sol_demo_token_def signed_add_def signed_fit_def checked_add_def Let_def)
  have "sol_precompiles_ok (ed25519_id sol_demo_api) (precompile sol_demo_api) (fst sol_demo_mint)"
    using sol_signed_precompile [OF ed25519_demo, of ?sig "sol_mint_message 1 9 33 44 500"]
    by (simp add: sol_demo_mint_def sol_demo_verify_def length_sol_mint_message) (simp add: sol_demo_api_def)
  moreover have "sol_mint_bridged sol_demo_api (fst sol_demo_mint) sol_demo sol_demo_mint_accounts 1 9 33 500 = Inr
    (sol_demo\<lparr>sol_tokens := (sol_tokens sol_demo)(sol_demo_token_address \<mapsto>
         sol_demo_token\<lparr>sol_daily_minted := 500, sol_period_start := 100000\<rparr>),
       sol_trackers := (sol_trackers sol_demo)(sol_demo_tracker_address \<mapsto> t'),
       sol_ledger := (sol_ledger sol_demo)(61 := 600)\<rparr>,
     \<lparr>sol_cpis = [Spl_mint_to 44 61 (sol_demo_pda [str_bytes ''mint_authority'']) 500],
      sol_events = [Sol_MintEvent 1 9 44 33 500 100000]\<rparr>)"
    using sol_mint_accepted [of sol_demo_api sol_demo sol_demo_mint_accounts sol_demo_config sol_demo_token 1
      sol_demo_tracker 9 "fst sol_demo_mint" 33 500] sol_demo_loads sol_demo_fresh check limit t'
    by (simp add: sol_demo_mint_accounts_def sol_demo_mint_def) (simp add: sol_demo_defs)
  ultimately show thesis
    by (intro that) (simp_all add: sol_exec_accept sol_demo_mint_def, simp_all add: sol_demo_def)
qed

section \<open>Properties\<close>

text \<open>C3: The Solana program mints on attestations only: from an initialized bridge, over any
  sequence of transactions, the units it mints are at most the sum of the amounts of the
  mint claims that were signed by a key the state trusts, or by a key such keys vouch for in
  signed proposals, and not used before, each counted once. No administrator, relayer or
  composition of the transaction changes this.\<close>

theorem sol_mints_attested:
  assumes "ed25519_documented verify (precompile api)" and "sol_canonical api s" and "sol_initialized api s"
    and "finite M" and "\<forall>g m. g \<in> sol_vouched verify (sol_trusted s) \<longrightarrow> sol_attests verify g m \<longrightarrow> m \<in> M"
  shows "sum_list (map (\<lambda>(call, out). sol_outflow out) (exec_trace (sol_exec api) s calls))
    \<le> (\<Sum>m | m \<in> M \<and> sol_claim_key api m \<notin> sol_used s. sol_claim_amount m)"
proof -
  have "sol_sound verify (sol_trusted s) api s"
    using assms by (auto simp: sol_sound_def intro: sol_vouched.initial)
  from sol.outflow_bounded [OF this subset_refl _ assms(4)] assms(5) show ?thesis by blast
qed

theorem sol_mints_attested_witness:
  "sum_list (map (\<lambda>(call, out). sol_outflow out)
     (exec_trace (sol_exec sol_demo_api) sol_demo [sol_demo_mint, sol_demo_mint])) = 500"
proof -
  let ?M = "{Sol_claim 1 9 33 44 500}"
  have "sum_list (map (\<lambda>(call, out). sol_outflow out)
      (exec_trace (sol_exec sol_demo_api) sol_demo [sol_demo_mint, sol_demo_mint]))
    \<le> (\<Sum>m | m \<in> ?M \<and> sol_claim_key sol_demo_api m \<notin> sol_used sol_demo. sol_claim_amount m)"
    by (rule sol_mints_attested [OF ed25519_demo])
      (auto simp: sol_demo_sound dest: sol_demo_attests)
  also have "\<dots> \<le> 500" by (simp add: sol_demo_sound)
  finally have "sum_list (map (\<lambda>(call, out). sol_outflow out)
      (exec_trace (sol_exec sol_demo_api) sol_demo [sol_demo_mint, sol_demo_mint])) \<le> 500" .
  moreover obtain s' out where "sol_exec sol_demo_api sol_demo sol_demo_mint = Inr (s', out)"
    and "sol_cpis out = [Spl_mint_to 44 61 (sol_demo_pda [str_bytes ''mint_authority'']) 500]"
    by (rule sol_demo_mint_accepted)
  ultimately show ?thesis by (simp add: sol_outflow_def)
qed

text \<open>C12: The signer keys of an initialized Solana bridge are in custody of the signers: over
  any sequence of transactions every key in force or waiting for its timelock was in force
  or waiting at the start, or is in a signer set that such a key signed a proposal of. The
  administrator alone installs no key.\<close>

theorem sol_keys_vouched:
  assumes "ed25519_documented verify (precompile api)" and "sol_initialized api s"
  shows "sol_trusted (exec_final (sol_exec api) s calls) \<subseteq> sol_vouched verify (sol_trusted s)"
proof -
  have "sol_trusted (exec_final (sol_exec api) s calls) \<subseteq> sol_vouched verify (sol_trusted s) \<and>
      sol_initialized api (exec_final (sol_exec api) s calls)"
  proof (rule exec_final_inv [where C = UNIV])
    fix t call t' out
    assume "sol_trusted t \<subseteq> sol_vouched verify (sol_trusted s) \<and> sol_initialized api t"
      and "sol_exec api t call = Inr (t', out)"
    then show "sol_trusted t' \<subseteq> sol_vouched verify (sol_trusted s) \<and> sol_initialized api t'"
      by (metis sol_vouched_step [OF assms(1)] sol_initialized_step)
  qed (use assms(2) in \<open>auto intro: sol_vouched.initial\<close>)
  then show ?thesis ..
qed

theorem sol_keys_vouched_witness:
  "sol_trusted (exec_final (sol_exec sol_demo_api) sol_demo
     [sol_demo_mint, (sol_demo_env 1 {2}, Sol_propose_signers \<lparr>adm_bridge_config = sol_demo_config_address,
        adm_admin = 2\<rparr> [666, 666, 666] 1 (sol_propose_message [666, 666, 666] 1))]) \<subseteq> {7, 8}"
  using sol_keys_vouched [OF ed25519_demo sol_demo_sound(2)] sol_demo_vouched
  by (fastforce simp: sol_demo_sound(3))

text \<open>C18: The Solana program never pays twice for a nonce of a source chain's tracker,
  whatever the native and the token program do: over any sequence of transactions the
  (tracker, nonce) pairs of the accepted mints and releases are distinct, were not marked
  before, and are marked after, with nothing else.\<close>

theorem sol_replay_protected:
  fixes api s calls
  defines "keys \<equiv> List.map_filter (\<lambda>(call, out). sol_consumed call out) (exec_trace (sol_exec api) s calls)"
  shows "distinct keys \<and> set keys \<inter> sol_used s = {} \<and>
    sol_used (exec_final (sol_exec api) s calls) = sol_used s \<union> set keys"
  using sol_replay.consumed_once [where s = s and api = api and cs = calls]
  unfolding keys_def by blast

theorem sol_replay_protected_witness:
  "sol_used (exec_final (sol_exec sol_demo_api) sol_demo [sol_demo_mint, sol_demo_mint]) =
     {(sol_demo_tracker_address, 9)}"
proof -
  obtain s' out where step: "sol_exec sol_demo_api sol_demo sol_demo_mint = Inr (s', out)"
    by (rule sol_demo_mint_accepted)
  let ?keys = "List.map_filter (\<lambda>(call, out). sol_consumed call out)
    (exec_trace (sol_exec sol_demo_api) sol_demo [sol_demo_mint, sol_demo_mint])"
  have "set ?keys = {(sol_demo_tracker_address, 9)}"
    using step by (auto simp: List.map_filter_simps sol_consumed_def sol_demo_mint_def
        sol_demo_mint_accounts_def split: sum.splits)
  with sol_replay_protected [of sol_demo_api sol_demo "[sol_demo_mint, sol_demo_mint]"]
  show ?thesis by (simp add: sol_demo_sound)
qed

text \<open>C20: The daily limit of a Solana token bounds its mints over any 24 hours, aligned with
  the periods or not: over transactions in the order of their clocks, what the program
  mints of the token within a day from any moment is at most twice the limit. No
  instruction changes or renews the limit.\<close>

theorem sol_daily_window:
  assumes "sol_tokens s d = Some k" and "sol_daily_mint_limit k \<noteq> 0"
    and "sorted (map sol_clock calls)"
  shows "spent_in_day T (spendings (sol_exec api) (sol_spent d) sol_clock s calls)
    \<le> 2 * unat (sol_daily_mint_limit k)"
  using sol_rate.any_day [of d s "sol_lim k" calls T api] assms
  by (simp add: sol_limiter_of_def sol_lim_def unat_eq_0)

theorem sol_daily_window_witness:
  "spent_in_day 100000 (spendings (sol_exec sol_demo_api) (sol_spent sol_demo_token_address) sol_clock
     sol_demo [sol_demo_mint, sol_demo_mint]) \<le> 1400"
  using sol_daily_window [of sol_demo sol_demo_token_address sol_demo_token "[sol_demo_mint, sol_demo_mint]"
      100000 sol_demo_api]
  by (simp add: sol_demo_def sol_demo_token_def)

text \<open>C13: The timelock of the signer set: while no rotation is pending, or only one due at
  \<open>T + D\<close> or later, and the delay is at least \<open>D\<close>, no sequence of transactions with
  clocks from \<open>T\<close> up to \<open>T + D\<close> that leaves the delay alone changes the keys in force.\<close>

theorem sol_timelock_holds:
  assumes "sol_configs s addr = Some c" and "D \<le> sint (sol_rotation_delay c)"
    and "sol_has_pending_rotation c \<longrightarrow> T + D \<le> sint (sol_pending_signers_eta c)"
    and calls: "\<forall>call \<in> set calls. T \<le> sol_clock call \<and> sol_clock call < T + D \<and> \<not> sol_changes_delay call"
  shows "\<exists>c'. sol_configs (exec_final (sol_exec api) s calls) addr = Some c' \<and>
    sol_mpc_signers c' = sol_mpc_signers c"
proof -
  let ?C = "{call. T \<le> sol_clock call \<and> sol_clock call < T + D \<and> \<not> sol_changes_delay call}"
  let ?I = "\<lambda>t. \<exists>c'. sol_configs t addr = Some c' \<and> sol_locked_in (sol_mpc_signers c) T D c'"
  have "?I (exec_final (sol_exec api) s calls)"
  proof (rule exec_final_inv [where C = ?C])
    show "?I s" using assms(1-3) by (simp add: sol_locked_in_def)
    show "set calls \<subseteq> ?C" using calls by blast
  qed (use sol_locked_in_step in blast)
  then show ?thesis by (auto simp: sol_locked_in_def)
qed

definition sol_demo_admin :: sol_admin_accounts where
  "sol_demo_admin = \<lparr>adm_bridge_config = sol_demo_config_address, adm_admin = 2\<rparr>"

definition sol_demo_propose :: "i64 \<Rightarrow> sol_call" where
  "sol_demo_propose now = (sol_signed_env 5 (sol_demo_env now {2}) (replicate 64 1) 7
     (sol_propose_message [8, 8, 8] 1),
     Sol_propose_signers sol_demo_admin [8, 8, 8] 1 (sol_propose_message [8, 8, 8] 1))"

definition sol_demo_delayed :: "sol_demo_ledger sol_state" where
  "sol_demo_delayed = sol_demo\<lparr>sol_configs :=
     [sol_demo_config_address \<mapsto> sol_demo_config\<lparr>sol_rotation_delay := 86400\<rparr>]\<rparr>"

theorem sol_timelock_holds_witness:
  "\<exists>c'. sol_configs (exec_final (sol_exec sol_demo_api) sol_demo_delayed
       [sol_demo_propose 1000, (sol_demo_env 87000 {2}, Sol_execute_signers sol_demo_admin)])
     sol_demo_config_address = Some c' \<and> sol_mpc_signers c' = [7, 7, 7]"
  using sol_timelock_holds [of sol_demo_delayed sol_demo_config_address
      "sol_demo_config\<lparr>sol_rotation_delay := 86400\<rparr>" 86400 1000
      "[sol_demo_propose 1000, (sol_demo_env 87000 {2}, Sol_execute_signers sol_demo_admin)]" sol_demo_api]
  by (simp add: sol_demo_delayed_def sol_clock_def sol_demo_propose_def sol_demo_env_def
      sol_changes_delay_def sol_has_pending_rotation_def sol_demo_config_def sol_zeroed_config_def)

text \<open>C31: \<^verbatim>\<open>initialize\<close> leaves the rotation delay at zero, not at the 24 hours of
  \<^verbatim>\<open>DEFAULT_ROTATION_DELAY\<close>: on a bridge as initialized, a proposal signed by one key
  and its execution both succeed at the same clock, and the new keys are in force at once.\<close>

theorem sol_rotation_starts_instant:
  assumes init: "sol_exec api s0 (env0, Sol_initialize acc0 ks0 t0 f0 chain) = Inr (s, out0)"
    and pda: "sol_pda_documented api" and doc: "ed25519_documented verify (precompile api)"
    and sig: "length sig = 64" "pk \<in> set ks0" "verify sig (sol_propose_message ks t) pk"
    and "length ks = 3" and "1 \<le> t" and "t \<le> 3"
    and acc: "adm_bridge_config acc = ini_bridge_config acc0" "adm_admin acc = ini_admin acc0"
      "ini_admin acc0 \<in> sol_signers env"
    and now: "0 < sint (sol_unix_timestamp env)" "sol_previous_ix env = None"
  shows "\<exists>s1 s2 c. sol_exec api s (sol_signed_env (ed25519_id api) env sig pk (sol_propose_message ks t),
        Sol_propose_signers acc ks t (sol_propose_message ks t)) = Inr (s1, sol_silent) \<and>
      sol_exec api s1 (env, Sol_execute_signers acc) = Inr (s2, sol_silent) \<and>
      sol_configs s2 (ini_bridge_config acc0) = Some c \<and> sol_mpc_signers c = ks"
proof -
  let ?addr = "ini_bridge_config acc0" and ?now = "sol_unix_timestamp env"
  let ?env = "sol_signed_env (ed25519_id api) env sig pk (sol_propose_message ks t)"
  obtain c where c: "sol_configs s ?addr = Some c" "sol_rotation_delay c = 0" "sol_mpc_signers c = ks0"
    "sol_admin c = ini_admin acc0" "sol_bump c = snd (find_pda api [BRIDGE_CONFIG_SEED])"
    "?addr = fst (find_pda api [BRIDGE_CONFIG_SEED])"
    by (rule sol_initialized_config [OF init])
  let ?c = "c\<lparr>sol_pending_signers := ks, sol_pending_threshold := t, sol_pending_signers_eta := ?now\<rparr>"
  let ?s = "s\<lparr>sol_configs := (sol_configs s)(?addr \<mapsto> ?c)\<rparr>"
  have load: "sol_load_admin_config api env' u ?addr (ini_admin acc0) = Inr d"
    if "sol_configs u ?addr = Some d" "sol_admin d = sol_admin c" "sol_bump d = sol_bump c"
      "ini_admin acc0 \<in> sol_signers env'" for env' u d
    using that c(4-6) pda by (simp add: sol_load_admin_config_Inr sol_loads sol_pda_documented_def)
  have "sol_load_admin_config api ?env s ?addr (ini_admin acc0) = Inr c"
    using c acc by (intro load) simp_all
  moreover have "sol_precompiles_ok (ed25519_id api) (precompile api) ?env"
    using sig assms(7) by (subst sol_signed_precompile [OF doc])
      (auto simp: sol_propose_message_def length_Suc_conv numeral_3_eq_3)
  moreover have "sol_verify_propose_signers_signature (ed25519_id api) ?env c ks t (sol_propose_message ks t) = Inr ()"
    using sig assms(7) c(3) by (intro sol_propose_check_signed) simp_all
  moreover have "signed_add ?now (sol_rotation_delay c) = Some ?now"
    by (simp add: signed_ops c(2))
  ultimately have "sol_exec api s (?env, Sol_propose_signers acc ks t (sol_propose_message ks t)) = Inr (?s, sol_silent)"
    using assms(8,9) acc by (simp add: sol_exec_accept sol_propose_signers_def sol_save_config_def)
  moreover have "sol_load_admin_config api env ?s ?addr (ini_admin acc0) = Inr ?c"
    using acc by (intro load) simp_all
  then have "sol_exec api ?s (env, Sol_execute_signers acc) =
      Inr (?s\<lparr>sol_configs := (sol_configs ?s)(?addr \<mapsto> ?c\<lparr>sol_mpc_signers := ks, sol_threshold := t,
        sol_pending_signers := replicate 3 default_pubkey, sol_pending_threshold := 0,
        sol_pending_signers_eta := 0\<rparr>)\<rparr>, sol_silent)"
    using acc now by (simp add: sol_exec_accept sol_precompiles_ok_def sol_execute_signers_def
        sol_save_config_def sol_has_pending_rotation_def)
  ultimately show ?thesis by fastforce
qed

definition sol_demo_blank :: "sol_demo_ledger sol_state" where
  "sol_demo_blank = \<lparr>sol_configs = Map.empty, sol_tokens = Map.empty, sol_trackers = Map.empty,
     sol_ledger = (\<lambda>_. 0)\<rparr>"

theorem sol_rotation_starts_instant_witness:
  "\<exists>s s1 s2 c. sol_exec sol_demo_api sol_demo_blank (sol_demo_env 1 {2}, Sol_initialize
        \<lparr>ini_bridge_config = sol_demo_config_address, ini_admin = 2\<rparr> [7, 7, 7] 1 100 900) = Inr (s, sol_silent) \<and>
      sol_exec sol_demo_api s (sol_demo_propose 1) = Inr (s1, sol_silent) \<and>
      sol_exec sol_demo_api s1 (sol_demo_env 1 {2}, Sol_execute_signers sol_demo_admin) = Inr (s2, sol_silent) \<and>
      sol_configs s2 sol_demo_config_address = Some c \<and> sol_mpc_signers c = [8, 8, 8]"
proof -
  obtain s where init: "sol_exec sol_demo_api sol_demo_blank (sol_demo_env 1 {2}, Sol_initialize
        \<lparr>ini_bridge_config = sol_demo_config_address, ini_admin = 2\<rparr> [7, 7, 7] 1 100 900) = Inr (s, sol_silent)"
    by (simp add: sol_exec_accept sol_precompiles_ok_def sol_demo_env_def sol_initialize_def sol_demo_blank_def
        sol_demo_config_address_def) (simp add: sol_demo_api_def)
  have pda: "sol_pda_documented sol_demo_api" by (simp add: sol_pda_documented_def sol_demo_api_def)
  have "ed25519_id sol_demo_api = 5" by (simp add: sol_demo_api_def)
  with sol_rotation_starts_instant [OF init pda ed25519_demo, of "replicate 64 1" 7 "[8, 8, 8]" 1
      sol_demo_admin "sol_demo_env 1 {2}"] init
  show ?thesis
    by (auto simp: sol_demo_verify_def sol_demo_admin_def sol_demo_env_def sol_demo_propose_def)
qed

text \<open>C9: A release on the Solana program needs no signature of a listed key: the check looks
  at the key and the message of the instruction before the program's, but not where the
  instruction points. Whoever signed the release message with a key of their own passes the
  native program with a second instruction that points into the first, and the vault pays
  as if the listed key \<open>victim\<close> had signed.\<close>

theorem sol_release_forgery:
  assumes doc: "ed25519_documented verify (precompile api)"
    and sig: "length sig = 64" "verify sig (sol_release_message c n r (sol_mint k) a) attacker"
    and "victim \<in> set (sol_mpc_signers cfg)"
    and "sol_load_config api s (rel_bridge_config acc) = Inr cfg" and "\<not> sol_paused cfg"
    and "sol_load_token api s (rel_token_config acc) = Inr k" and "sol_active k" and "sol_is_native k"
    and "sol_load_tracker api s c (rel_nonce_tracker acc) = Inr t" and "\<not> sol_is_processed t n"
    and range: "unat n < 8 * length (sol_bitmap t)"
    and "rel_vault acc = sol_vault k" and "token_account_mint api (sol_ledger s) (sol_vault k) \<noteq> None"
    and "token_account_mint api (sol_ledger s) (rel_recipient_token acc) \<noteq> None"
    and "rel_relayer acc \<in> sol_signers env"
    and "spl api (sol_ledger s) (Spl_transfer (sol_vault k) (rel_recipient_token acc)
           (fst (find_pda api [str_bytes ''vault_authority''])) a) = Some ledger"
  shows "\<exists>s' out. sol_exec api s (sol_forged_env (ed25519_id api) env sig attacker victim
        (sol_release_message c n r (sol_mint k) a), Sol_release acc c n r a) = Inr (s', out) \<and>
      sol_ledger s' = ledger"
proof -
  let ?msg = "sol_release_message c n r (sol_mint k) a"
  let ?env = "sol_forged_env (ed25519_id api) env sig attacker victim ?msg"
  obtain t' where t': "sol_mark_processed t n = Inr t'"
    using range by (rule sol_mark_processed_in_range)
  have "sol_verify_release_signature (ed25519_id api) ?env cfg c n r (sol_mint k) a = Inr ()"
    by (rule sol_release_check_forged [OF _ assms(4)]) (simp add: sol_forged_env_def)
  with sol_release_accepted [of api s acc cfg k c t n ?env r a ledger t'] assms t'
  have "\<exists>out. sol_release api ?env s acc c n r a = Inr
    (s\<lparr>sol_trackers := (sol_trackers s)(rel_nonce_tracker acc \<mapsto> t'), sol_ledger := ledger\<rparr>, out)"
    by simp
  moreover have "sol_precompiles_ok (ed25519_id api) (precompile api) ?env"
    by (rule sol_forged_precompiles [OF doc sig(2,1)]) (simp add: length_sol_release_message)
  ultimately show ?thesis by (auto simp: sol_exec_accept)
qed

text \<open>In the witness key 7 is the only one listed and signed no release, and the vault pays
  300 units on the word of key 666.\<close>

theorem sol_release_forgery_witness:
  "(\<forall>sig c n r mint a. \<not> sol_demo_verify sig (sol_release_message c n r mint a) 7) \<and>
   (\<exists>s' out. sol_exec sol_demo_api sol_demo (sol_forged_env 5 (sol_demo_env 1 {3}) (replicate 64 1) 666 7
        (sol_release_message 1 10 33 44 300), Sol_release
          \<lparr>rel_bridge_config = sol_demo_config_address, rel_token_config = sol_demo_token_address,
           rel_nonce_tracker = sol_demo_tracker_address, rel_vault = 50, rel_recipient_token = 66,
           rel_relayer = 3\<rparr> 1 10 33 300) = Inr (s', out) \<and>
      sol_ledger s' 50 = 700 \<and> sol_ledger s' 66 = 400)"
proof
  show "\<forall>sig c n r mint a. \<not> sol_demo_verify sig (sol_release_message c n r mint a) 7"
    by (simp add: sol_demo_verify_def sol_message_tags sol_message_tags [THEN not_sym])
  have ed: "ed25519_id sol_demo_api = 5" "sol_mint sol_demo_token = 44"
    by (simp_all add: sol_demo_api_def sol_demo_token_def)
  let ?acc = "\<lparr>rel_bridge_config = sol_demo_config_address, rel_token_config = sol_demo_token_address,
           rel_nonce_tracker = sol_demo_tracker_address, rel_vault = 50, rel_recipient_token = 66,
           rel_relayer = 3\<rparr>"
  have "\<exists>s' out. sol_exec sol_demo_api sol_demo (sol_forged_env (ed25519_id sol_demo_api) (sol_demo_env 1 {3})
      (replicate 64 1) 666 7 (sol_release_message 1 10 33 (sol_mint sol_demo_token) 300),
      Sol_release ?acc 1 10 33 300) = Inr (s', out) \<and>
      sol_ledger s' = (sol_ledger sol_demo)(50 := 700, 66 := 400)"
    by (rule sol_release_forgery [OF ed25519_demo, where cfg = sol_demo_config and t = sol_demo_tracker])
      (use sol_demo_fresh sol_demo_loads in \<open>simp_all add: ed sol_demo_verify_def\<close>,
        simp_all add: sol_demo_defs)
  then show "\<exists>s' out. sol_exec sol_demo_api sol_demo (sol_forged_env 5 (sol_demo_env 1 {3}) (replicate 64 1) 666 7
        (sol_release_message 1 10 33 44 300), Sol_release ?acc 1 10 33 300) = Inr (s', out) \<and>
      sol_ledger s' 50 = 700 \<and> sol_ledger s' 66 = 400"
    unfolding ed by fastforce
qed

text \<open>The attestation of a Solana mint does not bind the token account that is paid: the
  relayer of an accepted mint could have named any other token account, of any owner, with
  the same signature; the event still announces the signed recipient.\<close>

lemma sol_recipient_unbound:
  assumes "sol_exec api s (env, Sol_mint_bridged acc c n r a) = Inr (s', out)"
    and "token_account_mint api (sol_ledger s) x \<noteq> None"
    and "spl api (sol_ledger s) (Spl_mint_to (mint_wrapped_mint acc) x
      (fst (find_pda api [str_bytes ''mint_authority''])) a) = Some ledger"
  shows "\<exists>s'' out'. sol_exec api s (env, Sol_mint_bridged (acc\<lparr>mint_recipient_token := x\<rparr>) c n r a) = Inr (s'', out') \<and>
    sol_ledger s'' = ledger \<and> sol_events out' = sol_events out"
  using assms sol_mint_any_recipient [OF _ refl assms(2,3), of env c n r s' out]
  by (auto simp: sol_exec_accept)

lemma sol_recipient_unbound_demo:
  "\<exists>s'' out'. sol_exec sol_demo_api sol_demo (fst sol_demo_mint, Sol_mint_bridged
      (sol_demo_mint_accounts\<lparr>mint_recipient_token := 66\<rparr>) 1 9 33 500) = Inr (s'', out') \<and>
    sol_ledger s'' = (sol_ledger sol_demo)(66 := 600)"
proof -
  obtain s' out where "sol_exec sol_demo_api sol_demo sol_demo_mint = Inr (s', out)"
    by (rule sol_demo_mint_accepted)
  then have "sol_exec sol_demo_api sol_demo (fst sol_demo_mint,
      Sol_mint_bridged sol_demo_mint_accounts 1 9 33 500) = Inr (s', out)"
    by (simp add: sol_demo_mint_def)
  from sol_recipient_unbound [OF this, of 66 "(sol_ledger sol_demo)(66 := 600)"] show ?thesis
    by (auto simp: sol_demo_api_def sol_demo_def)
qed

text \<open>C22: The nonce bitmap is a set of nonces with an end: marking succeeds exactly for the
  nonces below eight times its bytes and adds that nonce and no other; past the end it is an
  overflow error and leaves nothing marked.\<close>

theorem sol_bitmap_correct:
  "case sol_mark_processed t n of
     Inr t' \<Rightarrow> unat n < 8 * length (sol_bitmap t) \<and> length (sol_bitmap t') = length (sol_bitmap t) \<and>
       {m. sol_is_processed t' m} = insert n {m. sol_is_processed t m}
   | Inl e \<Rightarrow> e = Bridge_error Sol_Overflow \<and> 8 * length (sol_bitmap t) \<le> unat n \<and> \<not> sol_is_processed t n"
proof (cases "unat n < 8 * length (sol_bitmap t)")
  case True
  then obtain t' where t': "sol_mark_processed t n = Inr t'" by (rule sol_mark_processed_in_range)
  with sol_mark_processed_sets [OF t'] True show ?thesis by auto
next
  case False
  then have "length (sol_bitmap t) \<le> unat n div 8" by (simp add: less_eq_div_iff_mult_less_eq mult.commute)
  with False show ?thesis by (simp add: sol_mark_processed_def sol_is_processed_def Let_def)
qed

text \<open>C30: Nothing arrives on Solana beyond what the trackers hold. No instruction creates a
  nonce tracker or makes one longer, so over any sequence of transactions a mint or release
  is rejected whose tracker account was missing at the start or whose nonce was past the end
  of its bitmap (8192 for the 1024 bytes of the source).\<close>

theorem sol_arrivals_bounded:
  "set (List.map_filter (\<lambda>(call, out). sol_consumed call out) (exec_trace (sol_exec api) s calls))
     \<subseteq> {(addr, n). unat n < sol_room s addr}"
proof (induction calls arbitrary: s)
  case Nil
  then show ?case by (simp add: List.map_filter_simps)
next
  case (Cons call calls)
  show ?case
  proof (cases "sol_exec api s call")
    case (Inl e)
    with Cons show ?thesis by simp
  next
    case (Inr r)
    then have "sol_exec api s call = Inr (fst r, snd r)" by simp
    note room = sol_room_step [OF this]
    show ?thesis
      using Cons.IH [of "fst r"] room Inr
      by (cases "sol_consumed call (snd r)") (auto simp: List.map_filter_simps)
  qed
qed

text \<open>C36: Everything in the Solana configuration but the outbound nonce is the administrator's:
  no sequence of transactions without the administrator's signature changes it.\<close>

theorem sol_config_admin_only:
  assumes "sol_configs s addr = Some c" and "\<forall>call \<in> set calls. sol_admin c \<notin> sol_signers (fst call)"
  shows "\<exists>n. sol_configs (exec_final (sol_exec api) s calls) addr = Some (c\<lparr>sol_outbound_nonce := n\<rparr>)"
proof -
  have "sol_settings addr (exec_final (sol_exec api) s calls) = sol_settings addr s"
    by (rule sol_guard.config_constant) (use assms in \<open>simp add: sol_admin_signed_def sol_settings_def\<close>)
  with assms(1) obtain c' where "sol_configs (exec_final (sol_exec api) s calls) addr = Some c'"
    and "c'\<lparr>sol_outbound_nonce := 0\<rparr> = c\<lparr>sol_outbound_nonce := 0\<rparr>"
    by (auto simp: sol_settings_def)
  with sol_same_settings [of c' c] show ?thesis by auto
qed

theorem sol_config_admin_only_witness:
  "\<exists>n. sol_configs (exec_final (sol_exec sol_demo_api) sol_demo
      [sol_demo_mint, (sol_demo_env 1 {3}, Sol_pause sol_demo_admin)]) sol_demo_config_address =
    Some (sol_demo_config\<lparr>sol_outbound_nonce := n\<rparr>)"
  by (rule sol_config_admin_only)
    (simp_all add: sol_demo_def sol_demo_mint_def sol_demo_env_def sol_demo_config_def)

text \<open>The fee of a Solana lock is optional: whoever is charged a fee can leave the fee
  account out and have the same lock accepted, with the same event, paying the net amount
  to the vault and the fee to nobody.\<close>

lemma sol_fee_bypass:
  assumes "sol_exec api s (env, Sol_lock_and_bridge acc a d r) = Inr (s', out)"
  shows "\<exists>s'' out'. sol_exec api s (env, Sol_lock_and_bridge (acc\<lparr>lock_fee_account := None\<rparr>) a d r) = Inr (s'', out') \<and>
    sol_cpis out' = [hd (sol_cpis out)] \<and> sol_events out' = sol_events out"
  using assms sol_lock_without_fee_account [of api env s acc a d r s' out]
  by (auto simp: sol_exec_accept)

lemma sol_fee_bypass_demo:
  "\<exists>s'' out'. sol_exec sol_demo_api sol_demo (sol_demo_env 1 {9}, Sol_lock_and_bridge
      \<lparr>lock_bridge_config = sol_demo_config_address, lock_token_config = sol_demo_token_address,
       lock_user_token = 70, lock_vault = 50, lock_fee_account = None, lock_sender = 9\<rparr> 100 1 []) = Inr (s'', out') \<and>
    sol_cpis out' = [Spl_transfer 70 50 9 99] \<and>
    sol_events out' = [Sol_LockEvent 900 1 0 44 9 [] 99 1 1]"
proof -
  let ?acc = "\<lparr>lock_bridge_config = sol_demo_config_address, lock_token_config = sol_demo_token_address,
       lock_user_token = 70, lock_vault = 50, lock_fee_account = Some 71, lock_sender = 9\<rparr>"
  have "\<exists>s'. sol_exec sol_demo_api sol_demo (sol_demo_env 1 {9}, Sol_lock_and_bridge ?acc 100 1 []) =
    Inr (s', \<lparr>sol_cpis = [Spl_transfer 70 50 9 99, Spl_transfer 70 71 9 1],
      sol_events = [Sol_LockEvent 900 1 0 44 9 [] 99 1 1]\<rparr>)"
    using sol_demo_loads
    by (simp add: sol_exec_accept sol_lock_and_bridge_def sol_run_spl_def sol_precompiles_ok_def)
      (simp add: sol_demo_defs checked_mul_def checked_sub_def checked_add_def sol_next_nonce_def sol_run_spl_def Let_def)
  then obtain s' where lock: "sol_exec sol_demo_api sol_demo (sol_demo_env 1 {9}, Sol_lock_and_bridge ?acc 100 1 []) =
    Inr (s', \<lparr>sol_cpis = [Spl_transfer 70 50 9 99, Spl_transfer 70 71 9 1],
      sol_events = [Sol_LockEvent 900 1 0 44 9 [] 99 1 1]\<rparr>)" ..
  from sol_fee_bypass [OF lock] show ?thesis by simp
qed

end
