(* ===== verification/Solana_Custody.thy ===== *)
theory Solana_Custody
  imports Solana_Properties
begin

text \<open>
  The outbound side of the Solana program: what its vaults hold and how it numbers what it
  announces. Two interfaces, for a machine that keeps a balance and one that numbers its
  messages, with the laws of the token program as a named hypothesis.
\<close>

section \<open>Balances and numbers over a sequence of calls\<close>

locale accounted =
  fixes exec :: "'s \<Rightarrow> 'c \<Rightarrow> 'e + ('s \<times> 'o)"
    and balance :: "'s \<Rightarrow> nat"
    and paid_in paid_out :: "'c \<Rightarrow> 'o \<Rightarrow> nat"
    and sound :: "'s \<Rightarrow> bool"
    and regular :: "'c \<Rightarrow> bool"
  assumes entry: "sound s \<Longrightarrow> regular c \<Longrightarrow> exec s c = Inr (s', out) \<Longrightarrow>
      sound s' \<and> balance s' + paid_out c out = balance s + paid_in c out"
begin

lemma account_closes:
  "sound s \<Longrightarrow> \<forall>c \<in> set cs. regular c \<Longrightarrow>
     balance (exec_final exec s cs) + sum_list (map (\<lambda>(c, out). paid_out c out) (exec_trace exec s
         cs)) =
     balance s + sum_list (map (\<lambda>(c, out). paid_in c out) (exec_trace exec s cs))"
proof (induction cs arbitrary: s)
  case Nil
  then show ?case by simp
next
  case (Cons c cs)
  show ?case
  proof (cases "exec s c")
    case (Inl e)
    with Cons show ?thesis by simp
  next
    case (Inr r)
    then have "exec s c = Inr (fst r, snd r)" by simp
    from entry [OF Cons.prems(1) _ this] Cons.prems(2)
    have step: "sound (fst r)" "balance (fst r) + paid_out c (snd r) = balance s + paid_in c (snd r)"
      by simp_all
    from Cons.IH [OF step(1)] step(2) Inr Cons.prems(2) show ?thesis by simp
  qed
qed

end

locale numbered =
  fixes exec :: "'s \<Rightarrow> 'c \<Rightarrow> 'e + ('s \<times> 'o)"
    and counter :: "'s \<Rightarrow> nat option"
    and number :: "'c \<Rightarrow> 'o \<Rightarrow> nat option"
  assumes counts: "exec s c = Inr (s', out) \<Longrightarrow> counter s = Some n \<Longrightarrow>
      (case number c out of None \<Rightarrow> counter s' = Some n | Some k \<Rightarrow> k = n \<and> counter s' = Some (Suc n))"
begin

lemma numbers_consecutive:
  "counter s = Some n \<Longrightarrow> \<exists>m. counter (exec_final exec s cs) = Some m \<and> n \<le> m \<and>
     List.map_filter (\<lambda>(c, out). number c out) (exec_trace exec s cs) = [n..<m]"
proof (induction cs arbitrary: s n)
  case Nil
  then show ?case by (simp add: List.map_filter_simps)
next
  case (Cons c cs)
  show ?case
  proof (cases "exec s c")
    case (Inl e)
    with Cons show ?thesis by simp
  next
    case (Inr r)
    then have "exec s c = Inr (fst r, snd r)" by simp
    note step = counts [OF this Cons.prems]
    show ?thesis
    proof (cases "number c (snd r)")
      case None
      with step Cons.IH [of "fst r" n] Inr show ?thesis by (simp add: List.map_filter_simps)
    next
      case (Some k)
      with step Cons.IH [of "fst r" "Suc n"] Inr show ?thesis
        by (auto simp: List.map_filter_simps upt_conv_Cons)
    qed
  qed
qed

end

section \<open>The token program\<close>

text \<open>
  What is relied on: a transfer, mint or burn moves exactly its amount; transfer and burn need
  an authority that may spend from the account; none of them lets anybody new spend, a new
  account is empty and its owner may spend from it.
\<close>

definition spl_documented ::
    "'l sol_api \<Rightarrow> ('l \<Rightarrow> pubkey \<Rightarrow> nat) \<Rightarrow> ('l \<Rightarrow> pubkey \<Rightarrow> pubkey \<Rightarrow> bool) \<Rightarrow> bool" where
  "spl_documented api funds may_spend \<longleftrightarrow>
     (\<forall>l l' src dst who a. spl api l (Spl_transfer src dst who a) = Some l' \<longrightarrow> may_spend l src who \<and>
        (\<forall>x. funds l' x + (if x = src then unat a else 0) = funds l x + (if x = dst then unat a else
            0))) \<and>
     (\<forall>l l' mnt dst who a. spl api l (Spl_mint_to mnt dst who a) = Some l' \<longrightarrow>
        (\<forall>x. funds l' x = funds l x + (if x = dst then unat a else 0))) \<and>
     (\<forall>l l' mnt src who a. spl api l (Spl_burn mnt src who a) = Some l' \<longrightarrow> may_spend l src who \<and>
        (\<forall>x. funds l' x + (if x = src then unat a else 0) = funds l x)) \<and>
     (\<forall>l l' new mnt owner x. spl api l (Spl_init_account new mnt owner) = Some l' \<longrightarrow> funds l' x =
         funds l x) \<and>
     (\<forall>l l' cpi x who. spl api l cpi = Some l' \<longrightarrow> may_spend l' x who \<longrightarrow> may_spend l x who \<or>
        (\<exists>mnt. cpi = Spl_init_account x mnt who))"

primrec cpi_in :: "pubkey \<Rightarrow> sol_cpi \<Rightarrow> nat" where
  "cpi_in v (Spl_transfer src dst who a) = (if v = dst then unat a else 0)"
| "cpi_in v (Spl_mint_to mnt dst who a) = (if v = dst then unat a else 0)"
| "cpi_in v (Spl_burn mnt src who a) = 0"
| "cpi_in v (Spl_init_account new mnt owner) = 0"

primrec cpi_out :: "pubkey \<Rightarrow> sol_cpi \<Rightarrow> nat" where
  "cpi_out v (Spl_transfer src dst who a) = (if v = src then unat a else 0)"
| "cpi_out v (Spl_mint_to mnt dst who a) = 0"
| "cpi_out v (Spl_burn mnt src who a) = (if v = src then unat a else 0)"
| "cpi_out v (Spl_init_account new mnt owner) = 0"

primrec cpi_authority :: "sol_cpi \<Rightarrow> pubkey" where
  "cpi_authority (Spl_transfer src dst who a) = who"
| "cpi_authority (Spl_mint_to mnt dst who a) = who"
| "cpi_authority (Spl_burn mnt src who a) = who"
| "cpi_authority (Spl_init_account new mnt owner) = owner"

text \<open>The address that owns the vaults.\<close>

definition vault_authority :: "'l sol_api \<Rightarrow> pubkey" where
  "vault_authority api = fst (find_pda api [str_bytes ''vault_authority''])"

definition vault_guarded :: "'l sol_api \<Rightarrow> ('l \<Rightarrow> pubkey \<Rightarrow> pubkey \<Rightarrow> bool) \<Rightarrow> pubkey \<Rightarrow> 'l \<Rightarrow> bool" where
  "vault_guarded api may_spend v l \<longleftrightarrow> (\<forall>who. may_spend l v who \<longrightarrow> who = vault_authority api)"

lemma spl_laws:
  assumes "spl_documented api funds may_spend"
  shows "spl api l (Spl_transfer src dst who a) = Some l' \<Longrightarrow> may_spend l src who"
    and "spl api l (Spl_transfer src dst who a) = Some l' \<Longrightarrow>
      funds l' x + (if x = src then unat a else 0) = funds l x + (if x = dst then unat a else 0)"
    and "spl api l (Spl_mint_to mnt dst who a) = Some l' \<Longrightarrow>
      funds l' x = funds l x + (if x = dst then unat a else 0)"
    and "spl api l (Spl_burn mnt src who a) = Some l' \<Longrightarrow> may_spend l src who"
    and "spl api l (Spl_burn mnt src who a) = Some l' \<Longrightarrow>
      funds l' x + (if x = src then unat a else 0) = funds l x"
    and "spl api l (Spl_init_account new mnt owner) = Some l' \<Longrightarrow> funds l' x = funds l x"
    and "spl api l cpi = Some l' \<Longrightarrow> may_spend l' x who \<Longrightarrow> may_spend l x who \<or>
      (\<exists>mnt. cpi = Spl_init_account x mnt who)"
proof -
  note laws = assms [unfolded spl_documented_def]
  note transfer = laws [THEN conjunct1]
    and rest = laws [THEN conjunct2]
  note mint = rest [THEN conjunct1] and burn = rest [THEN conjunct2, THEN conjunct1]
    and init = rest [THEN conjunct2, THEN conjunct2, THEN conjunct1]
    and spend = rest [THEN conjunct2, THEN conjunct2, THEN conjunct2]
  show "spl api l (Spl_transfer src dst who a) = Some l' \<Longrightarrow> may_spend l src who"
    and "spl api l (Spl_transfer src dst who a) = Some l' \<Longrightarrow>
      funds l' x + (if x = src then unat a else 0) = funds l x + (if x = dst then unat a else 0)"
    using transfer by blast+
  show "spl api l (Spl_mint_to mnt dst who a) = Some l' \<Longrightarrow>
      funds l' x = funds l x + (if x = dst then unat a else 0)"
    using mint by blast
  show "spl api l (Spl_burn mnt src who a) = Some l' \<Longrightarrow> may_spend l src who"
    and "spl api l (Spl_burn mnt src who a) = Some l' \<Longrightarrow>
      funds l' x + (if x = src then unat a else 0) = funds l x"
    using burn by blast+
  show "spl api l (Spl_init_account new mnt owner) = Some l' \<Longrightarrow> funds l' x = funds l x"
    using init by blast
  show "spl api l cpi = Some l' \<Longrightarrow> may_spend l' x who \<Longrightarrow> may_spend l x who \<or>
      (\<exists>mnt. cpi = Spl_init_account x mnt who)"
    using spend by blast
qed

text \<open>New accounts are given to the vault authority only.\<close>

definition cpi_owned :: "'l sol_api \<Rightarrow> sol_cpi \<Rightarrow> bool" where
  "cpi_owned api cpi \<longleftrightarrow> (case cpi of Spl_init_account new mnt owner \<Rightarrow> owner = vault_authority api | _
      \<Rightarrow> True)"

lemma spl_entry:
  assumes doc: "spl_documented api funds may_spend" and run: "spl api l cpi = Some l'"
    and guard: "vault_guarded api may_spend v l" and owned: "cpi_owned api cpi"
  shows "funds l' v + cpi_out v cpi = funds l v + cpi_in v cpi" and "vault_guarded api may_spend v l'"
    and "0 < cpi_out v cpi \<Longrightarrow> cpi_authority cpi = vault_authority api"
proof -
  show "funds l' v + cpi_out v cpi = funds l v + cpi_in v cpi"
    using run spl_laws(2,3,5,6) [OF doc, where l = l and l' = l' and x = v]
    by (cases cpi) auto
  show "vault_guarded api may_spend v l'"
    using spl_laws(7) [OF doc run, of v] guard owned by (fastforce simp: vault_guarded_def
        cpi_owned_def)
  show "cpi_authority cpi = vault_authority api" if "0 < cpi_out v cpi"
    using that run guard spl_laws(1,4) [OF doc, where l = l and l' = l']
    by (cases cpi) (auto simp: vault_guarded_def split: if_splits)
qed

text \<open>The calls an instruction makes to the token program, one after the other.\<close>

fun run_cpis :: "'l sol_api \<Rightarrow> 'l \<Rightarrow> sol_cpi list \<Rightarrow> 'l option" where
  "run_cpis api l [] = Some l"
| "run_cpis api l (cpi # cpis) = (case spl api l cpi of None \<Rightarrow> None | Some l' \<Rightarrow> run_cpis api l' cpis)"

lemma run_cpis_entry:
  assumes doc: "spl_documented api funds may_spend"
  shows "run_cpis api l cpis = Some l' \<Longrightarrow> vault_guarded api may_spend v l \<Longrightarrow>
    \<forall>cpi \<in> set cpis. cpi_owned api cpi \<Longrightarrow>
    funds l' v + sum_list (map (cpi_out v) cpis) = funds l v + sum_list (map (cpi_in v) cpis) \<and>
    vault_guarded api may_spend v l' \<and>
    (\<forall>cpi \<in> set cpis. 0 < cpi_out v cpi \<longrightarrow> cpi_authority cpi = vault_authority api)"
proof (induction cpis arbitrary: l)
  case Nil
  then show ?case by simp
next
  case (Cons cpi cpis)
  from Cons.prems(1) obtain m where m: "spl api l cpi = Some m" "run_cpis api m cpis = Some l'"
    by (auto split: option.splits)
  have "cpi_owned api cpi" using Cons.prems(3) by simp
  note entry = spl_entry [OF doc m(1) Cons.prems(2) this]
  from Cons.IH [OF m(2) entry(2)] Cons.prems(3) entry(1,3) show ?case
    by auto
qed

section \<open>The vaults\<close>

text \<open>What a lock announces for the vault it names, and what a release takes out of it.\<close>

definition sol_locked_into :: "pubkey \<Rightarrow> sol_call \<Rightarrow> sol_output \<Rightarrow> nat" where
  "sol_locked_into v call out = (case (snd call, sol_events out) of
     (Sol_lock_and_bridge acc a d r, [Sol_LockEvent src dst n mnt sender recipient amt fee t]) \<Rightarrow>
       if lock_vault acc = v then unat amt else 0
   | _ \<Rightarrow> 0)"

definition sol_released_from :: "pubkey \<Rightarrow> sol_call \<Rightarrow> sol_output \<Rightarrow> nat" where
  "sol_released_from v call out = (case snd call of
     Sol_release acc c n r a \<Rightarrow> if rel_vault acc = v then unat a else 0
   | _ \<Rightarrow> 0)"

definition sol_paid_into :: "pubkey \<Rightarrow> sol_call \<Rightarrow> sol_output \<Rightarrow> nat" where
  "sol_paid_into v call out = sum_list (map (cpi_in v) (sol_cpis out))"

lemma sol_lock_cpis:
  assumes "sol_lock_and_bridge api env s acc a d r = Inr (s', out)"
  obtains l amt fees where "lock_sender acc \<in> sol_signers env"
    and "sol_cpis out = Spl_transfer (lock_user_token acc) (lock_vault acc) (lock_sender acc) amt #
        fees"
    and "fees = [] \<or> (\<exists>f fee. fees = [Spl_transfer (lock_user_token acc) f (lock_sender acc) fee])"
    and "\<exists>src n mnt fee t. sol_events out = [Sol_LockEvent src d n mnt (lock_sender acc) r amt fee t]"
    and "spl api (sol_ledger s) (Spl_transfer (lock_user_token acc) (lock_vault acc) (lock_sender
        acc) amt) = Some l"
    and "(case fees of [] \<Rightarrow> Inr l | cpi # _ \<Rightarrow> sol_run_spl api l cpi) = Inr (sol_ledger s')"
proof -
  from assms obtain c k p n amt l where
      "sol_configs s (lock_bridge_config acc) = Some c" "sol_tokens s (lock_token_config acc) = Some k"
      "checked_mul a (ucast (sol_fee_bps c)) = Some p" "checked_sub a (p div 10000) = Some amt"
    and facts: "lock_sender acc \<in> sol_signers env" "lock_vault acc = sol_vault k"
      "spl api (sol_ledger s) (Spl_transfer (lock_user_token acc) (sol_vault k) (lock_sender acc)
          amt) = Some l"
    and run: "(case (if 0 < p div 10000 then (case lock_fee_account acc of None \<Rightarrow> []
          | Some f \<Rightarrow> [Spl_transfer (lock_user_token acc) f (lock_sender acc) (p div 10000)]) else []) of
        [] \<Rightarrow> Inr l | cpi # _ \<Rightarrow> sol_run_spl api l cpi) = Inr (sol_ledger s')"
    and out: "sol_cpis out = Spl_transfer (lock_user_token acc) (lock_vault acc) (lock_sender acc) amt #
        (if 0 < p div 10000 then (case lock_fee_account acc of None \<Rightarrow> []
          | Some f \<Rightarrow> [Spl_transfer (lock_user_token acc) f (lock_sender acc) (p div 10000)]) else [])"
      "sol_events out = [Sol_LockEvent (sol_chain_id c) d n (sol_mint k) (lock_sender acc) r amt
         (p div 10000) (sol_unix_timestamp env)]"
    unfolding sol_lock_and_bridge_def Let_def
    by (clarsimp simp: accept simp del: if_split)
  show thesis
    by (rule that [OF facts(1) out(1) _ _ _ run])
      (use facts out(2) in \<open>auto split: option.splits if_splits\<close>)
qed

lemma sol_cpis_run:
  assumes "sol_dispatch api env s i = Inr (s', out)"
  shows "run_cpis api (sol_ledger s) (sol_cpis out) = Some (sol_ledger s')"
  using assms
proof (cases rule: sol_dispatch_cases)
  case (lock acc a d r)
  from lock(2) show ?thesis
    by (rule sol_lock_cpis) (auto simp: accept split: list.splits)
next
  case (admin acc)
  with assms show ?thesis by (elim sol_admin_accept) (auto simp: sol_silent_def)
qed (auto simp: sol_initialize_def sol_register_token_def sol_mint_bridged_def sol_burn_bridged_def
    sol_release_def Let_def sol_silent_def accept)

text \<open>Who authorises the calls: a signer of the transaction, except for what a release moves.\<close>

lemma sol_cpis_authority:
  assumes "sol_dispatch api env s i = Inr (s', out)"
  obtains (signed) "\<forall>cpi \<in> set (sol_cpis out). cpi_owned api cpi \<and> (\<forall>v. 0 < cpi_out v cpi \<longrightarrow>
      cpi_authority cpi \<in> sol_signers env)"
      "\<nexists>acc c n r a. i = Sol_release acc c n r a"
    | (released) acc c n r a where "i = Sol_release acc c n r a"
      "sol_cpis out = [Spl_transfer (rel_vault acc) (rel_recipient_token acc) (vault_authority api) a]"
  using assms
proof (cases rule: sol_dispatch_cases)
  case (lock acc a d r)
  from lock(2) show ?thesis
    by (rule sol_lock_cpis) (rule signed, use lock(1) in \<open>auto simp: cpi_owned_def\<close>)
next
  case (release acc c n r a)
  then show ?thesis
    by (intro released [of acc c n r a]) (auto simp: sol_release_def Let_def accept vault_authority_def)
next
  case (admin acc)
  with assms have "out = sol_silent" by (elim sol_admin_accept) simp
  with admin show ?thesis by (intro signed) (auto simp: sol_silent_def sol_admin_acc_def)
qed (auto intro!: signed simp: sol_initialize_def sol_register_token_def sol_mint_bridged_def
    sol_burn_bridged_def vault_authority_def cpi_owned_def Let_def sol_silent_def accept split:
        if_splits)

lemma run_cpis_signed:
  assumes "spl_documented api funds may_spend" and "run_cpis api l cpis = Some l'"
    and "vault_guarded api may_spend v l" and "vault_authority api \<notin> signers"
    and "\<forall>cpi \<in> set cpis. cpi_owned api cpi \<and> (\<forall>v. 0 < cpi_out v cpi \<longrightarrow> cpi_authority cpi \<in> signers)"
  shows "funds l' v = funds l v + sum_list (map (cpi_in v) cpis)" and "vault_guarded api may_spend v l'"
proof -
  note entry = run_cpis_entry [OF assms(1-3)]
  from assms(5) have owned: "\<forall>cpi \<in> set cpis. cpi_owned api cpi" by simp
  from entry [OF owned] assms(4,5) have "\<forall>cpi \<in> set cpis. cpi_out v cpi = 0" by fastforce
  then have "sum_list (map (cpi_out v) cpis) = 0" by (simp cong: map_cong)
  with entry [OF owned] show "funds l' v = funds l v + sum_list (map (cpi_in v) cpis)"
    and "vault_guarded api may_spend v l'" by simp_all
qed

lemma sol_vault_entry:
  assumes doc: "spl_documented api funds may_spend" and guard: "vault_guarded api may_spend v
      (sol_ledger s)"
    and unsigned: "vault_authority api \<notin> sol_signers (fst call)"
    and exec: "sol_exec api s call = Inr (s', out)"
  shows "vault_guarded api may_spend v (sol_ledger s') \<and>
    funds (sol_ledger s') v + sol_released_from v call out = funds (sol_ledger s) v + sol_paid_into
        v call out"
proof -
  obtain env i where call: "call = (env, i)" by (cases call)
  with exec have step: "sol_dispatch api env s i = Inr (s', out)" by (simp add: accept)
  note run = sol_cpis_run [OF step]
  from step show ?thesis
  proof (cases rule: sol_cpis_authority)
    case signed
    have "sol_released_from v call out = 0"
      using signed(2) by (auto simp: call sol_released_from_def split: sol_instruction.split)
    with run_cpis_signed [OF doc run guard _ signed(1)] unsigned show ?thesis
      by (simp add: call sol_paid_into_def)
  next
    case (released acc c n r a)
    with run_cpis_entry [OF doc run guard] show ?thesis
      by (auto simp: call cpi_owned_def sol_paid_into_def sol_released_from_def)
  qed
qed

interpretation sol_vault: accounted "sol_exec api" "\<lambda>s. funds (sol_ledger s) v"
  "sol_paid_into v" "sol_released_from v"
  "\<lambda>s. spl_documented api funds may_spend \<and> vault_guarded api may_spend v (sol_ledger s)"
  "\<lambda>call. vault_authority api \<notin> sol_signers (fst call)"
  for api funds may_spend v
proof unfold_locales
  fix s call s' out
  assume "spl_documented api funds may_spend \<and> vault_guarded api may_spend v (sol_ledger s)"
    and "vault_authority api \<notin> sol_signers (fst call)" and "sol_exec api s call = Inr (s', out)"
  with sol_vault_entry [of api funds may_spend v s call s' out]
  show "(spl_documented api funds may_spend \<and> vault_guarded api may_spend v (sol_ledger s')) \<and>
      funds (sol_ledger s') v + sol_released_from v call out = funds (sol_ledger s) v +
          sol_paid_into v call out"
    by blast
qed

lemma sol_locked_paid:
  assumes "sol_exec api s call = Inr (s', out)"
  shows "sol_locked_into v call out \<le> sol_paid_into v call out"
proof -
  obtain env i where call: "call = (env, i)" by (cases call)
  with assms have step: "sol_dispatch api env s i = Inr (s', out)" by (simp add: accept)
  show ?thesis
  proof (cases i)
    case (Sol_lock_and_bridge acc a d r)
    with step have "sol_lock_and_bridge api env s acc a d r = Inr (s', out)" by simp
    then show ?thesis
      by (rule sol_lock_cpis) (auto simp: call Sol_lock_and_bridge sol_locked_into_def
          sol_paid_into_def)
  qed (simp_all add: call sol_locked_into_def)
qed

lemma exec_trace_sum_mono:
  assumes "\<And>s c s' out. exec s c = Inr (s', out) \<Longrightarrow> f c out \<le> (g c out :: nat)"
  shows "sum_list (map (\<lambda>(c, out). f c out) (exec_trace exec s cs)) \<le>
    sum_list (map (\<lambda>(c, out). g c out) (exec_trace exec s cs))"
proof (induction cs arbitrary: s)
  case (Cons c cs)
  show ?case
  proof (cases "exec s c")
    case (Inr r)
    then have "f c (snd r) \<le> g c (snd r)" by (intro assms [of s c "fst r"]) simp
    with Cons [of "fst r"] Inr show ?thesis by simp
  qed (use Cons in simp)
qed simp

section \<open>The outbound numbers\<close>

definition sol_counter :: "pubkey \<Rightarrow> 'l sol_state \<Rightarrow> nat option" where
  "sol_counter addr s = map_option (\<lambda>c. unat (sol_outbound_nonce c)) (sol_configs s addr)"

definition sol_announced_nonce :: "pubkey \<Rightarrow> sol_call \<Rightarrow> sol_output \<Rightarrow> nat option" where
  "sol_announced_nonce addr call out = (case (snd call, sol_events out) of
     (Sol_lock_and_bridge acc a d r, [Sol_LockEvent src dst n mnt sender recipient amt fee t]) \<Rightarrow>
       if lock_bridge_config acc = addr then Some (unat n) else None
   | (Sol_burn_bridged acc a d r, [Sol_BurnEvent src dst n mnt sender recipient amt t]) \<Rightarrow>
       if burn_bridge_config acc = addr then Some (unat n) else None
   | _ \<Rightarrow> None)"

lemma sol_reconfigure_nonce: "sol_outbound_nonce (sol_reconfigure env i c) = sol_outbound_nonce c"
  by (simp add: sol_reconfigure_def split: sol_instruction.split)

lemma sol_counts:
  assumes exec: "sol_exec api s call = Inr (s', out)" and count: "sol_counter addr s = Some n"
  shows "(case sol_announced_nonce addr call out of None \<Rightarrow> sol_counter addr s' = Some n
    | Some k \<Rightarrow> k = n \<and> sol_counter addr s' = Some (Suc n))"
proof -
  obtain env i where call: "call = (env, i)" by (cases call)
  with exec have step: "sol_dispatch api env s i = Inr (s', out)" by (simp add: accept)
  then show ?thesis
  proof (cases rule: sol_dispatch_cases)
    case (admin acc)
    then have "sol_announced_nonce addr call out = None"
      by (cases i) (simp_all add: call sol_admin_acc_def sol_announced_nonce_def)
    with admin step count show ?thesis
      by (elim sol_admin_accept) (auto simp: sol_counter_def sol_reconfigure_nonce)
  qed (use count in \<open>auto simp: call sol_announced_nonce_def sol_counter_def elim!:
      sol_initialize_accept
      sol_register_accept sol_lock_accept sol_mint_accept sol_burn_accept sol_release_accept\<close>)
qed

interpretation sol_numbers: numbered "sol_exec api" "sol_counter addr" "sol_announced_nonce addr"
  for api addr
  by unfold_locales (rule sol_counts)

section \<open>A vault the witnesses use\<close>

text \<open>A ledger in which only the vault authority spends from account 50.\<close>

definition vault_may_spend :: "sol_demo_ledger \<Rightarrow> pubkey \<Rightarrow> pubkey \<Rightarrow> bool" where
  "vault_may_spend l from who \<longleftrightarrow> from \<noteq> 50 \<or> who = vault_authority sol_demo_api"

primrec vault_spl :: "sol_demo_ledger \<Rightarrow> sol_cpi \<Rightarrow> sol_demo_ledger option" where
  "vault_spl l (Spl_transfer from to who a) = (if vault_may_spend l from who \<and> unat a \<le> l from
     then (let l' = l(from := l from - unat a) in Some (l'(to := l' to + unat a))) else None)"
| "vault_spl l (Spl_mint_to mnt to who a) = Some (l(to := l to + unat a))"
| "vault_spl l (Spl_burn mnt from who a) = (if vault_may_spend l from who \<and> unat a \<le> l from
     then Some (l(from := l from - unat a)) else None)"
| "vault_spl l (Spl_init_account new mnt owner) = Some l"

definition vault_api :: "sol_demo_ledger sol_api" where
  "vault_api = sol_demo_api\<lparr>spl := vault_spl\<rparr>"

definition vault_lock_accounts :: sol_lock_accounts where
  "vault_lock_accounts = \<lparr>lock_bridge_config = sol_demo_config_address,
     lock_token_config = sol_demo_token_address, lock_user_token = 60, lock_vault = 50,
     lock_fee_account = None, lock_sender = 3\<rparr>"

definition vault_lock :: sol_call where
  "vault_lock = (sol_demo_env 100000 {3}, Sol_lock_and_bridge vault_lock_accounts 100 118 [9])"

lemma vault_documented: "spl_documented vault_api (\<lambda>l. l) vault_may_spend"
  by (auto simp: spl_documented_def vault_api_def vault_may_spend_def Let_def split: if_splits)

lemma vault_loads:
  "sol_load_config vault_api sol_demo sol_demo_config_address = Inr sol_demo_config"
  "sol_load_token vault_api sol_demo sol_demo_token_address = Inr sol_demo_token"
  using sol_demo_loads(1,2) by (simp_all add: sol_load_config_def sol_load_token_def vault_api_def)

lemma vault_lock_accepted:
  obtains s' out where "sol_exec vault_api sol_demo vault_lock = Inr (s', out)"
    and "sol_events out = [Sol_LockEvent 900 118 0 44 3 [9] 99 1 100000]"
    and "sol_configs s' sol_demo_config_address = Some (sol_demo_config\<lparr>sol_outbound_nonce := 1\<rparr>)"
proof -
  have "\<exists>s' out. sol_exec vault_api sol_demo vault_lock = Inr (s', out) \<and>
      sol_events out = [Sol_LockEvent 900 118 0 44 3 [9] 99 1 100000] \<and>
      sol_configs s' sol_demo_config_address = Some (sol_demo_config\<lparr>sol_outbound_nonce := 1\<rparr>)"
    by (simp add: sol_exec_def vault_lock_def sol_precompiles_ok_def sol_demo_env_def)
      (simp add: sol_lock_and_bridge_def vault_loads vault_lock_accounts_def sol_next_nonce_def
        sol_run_spl_def, simp add: vault_api_def sol_demo_defs vault_may_spend_def checked_mul_def
            checked_sub_def checked_add_def Let_def)
  then show thesis using that by blast
qed

section \<open>Properties\<close>

text \<open>C14: The vaults of the Solana program back what it announces: if the token program works
  as documented, only the vault authority may spend from a vault at the start, and no
  transaction carries a signature of that program address, then over any sequence of
  transactions what the vault held and the amounts the lock events announced for it are at
  most what it holds at the end and what releases took out of it. Nothing else takes from a
  vault, and no lock announces more than it put in.\<close>

theorem sol_vault_backed:
  assumes "spl_documented api funds may_spend"
    and "vault_guarded api may_spend v (sol_ledger s)"
    and "\<forall>call \<in> set calls. vault_authority api \<notin> sol_signers (fst call)"
  shows "funds (sol_ledger s) v +
      sum_list (map (\<lambda>(call, out). sol_locked_into v call out) (exec_trace (sol_exec api) s calls)) \<le>
    funds (sol_ledger (exec_final (sol_exec api) s calls)) v +
      sum_list (map (\<lambda>(call, out). sol_released_from v call out) (exec_trace (sol_exec api) s calls))"
  using sol_vault.account_closes [of api funds may_spend v s calls] assms
    exec_trace_sum_mono [of "sol_exec api" "sol_locked_into v" "sol_paid_into v" s calls, OF
        sol_locked_paid]
  by auto

text \<open>C15: The outbound messages of a Solana bridge are numbered without gaps or repetition:
  over any sequence of transactions, the nonces in the lock and burn events of its
  configuration are exactly those from its counter at the start up to its counter at the
  end, in order.\<close>

theorem sol_outbound_consecutive:
  assumes "sol_configs s addr = Some c"
  shows "\<exists>c'. sol_configs (exec_final (sol_exec api) s calls) addr = Some c' \<and>
    List.map_filter (\<lambda>(call, out). sol_announced_nonce addr call out) (exec_trace (sol_exec api) s
        calls) =
      [unat (sol_outbound_nonce c)..<unat (sol_outbound_nonce c')]"
  using sol_numbers.numbers_consecutive [of addr s "unat (sol_outbound_nonce c)" api calls] assms
  by (auto simp: sol_counter_def)

theorem sol_vault_backed_witness:
  "1000 + 99 \<le> sol_ledger (exec_final (sol_exec vault_api) sol_demo [vault_lock]) 50"
proof -
  have api: "vault_authority vault_api = vault_authority sol_demo_api"
    by (simp add: vault_authority_def vault_api_def)
  have "vault_authority sol_demo_api \<noteq> 3"
    by (simp add: vault_authority_def sol_demo_api_def sol_demo_pda_def str_bytes_def)
  then have unsigned: "\<forall>call \<in> set [vault_lock]. vault_authority vault_api \<notin> sol_signers (fst call)"
    by (simp add: api vault_lock_def sol_demo_env_def)
  have guard: "vault_guarded vault_api vault_may_spend 50 (sol_ledger sol_demo)"
    by (simp add: vault_guarded_def vault_may_spend_def api)
  obtain s' out where step: "sol_exec vault_api sol_demo vault_lock = Inr (s', out)"
    "sol_events out = [Sol_LockEvent 900 118 0 44 3 [9] 99 1 100000]"
    by (rule vault_lock_accepted)
  then have "sol_locked_into 50 vault_lock out = 99" "sol_released_from 50 vault_lock out = 0"
    by (simp_all add: sol_locked_into_def sol_released_from_def vault_lock_def vault_lock_accounts_def)
  with sol_vault_backed [OF vault_documented guard unsigned] step(1) show ?thesis
    by (simp add: sol_demo_def)
qed

theorem sol_outbound_consecutive_witness:
  "List.map_filter (\<lambda>(call, out). sol_announced_nonce sol_demo_config_address call out)
     (exec_trace (sol_exec vault_api) sol_demo [vault_lock]) = [0..<1]"
proof -
  obtain s' out where step: "sol_exec vault_api sol_demo vault_lock = Inr (s', out)"
    "sol_configs s' sol_demo_config_address = Some (sol_demo_config\<lparr>sol_outbound_nonce := 1\<rparr>)"
    by (rule vault_lock_accepted)
  have "sol_configs sol_demo sol_demo_config_address = Some sol_demo_config" by (simp add: sol_demo_def)
  from sol_outbound_consecutive [OF this, of vault_api "[vault_lock]"] step show ?thesis
    by (simp add: sol_demo_config_def sol_zeroed_config_def)
qed

end
