(* ===== verification/Bridge_Network.thy ===== *)
theory Bridge_Network
  imports Bridge_Spec
begin

text \<open>
  Several bridges together. A source that refines the abstract bridge announces, with every
  lock a mint to be made elsewhere, with every burn a release (\<open>announcing_source\<close>); what
  it announces is covered by the growth of its totals. What is announced alone, of a source
  that may leave the abstract bridge, is bounded by its locks and burns (\<open>announcer\<close>). A destination that pays on
  attestations only (\<open>attested_payouts\<close>, \<open>sided_bridge\<close>) pays no more than a list of
  claims is worth, if the trusted keys attest claims of the list only. The two are stated apart, so that any
  number of sources can be put in front of a destination.
\<close>

section \<open>Announcements\<close>

text \<open>
  \<open>claim_for c out is_mint n amt\<close> is the claim that call \<open>c\<close> with output \<open>out\<close>
  announces under nonce \<open>n\<close>, if it is one for the destination looked at.
\<close>

definition announcement ::
    "('c \<Rightarrow> 'o \<Rightarrow> ('k, 'p, 'g) blabel) \<Rightarrow> ('c \<Rightarrow> 'o \<Rightarrow> bool \<Rightarrow> nat \<Rightarrow> nat \<Rightarrow> 'm option) \<Rightarrow>
      'c \<times> 'o \<Rightarrow> 'm option" where
  "announcement lab claim_for e = (case e of (c, out) \<Rightarrow> (case lab c out of
       LLock n amt fee \<Rightarrow> claim_for c out True n amt
     | LBurn n amt \<Rightarrow> claim_for c out False n amt
     | _ \<Rightarrow> None))"

definition announced ::
    "('c \<Rightarrow> 'o \<Rightarrow> ('k, 'p, 'g) blabel) \<Rightarrow> ('c \<Rightarrow> 'o \<Rightarrow> bool \<Rightarrow> nat \<Rightarrow> nat \<Rightarrow> 'm option) \<Rightarrow>
      ('c \<times> 'o) list \<Rightarrow> 'm list" where
  "announced lab claim_for es = List.map_filter (announcement lab claim_for) es"

definition locked_growth ::
    "('s \<Rightarrow> ('k, 'p, 'g) abs_bridge) \<Rightarrow> ('s \<Rightarrow> 'c \<Rightarrow> 'e + 's \<times> 'o) \<Rightarrow> 's \<Rightarrow> 'c list \<Rightarrow> nat" where
  "locked_growth view exec s cs = a_locked (view (exec_final exec s cs)) - a_locked (view s)"

definition burned_growth ::
    "('s \<Rightarrow> ('k, 'p, 'g) abs_bridge) \<Rightarrow> ('s \<Rightarrow> 'c \<Rightarrow> 'e + 's \<times> 'o) \<Rightarrow> 's \<Rightarrow> 'c list \<Rightarrow> nat" where
  "burned_growth view exec s cs = a_burned (view (exec_final exec s cs)) - a_burned (view s)"

lemma announced_simps [simp]:
  "announced lab claim_for [] = []"
  "announced lab claim_for (e # es) = (case announcement lab claim_for e of
      None \<Rightarrow> announced lab claim_for es
    | Some m \<Rightarrow> m # announced lab claim_for es)"
  by (simp_all add: announced_def List.map_filter_simps split: option.splits)

lemma growth_Nil [simp]:
  "locked_growth view exec s [] = 0" "burned_growth view exec s [] = 0"
  by (simp_all add: locked_growth_def burned_growth_def)

lemma sum_list_filter_split:
  "sum_list (map f (filter P xs)) + sum_list (map f (filter (\<lambda>x. \<not> P x) xs)) = sum_list (map f xs)"
  for f :: "'a \<Rightarrow> nat"
  by (induction xs) auto

text \<open>
  Most announcements have one shape: the call names a destination chain and a recipient, and
  \<open>mk\<close> writes the claim in the format of the destination, from its kind, source chain, nonce,
  recipient and amount. A format is faithful if it keeps the kind and does not raise the amount.
\<close>

type_synonym ('r, 'm) claim_format = "bool \<Rightarrow> u64 \<Rightarrow> nat \<Rightarrow> 'r \<Rightarrow> nat \<Rightarrow> 'm option"

definition claim_when ::
    "('r, 'm) claim_format \<Rightarrow> u64 \<Rightarrow> u64 \<Rightarrow> (u64 \<times> 'r) option \<Rightarrow> bool \<Rightarrow> nat \<Rightarrow> nat \<Rightarrow> 'm option" where
  "claim_when mk dest source target is_mint n amt = (case target of
     None \<Rightarrow> None
   | Some (d, r) \<Rightarrow> if d = dest then mk is_mint source n r amt else None)"

definition faithful_format :: "('r, 'm) claim_format \<Rightarrow> ('m \<Rightarrow> bool) \<Rightarrow> ('m \<Rightarrow> nat) \<Rightarrow> bool" where
  "faithful_format mk mints worth \<longleftrightarrow> (\<forall>is_mint source n r amt m.
     mk is_mint source n r amt = Some m \<longrightarrow> mints m = is_mint \<and> worth m \<le> amt)"

lemma claim_when_faithful:
  assumes "faithful_format mk mints worth" and "claim_when mk dest source target is_mint n amt = Some m"
  shows "mints m = is_mint \<and> worth m \<le> amt"
  using assms by (auto simp: claim_when_def faithful_format_def split: option.splits prod.splits if_splits)

lemma unat_of_nat_le: "unat (of_nat n :: 'a::len word) \<le> n"
  by (simp add: unsigned_of_nat take_bit_nat_less_eq_self)

section \<open>A source\<close>

locale announcer =
  fixes lab :: "'c \<Rightarrow> 'o \<Rightarrow> ('k, 'p, 'g) blabel"
    and claim_for :: "'c \<Rightarrow> 'o \<Rightarrow> bool \<Rightarrow> nat \<Rightarrow> nat \<Rightarrow> 'm option"
    and mints :: "'m \<Rightarrow> bool"
    and worth :: "'m \<Rightarrow> nat"
  assumes claim_faithful:
    "claim_for c out is_mint n amt = Some m \<Longrightarrow> mints m = is_mint \<and> worth m \<le> amt"
begin

lemma announced_amounts:
  "sum_list (map worth (filter mints (announced lab claim_for es))) \<le>
     sum_list (map (\<lambda>(c, out). lock_amount (lab c out)) es)"
  "sum_list (map worth (filter (\<lambda>m. \<not> mints m) (announced lab claim_for es))) \<le>
     sum_list (map (\<lambda>(c, out). burn_amount (lab c out)) es)"
proof (induction es)
  case (Cons e es)
  obtain c out where e: "e = (c, out)" by (cases e)
  {
    case 1
    with Cons.IH(1) show ?case
      by (cases "lab c out"; auto simp: e announcement_def intro: add_mono le_SucI trans_le_add2
          dest: claim_faithful split: option.splits)
  next
    case 2
    with Cons.IH(2) show ?case
      by (cases "lab c out"; auto simp: e announcement_def intro: add_mono le_SucI trans_le_add2
          dest: claim_faithful split: option.splits)
  }
qed simp_all

end

locale announcing_source = bridge_refinement exec abs lab wf + announcer lab claim_for mints worth
  for exec :: "'s \<Rightarrow> 'c \<Rightarrow> 'e + ('s \<times> 'o)"
    and abs :: "'s \<Rightarrow> ('k, 'p, 'g) abs_bridge"
    and lab :: "'c \<Rightarrow> 'o \<Rightarrow> ('k, 'p, 'g) blabel"
    and wf :: "'s \<Rightarrow> bool"
    and claim_for :: "'c \<Rightarrow> 'o \<Rightarrow> bool \<Rightarrow> nat \<Rightarrow> nat \<Rightarrow> 'm option"
    and mints :: "'m \<Rightarrow> bool"
    and worth :: "'m \<Rightarrow> nat"
begin

text \<open>The mints announced are covered by the locked total, the releases by the burned one.\<close>

lemma announced_covered:
  assumes "wf s"
  shows "sum_list (map worth (filter mints (announced lab claim_for (exec_trace exec s cs)))) \<le>
      locked_growth abs exec s cs"
    and "sum_list (map worth (filter (\<lambda>m. \<not> mints m) (announced lab claim_for (exec_trace exec s
        cs)))) \<le>
      burned_growth abs exec s cs"
  using announced_amounts [of "exec_trace exec s cs"] totals_announced [OF assms, of cs]
  by (simp_all add: locked_growth_def burned_growth_def labels_of_def comp_def case_prod_beta')

end

section \<open>Mints and releases apart\<close>

text \<open>
  Where the output of an accepted claim shows which kind it was, the two kinds of payment
  are each attested: what is minted by attested mint claims, what is released by attested
  release claims.
\<close>

locale sided_bridge = attested_bridge exec abs lab wf content key worth outflow attests rotates
  for exec :: "'s \<Rightarrow> 'c \<Rightarrow> 'e + ('s \<times> 'o)"
    and abs :: "'s \<Rightarrow> ('k, 'p, 'g) abs_bridge"
    and lab :: "'c \<Rightarrow> 'o \<Rightarrow> ('k, 'p, 'g) blabel"
    and wf :: "'s \<Rightarrow> bool"
    and content :: "'c \<Rightarrow> 'm option"
    and key :: "'m \<Rightarrow> 'k"
    and worth :: "'m \<Rightarrow> nat"
    and outflow :: "'o \<Rightarrow> nat"
    and attests :: "'g \<Rightarrow> 'm \<Rightarrow> bool"
    and rotates :: "'c \<Rightarrow> 'g set" +
  fixes mints :: "'m \<Rightarrow> bool"
    and shows_mint :: "'o \<Rightarrow> bool"
  assumes sided: "wf s \<Longrightarrow> exec s c = Inr (s', out) \<Longrightarrow> content c = Some m \<Longrightarrow> shows_mint out = mints m"
begin

lemma pays_sided:
  assumes wf: "wf s" and step: "exec s c = Inr (s', out)"
  shows "outflow out = 0 \<or> (\<exists>m g. claim_of (lab c out) = Some (key m) \<and> g \<in> a_signers (abs s) \<and>
    attests g m \<and> mints m = shows_mint out \<and> outflow out = worth m)"
proof -
  have "g \<in> a_signers (abs s)" if "lab c out = LClaim k g" for k g
    using simulates [OF wf step] that by (auto elim: bstep_LClaim)
  with paid [OF wf step] sided [OF wf step] show ?thesis by fastforce
qed

end

sublocale sided_bridge \<subseteq> minting: attested_payouts
  exec "\<lambda>c out. claim_of (lab c out)" "\<lambda>s. a_done (abs s)" wf "\<lambda>s. a_signers (abs s)" key worth
  "\<lambda>out. if shows_mint out then outflow out else 0" "\<lambda>g m. attests g m \<and> mints m" rotates
  by unfold_locales (use pays_sided signers_from in \<open>fastforce split: if_splits\<close>)+

sublocale sided_bridge \<subseteq> releasing: attested_payouts
  exec "\<lambda>c out. claim_of (lab c out)" "\<lambda>s. a_done (abs s)" wf "\<lambda>s. a_signers (abs s)" key worth
  "\<lambda>out. if shows_mint out then 0 else outflow out" "\<lambda>g m. attests g m \<and> \<not> mints m" rotates
  by unfold_locales (use pays_sided signers_from in \<open>fastforce split: if_splits\<close>)+

context sided_bridge
begin

text \<open>A destination whose trusted keys attest claims of \<open>L\<close> only.\<close>

lemma backed:
  assumes "wf s" and "a_signers (abs s) \<subseteq> H" and "\<And>c. c \<in> set cs \<Longrightarrow> rotates c \<subseteq> H"
    and "\<And>g m. g \<in> H \<Longrightarrow> attests g m \<Longrightarrow> m \<in> set L"
  shows "sum_list (map (\<lambda>(c, out). if shows_mint out then outflow out else 0) (exec_trace exec s cs)) \<le>
      sum_list (map worth (filter mints L))"
    and "sum_list (map (\<lambda>(c, out). if shows_mint out then 0 else outflow out) (exec_trace exec s cs)) \<le>
      sum_list (map worth (filter (\<lambda>m. \<not> mints m) L))"
  using assms by (intro minting.outflow_covered [where H = H] releasing.outflow_covered [where H =
      H]; auto)+

end

end
