(* ===== verification/Cross_Chain.thy ===== *)
theory Cross_Chain
  imports Bridge_Network Near_Bridge Cosmos_Bridge
begin

text \<open>
  Two contracts together. The NEAR contract announces, signers attest, the CosmWasm contract
  pays: if the signers attest only what was announced, nothing is paid that was not locked or
  burned. And what happens when the same signers serve both as destinations: the messages
  have the same form on both and do not name the destination, so one attestation is good
  for a mint on each.
\<close>

section \<open>NEAR and CosmWasm as sources\<close>

text \<open>
  The destination and recipient that a lock or burn names, and the claim it announces in the
  format of the destination. The chain id of a CosmWasm contract is configured; its events
  carry it.
\<close>

definition near_target :: "near_env \<times> near_call \<Rightarrow> (u64 \<times> string) option" where
  "near_target ec = (case snd ec of
     Near_lock_and_bridge d r \<Rightarrow> Some (d, r)
   | Near_burn_bridged d r \<Rightarrow> Some (d, r)
   | _ \<Rightarrow> None)"

definition near_claim_for ::
    "(string, 'm) claim_format \<Rightarrow> u64 \<Rightarrow> near_env \<times> near_call \<Rightarrow> near_output \<Rightarrow>
      bool \<Rightarrow> nat \<Rightarrow> nat \<Rightarrow> 'm option" where
  "near_claim_for mk dest ec out = claim_when mk dest NEAR_CHAIN_ID (near_target ec)"

definition cw_target :: "cw_call \<Rightarrow> (u64 \<times> string) option" where
  "cw_target call = (case call of (env, info, m) \<Rightarrow> (case m of
     Cw_LockAndBridge d r \<Rightarrow> Some (d, r)
   | Cw_BurnBridged d r denom a \<Rightarrow> Some (d, r)
   | _ \<Rightarrow> None))"

definition cw_claim_for ::
    "(string, 'm) claim_format \<Rightarrow> u64 \<Rightarrow> cw_call \<Rightarrow> cw_response \<Rightarrow> bool \<Rightarrow> nat \<Rightarrow> nat \<Rightarrow> 'm option" where
  "cw_claim_for mk dest call out =
     claim_when mk dest (of_nat (cw_attr_num ''source_chain'' out)) (cw_target call)"

text \<open>The claims of the two contracts as destinations; \<open>render\<close> writes the recipient.\<close>

definition cw_format :: "('r \<Rightarrow> string) \<Rightarrow> ('r, cw_claim) claim_format" where
  "cw_format render is_mint source n r amt =
     Some (Cw_claim is_mint source (of_nat n) (render r) (of_nat amt))"

primrec cw_is_mint :: "cw_claim \<Rightarrow> bool" where
  "cw_is_mint (Cw_claim is_mint c n r a) = is_mint"

definition near_format :: "('r \<Rightarrow> string) \<Rightarrow> ('r, near_claim) claim_format" where
  "near_format render is_mint source n r amt =
     Some ((if is_mint then Near_mint_claim else Near_release_claim) source (of_nat n) (render r) (of_nat amt))"

primrec near_is_mint :: "near_claim \<Rightarrow> bool" where
  "near_is_mint (Near_mint_claim c n r a) = True"
| "near_is_mint (Near_release_claim c n r a) = False"

lemma cw_format_faithful: "faithful_format (cw_format render) cw_is_mint cw_claim_amount"
  by (auto simp: faithful_format_def cw_format_def unat_of_nat_le)

lemma near_format_faithful: "faithful_format (near_format render) near_is_mint near_claim_amount"
  by (auto simp: faithful_format_def near_format_def unat_of_nat_le)

interpretation near_source: announcing_source "near_exec ed" near_abs near_label "\<lambda>_. True"
  "near_claim_for (cw_format render) dest" cw_is_mint cw_claim_amount
  for ed render dest
  by unfold_locales (simp only: near_claim_for_def claim_when_faithful [OF cw_format_faithful])

interpretation cw_source: announcing_source "cw_exec api True" cw_abs cw_label
  "\<lambda>_. uint128_documented api" "cw_claim_for (near_format render) dest" near_is_mint near_claim_amount
  for api render dest
  by unfold_locales (simp only: cw_claim_for_def claim_when_faithful [OF near_format_faithful])

text \<open>Both name recipients as strings, and take them over as they are.\<close>

definition near_announced :: "u64 \<Rightarrow> ((near_env \<times> near_call) \<times> near_output) list \<Rightarrow> cw_claim list" where
  "near_announced dest es = announced near_label (near_claim_for (cw_format id) dest) es"

definition cw_announced :: "u64 \<Rightarrow> (cw_call \<times> cw_response) list \<Rightarrow> near_claim list" where
  "cw_announced dest es = announced cw_label (cw_claim_for (near_format id) dest) es"

section \<open>NEAR and CosmWasm as destinations\<close>

text \<open>Of the two kinds of claim only the mint of the NEAR contract emits an event.\<close>

definition near_shows_mint :: "near_output \<Rightarrow> bool" where
  "near_shows_mint out \<longleftrightarrow> near_events out \<noteq> []"

definition cw_shows_mint :: "cw_response \<Rightarrow> bool" where
  "cw_shows_mint out \<longleftrightarrow> map cw_type (cw_events out) = [''mint'']"

lemma near_sided:
  assumes "near_exec ed s ec = Inr (s', out)" and "near_content ec = Some m"
  shows "near_shows_mint out = near_is_mint m"
proof (cases ec)
  case (Pair env call)
  with assms show ?thesis
    by (cases call) (auto simp: near_shows_mint_def near_mint_bridged_def near_release_def Let_def
        accept near_silent_def)
qed

lemma cw_sided:
  assumes "cw_exec api oc s call = Inr (s', out)" and "cw_content call = Some m"
  shows "cw_shows_mint out = cw_is_mint m"
proof (cases call)
  case (fields env info msg)
  with assms have "cw_execute api oc s env info msg = Inr (s', out)" by (simp add: accept)
  with assms(2) fields show ?thesis
    by (cases msg) (auto simp: cw_shows_mint_def cw_content_def cw_mint_bridged_def cw_release_def
        Let_def accept)
qed

interpretation near_dest: sided_bridge
  "near_exec ed" near_abs near_label "\<lambda>_. True"
  near_content near_claim_key near_claim_amount near_outflow "near_attests ed" near_rotates
  near_is_mint near_shows_mint
  for ed
  by unfold_locales (rule near_sided)

interpretation cw_dest: sided_bridge
  "cw_exec api True" cw_abs cw_label "\<lambda>_. uint128_documented api"
  cw_content cw_claim_key cw_claim_amount cw_outflow "cw_attests api" cw_rotates
  cw_is_mint cw_shows_mint
  for api
  by unfold_locales (rule cw_sided)

text \<open>What a sequence of calls minted and released.\<close>

definition near_minted :: "((near_env \<times> near_call) \<times> near_output) list \<Rightarrow> nat" where
  "near_minted es = sum_list (map (\<lambda>(ec, out). if near_shows_mint out then near_outflow out else 0) es)"

definition near_released :: "((near_env \<times> near_call) \<times> near_output) list \<Rightarrow> nat" where
  "near_released es = sum_list (map (\<lambda>(ec, out). if near_shows_mint out then 0 else near_outflow
      out) es)"

definition cw_minted :: "(cw_call \<times> cw_response) list \<Rightarrow> nat" where
  "cw_minted es = sum_list (map (\<lambda>(call, out). if cw_shows_mint out then cw_outflow out else 0) es)"

definition cw_released :: "(cw_call \<times> cw_response) list \<Rightarrow> nat" where
  "cw_released es = sum_list (map (\<lambda>(call, out). if cw_shows_mint out then 0 else cw_outflow out) es)"

lemma cw_paid_split:
  "sum_list (map (\<lambda>(call, out). cw_outflow out) es) = cw_minted es + cw_released es"
  by (induction es) (auto simp: cw_minted_def cw_released_def)

text \<open>A destination whose trusted keys attest claims of the list \<open>L\<close> only.\<close>

lemma cw_backed:
  assumes "uint128_documented api" and ready: "cw_ready oc s calls"
    and "set (cw_mpc_signers (the (cw_CONFIG s))) \<subseteq> H" and "\<forall>call \<in> set calls. cw_rotates call \<subseteq> H"
    and "\<forall>g m. g \<in> H \<longrightarrow> cw_attests api g m \<longrightarrow> m \<in> set L"
  shows "cw_minted (exec_trace (cw_exec api oc) s calls) \<le> sum_list (map cw_claim_amount (filter
      cw_is_mint L))"
    and "cw_released (exec_trace (cw_exec api oc) s calls) \<le>
      sum_list (map cw_claim_amount (filter (\<lambda>m. \<not> cw_is_mint m) L))"
  using cw_dest.backed [of api s H calls L] cw_builds.builds_agree [OF ready, where api = api] assms
  by (simp_all add: cw_abs_def Let_def cw_minted_def cw_released_def)

lemma near_backed:
  assumes "set (near_mpc_signers s) \<subseteq> H" and "\<forall>ec \<in> set calls. near_rotates ec \<subseteq> H"
    and "\<forall>g m. g \<in> H \<longrightarrow> near_attests ed g m \<longrightarrow> m \<in> set L"
  shows "near_minted (exec_trace (near_exec ed) s calls) \<le> sum_list (map near_claim_amount (filter
      near_is_mint L))"
    and "near_released (exec_trace (near_exec ed) s calls) \<le>
      sum_list (map near_claim_amount (filter (\<lambda>m. \<not> near_is_mint m) L))"
  using near_dest.backed [of s H calls ed L] assms
  by (simp_all add: near_abs_def near_minted_def near_released_def)

text \<open>What the sources announced, by their totals.\<close>

lemma near_growth:
  "locked_growth near_abs (near_exec ed) s calls =
     unat (near_total_locked (exec_final (near_exec ed) s calls)) - unat (near_total_locked s)"
  "burned_growth near_abs (near_exec ed) s calls =
     unat (near_total_burned (exec_final (near_exec ed) s calls)) - unat (near_total_burned s)"
  by (simp_all add: locked_growth_def burned_growth_def near_abs_def)

lemma cw_growth:
  assumes "cw_ready oc s calls"
  shows "locked_growth cw_abs (cw_exec api True) s calls = locked_growth cw_abs (cw_exec api oc) s
      calls"
    and "burned_growth cw_abs (cw_exec api True) s calls = burned_growth cw_abs (cw_exec api oc) s
        calls"
  using cw_builds.builds_agree [OF assms, where api = api] by (simp_all add: locked_growth_def burned_growth_def)

section \<open>A demonstration pair\<close>

text \<open>
  A lock of 1000 on NEAR for the CosmWasm chain, of which 990 are announced, and a CosmWasm
  contract whose key signed the claim for it; and one whose key signed what the
  demonstration of the NEAR contract mints.
\<close>

definition pair_lock :: "near_env \<times> near_call" where
  "pair_lock = (near_demo_env ''user.near'' 1000, Near_lock_and_bridge 118 ''bob'')"

definition pair_api :: cw_api where
  "pair_api = cw_demo_api\<lparr>cw_ed25519_verify := (\<lambda>msg sig pk.
     Some (msg = cw_build_mint_message NEAR_CHAIN_ID 1 ''bob'' 990))\<rparr>"

definition pair_mint :: cw_call where
  "pair_mint = (cw_demo_env 100000, cw_demo_info ''relayer'' [],
     Cw_MintBridged NEAR_CHAIN_ID 1 ''bob'' 990 ''uknt'' ''cd'' ''ab'')"

definition twin_api :: cw_api where
  "twin_api = cw_demo_api\<lparr>
     hex_decode := (\<lambda>s. if s = ''ab'' then Some near_demo_key else if s = ''cd'' then Some
         near_demo_sig else None),
     cw_ed25519_verify := (\<lambda>msg sig pk. Some (near_demo_ed sig msg pk))\<rparr>"

lemma pair_lock_accepted:
  "near_announced 118 (exec_trace (near_exec near_demo_ed) near_demo [pair_lock]) =
     [Cw_claim True NEAR_CHAIN_ID 1 ''bob'' 990]"
  "unat (near_total_locked (exec_final (near_exec near_demo_ed) near_demo [pair_lock])) = 990"
  "unat (near_total_burned (exec_final (near_exec near_demo_ed) near_demo [pair_lock])) = 0"
proof -
  have step: "near_exec near_demo_ed near_demo pair_lock =
    Inr (near_demo\<lparr>near_total_locked := 990, near_outbound_nonce := 1\<rparr>,
      \<lparr>near_nonce = Some 1, near_events = [\<lparr>event_type = ''lock'', source_chain = NEAR_CHAIN_ID,
         dest_chain = 118, event_nonce = 1, event_sender = ''user.near'', event_recipient = ''bob'',
         event_amount = show_dec 990\<rparr>], near_transfers = []\<rparr>)"
    by (simp add: pair_lock_def near_lock_and_bridge_def near_demo_def near_demo_env_def
        checked_mul_def checked_sub_def checked_add_def Let_def)
  then show "near_announced 118 (exec_trace (near_exec near_demo_ed) near_demo [pair_lock]) =
     [Cw_claim True NEAR_CHAIN_ID 1 ''bob'' 990]"
    by (simp add: near_announced_def announcement_def near_claim_for_def claim_when_def near_target_def
        cw_format_def pair_lock_def
        near_demo_env_def)
  from step show "unat (near_total_locked (exec_final (near_exec near_demo_ed) near_demo
      [pair_lock])) = 990"
    "unat (near_total_burned (exec_final (near_exec near_demo_ed) near_demo [pair_lock])) = 0"
    by (simp_all add: near_demo_def)
qed

section \<open>Properties\<close>

text \<open>C4: NEAR and CosmWasm together are solvent under honest signers: if a signature of a
  trusted key over a CosmWasm claim exists only for what the NEAR contract announced for
  that chain, then over any calls on NEAR and any transactions on CosmWasm, however
  interleaved, CosmWasm pays out at most what the NEAR totals of locked and burned tokens
  grew by.\<close>

theorem near_to_cosmos_solvent:
  assumes "uint128_documented api" and ready: "cw_ready oc sc ccalls"
    and "set (cw_mpc_signers (the (cw_CONFIG sc))) \<subseteq> H"
    and "\<forall>call \<in> set ccalls. cw_rotates call \<subseteq> H"
    and honest: "\<forall>g m. g \<in> H \<longrightarrow> cw_attests api g m \<longrightarrow>
      m \<in> set (near_announced dest (exec_trace (near_exec ed) sn ncalls))"
  shows "sum_list (map (\<lambda>(call, out). cw_outflow out) (exec_trace (cw_exec api oc) sc ccalls)) \<le>
    (unat (near_total_locked (exec_final (near_exec ed) sn ncalls)) - unat (near_total_locked sn)) +
    (unat (near_total_burned (exec_final (near_exec ed) sn ncalls)) - unat (near_total_burned sn))"
proof -
  let ?L = "near_announced dest (exec_trace (near_exec ed) sn ncalls)"
  note paid = cw_backed [OF assms(1-4) honest]
  note covered = near_source.announced_covered [where s = sn and render = id and dest = dest and ed = ed and cs =
      ncalls, folded near_announced_def]
  from paid covered show ?thesis
    by (simp add: cw_paid_split near_growth)
qed

text \<open>C8: One attestation, two payments: the message of a mint is the same on NEAR and on
  CosmWasm and names the source, not the destination. Where a NEAR contract accepts a mint,
  a CosmWasm contract that lists the same key, has the nonce unused and knows the recipient
  as an address accepts it too, with the same key and signature, and both pay the amount.\<close>

theorem mint_replays_across_chains:
  assumes near: "near_exec ed sn (nenv, Near_mint_bridged c n r a sig pk) = Inr (sn', nout)"
    and "cw_CONFIG sc = Some cfg" and "\<not> cw_paused cfg" and "hex_pk \<in> set (cw_mpc_signers cfg)"
    and "\<not> cw_nonce_processed sc (c, n)"
    and "hex_decode api hex_sig = Some sig" and "hex_decode api hex_pk = Some pk"
    and same: "\<forall>msg. cw_ed25519_verify api msg sig pk = Some (ed sig msg pk)"
    and "cw_TOKEN_CONFIGS sc denom = Some k" and "cw_check_daily_limit api oc k a (cw_seconds env) =
        Inr k'"
    and "addr_validate api r = Some addr"
    and "cw_bank env (Cw_Send addr [\<lparr>cw_denom = denom, cw_amount = a\<rparr>])"
  shows "near_transfers nout = [(r, a)] \<and>
    (\<exists>sc' cout. cw_exec api oc sc (env, info, Cw_MintBridged c n r a denom hex_sig hex_pk) = Inr
        (sc', cout) \<and>
       cw_messages cout = [Cw_Send addr [\<lparr>cw_denom = denom, cw_amount = a\<rparr>]])"
proof -
  have msg: "near_build_mint_message c n r a = cw_build_mint_message c n r a"
    by (simp add: near_build_mint_message_def cw_build_mint_message_def)
  from near have "near_mint_bridged ed sn c n r a sig pk = Inr (sn', nout)" by simp
  then have "ed sig (cw_build_mint_message c n r a) pk" and "near_transfers nout = [(r, a)]"
    by (auto simp: near_mint_bridged_def Let_def accept msg)
  with assms show ?thesis
    by (simp add: cw_exec_def cw_mint_bridged_def cw_load_config_def Let_def)
qed

theorem near_to_cosmos_solvent_witness:
  "sum_list (map (\<lambda>(call, out). cw_outflow out)
     (exec_trace (cw_exec pair_api True) cw_demo [pair_mint, pair_mint])) \<le> 990"
proof -
  have "cw_attests pair_api g m \<Longrightarrow> m = Cw_claim True NEAR_CHAIN_ID 1 ''bob'' 990" for g m
    by (cases m) (auto simp: cw_attests_def pair_api_def cw_messages_inject split: if_splits)
  then have honest: "\<forall>g m. g \<in> {''ab''} \<longrightarrow> cw_attests pair_api g m \<longrightarrow>
      m \<in> set (near_announced 118 (exec_trace (near_exec near_demo_ed) near_demo [pair_lock]))"
    by (simp add: pair_lock_accepted del: exec_trace.simps)
  have "sum_list (map (\<lambda>(call, out). cw_outflow out)
     (exec_trace (cw_exec pair_api True) cw_demo [pair_mint, pair_mint])) \<le>
    (unat (near_total_locked (exec_final (near_exec near_demo_ed) near_demo [pair_lock])) -
       unat (near_total_locked near_demo)) +
    (unat (near_total_burned (exec_final (near_exec near_demo_ed) near_demo [pair_lock])) -
       unat (near_total_burned near_demo))"
    by (rule near_to_cosmos_solvent [OF _ _ _ _ honest])
      (auto simp: pair_api_def uint128_demo_update cw_ready_def cw_demo_def cw_rotates_def
          pair_mint_def cw_installs_def)
  then show ?thesis by (simp only: pair_lock_accepted)
qed

theorem mint_replays_across_chains_witness:
  "\<exists>sc' cout. cw_exec twin_api False cw_demo (cw_demo_env 100000, cw_demo_info ''relayer'' [],
      Cw_MintBridged 96369 7 ''bob.near'' 500 ''uknt'' ''cd'' ''ab'') = Inr (sc', cout) \<and>
    cw_messages cout = [Cw_Send ''bob.near'' [\<lparr>cw_denom = ''uknt'', cw_amount = 500\<rparr>]]"
proof -
  have limit: "cw_check_daily_limit twin_api False cw_demo_token 500 100000 =
      Inr (cw_demo_token\<lparr>cw_daily_minted := 500, cw_period_start := 100000\<rparr>)"
    by (simp add: cw_check_daily_limit_def twin_api_def cw_demo_api_def cw_demo_token_def add_op_def
        checked_add_def Let_def)
  note near = near_demo_mint_accepted [unfolded near_demo_mint_def]
  show ?thesis
    using mint_replays_across_chains [OF near, of cw_demo "the (cw_CONFIG cw_demo)" "''ab''"
        twin_api "''cd''"
        "''uknt''" cw_demo_token False "cw_demo_env 100000" _ "''bob.near''" "cw_demo_info
            ''relayer'' []"] limit
    by (simp add: cw_demo_env_def) (simp add: cw_demo_def twin_api_def cw_demo_api_def
        cw_nonce_processed_def)
qed

section \<open>The way back\<close>

text \<open>A burn of 300 on CosmWasm for NEAR, and a NEAR contract whose key signed the release of it.\<close>

definition back_burn :: cw_call where
  "back_burn = (cw_demo_env 100000, cw_demo_info ''user'' [],
     Cw_BurnBridged NEAR_CHAIN_ID ''carol.near'' ''uknt'' 300)"

definition back_ed :: "bytes \<Rightarrow> bytes \<Rightarrow> bytes \<Rightarrow> bool" where
  "back_ed sig msg pk \<longleftrightarrow> msg = near_build_release_message 118 1 ''carol.near'' 300"

definition back_release :: "near_env \<times> near_call" where
  "back_release = (near_demo_env ''relayer.near'' 0,
     Near_release 118 1 ''carol.near'' 300 near_demo_sig near_demo_key)"

lemma back_burn_accepted:
  "cw_announced NEAR_CHAIN_ID (exec_trace (cw_exec cw_demo_api False) cw_demo [back_burn]) =
     [Near_release_claim 118 1 ''carol.near'' 300]"
  "unat (cw_total_burned (the (cw_CONFIG (exec_final (cw_exec cw_demo_api False) cw_demo
      [back_burn])))) = 300"
  "unat (cw_total_locked (the (cw_CONFIG (exec_final (cw_exec cw_demo_api False) cw_demo
      [back_burn])))) = 0"
proof -
  obtain s' out where step: "cw_exec cw_demo_api False cw_demo back_burn = Inr (s', out)"
    "the (cw_CONFIG s') = (the (cw_CONFIG cw_demo))\<lparr>cw_total_burned := 300, cw_outbound_nonce := 1\<rparr>"
    "cw_attr_num ''source_chain'' out = 118" "cw_attr_num ''nonce'' out = 1" "cw_attr_num ''amount''
        out = 300"
    by (simp add: cw_exec_def back_burn_def cw_burn_bridged_def cw_load_config_def cw_demo_def
        cw_demo_api_def
        cw_demo_env_def cw_demo_info_def cw_attr_num_def checked_add_def add_op_def)
  then show "cw_announced NEAR_CHAIN_ID (exec_trace (cw_exec cw_demo_api False) cw_demo [back_burn]) =
     [Near_release_claim 118 1 ''carol.near'' 300]"
    by (simp add: cw_announced_def announcement_def cw_claim_for_def claim_when_def cw_target_def near_format_def back_burn_def)
  from step show "unat (cw_total_burned (the (cw_CONFIG (exec_final (cw_exec cw_demo_api False)
      cw_demo [back_burn])))) = 300"
    "unat (cw_total_locked (the (cw_CONFIG (exec_final (cw_exec cw_demo_api False) cw_demo
        [back_burn])))) = 0"
    by (simp_all add: cw_demo_def)
qed

text \<open>C7: The way back is backed kind by kind: if a signature of a key the NEAR contract
  trusts exists only over claims the CosmWasm contract announced for NEAR, then over any
  transactions on CosmWasm and any calls on NEAR, NEAR mints at most what the CosmWasm total
  of locked coins grew by, and releases at most what its total of burned coins grew by.\<close>

theorem cosmos_to_near_backed:
  assumes "uint128_documented api" and "cw_ready oc sc ccalls"
    and "set (near_mpc_signers sn) \<subseteq> H"
    and "\<forall>ec \<in> set ncalls. near_rotates ec \<subseteq> H"
    and honest: "\<forall>g m. g \<in> H \<longrightarrow> near_attests ed g m \<longrightarrow>
      m \<in> set (cw_announced dest (exec_trace (cw_exec api oc) sc ccalls))"
  defines "before \<equiv> the (cw_CONFIG sc)"
    and "after \<equiv> the (cw_CONFIG (exec_final (cw_exec api oc) sc ccalls))"
  shows "near_minted (exec_trace (near_exec ed) sn ncalls) \<le>
      unat (cw_total_locked after) - unat (cw_total_locked before) \<and>
    near_released (exec_trace (near_exec ed) sn ncalls) \<le>
      unat (cw_total_burned after) - unat (cw_total_burned before)"
proof -
  note paid = near_backed [OF assms(3,4) honest]
  note covered = cw_source.announced_covered [where s = sc and render = id and dest = dest and cs = ccalls,
      OF assms(1), folded cw_announced_def]
  from paid covered cw_builds.builds_agree [OF assms(2), where api = api] show ?thesis
    by (simp add: locked_growth_def burned_growth_def cw_abs_def Let_def before_def after_def)
qed

theorem cosmos_to_near_backed_witness:
  "near_minted (exec_trace (near_exec back_ed) near_demo [back_release, back_release]) = 0 \<and>
   near_released (exec_trace (near_exec back_ed) near_demo [back_release, back_release]) \<le> 300"
proof -
  have "near_attests back_ed g m \<Longrightarrow> m = Near_release_claim 118 1 ''carol.near'' 300" for g m
    by (cases m) (auto simp: near_attests_def back_ed_def near_messages_differ
        near_release_message_inject)
  then have honest: "\<forall>g m. g \<in> {near_demo_key} \<longrightarrow> near_attests back_ed g m \<longrightarrow>
      m \<in> set (cw_announced NEAR_CHAIN_ID (exec_trace (cw_exec cw_demo_api False) cw_demo [back_burn]))"
    by (simp add: back_burn_accepted del: exec_trace.simps)
  have ready: "cw_ready False cw_demo [back_burn]"
    using cw_demo_ready
    by (simp add: cw_ready_def back_burn_def cw_demo_env_def cw_max_seconds_def, simp add: cw_demo_def)
  note result = cosmos_to_near_backed [OF uint128_demo ready _ _ honest, of near_demo
      "[back_release, back_release]"]
  have "set (near_mpc_signers near_demo) \<subseteq> {near_demo_key}"
    and "\<forall>ec \<in> set [back_release, back_release]. near_rotates ec \<subseteq> {near_demo_key}"
    by (simp_all add: near_demo_def back_release_def)
  from result [OF this] show ?thesis
    by (simp only: back_burn_accepted) (simp add: cw_demo_def)
qed

end
