(* ===== verification/Network.thy ===== *)
theory Network
  imports Cross_Chain Polkadot_Bridge Stellar_Bridge Icp_Bridge Solana_Properties
begin

text \<open>
  The bridge network: the NEAR, ink!, Soroban and Internet Computer contracts as sources of
  one CosmWasm contract, and these five as sources of the Solana program. How the signers
  write recipients on the destination is the parameter \<open>render\<close>.
\<close>

section \<open>The other sources\<close>

definition dot_target :: "dot_env \<times> dot_call \<Rightarrow> (u64 \<times> bytes) option" where
  "dot_target ec = (case snd ec of
     Dot_lock_and_bridge d r \<Rightarrow> Some (d, r)
   | Dot_burn_bridged d r \<Rightarrow> Some (d, r)
   | _ \<Rightarrow> None)"

definition xlm_target :: "xlm_env \<times> xlm_call \<Rightarrow> (u64 \<times> bytes) option" where
  "xlm_target ec = (case snd ec of
     Xlm_lock_and_bridge who tok a d r \<Rightarrow> Some (d, r)
   | Xlm_burn_bridged who tok a d r \<Rightarrow> Some (d, r)
   | _ \<Rightarrow> None)"

text \<open>A burn on the canister leaves no event: its nonce and amount are those of the call.\<close>

definition icp_target :: "icp_env \<times> icp_call \<Rightarrow> (u64 \<times> bytes) option" where
  "icp_target ec = (case snd ec of
     Icp_lock_and_bridge a d r \<Rightarrow> Some (d, r)
   | Icp_burn_bridged a d r \<Rightarrow> Some (d, r)
   | _ \<Rightarrow> None)"

definition dot_claim_for ::
    "(bytes, 'm) claim_format \<Rightarrow> u64 \<Rightarrow> dot_env \<times> dot_call \<Rightarrow> dot_output \<Rightarrow> bool \<Rightarrow> nat \<Rightarrow> nat \<Rightarrow> 'm option"
  where
  "dot_claim_for mk dest ec out = claim_when mk dest POLKADOT_CHAIN_ID (dot_target ec)"

definition xlm_claim_for ::
    "(bytes, 'm) claim_format \<Rightarrow> u64 \<Rightarrow> xlm_env \<times> xlm_call \<Rightarrow> xlm_output \<Rightarrow> bool \<Rightarrow> nat \<Rightarrow> nat \<Rightarrow> 'm option"
  where
  "xlm_claim_for mk dest ec out = claim_when mk dest STELLAR_CHAIN_ID (xlm_target ec)"

definition icp_claim_for ::
    "(bytes, 'm) claim_format \<Rightarrow> u64 \<Rightarrow> icp_env \<times> icp_call \<Rightarrow> icp_output \<Rightarrow> bool \<Rightarrow> nat \<Rightarrow> nat \<Rightarrow> 'm option"
  where
  "icp_claim_for mk dest ec out = claim_when mk dest ICP_CHAIN_ID (icp_target ec)"

interpretation dot_source: announcing_source "dot_exec True" dot_abs dot_label "\<lambda>_. True"
  "dot_claim_for (cw_format render) dest" cw_is_mint cw_claim_amount
  for render dest
  by unfold_locales (simp only: dot_claim_for_def claim_when_faithful [OF cw_format_faithful])

interpretation xlm_source: announcer xlm_label
  "xlm_claim_for (cw_format render) dest" cw_is_mint cw_claim_amount
  for render dest
  by unfold_locales (simp only: xlm_claim_for_def claim_when_faithful [OF cw_format_faithful])

interpretation icp_source: announcing_source "icp_exec True" icp_abs icp_label "\<lambda>_. True"
  "icp_claim_for (cw_format render) dest" cw_is_mint cw_claim_amount
  for render dest
  by unfold_locales (simp only: icp_claim_for_def claim_when_faithful [OF cw_format_faithful])

section \<open>Announcements in the format of Solana\<close>

text \<open>
  A Solana attestation names an account and a mint, which the signers choose from the recipient
  (as a string or bytes); there are attestations of mints only, burns elsewhere announce none.
\<close>

definition sol_format :: "('r \<Rightarrow> pubkey \<times> pubkey) \<Rightarrow> ('r, sol_claim) claim_format" where
  "sol_format render is_mint source n r amt = (if is_mint
     then (case render r of (account, mnt) \<Rightarrow> Some (Sol_claim source (of_nat n) account mnt (of_nat amt)))
     else None)"

lemma sol_format_faithful: "faithful_format (sol_format render) (\<lambda>_. True) sol_claim_amount"
  by (auto simp: faithful_format_def sol_format_def unat_of_nat_le split: prod.splits if_splits)

interpretation near_to_sol: announcing_source "near_exec ed" near_abs near_label "\<lambda>_. True"
  "near_claim_for (sol_format render) dest" "\<lambda>_. True" sol_claim_amount
  for ed render dest
  by unfold_locales (auto simp: near_claim_for_def dest: claim_when_faithful [OF sol_format_faithful])

interpretation cw_to_sol: announcing_source "cw_exec api True" cw_abs cw_label
  "\<lambda>_. uint128_documented api" "cw_claim_for (sol_format render) dest" "\<lambda>_. True" sol_claim_amount
  for api render dest
  by unfold_locales (auto simp: cw_claim_for_def dest: claim_when_faithful [OF sol_format_faithful])

interpretation dot_to_sol: announcing_source "dot_exec True" dot_abs dot_label "\<lambda>_. True"
  "dot_claim_for (sol_format render) dest" "\<lambda>_. True" sol_claim_amount
  for render dest
  by unfold_locales (auto simp: dot_claim_for_def dest: claim_when_faithful [OF sol_format_faithful])

interpretation xlm_to_sol: announcer xlm_label
  "xlm_claim_for (sol_format render) dest" "\<lambda>_. True" sol_claim_amount
  for render dest
  by unfold_locales (auto simp: xlm_claim_for_def dest: claim_when_faithful [OF sol_format_faithful])

interpretation icp_to_sol: announcing_source "icp_exec True" icp_abs icp_label "\<lambda>_. True"
  "icp_claim_for (sol_format render) dest" "\<lambda>_. True" sol_claim_amount
  for render dest
  by unfold_locales (auto simp: icp_claim_for_def dest: claim_when_faithful [OF sol_format_faithful])

section \<open>What the announcements are covered by\<close>

text \<open>
  The Soroban contract leaves the abstract bridge when somebody initialises it again, which
  resets its totals; what it announced stays covered by what callers moved into it.
\<close>

lemma xlm_announced_covered:
  fixes sha ed s calls
  defines "es \<equiv> exec_trace (xlm_exec sha ed) s calls"
  shows "sum_list (map cw_claim_amount (filter cw_is_mint
      (announced xlm_label (xlm_claim_for (cw_format render) dest) es))) \<le> xlm_locked_in es"
    and "sum_list (map cw_claim_amount (filter (\<lambda>m. \<not> cw_is_mint m)
      (announced xlm_label (xlm_claim_for (cw_format render) dest) es))) \<le> xlm_burned_in es"
    and "sum_list (map sol_claim_amount
      (announced xlm_label (xlm_claim_for (sol_format r') dest) es)) \<le> xlm_locked_in es"
  using xlm_source.announced_amounts [of render dest es] xlm_to_sol.announced_amounts(1) [of r' dest es]
    xlm_announced_moved [of sha ed s calls]
  by (simp_all add: es_def)

text \<open>The builds of the ink! contract and the canister, where there is room.\<close>

lemma dot_growth:
  assumes "dot_ready oc s calls"
  shows "locked_growth dot_abs (dot_exec oc) s calls = locked_growth dot_abs (dot_exec True) s calls"
    and "burned_growth dot_abs (dot_exec oc) s calls = burned_growth dot_abs (dot_exec True) s calls"
  using dot_builds.builds_agree [OF assms] by (simp_all add: locked_growth_def burned_growth_def)

lemma icp_growth:
  assumes "icp_ready oc s calls"
  shows "locked_growth icp_abs (icp_exec oc) s calls = locked_growth icp_abs (icp_exec True) s calls"
    and "burned_growth icp_abs (icp_exec oc) s calls = burned_growth icp_abs (icp_exec True) s calls"
  using icp_builds.builds_agree [OF assms] by (simp_all add: locked_growth_def burned_growth_def)

section \<open>The network is backed\<close>

text \<open>The claims on \<open>dest\<close> that the four sources announced.\<close>

definition network_announced ::
    "(bytes \<Rightarrow> string) \<Rightarrow> u64 \<Rightarrow> ((near_env \<times> near_call) \<times> near_output) list \<Rightarrow>
      ((dot_env \<times> dot_call) \<times> dot_output) list \<Rightarrow> ((xlm_env \<times> xlm_call) \<times> xlm_output) list \<Rightarrow>
      ((icp_env \<times> icp_call) \<times> icp_output) list \<Rightarrow> cw_claim list" where
  "network_announced render dest near_es dot_es xlm_es icp_es =
     near_announced dest near_es
       @ announced dot_label (dot_claim_for (cw_format render) dest) dot_es
       @ announced xlm_label (xlm_claim_for (cw_format render) dest) xlm_es
       @ announced icp_label (icp_claim_for (cw_format render) dest) icp_es"

text \<open>C5: The network is backed, kind by kind: if a signature of a key the CosmWasm contract
  trusts exists only over claims that the NEAR, ink!, Soroban and ICP contracts announced for
  it, then over any calls on the five contracts, however interleaved and new initialisations
  of the Soroban contract by anybody included, CosmWasm mints at most what the totals of
  locked tokens on NEAR, ink! and ICP grew by together with what callers moved into the
  Soroban contract to lock it, and releases at most what the three totals of burned tokens
  grew by together with what was moved into the Soroban contract to burn it. (The Soroban
  totals cannot serve: an initialisation resets them.) CosmWasm, ink! and ICP are in any
  build, with room for the sums in one without overflow checks.\<close>

theorem network_backed:
  assumes "uint128_documented api" and "cw_ready oc sc ccalls"
    and "set (cw_mpc_signers (the (cw_CONFIG sc))) \<subseteq> H"
    and "\<forall>call \<in> set ccalls. cw_rotates call \<subseteq> H"
    and dot: "dot_ready ocd sd dcalls" and icp: "icp_ready oci si icalls"
    and honest: "\<forall>g m. g \<in> H \<longrightarrow> cw_attests api g m \<longrightarrow> m \<in> set (network_announced render dest
      (exec_trace (near_exec ed) sn ncalls) (exec_trace (dot_exec ocd) sd dcalls)
      (exec_trace (xlm_exec sha edx) sx xcalls) (exec_trace (icp_exec oci) si icalls))"
  shows "cw_minted (exec_trace (cw_exec api oc) sc ccalls) \<le>
      locked_growth near_abs (near_exec ed) sn ncalls + locked_growth dot_abs (dot_exec ocd) sd dcalls +
      xlm_locked_in (exec_trace (xlm_exec sha edx) sx xcalls) +
      locked_growth icp_abs (icp_exec oci) si icalls \<and>
    cw_released (exec_trace (cw_exec api oc) sc ccalls) \<le>
      burned_growth near_abs (near_exec ed) sn ncalls + burned_growth dot_abs (dot_exec ocd) sd dcalls +
      xlm_burned_in (exec_trace (xlm_exec sha edx) sx xcalls) +
      burned_growth icp_abs (icp_exec oci) si icalls"
proof -
  note builds = dot_builds.builds_agree [OF dot, THEN conjunct1] icp_builds.builds_agree [OF icp, THEN conjunct1]
  note covered =
    near_source.announced_covered [where s = sn and render = id and dest = dest and ed = ed and cs = ncalls, folded
        near_announced_def]
    dot_source.announced_covered [where s = sd and dest = dest and render = render and cs = dcalls]
    xlm_announced_covered(1,2) [where s = sx and dest = dest and render = render and calls = xcalls
        and sha = sha and ed = edx]
    icp_source.announced_covered [where s = si and dest = dest and render = render and cs = icalls]
  from cw_backed [OF assms(1-4) honest [unfolded builds]] covered show ?thesis
    by (simp add: network_announced_def dot_growth [OF dot] icp_growth [OF icp])
qed

text \<open>
  A lock of 1000 on NEAR and a burn of 200 on the canister, both for the CosmWasm chain, which
  is shown the mint twice and the release once.
\<close>

definition net_burn :: "icp_env \<times> icp_call" where
  "net_burn = (icp_demo_env [7], Icp_burn_bridged 200 118 [8])"

definition net_api :: cw_api where
  "net_api = cw_demo_api\<lparr>cw_ed25519_verify := (\<lambda>msg sig pk.
     Some (msg = cw_build_mint_message NEAR_CHAIN_ID 1 ''bob'' 990 \<or>
           msg = cw_build_release_message ICP_CHAIN_ID 1 ''carol'' 200))\<rparr>"

definition net_release :: cw_call where
  "net_release = (cw_demo_env 100000, cw_demo_info ''relayer'' [],
     Cw_Release ICP_CHAIN_ID 1 ''carol'' 200 ''uknt'' ''cd'' ''ab'')"

text \<open>Meanwhile somebody initialises the Soroban contract again.\<close>

definition net_initialize :: "xlm_env \<times> xlm_call" where
  "net_initialize = (xlm_demo_env, Xlm_initialize ''mallory'' [[66]] 1 0)"

lemma net_initialize_moves:
  "xlm_locked_in (exec_trace (xlm_exec id xlm_demo_ed) xlm_demo [net_initialize]) = 0"
  "xlm_burned_in (exec_trace (xlm_exec id xlm_demo_ed) xlm_demo [net_initialize]) = 0"
  by (simp_all add: net_initialize_def xlm_initialize_def xlm_locked_in_def xlm_burned_in_def)

lemma net_burn_accepted:
  "announced icp_label (icp_claim_for (cw_format (\<lambda>_. ''carol'')) 118) (exec_trace (icp_exec True) icp_demo
      [net_burn]) =
     [Cw_claim False ICP_CHAIN_ID 1 ''carol'' 200]"
  "locked_growth icp_abs (icp_exec True) icp_demo [net_burn] = 0"
  "burned_growth icp_abs (icp_exec True) icp_demo [net_burn] = 200"
proof -
  have step: "icp_exec True icp_demo net_burn =
      Inr (icp_demo\<lparr>icp_CONFIG := Some (the (icp_CONFIG icp_demo)
        \<lparr>icp_total_burned := 200, icp_outbound_nonce := 1\<rparr>)\<rparr>, icp_silent\<lparr>icp_returned := Some 1\<rparr>)"
    by (simp add: net_burn_def icp_burn_bridged_def icp_demo_def icp_with_config_def checked_add_def
        add_op_def)
  then show "announced icp_label (icp_claim_for (cw_format (\<lambda>_. ''carol'')) 118) (exec_trace (icp_exec True)
      icp_demo [net_burn]) =
     [Cw_claim False ICP_CHAIN_ID 1 ''carol'' 200]"
    by (simp add: announcement_def icp_claim_for_def claim_when_def icp_target_def cw_format_def net_burn_def icp_silent_def)
  from step show "locked_growth icp_abs (icp_exec True) icp_demo [net_burn] = 0"
    "burned_growth icp_abs (icp_exec True) icp_demo [net_burn] = 200"
    by (simp_all add: locked_growth_def burned_growth_def icp_abs_def icp_demo_def)
qed

theorem network_backed_witness:
  "cw_minted (exec_trace (cw_exec net_api True) cw_demo [pair_mint, pair_mint, net_release]) \<le> 990 \<and>
   cw_released (exec_trace (cw_exec net_api True) cw_demo [pair_mint, pair_mint, net_release]) \<le> 200"
proof -
  have "cw_attests net_api g m \<Longrightarrow>
      m \<in> {Cw_claim True NEAR_CHAIN_ID 1 ''bob'' 990, Cw_claim False ICP_CHAIN_ID 1 ''carol'' 200}"
          for g m
    by (cases m) (auto simp: cw_attests_def net_api_def cw_messages_inject split: if_splits)
  then have honest: "\<forall>g m. g \<in> {''ab''} \<longrightarrow> cw_attests net_api g m \<longrightarrow>
      m \<in> set (network_announced (\<lambda>_. ''carol'') 118
        (exec_trace (near_exec near_demo_ed) near_demo [pair_lock]) (exec_trace (dot_exec False)
            dot_demo [])
        (exec_trace (xlm_exec id xlm_demo_ed) xlm_demo [net_initialize]) (exec_trace (icp_exec True) icp_demo
            [net_burn]))"
    by (auto simp: network_announced_def pair_lock_accepted net_burn_accepted simp del: exec_trace.simps(2))
  have dot: "dot_ready False dot_demo []" by (simp add: dot_ready_def dot_demo_def)
  have docs: "uint128_documented net_api" by (simp add: net_api_def uint128_demo_update)
  have "cw_ready True cw_demo [pair_mint, pair_mint, net_release]" by (simp add: cw_ready_def)
  note result = network_backed [OF docs this _ _ dot icp_ready_checked honest]
  have "set (cw_mpc_signers (the (cw_CONFIG cw_demo))) \<subseteq> {''ab''}"
    and "\<forall>call \<in> set [pair_mint, pair_mint, net_release]. cw_rotates call \<subseteq> {''ab''}"
    by (simp_all add: cw_demo_def cw_rotates_def pair_mint_def net_release_def cw_installs_def)
  from result [OF this] show ?thesis
    by (simp add: net_burn_accepted near_growth pair_lock_accepted net_initialize_moves
        del: exec_trace.simps(2) exec_final.simps)
      (simp add: near_demo_def)
qed

section \<open>The network in front of Solana is backed\<close>

definition solana_announced ::
    "(string \<Rightarrow> pubkey \<times> pubkey) \<Rightarrow> (bytes \<Rightarrow> pubkey \<times> pubkey) \<Rightarrow> u64 \<Rightarrow>
      ((near_env \<times> near_call) \<times> near_output) list \<Rightarrow> (cw_call \<times> cw_response) list \<Rightarrow>
      ((dot_env \<times> dot_call) \<times> dot_output) list \<Rightarrow> ((xlm_env \<times> xlm_call) \<times> xlm_output) list \<Rightarrow>
      ((icp_env \<times> icp_call) \<times> icp_output) list \<Rightarrow> sol_claim list" where
  "solana_announced of_text of_bytes dest near_es cw_es dot_es xlm_es icp_es =
     announced near_label (near_claim_for (sol_format of_text) dest) near_es
       @ announced cw_label (cw_claim_for (sol_format of_text) dest) cw_es
       @ announced dot_label (dot_claim_for (sol_format of_bytes) dest) dot_es
       @ announced xlm_label (xlm_claim_for (sol_format of_bytes) dest) xlm_es
       @ announced icp_label (icp_claim_for (sol_format of_bytes) dest) icp_es"

text \<open>A Solana bridge whose vouched keys attest claims of the list \<open>L\<close> only.\<close>

lemma sol_backed:
  assumes "ed25519_documented verify (precompile api)" and "sol_canonical api s" and "sol_initialized api s"
    and "\<forall>g m. g \<in> sol_vouched verify (sol_trusted s) \<longrightarrow> sol_attests verify g m \<longrightarrow> m \<in> set L"
  shows "sum_list (map (\<lambda>(call, out). sol_outflow out) (exec_trace (sol_exec api) s calls)) \<le>
    sum_list (map sol_claim_amount L)"
proof -
  have "sol_sound verify (sol_trusted s) api s"
    using assms by (auto simp: sol_sound_def intro: sol_vouched.initial)
  from sol.outflow_covered [OF this subset_refl] assms(4) show ?thesis by blast
qed

text \<open>C6: The Solana program is backed by the whole network: if a signature of a key the Solana
  bridge trusts, or of one such keys vouch for, exists only over mint claims that the NEAR,
  CosmWasm, ink!, Soroban and ICP contracts announced for it with a lock, then over any calls
  on the six programs, however interleaved and new initialisations of the Soroban contract
  by anybody included, Solana mints at most what the totals of locked tokens on NEAR,
  CosmWasm, ink! and ICP grew by together with what callers moved into the Soroban contract
  to lock it. CosmWasm, ink! and ICP are in any build, with room for the sums in one without
  overflow checks.\<close>

theorem network_to_solana:
  assumes "ed25519_documented verify (precompile api)" and "sol_canonical api s" and "sol_initialized api s"
    and "uint128_documented capi" and ready: "cw_ready oc sc ccalls"
    and dot: "dot_ready ocd sd dcalls" and icp: "icp_ready oci si icalls"
    and honest: "\<forall>g m. g \<in> sol_vouched verify (sol_trusted s) \<longrightarrow> sol_attests verify g m \<longrightarrow>
      m \<in> set (solana_announced of_text of_bytes dest
        (exec_trace (near_exec ed) sn ncalls) (exec_trace (cw_exec capi oc) sc ccalls)
        (exec_trace (dot_exec ocd) sd dcalls) (exec_trace (xlm_exec sha edx) sx xcalls)
        (exec_trace (icp_exec oci) si icalls))"
  shows "sum_list (map (\<lambda>(call, out). sol_outflow out) (exec_trace (sol_exec api) s calls)) \<le>
    locked_growth near_abs (near_exec ed) sn ncalls + locked_growth cw_abs (cw_exec capi oc) sc ccalls +
    locked_growth dot_abs (dot_exec ocd) sd dcalls + xlm_locked_in (exec_trace (xlm_exec sha edx) sx xcalls) +
    locked_growth icp_abs (icp_exec oci) si icalls"
proof -
  note builds = dot_builds.builds_agree [OF dot, THEN conjunct1] icp_builds.builds_agree [OF icp, THEN conjunct1]
  note covered =
    near_to_sol.announced_covered(1) [where s = sn and dest = dest and ed = ed and cs = ncalls and render = of_text]
    cw_to_sol.announced_covered(1) [OF assms(4), where s = sc and dest = dest and cs = ccalls and render = of_text]
    dot_to_sol.announced_covered(1) [where s = sd and dest = dest and cs = dcalls and render = of_bytes]
    xlm_announced_covered(3) [where dest = dest and calls = xcalls and sha = sha and ed = edx
      and s = sx and r' = of_bytes]
    icp_to_sol.announced_covered(1) [where s = si and dest = dest and cs = icalls and render = of_bytes]
  from sol_backed [OF assms(1-3) honest [unfolded builds], of calls] covered
    cw_builds.builds_agree [OF ready, where api = capi] cw_growth [OF ready]
  show ?thesis
    by (simp add: solana_announced_def dot_growth [OF dot] icp_growth [OF icp])
qed

text \<open>
  A CosmWasm contract configured with chain id 1 whose next lock, of 500, announces the mint that
  the key of the demonstration bridge on Solana signed.
\<close>

definition feeder :: cw_storage where
  "feeder = cw_demo\<lparr>cw_CONFIG := Some ((the (cw_CONFIG cw_demo))
     \<lparr>cw_chain_id := 1, cw_outbound_nonce := 8, cw_fee_bps := 0\<rparr>)\<rparr>"

definition feeder_lock :: cw_call where
  "feeder_lock = (cw_demo_env 1, cw_demo_info ''user'' [\<lparr>cw_denom = ''uknt'', cw_amount = 500\<rparr>],
     Cw_LockAndBridge 900 ''alice'')"

lemma feeder_lock_accepted:
  "announced cw_label (cw_claim_for (sol_format (\<lambda>_. (33, 44))) 900)
     (exec_trace (cw_exec cw_demo_api True) feeder [feeder_lock]) = [Sol_claim 1 9 33 44 500]"
  "locked_growth cw_abs (cw_exec cw_demo_api True) feeder [feeder_lock] = 500"
proof -
  obtain s' out where step: "cw_exec cw_demo_api True feeder feeder_lock = Inr (s', out)"
    "cw_total_locked (the (cw_CONFIG s')) = 500"
    "cw_attr_num ''source_chain'' out = 1" "cw_attr_num ''nonce'' out = 9" "cw_attr_num ''amount'' out = 500"
    by (simp add: cw_exec_def feeder_lock_def feeder_def cw_lock_and_bridge_def cw_load_config_def cw_demo_def
        cw_demo_api_def cw_demo_env_def cw_demo_info_def cw_attr_num_def checked_add_def checked_sub_def
        add_op_def Let_def)
  then show "announced cw_label (cw_claim_for (sol_format (\<lambda>_. (33, 44))) 900)
     (exec_trace (cw_exec cw_demo_api True) feeder [feeder_lock]) = [Sol_claim 1 9 33 44 500]"
    by (simp add: announcement_def cw_claim_for_def claim_when_def cw_target_def sol_format_def feeder_lock_def)
  from step show "locked_growth cw_abs (cw_exec cw_demo_api True) feeder [feeder_lock] = 500"
    by (simp add: locked_growth_def cw_abs_def Let_def feeder_def cw_demo_def)
qed

theorem network_to_solana_witness:
  "sum_list (map (\<lambda>(call, out). sol_outflow out)
     (exec_trace (sol_exec sol_demo_api) sol_demo [sol_demo_mint, sol_demo_mint])) \<le> 500"
proof -
  have honest: "\<forall>g m. g \<in> sol_vouched sol_demo_verify (sol_trusted sol_demo) \<longrightarrow>
      sol_attests sol_demo_verify g m \<longrightarrow> m \<in> set (solana_announced (\<lambda>_. (33, 44)) (\<lambda>_. (33, 44)) 900
        (exec_trace (near_exec near_demo_ed) near_demo []) (exec_trace (cw_exec cw_demo_api True) feeder [feeder_lock])
        (exec_trace (dot_exec True) dot_demo []) (exec_trace (xlm_exec id xlm_demo_ed) xlm_demo [net_initialize])
        (exec_trace (icp_exec True) icp_demo []))"
    using sol_demo_attests
    by (simp add: solana_announced_def feeder_lock_accepted sol_demo_sound del: exec_trace.simps(2))
  have "cw_ready True feeder [feeder_lock]" by (simp add: cw_ready_def)
  from network_to_solana [OF ed25519_demo sol_demo_sound(1,2) uint128_demo this dot_ready_checked
      icp_ready_checked honest, of "[sol_demo_mint, sol_demo_mint]"]
  show ?thesis by (simp add: feeder_lock_accepted net_initialize_moves del: exec_trace.simps(2))
qed

end
