(* ===== verification/Test_Prelude.thy ===== *)
theory Test_Prelude
  imports Bridge_Prelude
begin

text \<open>
  The verdict of a Rust unit test, for the theories that run the contracts' own tests in the
  model. A test is a sequence of calls, each continuing from the state the last one left,
  with assertions; a panic on the way fails it, unless the test is marked
  \<^verbatim>\<open>#[should_panic(expected = "..")]\<close>, which passes exactly if it panics with a message
  that contains the given text.
\<close>

fun str_contains :: "string \<Rightarrow> string \<Rightarrow> bool" where
  "str_contains needle [] \<longleftrightarrow> needle = []"
| "str_contains needle (c # hay) \<longleftrightarrow>
     take (length needle) (c # hay) = needle \<or> str_contains needle hay"

definition test_passes :: "'e + bool \<Rightarrow> bool" where
  "test_passes r \<longleftrightarrow> (case r of Inl e \<Rightarrow> False | Inr verdict \<Rightarrow> verdict)"

definition should_panic :: "'e + 'a \<Rightarrow> bool" where
  "should_panic r \<longleftrightarrow> (case r of Inl e \<Rightarrow> True | Inr a \<Rightarrow> False)"

definition should_panic_with :: "string \<Rightarrow> rust_panic + 'a \<Rightarrow> bool" where
  "should_panic_with expected r \<longleftrightarrow>
     (case r of Inl (Assertion message) \<Rightarrow> str_contains expected message | _ \<Rightarrow> False)"

lemma test_passes_simps [simp]:
  "test_passes (Inl e) \<longleftrightarrow> False" "test_passes (Inr b) \<longleftrightarrow> b"
  by (simp_all add: test_passes_def)

lemma should_panic_simps [simp]:
  "should_panic (Inl e)" "\<not> should_panic (Inr a)"
  "should_panic_with m (Inl (Assertion m')) \<longleftrightarrow> str_contains m m'" "\<not> should_panic_with m (Inr a)"
  by (simp_all add: should_panic_def should_panic_with_def)

text \<open>Reading an arithmetic result on concrete operands.\<close>

lemmas concrete_ops = checked_add_def checked_sub_def checked_mul_def add_op_def sub_op_def mul_op_def
  signed_add_def signed_sub_def signed_mul_def signed_fit_def rust_quot_def

end
