(* ===== verification/Near_Tests.thy ===== *)
theory Near_Tests
  imports Test_Prelude Near_Bridge
begin

text \<open>
  The unit tests of \<^verbatim>\<open>near-bridge/src/lib.rs\<close>, module \<^verbatim>\<open>tests\<close>, run in the model: each test
  function is one definition, its verdict one truth value. The signature check is a
  parameter; no test reaches it.
\<close>

section \<open>Helpers\<close>

definition nt_admin :: string where "nt_admin = ''admin.near''"
definition nt_user :: string where "nt_user = ''user.near''"
definition nt_recipient :: string where "nt_recipient = ''recipient.near''"
definition nt_signer_key :: bytes where "nt_signer_key = replicate 32 1"

definition nt_setup_context :: "string \<Rightarrow> u128 \<Rightarrow> near_env" where
  "nt_setup_context predecessor deposit_yocto =
     \<lparr>predecessor_account_id = predecessor, attached_deposit = deposit_yocto\<rparr>"

definition nt_new_bridge :: "rust_panic + near_bridge" where
  "nt_new_bridge = near_new (nt_setup_context nt_admin 0) [nt_signer_key] 1 100"

section \<open>Tests\<close>

definition nt_test_initialize :: "bool" where
  "nt_test_initialize \<longleftrightarrow> test_passes (
     and_then nt_new_bridge (\<lambda>bridge.
     Inr (near_admin bridge = nt_admin \<and>
       length (near_mpc_signers bridge) = 1 \<and>
       near_mpc_signers bridge ! 0 = replicate 32 1 \<and>
       near_threshold bridge = 1 \<and>
       near_fee_bps bridge = 100 \<and>
       \<not> near_paused bridge \<and>
       near_outbound_nonce bridge = 0 \<and>
       near_total_locked bridge = 0 \<and>
       near_total_burned bridge = 0)))"

definition nt_test_initialize_rejects_high_fee :: "bool" where
  "nt_test_initialize_rejects_high_fee \<longleftrightarrow> should_panic_with ''Fee too high''
     (near_new (nt_setup_context nt_admin 0) [nt_signer_key] 1 501)"

definition nt_test_lock_and_bridge :: "bool" where
  "nt_test_lock_and_bridge \<longleftrightarrow> test_passes (
     and_then nt_new_bridge (\<lambda>bridge.
     and_then (near_lock_and_bridge (nt_setup_context nt_user 1000000) bridge 96369 ''0xdead'')
         (\<lambda>(bridge, out).
     Inr (near_nonce out = Some 1 \<and>
       near_outbound_nonce bridge = 1 \<and>
       near_total_locked bridge = 990000))))"

definition nt_test_lock_and_bridge_increments_nonce :: "bool" where
  "nt_test_lock_and_bridge_increments_nonce \<longleftrightarrow> test_passes (
     and_then nt_new_bridge (\<lambda>bridge.
     and_then (near_lock_and_bridge (nt_setup_context nt_user 500) bridge 96369 ''0xaaa'')
         (\<lambda>(bridge, n1).
     and_then (near_lock_and_bridge (nt_setup_context nt_user 500) bridge 96369 ''0xbbb'')
         (\<lambda>(bridge, n2).
     Inr (near_nonce n1 = Some 1 \<and> near_nonce n2 = Some 2 \<and> near_outbound_nonce bridge = 2)))))"

definition nt_test_lock_and_bridge_rejects_zero :: "bool" where
  "nt_test_lock_and_bridge_rejects_zero \<longleftrightarrow> should_panic_with ''Zero amount'' (
     and_then nt_new_bridge (\<lambda>bridge.
     near_lock_and_bridge (nt_setup_context nt_user 0) bridge 96369 ''0xdead''))"

definition nt_test_lock_and_bridge_rejects_when_paused :: "bool" where
  "nt_test_lock_and_bridge_rejects_when_paused \<longleftrightarrow> should_panic_with ''Bridge is paused'' (
     and_then nt_new_bridge (\<lambda>bridge.
     and_then (near_pause (nt_setup_context nt_admin 0) bridge) (\<lambda>(bridge, _).
     near_lock_and_bridge (nt_setup_context nt_user 1000) bridge 96369 ''0xdead'')))"

definition nt_test_mint_bridged_rejects_unknown_signer :: "(bytes \<Rightarrow> bytes \<Rightarrow> bytes \<Rightarrow> bool) \<Rightarrow> bool" where
  "nt_test_mint_bridged_rejects_unknown_signer ed \<longleftrightarrow> should_panic_with ''Unauthorized signer'' (
     and_then nt_new_bridge (\<lambda>bridge.
     near_mint_bridged ed bridge 96369 1 nt_recipient 1000 (replicate 64 0) (replicate 32 99)))"

definition nt_test_mint_bridged_rejects_zero_amount :: "(bytes \<Rightarrow> bytes \<Rightarrow> bytes \<Rightarrow> bool) \<Rightarrow> bool" where
  "nt_test_mint_bridged_rejects_zero_amount ed \<longleftrightarrow> should_panic_with ''Zero amount'' (
     and_then nt_new_bridge (\<lambda>bridge.
     near_mint_bridged ed bridge 96369 1 nt_recipient 0 (replicate 64 0) nt_signer_key))"

definition nt_test_mint_bridged_rejects_when_paused :: "(bytes \<Rightarrow> bytes \<Rightarrow> bytes \<Rightarrow> bool) \<Rightarrow> bool" where
  "nt_test_mint_bridged_rejects_when_paused ed \<longleftrightarrow> should_panic_with ''Bridge is paused'' (
     and_then nt_new_bridge (\<lambda>bridge.
     and_then (near_pause (nt_setup_context nt_admin 0) bridge) (\<lambda>(bridge, _).
     near_mint_bridged ed bridge 96369 1 nt_recipient 1000 (replicate 64 0) nt_signer_key)))"

definition nt_test_burn_bridged :: "bool" where
  "nt_test_burn_bridged \<longleftrightarrow> test_passes (
     and_then nt_new_bridge (\<lambda>bridge.
     and_then (near_burn_bridged (nt_setup_context nt_user 500000) bridge 96369 ''0xdead'')
         (\<lambda>(bridge, out).
     Inr (near_nonce out = Some 1 \<and>
       near_total_burned bridge = 500000 \<and>
       near_outbound_nonce bridge = 1))))"

definition nt_test_burn_bridged_rejects_zero :: "bool" where
  "nt_test_burn_bridged_rejects_zero \<longleftrightarrow> should_panic_with ''Zero amount'' (
     and_then nt_new_bridge (\<lambda>bridge.
     near_burn_bridged (nt_setup_context nt_user 0) bridge 96369 ''0xdead''))"

definition nt_test_pause_unpause :: "bool" where
  "nt_test_pause_unpause \<longleftrightarrow> test_passes (
     and_then nt_new_bridge (\<lambda>bridge.
     and_then (near_pause (nt_setup_context nt_admin 0) bridge) (\<lambda>(paused, _).
     and_then (near_unpause (nt_setup_context nt_admin 0) paused) (\<lambda>(unpaused, _).
     Inr (\<not> near_is_paused bridge \<and> near_is_paused paused \<and> \<not> near_is_paused unpaused)))))"

definition nt_test_pause_rejects_non_admin :: "bool" where
  "nt_test_pause_rejects_non_admin \<longleftrightarrow> should_panic_with ''Not admin'' (
     and_then nt_new_bridge (\<lambda>bridge.
     near_pause (nt_setup_context nt_user 0) bridge))"

definition nt_test_unpause_rejects_non_admin :: "bool" where
  "nt_test_unpause_rejects_non_admin \<longleftrightarrow> should_panic_with ''Not admin'' (
     and_then nt_new_bridge (\<lambda>bridge.
     and_then (near_pause (nt_setup_context nt_admin 0) bridge) (\<lambda>(bridge, _).
     near_unpause (nt_setup_context nt_user 0) bridge)))"

definition nt_test_set_signers_rejects_non_admin :: "bool" where
  "nt_test_set_signers_rejects_non_admin \<longleftrightarrow> should_panic_with ''Not admin'' (
     and_then nt_new_bridge (\<lambda>bridge.
     near_set_signers (nt_setup_context nt_user 0) bridge [replicate 32 2] 1))"

definition nt_test_set_fee_rejects_non_admin :: "bool" where
  "nt_test_set_fee_rejects_non_admin \<longleftrightarrow> should_panic_with ''Not admin'' (
     and_then nt_new_bridge (\<lambda>bridge.
     near_set_fee (nt_setup_context nt_user 0) bridge 50))"

definition nt_test_nonce_replay_rejected :: "(bytes \<Rightarrow> bytes \<Rightarrow> bytes \<Rightarrow> bool) \<Rightarrow> bool" where
  "nt_test_nonce_replay_rejected ed \<longleftrightarrow> should_panic_with ''Nonce processed'' (
     and_then nt_new_bridge (\<lambda>bridge.
     let nonce_key = colon_pair 96369 1;
         bridge = bridge\<lparr>near_processed_nonces := (near_processed_nonces bridge)(nonce_key \<mapsto> True)\<rparr> in
     near_mint_bridged ed bridge 96369 1 nt_recipient 1000 (replicate 64 0) nt_signer_key))"

definition nt_test_view_functions :: "bool" where
  "nt_test_view_functions \<longleftrightarrow> test_passes (
     and_then nt_new_bridge (\<lambda>bridge.
     and_then (near_lock_and_bridge (nt_setup_context nt_user 1000) bridge 96369 ''0xdead'')
         (\<lambda>(locked, _).
     and_then (near_burn_bridged (nt_setup_context nt_user 2000) locked 96369 ''0xdead'') (\<lambda>(burned, _).
     Inr (near_view_total_locked bridge = ''0'' \<and>
       near_view_total_burned bridge = ''0'' \<and>
       near_view_total_locked locked = ''990'' \<and>
       near_view_total_burned burned = ''2000'')))))"

definition nt_test_set_signers :: "bool" where
  "nt_test_set_signers \<longleftrightarrow> test_passes (
     and_then nt_new_bridge (\<lambda>bridge.
     and_then (near_set_signers (nt_setup_context nt_admin 0) bridge [replicate 32 42] 2) (\<lambda>(bridge, _).
     Inr (length (near_mpc_signers bridge) = 1 \<and>
       near_mpc_signers bridge ! 0 = replicate 32 42 \<and>
       near_threshold bridge = 2))))"

definition nt_test_set_fee :: "bool" where
  "nt_test_set_fee \<longleftrightarrow> test_passes (
     and_then nt_new_bridge (\<lambda>bridge.
     and_then (near_set_fee (nt_setup_context nt_admin 0) bridge 250) (\<lambda>(bridge, _).
     Inr (near_fee_bps bridge = 250))))"

definition nt_test_set_fee_rejects_above_max :: "bool" where
  "nt_test_set_fee_rejects_above_max \<longleftrightarrow> should_panic (
     and_then nt_new_bridge (\<lambda>bridge.
     near_set_fee (nt_setup_context nt_admin 0) bridge 501))"

section \<open>All pass\<close>

lemma nt_new_bridge_eq:
  "nt_new_bridge = Inr \<lparr>near_admin = nt_admin, near_mpc_signers = [nt_signer_key], near_threshold = 1,
     near_fee_bps = 100, near_paused = False, near_outbound_nonce = 0, near_total_locked = 0,
     near_total_burned = 0, near_processed_nonces = Map.empty\<rparr>"
  by (simp add: nt_new_bridge_def near_new_def nt_setup_context_def nt_signer_key_def
      NEAR_MAX_FEE_BPS_def
      copy_from_slice_def)

lemma nt_accounts [simp]: "nt_user \<noteq> nt_admin"
  by (simp add: nt_user_def nt_admin_def)

lemma nt_decimals: "show_dec 0 = ''0''" "show_dec 990 = ''990''" "show_dec 2000 = ''2000''"
  by code_simp+

lemmas nt_defs = nt_new_bridge_eq nt_setup_context_def nt_signer_key_def near_new_def
    near_lock_and_bridge_def
  near_burn_bridged_def near_mint_bridged_def near_pause_def near_unpause_def near_set_signers_def
  near_set_fee_def near_assert_admin_def NEAR_MAX_FEE_BPS_def copy_from_slice_def near_is_paused_def
  near_view_total_locked_def near_view_total_burned_def near_nonce_key_def near_nonce_processed_def
  nt_decimals concrete_ops Let_def

definition near_tests :: "(bytes \<Rightarrow> bytes \<Rightarrow> bytes \<Rightarrow> bool) \<Rightarrow> bool list" where
  "near_tests ed = [
     nt_test_initialize,
     nt_test_initialize_rejects_high_fee,
     nt_test_lock_and_bridge,
     nt_test_lock_and_bridge_increments_nonce,
     nt_test_lock_and_bridge_rejects_zero,
     nt_test_lock_and_bridge_rejects_when_paused,
     nt_test_mint_bridged_rejects_unknown_signer ed,
     nt_test_mint_bridged_rejects_zero_amount ed,
     nt_test_mint_bridged_rejects_when_paused ed,
     nt_test_burn_bridged,
     nt_test_burn_bridged_rejects_zero,
     nt_test_pause_unpause,
     nt_test_pause_rejects_non_admin,
     nt_test_unpause_rejects_non_admin,
     nt_test_set_signers_rejects_non_admin,
     nt_test_set_fee_rejects_non_admin,
     nt_test_nonce_replay_rejected ed,
     nt_test_view_functions,
     nt_test_set_signers,
     nt_test_set_fee,
     nt_test_set_fee_rejects_above_max]"

lemma pass_nt_test_initialize: "nt_test_initialize"
  by (simp add: nt_test_initialize_def nt_defs)

lemma pass_nt_test_initialize_rejects_high_fee: "nt_test_initialize_rejects_high_fee"
  by (simp add: nt_test_initialize_rejects_high_fee_def nt_defs)

lemma pass_nt_test_lock_and_bridge: "nt_test_lock_and_bridge"
  by (simp add: nt_test_lock_and_bridge_def nt_defs)

lemma pass_nt_test_lock_and_bridge_increments_nonce: "nt_test_lock_and_bridge_increments_nonce"
  by (simp add: nt_test_lock_and_bridge_increments_nonce_def nt_defs)

lemma pass_nt_test_lock_and_bridge_rejects_zero: "nt_test_lock_and_bridge_rejects_zero"
  by (simp add: nt_test_lock_and_bridge_rejects_zero_def nt_defs)

lemma pass_nt_test_lock_and_bridge_rejects_when_paused: "nt_test_lock_and_bridge_rejects_when_paused"
  by (simp add: nt_test_lock_and_bridge_rejects_when_paused_def nt_defs)

lemma pass_nt_test_mint_bridged_rejects_unknown_signer: "nt_test_mint_bridged_rejects_unknown_signer ed"
  by (simp add: nt_test_mint_bridged_rejects_unknown_signer_def nt_defs)

lemma pass_nt_test_mint_bridged_rejects_zero_amount: "nt_test_mint_bridged_rejects_zero_amount ed"
  by (simp add: nt_test_mint_bridged_rejects_zero_amount_def nt_defs)

lemma pass_nt_test_mint_bridged_rejects_when_paused: "nt_test_mint_bridged_rejects_when_paused ed"
  by (simp add: nt_test_mint_bridged_rejects_when_paused_def nt_defs)

lemma pass_nt_test_burn_bridged: "nt_test_burn_bridged"
  by (simp add: nt_test_burn_bridged_def nt_defs)

lemma pass_nt_test_burn_bridged_rejects_zero: "nt_test_burn_bridged_rejects_zero"
  by (simp add: nt_test_burn_bridged_rejects_zero_def nt_defs)

lemma pass_nt_test_pause_unpause: "nt_test_pause_unpause"
  by (simp add: nt_test_pause_unpause_def nt_defs)

lemma pass_nt_test_pause_rejects_non_admin: "nt_test_pause_rejects_non_admin"
  by (simp add: nt_test_pause_rejects_non_admin_def nt_defs)

lemma pass_nt_test_unpause_rejects_non_admin: "nt_test_unpause_rejects_non_admin"
  by (simp add: nt_test_unpause_rejects_non_admin_def nt_defs)

lemma pass_nt_test_set_signers_rejects_non_admin: "nt_test_set_signers_rejects_non_admin"
  by (simp add: nt_test_set_signers_rejects_non_admin_def nt_defs)

lemma pass_nt_test_set_fee_rejects_non_admin: "nt_test_set_fee_rejects_non_admin"
  by (simp add: nt_test_set_fee_rejects_non_admin_def nt_defs)

lemma pass_nt_test_nonce_replay_rejected: "nt_test_nonce_replay_rejected ed"
  by (simp add: nt_test_nonce_replay_rejected_def nt_defs)

lemma pass_nt_test_view_functions: "nt_test_view_functions"
  by (simp add: nt_test_view_functions_def nt_defs)

lemma pass_nt_test_set_signers: "nt_test_set_signers"
  by (simp add: nt_test_set_signers_def nt_defs)

lemma pass_nt_test_set_fee: "nt_test_set_fee"
  by (simp add: nt_test_set_fee_def nt_defs)

lemma pass_nt_test_set_fee_rejects_above_max: "nt_test_set_fee_rejects_above_max"
  by (simp add: nt_test_set_fee_rejects_above_max_def nt_defs)

lemmas near_passes =
  pass_nt_test_initialize
  pass_nt_test_initialize_rejects_high_fee
  pass_nt_test_lock_and_bridge
  pass_nt_test_lock_and_bridge_increments_nonce
  pass_nt_test_lock_and_bridge_rejects_zero
  pass_nt_test_lock_and_bridge_rejects_when_paused
  pass_nt_test_mint_bridged_rejects_unknown_signer
  pass_nt_test_mint_bridged_rejects_zero_amount
  pass_nt_test_mint_bridged_rejects_when_paused
  pass_nt_test_burn_bridged
  pass_nt_test_burn_bridged_rejects_zero
  pass_nt_test_pause_unpause
  pass_nt_test_pause_rejects_non_admin
  pass_nt_test_unpause_rejects_non_admin
  pass_nt_test_set_signers_rejects_non_admin
  pass_nt_test_set_fee_rejects_non_admin
  pass_nt_test_nonce_replay_rejected
  pass_nt_test_view_functions
  pass_nt_test_set_signers
  pass_nt_test_set_fee
  pass_nt_test_set_fee_rejects_above_max

lemma near_tests_pass: "list_all (\<lambda>passed. passed) (near_tests ed)"
  by (simp add: near_tests_def near_passes)

end
