(* ===== verification/Polkadot_Tests.thy ===== *)
theory Polkadot_Tests
  imports Test_Prelude Polkadot_Bridge
begin

text \<open>
  The unit tests of \<^verbatim>\<open>polkadot-bridge/lib.rs\<close>, module \<^verbatim>\<open>tests\<close>, run in the model. The
  ink! off-chain test engine is a parameter: its default accounts, the balance it gives the
  contract and its verdict on a transfer out of a balance. The tests set a caller, a
  transferred value and a balance and leave the rest as it is; here each call is given the
  environment that is in force. Every test takes the overflow flag of the build.
\<close>

section \<open>The test engine and the helpers\<close>

record dt_engine =
  dt_alice :: bytes
  dt_bob :: bytes
  dt_contract_balance :: u128
  dt_can_transfer :: "u128 \<Rightarrow> bytes \<Rightarrow> u128 \<Rightarrow> bool"

text \<open>What the tests rely on: two accounts, and that a balance covers a smaller transfer.\<close>

definition dt_engine_documented :: "dt_engine \<Rightarrow> bool" where
  "dt_engine_documented engine \<longleftrightarrow> dt_bob engine \<noteq> dt_alice engine \<and>
     (\<forall>balance to amount. amount < balance \<longrightarrow> dt_can_transfer engine balance to amount)"

definition dt_env :: "dt_engine \<Rightarrow> bytes \<Rightarrow> u128 \<Rightarrow> u128 \<Rightarrow> dot_env" where
  "dt_env engine caller value_transferred balance = \<lparr>dot_caller = caller,
     dot_transferred_value = value_transferred,
     dot_transfer_ok = dt_can_transfer engine balance\<rparr>"

definition dt_signer_key :: bytes where "dt_signer_key = replicate 32 1"
definition dt_other_key :: bytes where "dt_other_key = replicate 32 2"
definition dt_dummy_signature :: bytes where "dt_dummy_signature = replicate 64 0xAA"

text \<open>The environments in force: alice with a value, bob, and a contract with a balance set.\<close>

definition dt_as_alice :: "dt_engine \<Rightarrow> u128 \<Rightarrow> dot_env" where
  "dt_as_alice engine amount = dt_env engine (dt_alice engine) amount (dt_contract_balance engine)"

definition dt_as_bob :: "dt_engine \<Rightarrow> dot_env" where
  "dt_as_bob engine = dt_env engine (dt_bob engine) 0 (dt_contract_balance engine)"

definition dt_funded :: "dt_engine \<Rightarrow> u128 \<Rightarrow> dot_env" where
  "dt_funded engine balance = dt_env engine (dt_alice engine) 0 balance"

definition dt_create_bridge :: "dt_engine \<Rightarrow> dot_failure + dot_bridge" where
  "dt_create_bridge engine =
     dot_new (dt_as_alice engine 0) [dt_signer_key] 2 100"

definition dt_should_panic :: "string \<Rightarrow> dot_failure + 'a \<Rightarrow> bool" where
  "dt_should_panic expected r \<longleftrightarrow>
     (case r of Inl (Dot_trap (Assertion message)) \<Rightarrow> str_contains expected message | _ \<Rightarrow> False)"

section \<open>Tests\<close>

definition dt_initialize_sets_admin :: "bool \<Rightarrow> dt_engine \<Rightarrow> bool" where
  "dt_initialize_sets_admin oc engine \<longleftrightarrow> test_passes (
     and_then (dt_create_bridge engine) (\<lambda>bridge.
     Inr (dot_admin bridge = dt_alice engine)))"

definition dt_initialize_not_paused :: "bool \<Rightarrow> dt_engine \<Rightarrow> bool" where
  "dt_initialize_not_paused oc engine \<longleftrightarrow> test_passes (
     and_then (dt_create_bridge engine) (\<lambda>bridge.
     Inr (\<not> dot_is_paused bridge)))"

definition dt_initialize_zero_totals :: "bool \<Rightarrow> dt_engine \<Rightarrow> bool" where
  "dt_initialize_zero_totals oc engine \<longleftrightarrow> test_passes (
     and_then (dt_create_bridge engine) (\<lambda>bridge.
     Inr (dot_view_total_locked bridge = 0 \<and> dot_view_total_burned bridge = 0)))"

definition dt_initialize_sets_fee :: "bool \<Rightarrow> dt_engine \<Rightarrow> bool" where
  "dt_initialize_sets_fee oc engine \<longleftrightarrow> test_passes (
     and_then (dt_create_bridge engine) (\<lambda>bridge.
     Inr (dot_fee_bps bridge = 100)))"

definition dt_initialize_rejects_fee_above_500 :: "bool \<Rightarrow> dt_engine \<Rightarrow> bool" where
  "dt_initialize_rejects_fee_above_500 oc engine \<longleftrightarrow> dt_should_panic ''Fee too high''
     (dot_new (dt_as_alice engine 0) [dt_signer_key] 2 501)"

definition dt_lock_increments_nonce :: "bool \<Rightarrow> dt_engine \<Rightarrow> bool" where
  "dt_lock_increments_nonce oc engine \<longleftrightarrow> test_passes (
     and_then (dt_create_bridge engine) (\<lambda>bridge.
     and_then (dot_lock_and_bridge oc (dt_as_alice engine 1000) bridge 1 (replicate 32 0xBB))
         (\<lambda>(bridge, nonce).
     and_then (dot_lock_and_bridge oc (dt_as_alice engine 1000) bridge 1 (replicate 32 0xBB))
         (\<lambda>(bridge, nonce2).
     Inr (dot_returned nonce = Some 1 \<and> dot_returned nonce2 = Some 2)))))"

definition dt_lock_updates_total_locked :: "bool \<Rightarrow> dt_engine \<Rightarrow> bool" where
  "dt_lock_updates_total_locked oc engine \<longleftrightarrow> test_passes (
     let amount = (10000 :: u128) in
     and_then (dt_create_bridge engine) (\<lambda>bridge.
     and_then (dot_lock_and_bridge oc (dt_as_alice engine amount) bridge 1 (replicate 32 0xBB))
         (\<lambda>(bridge, _).
     let fee = amount * 100 div 10000 in
     Inr (dot_view_total_locked bridge = amount - fee))))"

definition dt_lock_rejects_zero_amount :: "bool \<Rightarrow> dt_engine \<Rightarrow> bool" where
  "dt_lock_rejects_zero_amount oc engine \<longleftrightarrow> test_passes (
     and_then (dt_create_bridge engine) (\<lambda>bridge.
     Inr (dot_lock_and_bridge oc (dt_as_alice engine 0) bridge 1 (replicate 32 0xBB) =
       Inl (Dot_err Dot_AmountZero))))"

definition dt_lock_rejects_when_paused :: "bool \<Rightarrow> dt_engine \<Rightarrow> bool" where
  "dt_lock_rejects_when_paused oc engine \<longleftrightarrow> test_passes (
     and_then (dt_create_bridge engine) (\<lambda>bridge.
     and_then (dot_pause (dt_as_alice engine 0) bridge) (\<lambda>(bridge, _).
     Inr (dot_lock_and_bridge oc (dt_as_alice engine 1000) bridge 1 (replicate 32 0xBB) =
       Inl (Dot_err Dot_Paused)))))"

definition dt_mint_marks_nonce_processed :: "bool \<Rightarrow> dt_engine \<Rightarrow> bool" where
  "dt_mint_marks_nonce_processed oc engine \<longleftrightarrow> test_passes (
     and_then (dt_create_bridge engine) (\<lambda>bridge.
     and_then (dot_mint_bridged (dt_funded engine 1000000) bridge 1 1 (dt_bob engine) 5000
         dt_dummy_signature dt_signer_key) (\<lambda>(bridge, _).
     Inr (dot_nonce_processed bridge (1, 1)))))"

definition dt_mint_rejects_replayed_nonce :: "bool \<Rightarrow> dt_engine \<Rightarrow> bool" where
  "dt_mint_rejects_replayed_nonce oc engine \<longleftrightarrow> test_passes (
     and_then (dt_create_bridge engine) (\<lambda>bridge.
     and_then (dot_mint_bridged (dt_funded engine 1000000) bridge 1 1 (dt_bob engine) 5000
         dt_dummy_signature dt_signer_key) (\<lambda>(bridge, _).
     Inr (dot_mint_bridged (dt_funded engine (1000000 - 5000)) bridge 1 1 (dt_bob engine) 5000
         dt_dummy_signature dt_signer_key =
       Inl (Dot_err Dot_NonceProcessed)))))"

definition dt_mint_rejects_unauthorized_signer :: "bool \<Rightarrow> dt_engine \<Rightarrow> bool" where
  "dt_mint_rejects_unauthorized_signer oc engine \<longleftrightarrow> test_passes (
     and_then (dt_create_bridge engine) (\<lambda>bridge.
     Inr (dot_mint_bridged (dt_as_alice engine 0) bridge 1 1 (dt_bob engine) 5000 dt_dummy_signature
         dt_other_key =
       Inl (Dot_err Dot_UnauthorizedSigner))))"

definition dt_mint_rejects_zero_amount :: "bool \<Rightarrow> dt_engine \<Rightarrow> bool" where
  "dt_mint_rejects_zero_amount oc engine \<longleftrightarrow> test_passes (
     and_then (dt_create_bridge engine) (\<lambda>bridge.
     Inr (dot_mint_bridged (dt_as_alice engine 0) bridge 1 1 (dt_bob engine) 0 dt_dummy_signature
         dt_signer_key =
       Inl (Dot_err Dot_AmountZero))))"

definition dt_burn_increments_nonce :: "bool \<Rightarrow> dt_engine \<Rightarrow> bool" where
  "dt_burn_increments_nonce oc engine \<longleftrightarrow> test_passes (
     and_then (dt_create_bridge engine) (\<lambda>bridge.
     and_then (dot_burn_bridged oc (dt_as_alice engine 5000) bridge 1 (replicate 32 0xCC))
         (\<lambda>(bridge, nonce).
     Inr (dot_returned nonce = Some 1))))"

definition dt_burn_updates_total_burned :: "bool \<Rightarrow> dt_engine \<Rightarrow> bool" where
  "dt_burn_updates_total_burned oc engine \<longleftrightarrow> test_passes (
     and_then (dt_create_bridge engine) (\<lambda>bridge.
     and_then (dot_burn_bridged oc (dt_as_alice engine 5000) bridge 1 (replicate 32 0xCC))
         (\<lambda>(bridge, _).
     Inr (dot_view_total_burned bridge = 5000))))"

definition dt_burn_rejects_zero_amount :: "bool \<Rightarrow> dt_engine \<Rightarrow> bool" where
  "dt_burn_rejects_zero_amount oc engine \<longleftrightarrow> test_passes (
     and_then (dt_create_bridge engine) (\<lambda>bridge.
     Inr (dot_burn_bridged oc (dt_as_alice engine 0) bridge 1 (replicate 32 0xCC) =
       Inl (Dot_err Dot_AmountZero))))"

definition dt_burn_rejects_when_paused :: "bool \<Rightarrow> dt_engine \<Rightarrow> bool" where
  "dt_burn_rejects_when_paused oc engine \<longleftrightarrow> test_passes (
     and_then (dt_create_bridge engine) (\<lambda>bridge.
     and_then (dot_pause (dt_as_alice engine 0) bridge) (\<lambda>(bridge, _).
     Inr (dot_burn_bridged oc (dt_as_alice engine 5000) bridge 1 (replicate 32 0xCC) =
       Inl (Dot_err Dot_Paused)))))"

definition dt_pause_sets_paused :: "bool \<Rightarrow> dt_engine \<Rightarrow> bool" where
  "dt_pause_sets_paused oc engine \<longleftrightarrow> test_passes (
     and_then (dt_create_bridge engine) (\<lambda>bridge.
     and_then (dot_pause (dt_as_alice engine 0) bridge) (\<lambda>(bridge, _).
     Inr (dot_is_paused bridge))))"

definition dt_unpause_clears_paused :: "bool \<Rightarrow> dt_engine \<Rightarrow> bool" where
  "dt_unpause_clears_paused oc engine \<longleftrightarrow> test_passes (
     and_then (dt_create_bridge engine) (\<lambda>bridge.
     and_then (dot_pause (dt_as_alice engine 0) bridge) (\<lambda>(bridge, _).
     and_then (dot_unpause (dt_as_alice engine 0) bridge) (\<lambda>(bridge, _).
     Inr (\<not> dot_is_paused bridge)))))"

definition dt_pause_rejects_non_admin :: "bool \<Rightarrow> dt_engine \<Rightarrow> bool" where
  "dt_pause_rejects_non_admin oc engine \<longleftrightarrow> test_passes (
     and_then (dt_create_bridge engine) (\<lambda>bridge.
     Inr (dot_pause (dt_as_bob engine) bridge =
       Inl (Dot_err Dot_NotAdmin))))"

definition dt_set_fee_rejects_non_admin :: "bool \<Rightarrow> dt_engine \<Rightarrow> bool" where
  "dt_set_fee_rejects_non_admin oc engine \<longleftrightarrow> test_passes (
     and_then (dt_create_bridge engine) (\<lambda>bridge.
     Inr (dot_set_fee (dt_as_bob engine) bridge 200 =
       Inl (Dot_err Dot_NotAdmin))))"

definition dt_set_fee_rejects_above_max :: "bool \<Rightarrow> dt_engine \<Rightarrow> bool" where
  "dt_set_fee_rejects_above_max oc engine \<longleftrightarrow> test_passes (
     and_then (dt_create_bridge engine) (\<lambda>bridge.
     Inr (dot_set_fee (dt_as_alice engine 0) bridge 501 =
       Inl (Dot_err Dot_FeeTooHigh))))"

definition dt_set_fee_updates_value :: "bool \<Rightarrow> dt_engine \<Rightarrow> bool" where
  "dt_set_fee_updates_value oc engine \<longleftrightarrow> test_passes (
     and_then (dt_create_bridge engine) (\<lambda>bridge.
     and_then (dot_set_fee (dt_as_alice engine 0) bridge 250) (\<lambda>(bridge, _).
     Inr (dot_fee_bps bridge = 250))))"

definition dt_set_signers_rejects_non_admin :: "bool \<Rightarrow> dt_engine \<Rightarrow> bool" where
  "dt_set_signers_rejects_non_admin oc engine \<longleftrightarrow> test_passes (
     and_then (dt_create_bridge engine) (\<lambda>bridge.
     Inr (dot_set_signers (dt_as_bob engine) bridge [dt_other_key] 1 =
       Inl (Dot_err Dot_NotAdmin))))"

definition dt_set_signers_updates_keys :: "bool \<Rightarrow> dt_engine \<Rightarrow> bool" where
  "dt_set_signers_updates_keys oc engine \<longleftrightarrow> test_passes (
     and_then (dt_create_bridge engine) (\<lambda>bridge.
     and_then (dot_set_signers (dt_as_alice engine 0) bridge [dt_other_key] 1) (\<lambda>(bridge, _).
     Inr (dot_mpc_signers bridge = [dt_other_key] \<and> dot_threshold bridge = 1))))"

section \<open>Every test passes\<close>

lemma dt_create_bridge_run:
  "dt_create_bridge engine = Inr \<lparr>dot_admin = dt_alice engine, dot_mpc_signers = [dt_signer_key],
     dot_threshold = 2, dot_fee_bps = 100, dot_paused = False, dot_outbound_nonce = 0,
     dot_total_locked = 0, dot_total_burned = 0, dot_processed_nonces = Map.empty,
     dot_token_configs = Map.empty\<rparr>"
  by (simp add: dt_create_bridge_def dot_new_def dt_env_def dt_as_alice_def ensure_def)

lemma dt_keys_differ: "dt_other_key \<noteq> dt_signer_key"
  by (simp add: dt_other_key_def dt_signer_key_def)

lemmas dt_defs = dt_create_bridge_run dt_keys_differ dt_env_def dt_as_alice_def dt_as_bob_def
    dt_funded_def dot_new_def ensure_def ok_or_def Let_def
  dt_should_panic_def dot_require_not_paused_def dot_require_admin_def dot_is_paused_def
  dot_view_total_locked_def dot_view_total_burned_def dot_lock_and_bridge_def
  dot_burn_bridged_def dot_mint_bridged_def dot_nonce_processed_def dot_verify_ed25519_def
  dot_pause_def dot_unpause_def dot_set_fee_def dot_set_signers_def concrete_ops

lemma pass_dt_initialize_sets_admin:
  assumes "dt_engine_documented engine"
  shows "dt_initialize_sets_admin oc engine"
  using assms by (simp add: dt_initialize_sets_admin_def dt_engine_documented_def dt_defs)

lemma pass_dt_initialize_not_paused:
  assumes "dt_engine_documented engine"
  shows "dt_initialize_not_paused oc engine"
  using assms by (simp add: dt_initialize_not_paused_def dt_engine_documented_def dt_defs)

lemma pass_dt_initialize_zero_totals:
  assumes "dt_engine_documented engine"
  shows "dt_initialize_zero_totals oc engine"
  using assms by (simp add: dt_initialize_zero_totals_def dt_engine_documented_def dt_defs)

lemma pass_dt_initialize_sets_fee:
  assumes "dt_engine_documented engine"
  shows "dt_initialize_sets_fee oc engine"
  using assms by (simp add: dt_initialize_sets_fee_def dt_engine_documented_def dt_defs)

lemma pass_dt_initialize_rejects_fee_above_500:
  assumes "dt_engine_documented engine"
  shows "dt_initialize_rejects_fee_above_500 oc engine"
  using assms by (simp add: dt_initialize_rejects_fee_above_500_def dt_engine_documented_def dt_defs)

lemma pass_dt_lock_increments_nonce:
  assumes "dt_engine_documented engine"
  shows "dt_lock_increments_nonce oc engine"
  using assms by (simp add: dt_lock_increments_nonce_def dt_engine_documented_def dt_defs)

lemma pass_dt_lock_updates_total_locked:
  assumes "dt_engine_documented engine"
  shows "dt_lock_updates_total_locked oc engine"
  using assms by (simp add: dt_lock_updates_total_locked_def dt_engine_documented_def dt_defs)

lemma pass_dt_lock_rejects_zero_amount:
  assumes "dt_engine_documented engine"
  shows "dt_lock_rejects_zero_amount oc engine"
  using assms by (simp add: dt_lock_rejects_zero_amount_def dt_engine_documented_def dt_defs)

lemma pass_dt_lock_rejects_when_paused:
  assumes "dt_engine_documented engine"
  shows "dt_lock_rejects_when_paused oc engine"
  using assms by (simp add: dt_lock_rejects_when_paused_def dt_engine_documented_def dt_defs)

lemma pass_dt_mint_marks_nonce_processed:
  assumes "dt_engine_documented engine"
  shows "dt_mint_marks_nonce_processed oc engine"
  using assms by (simp add: dt_mint_marks_nonce_processed_def dt_engine_documented_def dt_defs)

lemma pass_dt_mint_rejects_replayed_nonce:
  assumes "dt_engine_documented engine"
  shows "dt_mint_rejects_replayed_nonce oc engine"
  using assms by (simp add: dt_mint_rejects_replayed_nonce_def dt_engine_documented_def dt_defs)

lemma pass_dt_mint_rejects_unauthorized_signer:
  assumes "dt_engine_documented engine"
  shows "dt_mint_rejects_unauthorized_signer oc engine"
  using assms by (simp add: dt_mint_rejects_unauthorized_signer_def dt_engine_documented_def dt_defs)

lemma pass_dt_mint_rejects_zero_amount:
  assumes "dt_engine_documented engine"
  shows "dt_mint_rejects_zero_amount oc engine"
  using assms by (simp add: dt_mint_rejects_zero_amount_def dt_engine_documented_def dt_defs)

lemma pass_dt_burn_increments_nonce:
  assumes "dt_engine_documented engine"
  shows "dt_burn_increments_nonce oc engine"
  using assms by (simp add: dt_burn_increments_nonce_def dt_engine_documented_def dt_defs)

lemma pass_dt_burn_updates_total_burned:
  assumes "dt_engine_documented engine"
  shows "dt_burn_updates_total_burned oc engine"
  using assms by (simp add: dt_burn_updates_total_burned_def dt_engine_documented_def dt_defs)

lemma pass_dt_burn_rejects_zero_amount:
  assumes "dt_engine_documented engine"
  shows "dt_burn_rejects_zero_amount oc engine"
  using assms by (simp add: dt_burn_rejects_zero_amount_def dt_engine_documented_def dt_defs)

lemma pass_dt_burn_rejects_when_paused:
  assumes "dt_engine_documented engine"
  shows "dt_burn_rejects_when_paused oc engine"
  using assms by (simp add: dt_burn_rejects_when_paused_def dt_engine_documented_def dt_defs)

lemma pass_dt_pause_sets_paused:
  assumes "dt_engine_documented engine"
  shows "dt_pause_sets_paused oc engine"
  using assms by (simp add: dt_pause_sets_paused_def dt_engine_documented_def dt_defs)

lemma pass_dt_unpause_clears_paused:
  assumes "dt_engine_documented engine"
  shows "dt_unpause_clears_paused oc engine"
  using assms by (simp add: dt_unpause_clears_paused_def dt_engine_documented_def dt_defs)

lemma pass_dt_pause_rejects_non_admin:
  assumes "dt_engine_documented engine"
  shows "dt_pause_rejects_non_admin oc engine"
  using assms by (simp add: dt_pause_rejects_non_admin_def dt_engine_documented_def dt_defs)

lemma pass_dt_set_fee_rejects_non_admin:
  assumes "dt_engine_documented engine"
  shows "dt_set_fee_rejects_non_admin oc engine"
  using assms by (simp add: dt_set_fee_rejects_non_admin_def dt_engine_documented_def dt_defs)

lemma pass_dt_set_fee_rejects_above_max:
  assumes "dt_engine_documented engine"
  shows "dt_set_fee_rejects_above_max oc engine"
  using assms by (simp add: dt_set_fee_rejects_above_max_def dt_engine_documented_def dt_defs)

lemma pass_dt_set_fee_updates_value:
  assumes "dt_engine_documented engine"
  shows "dt_set_fee_updates_value oc engine"
  using assms by (simp add: dt_set_fee_updates_value_def dt_engine_documented_def dt_defs)

lemma pass_dt_set_signers_rejects_non_admin:
  assumes "dt_engine_documented engine"
  shows "dt_set_signers_rejects_non_admin oc engine"
  using assms by (simp add: dt_set_signers_rejects_non_admin_def dt_engine_documented_def dt_defs)

lemma pass_dt_set_signers_updates_keys:
  assumes "dt_engine_documented engine"
  shows "dt_set_signers_updates_keys oc engine"
  using assms by (simp add: dt_set_signers_updates_keys_def dt_engine_documented_def dt_defs)

lemmas dot_passes = pass_dt_initialize_sets_admin
  pass_dt_initialize_not_paused
  pass_dt_initialize_zero_totals
  pass_dt_initialize_sets_fee
  pass_dt_initialize_rejects_fee_above_500
  pass_dt_lock_increments_nonce
  pass_dt_lock_updates_total_locked
  pass_dt_lock_rejects_zero_amount
  pass_dt_lock_rejects_when_paused
  pass_dt_mint_marks_nonce_processed
  pass_dt_mint_rejects_replayed_nonce
  pass_dt_mint_rejects_unauthorized_signer
  pass_dt_mint_rejects_zero_amount
  pass_dt_burn_increments_nonce
  pass_dt_burn_updates_total_burned
  pass_dt_burn_rejects_zero_amount
  pass_dt_burn_rejects_when_paused
  pass_dt_pause_sets_paused
  pass_dt_unpause_clears_paused
  pass_dt_pause_rejects_non_admin
  pass_dt_set_fee_rejects_non_admin
  pass_dt_set_fee_rejects_above_max
  pass_dt_set_fee_updates_value
  pass_dt_set_signers_rejects_non_admin
  pass_dt_set_signers_updates_keys

definition dot_tests :: "bool \<Rightarrow> dt_engine \<Rightarrow> bool list" where
  "dot_tests oc engine = [
     dt_initialize_sets_admin oc engine,
     dt_initialize_not_paused oc engine,
     dt_initialize_zero_totals oc engine,
     dt_initialize_sets_fee oc engine,
     dt_initialize_rejects_fee_above_500 oc engine,
     dt_lock_increments_nonce oc engine,
     dt_lock_updates_total_locked oc engine,
     dt_lock_rejects_zero_amount oc engine,
     dt_lock_rejects_when_paused oc engine,
     dt_mint_marks_nonce_processed oc engine,
     dt_mint_rejects_replayed_nonce oc engine,
     dt_mint_rejects_unauthorized_signer oc engine,
     dt_mint_rejects_zero_amount oc engine,
     dt_burn_increments_nonce oc engine,
     dt_burn_updates_total_burned oc engine,
     dt_burn_rejects_zero_amount oc engine,
     dt_burn_rejects_when_paused oc engine,
     dt_pause_sets_paused oc engine,
     dt_unpause_clears_paused oc engine,
     dt_pause_rejects_non_admin oc engine,
     dt_set_fee_rejects_non_admin oc engine,
     dt_set_fee_rejects_above_max oc engine,
     dt_set_fee_updates_value oc engine,
     dt_set_signers_rejects_non_admin oc engine,
     dt_set_signers_updates_keys oc engine]"

lemma dot_tests_pass:
  assumes "dt_engine_documented engine"
  shows "list_all (\<lambda>passed. passed) (dot_tests oc engine)"
  by (simp add: dot_tests_def dot_passes [OF assms])

end
