(* ===== verification/Stellar_Tests.thy ===== *)
theory Stellar_Tests
  imports Test_Prelude Stellar_Bridge
begin

text \<open>
  The unit tests of \<^verbatim>\<open>stellar-bridge/src/lib.rs\<close>, module \<^verbatim>\<open>tests\<close>, run in the
  model. The Soroban test environment is a parameter: the addresses it generates, the Stellar
  asset contract with its ledger, and the key pairs and signing of \<^verbatim>\<open>ed25519_dalek\<close>. After
  each call the transfers the contract made are carried out on the ledger.
\<close>

section \<open>The test environment and the helpers\<close>

record 'l xt_host =
  xt_contract_id :: string
  xt_admin :: string
  xt_sender :: string
  xt_recipient :: string
  xt_impostor :: string
  xt_token :: string
  xt_ledger :: 'l
  xt_sac_mint :: "'l \<Rightarrow> string \<Rightarrow> string \<Rightarrow> i128 \<Rightarrow> 'l"
  xt_sac_covers :: "'l \<Rightarrow> string \<Rightarrow> string \<Rightarrow> string \<Rightarrow> i128 \<Rightarrow> bool"
  xt_sac_transfer :: "'l \<Rightarrow> string \<Rightarrow> string \<Rightarrow> string \<Rightarrow> i128 \<Rightarrow> 'l"
  xt_balance :: "'l \<Rightarrow> string \<Rightarrow> string \<Rightarrow> int"
  xt_sk :: bytes
  xt_rogue_sk :: bytes
  xt_verifying_key :: "bytes \<Rightarrow> bytes"
  xt_sign :: "bytes \<Rightarrow> bytes \<Rightarrow> bytes"

text \<open>
  What the tests rely on: generated addresses and keys are distinct; minting and transferring
  move the balances of the token by the amount; a balance covers a transfer up to itself; a
  signature made with a key verifies under it.
\<close>

definition xt_ledger_documented :: "'l xt_host \<Rightarrow> bool" where
  "xt_ledger_documented host \<longleftrightarrow>
     (\<forall>tok who. xt_balance host (xt_ledger host) tok who = 0) \<and>
     (\<forall>l tok to a who. 0 \<le> sint a \<longrightarrow> xt_balance host (xt_sac_mint host l tok to a) tok who =
        xt_balance host l tok who + (if who = to then sint a else 0)) \<and>
     (\<forall>l tok src to a. 0 \<le> sint a \<longrightarrow>
        xt_sac_covers host l tok src to a = (sint a \<le> xt_balance host l tok src)) \<and>
     (\<forall>l tok src to a who. 0 \<le> sint a \<longrightarrow> src \<noteq> to \<longrightarrow> xt_balance host (xt_sac_transfer host l tok src
         to a) tok who =
        xt_balance host l tok who + (if who = to then sint a else 0) - (if who = src then sint a
            else 0))"

definition xt_documented :: "(bytes \<Rightarrow> bytes \<Rightarrow> bytes \<Rightarrow> bool) \<Rightarrow> 'l xt_host \<Rightarrow> bool" where
  "xt_documented ed host \<longleftrightarrow> xt_ledger_documented host \<and>
     distinct [xt_contract_id host, xt_admin host, xt_sender host, xt_recipient host, xt_impostor
         host] \<and>
     xt_verifying_key host (xt_sk host) \<noteq> xt_verifying_key host (xt_rogue_sk host) \<and>
     (\<forall>sk m. ed (xt_verifying_key host sk) m (xt_sign host sk m))"

definition xt_env :: "'l xt_host \<Rightarrow> 'l \<Rightarrow> xlm_env" where
  "xt_env host ledger = \<lparr>xlm_authorized = (\<lambda>_. True),
     xlm_transfer_ok = xt_sac_covers host ledger, xlm_self = xt_contract_id host\<rparr>"

definition xt_settle :: "'l xt_host \<Rightarrow> 'l \<Rightarrow> xlm_output \<Rightarrow> 'l" where
  "xt_settle host ledger out =
     foldl (\<lambda>l (tok, src, to, a). xt_sac_transfer host l tok src to a) ledger (xlm_transfers out)"

definition xt_mint_token :: "'l xt_host \<Rightarrow> 'l \<Rightarrow> string \<Rightarrow> string \<Rightarrow> i128 \<Rightarrow> 'l" where
  "xt_mint_token host ledger token_addr to amount = xt_sac_mint host ledger token_addr to amount"

definition xt_empty :: xlm_storage where
  "xt_empty = \<lparr>xlm_instance = None, xlm_persistent = Map.empty\<rparr>"

definition xt_init_bridge :: "'l xt_host \<Rightarrow> bytes list \<Rightarrow> rust_panic + xlm_storage" where
  "xt_init_bridge host signers =
     and_then (xlm_initialize xt_empty (xt_admin host) signers 2 100) (\<lambda>(s, _). Inr s)"

section \<open>Tests\<close>

definition xt_test_initialize_sets_config ::
    "(bytes \<Rightarrow> bytes) \<Rightarrow> (bytes \<Rightarrow> bytes \<Rightarrow> bytes \<Rightarrow> bool) \<Rightarrow> 'l xt_host \<Rightarrow> bool" where
  "xt_test_initialize_sets_config sha ed host \<longleftrightarrow> test_passes (
     and_then (xt_init_bridge host [xt_verifying_key host (xt_sk host)]) (\<lambda>s.
     and_then (xlm_view_total_locked s) (\<lambda>locked.
     and_then (xlm_view_total_burned s) (\<lambda>burned.
     Inr (locked = 0 \<and> burned = 0)))))"

definition xt_test_initialize_rejects_high_fee ::
    "(bytes \<Rightarrow> bytes) \<Rightarrow> (bytes \<Rightarrow> bytes \<Rightarrow> bytes \<Rightarrow> bool) \<Rightarrow> 'l xt_host \<Rightarrow> bool" where
  "xt_test_initialize_rejects_high_fee sha ed host \<longleftrightarrow> should_panic_with ''Fee too high'' (
     xlm_initialize xt_empty (xt_admin host) [xt_verifying_key host (xt_sk host)] 2 501)"

definition xt_test_lock_and_bridge ::
    "(bytes \<Rightarrow> bytes) \<Rightarrow> (bytes \<Rightarrow> bytes \<Rightarrow> bytes \<Rightarrow> bool) \<Rightarrow> 'l xt_host \<Rightarrow> bool" where
  "xt_test_lock_and_bridge sha ed host \<longleftrightarrow> test_passes (
     and_then (xt_init_bridge host [xt_verifying_key host (xt_sk host)]) (\<lambda>s.
     let ledger = xt_mint_token host (xt_ledger host) (xt_token host) (xt_sender host) 10000 in
     and_then (xlm_lock_and_bridge (xt_env host ledger) s (xt_sender host) (xt_token host) 5000 1
         (replicate 32 0)) (\<lambda>(s, nonce).
     and_then (xlm_view_total_locked s) (\<lambda>locked.
     Inr (xlm_returned nonce = Some 1 \<and> locked = 4950)))))"

definition xt_test_lock_increments_nonce ::
    "(bytes \<Rightarrow> bytes) \<Rightarrow> (bytes \<Rightarrow> bytes \<Rightarrow> bytes \<Rightarrow> bool) \<Rightarrow> 'l xt_host \<Rightarrow> bool" where
  "xt_test_lock_increments_nonce sha ed host \<longleftrightarrow> test_passes (
     and_then (xt_init_bridge host [xt_verifying_key host (xt_sk host)]) (\<lambda>s.
     let ledger = xt_mint_token host (xt_ledger host) (xt_token host) (xt_sender host) 20000 in
     and_then (xlm_lock_and_bridge (xt_env host ledger) s (xt_sender host) (xt_token host) 5000 1
         (replicate 32 0)) (\<lambda>(s, n1).
     let ledger = xt_settle host ledger n1 in
     and_then (xlm_lock_and_bridge (xt_env host ledger) s (xt_sender host) (xt_token host) 5000 1
         (replicate 32 0)) (\<lambda>(s, n2).
     Inr (xlm_returned n1 = Some 1 \<and> xlm_returned n2 = Some 2)))))"

definition xt_test_lock_rejects_zero_amount ::
    "(bytes \<Rightarrow> bytes) \<Rightarrow> (bytes \<Rightarrow> bytes \<Rightarrow> bytes \<Rightarrow> bool) \<Rightarrow> 'l xt_host \<Rightarrow> bool" where
  "xt_test_lock_rejects_zero_amount sha ed host \<longleftrightarrow> should_panic_with ''Zero amount'' (
     and_then (xt_init_bridge host [xt_verifying_key host (xt_sk host)]) (\<lambda>s.
     let ledger = xt_ledger host in
     xlm_lock_and_bridge (xt_env host ledger) s (xt_sender host) (xt_token host) 0 1 (replicate 32 0)))"

definition xt_test_mint_bridged_with_valid_signature ::
    "(bytes \<Rightarrow> bytes) \<Rightarrow> (bytes \<Rightarrow> bytes \<Rightarrow> bytes \<Rightarrow> bool) \<Rightarrow> 'l xt_host \<Rightarrow> bool" where
  "xt_test_mint_bridged_with_valid_signature sha ed host \<longleftrightarrow> test_passes (
     and_then (xt_init_bridge host [xt_verifying_key host (xt_sk host)]) (\<lambda>s.
     let ledger = xt_mint_token host (xt_ledger host) (xt_token host) (xt_contract_id host) 10000 in
     let source_chain = (42 :: u64); nonce = (1 :: u64); amount = (1000 :: i128) in
     let msg = xlm_build_mint_message source_chain nonce (xt_recipient host) amount in
     let sig_bytes = xt_sign host (xt_sk host) (sha msg) in
     and_then (xlm_mint_bridged sha ed (xt_env host ledger) s (xt_token host) source_chain nonce
         (xt_recipient host) amount sig_bytes (xt_verifying_key host (xt_sk host))) (\<lambda>(s, minted).
     let ledger = xt_settle host ledger minted in
     Inr (xt_balance host ledger (xt_token host) (xt_recipient host) = 1000))))"

definition xt_test_mint_rejects_unknown_signer ::
    "(bytes \<Rightarrow> bytes) \<Rightarrow> (bytes \<Rightarrow> bytes \<Rightarrow> bytes \<Rightarrow> bool) \<Rightarrow> 'l xt_host \<Rightarrow> bool" where
  "xt_test_mint_rejects_unknown_signer sha ed host \<longleftrightarrow> should_panic_with ''Unauthorized'' (
     and_then (xt_init_bridge host [xt_verifying_key host (xt_sk host)]) (\<lambda>s.
     let ledger = xt_mint_token host (xt_ledger host) (xt_token host) (xt_contract_id host) 10000 in
     let source_chain = (42 :: u64); nonce = (1 :: u64); amount = (1000 :: i128) in
     let msg = xlm_build_mint_message source_chain nonce (xt_recipient host) amount in
     let sig_bytes = xt_sign host (xt_rogue_sk host) (sha msg) in
     xlm_mint_bridged sha ed (xt_env host ledger) s (xt_token host) source_chain nonce (xt_recipient
         host) amount sig_bytes (xt_verifying_key host (xt_rogue_sk host))))"

definition xt_test_mint_rejects_replay ::
    "(bytes \<Rightarrow> bytes) \<Rightarrow> (bytes \<Rightarrow> bytes \<Rightarrow> bytes \<Rightarrow> bool) \<Rightarrow> 'l xt_host \<Rightarrow> bool" where
  "xt_test_mint_rejects_replay sha ed host \<longleftrightarrow> should_panic_with ''Nonce processed'' (
     and_then (xt_init_bridge host [xt_verifying_key host (xt_sk host)]) (\<lambda>s.
     let ledger = xt_mint_token host (xt_ledger host) (xt_token host) (xt_contract_id host) 20000 in
     let source_chain = (42 :: u64); nonce = (1 :: u64); amount = (1000 :: i128) in
     let msg = xlm_build_mint_message source_chain nonce (xt_recipient host) amount in
     let sig_bytes = xt_sign host (xt_sk host) (sha msg) in
     and_then (xlm_mint_bridged sha ed (xt_env host ledger) s (xt_token host) source_chain nonce
         (xt_recipient host) amount sig_bytes (xt_verifying_key host (xt_sk host))) (\<lambda>(s, minted).
     let ledger = xt_settle host ledger minted in
     xlm_mint_bridged sha ed (xt_env host ledger) s (xt_token host) source_chain nonce (xt_recipient
         host) amount sig_bytes (xt_verifying_key host (xt_sk host)))))"

definition xt_test_burn_bridged ::
    "(bytes \<Rightarrow> bytes) \<Rightarrow> (bytes \<Rightarrow> bytes \<Rightarrow> bytes \<Rightarrow> bool) \<Rightarrow> 'l xt_host \<Rightarrow> bool" where
  "xt_test_burn_bridged sha ed host \<longleftrightarrow> test_passes (
     and_then (xt_init_bridge host [xt_verifying_key host (xt_sk host)]) (\<lambda>s.
     let ledger = xt_mint_token host (xt_ledger host) (xt_token host) (xt_sender host) 10000 in
     and_then (xlm_burn_bridged (xt_env host ledger) s (xt_sender host) (xt_token host) 3000 1
         (replicate 32 1)) (\<lambda>(s, nonce).
     let ledger = xt_settle host ledger nonce in
     and_then (xlm_view_total_burned s) (\<lambda>burned.
     Inr (xlm_returned nonce = Some 1 \<and> burned = 3000 \<and>
       xt_balance host ledger (xt_token host) (xt_sender host) = 7000)))))"

definition xt_test_burn_rejects_zero ::
    "(bytes \<Rightarrow> bytes) \<Rightarrow> (bytes \<Rightarrow> bytes \<Rightarrow> bytes \<Rightarrow> bool) \<Rightarrow> 'l xt_host \<Rightarrow> bool" where
  "xt_test_burn_rejects_zero sha ed host \<longleftrightarrow> should_panic_with ''Zero'' (
     and_then (xt_init_bridge host [xt_verifying_key host (xt_sk host)]) (\<lambda>s.
     let ledger = xt_ledger host in
     xlm_burn_bridged (xt_env host ledger) s (xt_sender host) (xt_token host) 0 1 (replicate 32 0)))"

definition xt_test_unpause_restores_operations ::
    "(bytes \<Rightarrow> bytes) \<Rightarrow> (bytes \<Rightarrow> bytes \<Rightarrow> bytes \<Rightarrow> bool) \<Rightarrow> 'l xt_host \<Rightarrow> bool" where
  "xt_test_unpause_restores_operations sha ed host \<longleftrightarrow> test_passes (
     and_then (xt_init_bridge host [xt_verifying_key host (xt_sk host)]) (\<lambda>s.
     let ledger = xt_mint_token host (xt_ledger host) (xt_token host) (xt_sender host) 10000 in
     and_then (xlm_pause (xt_env host ledger) s (xt_admin host)) (\<lambda>(s, _).
     and_then (xlm_unpause (xt_env host ledger) s (xt_admin host)) (\<lambda>(s, _).
     and_then (xlm_lock_and_bridge (xt_env host ledger) s (xt_sender host) (xt_token host) 1000 1
         (replicate 32 0)) (\<lambda>(s, nonce).
     Inr (xlm_returned nonce = Some 1))))))"

definition xt_test_lock_while_paused ::
    "(bytes \<Rightarrow> bytes) \<Rightarrow> (bytes \<Rightarrow> bytes \<Rightarrow> bytes \<Rightarrow> bool) \<Rightarrow> 'l xt_host \<Rightarrow> bool" where
  "xt_test_lock_while_paused sha ed host \<longleftrightarrow> should_panic_with ''Paused'' (
     and_then (xt_init_bridge host [xt_verifying_key host (xt_sk host)]) (\<lambda>s.
     let ledger = xt_mint_token host (xt_ledger host) (xt_token host) (xt_sender host) 10000 in
     and_then (xlm_pause (xt_env host ledger) s (xt_admin host)) (\<lambda>(s, _).
     xlm_lock_and_bridge (xt_env host ledger) s (xt_sender host) (xt_token host) 1000 1 (replicate
         32 0))))"

definition xt_test_burn_while_paused ::
    "(bytes \<Rightarrow> bytes) \<Rightarrow> (bytes \<Rightarrow> bytes \<Rightarrow> bytes \<Rightarrow> bool) \<Rightarrow> 'l xt_host \<Rightarrow> bool" where
  "xt_test_burn_while_paused sha ed host \<longleftrightarrow> should_panic_with ''Paused'' (
     and_then (xt_init_bridge host [xt_verifying_key host (xt_sk host)]) (\<lambda>s.
     let ledger = xt_mint_token host (xt_ledger host) (xt_token host) (xt_sender host) 10000 in
     and_then (xlm_pause (xt_env host ledger) s (xt_admin host)) (\<lambda>(s, _).
     xlm_burn_bridged (xt_env host ledger) s (xt_sender host) (xt_token host) 1000 1 (replicate 32
         0))))"

definition xt_test_pause_rejects_non_admin ::
    "(bytes \<Rightarrow> bytes) \<Rightarrow> (bytes \<Rightarrow> bytes \<Rightarrow> bytes \<Rightarrow> bool) \<Rightarrow> 'l xt_host \<Rightarrow> bool" where
  "xt_test_pause_rejects_non_admin sha ed host \<longleftrightarrow> should_panic (
     and_then (xt_init_bridge host [xt_verifying_key host (xt_sk host)]) (\<lambda>s.
     let ledger = xt_ledger host in
     xlm_pause (xt_env host ledger) s (xt_impostor host)))"

definition xt_test_unpause_rejects_non_admin ::
    "(bytes \<Rightarrow> bytes) \<Rightarrow> (bytes \<Rightarrow> bytes \<Rightarrow> bytes \<Rightarrow> bool) \<Rightarrow> 'l xt_host \<Rightarrow> bool" where
  "xt_test_unpause_rejects_non_admin sha ed host \<longleftrightarrow> should_panic (
     and_then (xt_init_bridge host [xt_verifying_key host (xt_sk host)]) (\<lambda>s.
     let ledger = xt_ledger host in
     and_then (xlm_pause (xt_env host ledger) s (xt_admin host)) (\<lambda>(s, _).
     xlm_unpause (xt_env host ledger) s (xt_impostor host))))"

section \<open>Every test passes\<close>

lemma xt_init_bridge_run:
  "xt_init_bridge host signers = Inr \<lparr>xlm_instance = Some \<lparr>xlm_admin = xt_admin host,
     xlm_mpc_signers = signers, xlm_threshold = 2, xlm_fee_bps = 100, xlm_paused = False,
     xlm_outbound_nonce = 0, xlm_total_locked = 0, xlm_total_burned = 0\<rparr>,
     xlm_persistent = Map.empty\<rparr>"
  by (simp add: xt_init_bridge_def xlm_initialize_def xt_empty_def Let_def)

lemma xt_sac_rules:
  assumes "xt_documented ed host" and "0 \<le> sint a"
  shows "xt_balance host (xt_sac_mint host l tok to a) tok who =
      xt_balance host l tok who + (if who = to then sint a else 0)"
    and "xt_sac_covers host l tok src to a = (sint a \<le> xt_balance host l tok src)"
    and "src \<noteq> to \<Longrightarrow> xt_balance host (xt_sac_transfer host l tok src to a) tok who =
      xt_balance host l tok who + (if who = to then sint a else 0) - (if who = src then sint a else 0)"
  using assms by (auto simp: xt_documented_def xt_ledger_documented_def)

lemma xt_host_rules:
  assumes "xt_documented ed host"
  shows "xt_balance host (xt_ledger host) tok who = 0"
    and "ed (xt_verifying_key host sk) m (xt_sign host sk m)"
    and "xt_verifying_key host (xt_rogue_sk host) \<noteq> xt_verifying_key host (xt_sk host)"
    and "xt_sender host \<noteq> xt_contract_id host" and "xt_contract_id host \<noteq> xt_sender host"
    and "xt_recipient host \<noteq> xt_contract_id host" and "xt_contract_id host \<noteq> xt_recipient host"
    and "xt_impostor host \<noteq> xt_admin host"
  using assms by (auto simp: xt_documented_def xt_ledger_documented_def)

lemmas xt_defs = xt_init_bridge_run xt_env_def xt_settle_def xt_mint_token_def xlm_initialize_def
  xlm_get_config_def xlm_view_total_locked_def xlm_view_total_burned_def xlm_lock_and_bridge_def
  xlm_burn_bridged_def xlm_mint_bridged_def xlm_pause_def xlm_unpause_def xlm_silent_def
  concrete_ops Let_def

lemma pass_xt_test_initialize_sets_config:
  assumes "xt_documented ed host"
  shows "xt_test_initialize_sets_config sha ed host"
  by (simp add: xt_test_initialize_sets_config_def xt_defs xt_host_rules [OF assms] xt_sac_rules [OF
      assms])

lemma pass_xt_test_initialize_rejects_high_fee:
  assumes "xt_documented ed host"
  shows "xt_test_initialize_rejects_high_fee sha ed host"
  by (simp add: xt_test_initialize_rejects_high_fee_def xt_defs xt_host_rules [OF assms]
      xt_sac_rules [OF assms])

lemma pass_xt_test_lock_and_bridge:
  assumes "xt_documented ed host"
  shows "xt_test_lock_and_bridge sha ed host"
  by (simp add: xt_test_lock_and_bridge_def xt_defs xt_host_rules [OF assms] xt_sac_rules [OF assms])

lemma pass_xt_test_lock_increments_nonce:
  assumes "xt_documented ed host"
  shows "xt_test_lock_increments_nonce sha ed host"
  by (simp add: xt_test_lock_increments_nonce_def xt_defs xt_host_rules [OF assms] xt_sac_rules [OF
      assms])

lemma pass_xt_test_lock_rejects_zero_amount:
  assumes "xt_documented ed host"
  shows "xt_test_lock_rejects_zero_amount sha ed host"
  by (simp add: xt_test_lock_rejects_zero_amount_def xt_defs xt_host_rules [OF assms] xt_sac_rules
      [OF assms])

lemma pass_xt_test_mint_bridged_with_valid_signature:
  assumes "xt_documented ed host"
  shows "xt_test_mint_bridged_with_valid_signature sha ed host"
  by (simp add: xt_test_mint_bridged_with_valid_signature_def xt_defs xt_host_rules [OF assms]
      xt_sac_rules [OF assms])

lemma pass_xt_test_mint_rejects_unknown_signer:
  assumes "xt_documented ed host"
  shows "xt_test_mint_rejects_unknown_signer sha ed host"
  by (simp add: xt_test_mint_rejects_unknown_signer_def xt_defs xt_host_rules [OF assms]
      xt_sac_rules [OF assms])

lemma pass_xt_test_mint_rejects_replay:
  assumes "xt_documented ed host"
  shows "xt_test_mint_rejects_replay sha ed host"
  by (simp add: xt_test_mint_rejects_replay_def xt_defs xt_host_rules [OF assms] xt_sac_rules [OF
      assms])

lemma pass_xt_test_burn_bridged:
  assumes "xt_documented ed host"
  shows "xt_test_burn_bridged sha ed host"
  by (simp add: xt_test_burn_bridged_def xt_defs xt_host_rules [OF assms] xt_sac_rules [OF assms])

lemma pass_xt_test_burn_rejects_zero:
  assumes "xt_documented ed host"
  shows "xt_test_burn_rejects_zero sha ed host"
  by (simp add: xt_test_burn_rejects_zero_def xt_defs xt_host_rules [OF assms] xt_sac_rules [OF assms])

lemma pass_xt_test_unpause_restores_operations:
  assumes "xt_documented ed host"
  shows "xt_test_unpause_restores_operations sha ed host"
  by (simp add: xt_test_unpause_restores_operations_def xt_defs xt_host_rules [OF assms]
      xt_sac_rules [OF assms])

lemma pass_xt_test_lock_while_paused:
  assumes "xt_documented ed host"
  shows "xt_test_lock_while_paused sha ed host"
  by (simp add: xt_test_lock_while_paused_def xt_defs xt_host_rules [OF assms] xt_sac_rules [OF assms])

lemma pass_xt_test_burn_while_paused:
  assumes "xt_documented ed host"
  shows "xt_test_burn_while_paused sha ed host"
  by (simp add: xt_test_burn_while_paused_def xt_defs xt_host_rules [OF assms] xt_sac_rules [OF assms])

lemma pass_xt_test_pause_rejects_non_admin:
  assumes "xt_documented ed host"
  shows "xt_test_pause_rejects_non_admin sha ed host"
  by (simp add: xt_test_pause_rejects_non_admin_def xt_defs xt_host_rules [OF assms] xt_sac_rules
      [OF assms])

lemma pass_xt_test_unpause_rejects_non_admin:
  assumes "xt_documented ed host"
  shows "xt_test_unpause_rejects_non_admin sha ed host"
  by (simp add: xt_test_unpause_rejects_non_admin_def xt_defs xt_host_rules [OF assms] xt_sac_rules
      [OF assms])

lemmas xlm_passes = pass_xt_test_initialize_sets_config
  pass_xt_test_initialize_rejects_high_fee
  pass_xt_test_lock_and_bridge
  pass_xt_test_lock_increments_nonce
  pass_xt_test_lock_rejects_zero_amount
  pass_xt_test_mint_bridged_with_valid_signature
  pass_xt_test_mint_rejects_unknown_signer
  pass_xt_test_mint_rejects_replay
  pass_xt_test_burn_bridged
  pass_xt_test_burn_rejects_zero
  pass_xt_test_unpause_restores_operations
  pass_xt_test_lock_while_paused
  pass_xt_test_burn_while_paused
  pass_xt_test_pause_rejects_non_admin
  pass_xt_test_unpause_rejects_non_admin

definition xlm_tests ::
    "(bytes \<Rightarrow> bytes) \<Rightarrow> (bytes \<Rightarrow> bytes \<Rightarrow> bytes \<Rightarrow> bool) \<Rightarrow> 'l xt_host \<Rightarrow> bool list" where
  "xlm_tests sha ed host = [
     xt_test_initialize_sets_config sha ed host,
     xt_test_initialize_rejects_high_fee sha ed host,
     xt_test_lock_and_bridge sha ed host,
     xt_test_lock_increments_nonce sha ed host,
     xt_test_lock_rejects_zero_amount sha ed host,
     xt_test_mint_bridged_with_valid_signature sha ed host,
     xt_test_mint_rejects_unknown_signer sha ed host,
     xt_test_mint_rejects_replay sha ed host,
     xt_test_burn_bridged sha ed host,
     xt_test_burn_rejects_zero sha ed host,
     xt_test_unpause_restores_operations sha ed host,
     xt_test_lock_while_paused sha ed host,
     xt_test_burn_while_paused sha ed host,
     xt_test_pause_rejects_non_admin sha ed host,
     xt_test_unpause_rejects_non_admin sha ed host]"

lemma xlm_tests_pass:
  assumes "xt_documented ed host"
  shows "list_all (\<lambda>passed. passed) (xlm_tests sha ed host)"
  by (simp add: xlm_tests_def xlm_passes [OF assms])

end
