(* ===== verification/Icp_Tests.thy ===== *)
theory Icp_Tests
  imports Test_Prelude Icp_Bridge
begin

text \<open>
  The unit tests of \<^verbatim>\<open>icp-bridge/src/knt_bridge.rs\<close>, module \<^verbatim>\<open>tests\<close>, run in the
  model. A test starts from whatever the thread-local cells hold, and resets them; the
  anonymous principal is a parameter. So is the host, what \<^verbatim>\<open>ic_cdk::caller()\<close> and
  \<^verbatim>\<open>time()\<close> answer: in a canister a caller and a time, elsewhere nothing, since the system
  calls behind them exist in canisters only and panic outside. An \<open>assert!\<close> that
  fails inside \<^verbatim>\<open>catch_unwind\<close> changes nothing, since the guards come first. Two tests run
  no operation of the contract: \<open>it_test_init_rejects_high_fee\<close> asserts about a local
  variable, \<open>it_test_init_sets_config\<close> reads back what it wrote; those of the pause flag set
  the cell themselves.
\<close>

section \<open>Helpers\<close>

definition it_reset_state :: "icp_state \<Rightarrow> icp_state" where
  "it_reset_state s = s\<lparr>icp_CONFIG := None, icp_PROCESSED_NONCES := {}, icp_EVENT_LOG := []\<rparr>"

definition it_config :: "bytes \<Rightarrow> bytes list \<Rightarrow> u8 \<Rightarrow> u16 \<Rightarrow> icp_config" where
  "it_config admin signers threshold fee_bps =
     \<lparr>icp_admin = admin, icp_mpc_signers = signers, icp_threshold = threshold,
      icp_fee_bps = fee_bps, icp_paused = False, icp_outbound_nonce = 0,
      icp_total_locked = 0, icp_total_burned = 0\<rparr>"

definition it_init_default :: "bytes \<Rightarrow> icp_state \<Rightarrow> icp_state" where
  "it_init_default anonymous s =
     s\<lparr>icp_CONFIG := Some (it_config anonymous [replicate 32 1, replicate 32 2, replicate 32 3] 2 30)\<rparr>"

definition it_set_paused :: "bool \<Rightarrow> icp_state \<Rightarrow> rust_panic + icp_state" where
  "it_set_paused b s = and_then (icp_with_config s) (\<lambda>cfg. Inr (s\<lparr>icp_CONFIG := Some (cfg\<lparr>icp_paused
      := b\<rparr>)\<rparr>))"

text \<open>
  A lock reads the caller and the time when it writes its event, after its guards and its
  arithmetic; outside a canister it panics there.
\<close>

definition it_lock ::
    "bool \<Rightarrow> icp_env option \<Rightarrow> icp_state \<Rightarrow> u128 \<Rightarrow> u64 \<Rightarrow> bytes \<Rightarrow> rust_panic + icp_state \<times> icp_output" where
  "it_lock oc host s amount dest_chain_id recipient = (case host of
     Some env \<Rightarrow> icp_lock_and_bridge oc env s amount dest_chain_id recipient
   | None \<Rightarrow> and_then (icp_lock_and_bridge oc \<lparr>icp_caller = [], icp_time = 0\<rparr> s amount dest_chain_id recipient)
       (\<lambda>_. Inl Host_trap))"

section \<open>Tests\<close>

definition it_test_init_sets_config :: "bool \<Rightarrow> icp_env option \<Rightarrow> bytes \<Rightarrow> icp_state \<Rightarrow> bool" where
  "it_test_init_sets_config oc host anonymous s \<longleftrightarrow> test_passes (
     let signers = [replicate 32 0xAA, replicate 32 0xBB];
         s = (it_reset_state s)\<lparr>icp_CONFIG := Some (it_config anonymous signers 2 100)\<rparr> in
     and_then (icp_with_config s) (\<lambda>cfg.
     Inr (icp_fee_bps cfg = 100 \<and>
       icp_threshold cfg = 2 \<and>
       length (icp_mpc_signers cfg) = 2 \<and>
       \<not> icp_paused cfg \<and>
       icp_outbound_nonce cfg = 0 \<and>
       icp_total_locked cfg = 0 \<and>
       icp_total_burned cfg = 0)))"

definition it_test_init_rejects_high_fee :: "bool \<Rightarrow> icp_env option \<Rightarrow> bytes \<Rightarrow> icp_state \<Rightarrow> bool" where
  "it_test_init_rejects_high_fee oc host anonymous s \<longleftrightarrow> should_panic_with ''Fee too high''
     (let fee_bps = (501 :: u16) in ensure (fee_bps \<le> ICP_MAX_FEE_BPS) (Assertion ''Fee too high''))"

definition it_test_lock_and_bridge_returns_nonce :: "bool \<Rightarrow> icp_env option \<Rightarrow> bytes \<Rightarrow> icp_state \<Rightarrow> bool" where
  "it_test_lock_and_bridge_returns_nonce oc host anonymous s \<longleftrightarrow> test_passes (
     let s = it_init_default anonymous (it_reset_state s) in
     and_then (it_lock oc host s 1000000 96369 (replicate 32 0)) (\<lambda>(s, nonce).
     Inr (icp_returned nonce = Some 1)))"

definition it_test_lock_and_bridge_increments_nonce :: "bool \<Rightarrow> icp_env option \<Rightarrow> bytes \<Rightarrow> icp_state \<Rightarrow> bool" where
  "it_test_lock_and_bridge_increments_nonce oc host anonymous s \<longleftrightarrow> test_passes (
     let s = it_init_default anonymous (it_reset_state s) in
     and_then (it_lock oc host s 500000 96369 (replicate 32 0)) (\<lambda>(s, n1).
     and_then (it_lock oc host s 500000 96369 (replicate 32 0)) (\<lambda>(s, n2).
     Inr (icp_returned n1 = Some 1 \<and> icp_returned n2 = Some 2))))"

definition it_test_lock_updates_total_locked :: "bool \<Rightarrow> icp_env option \<Rightarrow> bytes \<Rightarrow> icp_state \<Rightarrow> bool" where
  "it_test_lock_updates_total_locked oc host anonymous s \<longleftrightarrow> test_passes (
     let s = it_init_default anonymous (it_reset_state s) in
     and_then (it_lock oc host s 1000000 96369 (replicate 32 0)) (\<lambda>(s, _).
     and_then (icp_view_total_locked s) (\<lambda>locked.
     Inr (locked = 997000))))"

definition it_test_lock_creates_event :: "bool \<Rightarrow> icp_env option \<Rightarrow> bytes \<Rightarrow> icp_state \<Rightarrow> bool" where
  "it_test_lock_creates_event oc host anonymous s \<longleftrightarrow> test_passes (
     let s = it_init_default anonymous (it_reset_state s) in
     and_then (it_lock oc host s 1000000 96369 (replicate 32 0)) (\<lambda>(s, _).
     let events = icp_get_events s 1 1 in
     Inr (length events = 1 \<and>
       icp_nonce (events ! 0) = 1 \<and>
       icp_source_chain (events ! 0) = ICP_CHAIN_ID \<and>
       icp_dest_chain (events ! 0) = 96369 \<and>
       icp_amount (events ! 0) = 997000 \<and>
       icp_fee (events ! 0) = 3000)))"

definition it_test_lock_rejects_zero_amount :: "bool \<Rightarrow> icp_env option \<Rightarrow> bytes \<Rightarrow> icp_state \<Rightarrow> bool" where
  "it_test_lock_rejects_zero_amount oc host anonymous s \<longleftrightarrow> should_panic_with ''Zero amount'' (
     let s = it_init_default anonymous (it_reset_state s) in
     it_lock oc host s 0 96369 (replicate 32 0))"

definition it_test_lock_rejects_when_paused :: "bool \<Rightarrow> icp_env option \<Rightarrow> bytes \<Rightarrow> icp_state \<Rightarrow> bool" where
  "it_test_lock_rejects_when_paused oc host anonymous s \<longleftrightarrow> should_panic_with ''Bridge paused'' (
     let s = it_init_default anonymous (it_reset_state s) in
     and_then (it_set_paused True s) (\<lambda>s.
     it_lock oc host s 1000000 96369 (replicate 32 0)))"

definition it_test_mint_bridged_marks_nonce :: "bool \<Rightarrow> icp_env option \<Rightarrow> bytes \<Rightarrow> icp_state \<Rightarrow> bool" where
  "it_test_mint_bridged_marks_nonce oc host anonymous s \<longleftrightarrow> test_passes (
     let s = it_init_default anonymous (it_reset_state s) in
     and_then (icp_mint_bridged s 96369 1 anonymous 500000 (replicate 64 0) (replicate 32 1)) (\<lambda>(s, _).
     Inr ((96369, 1) \<in> icp_PROCESSED_NONCES s)))"

definition it_test_mint_rejects_duplicate_nonce :: "bool \<Rightarrow> icp_env option \<Rightarrow> bytes \<Rightarrow> icp_state \<Rightarrow> bool" where
  "it_test_mint_rejects_duplicate_nonce oc host anonymous s \<longleftrightarrow> should_panic_with ''Nonce processed'' (
     let s = it_init_default anonymous (it_reset_state s) in
     and_then (icp_mint_bridged s 96369 1 anonymous 500000 (replicate 64 0) (replicate 32 1)) (\<lambda>(s, _).
     icp_mint_bridged s 96369 1 anonymous 500000 (replicate 64 0) (replicate 32 1)))"

definition it_test_mint_rejects_unauthorized_signer :: "bool \<Rightarrow> icp_env option \<Rightarrow> bytes \<Rightarrow> icp_state \<Rightarrow> bool" where
  "it_test_mint_rejects_unauthorized_signer oc host anonymous s \<longleftrightarrow> should_panic_with
      ''Unauthorized signer'' (
     let s = it_init_default anonymous (it_reset_state s) in
     icp_mint_bridged s 96369 1 anonymous 500000 (replicate 64 0) (replicate 32 0xFF))"

definition it_test_mint_rejects_zero_amount :: "bool \<Rightarrow> icp_env option \<Rightarrow> bytes \<Rightarrow> icp_state \<Rightarrow> bool" where
  "it_test_mint_rejects_zero_amount oc host anonymous s \<longleftrightarrow> should_panic_with ''Zero amount'' (
     let s = it_init_default anonymous (it_reset_state s) in
     icp_mint_bridged s 96369 1 anonymous 0 (replicate 64 0) (replicate 32 1))"

definition it_test_mint_rejects_when_paused :: "bool \<Rightarrow> icp_env option \<Rightarrow> bytes \<Rightarrow> icp_state \<Rightarrow> bool" where
  "it_test_mint_rejects_when_paused oc host anonymous s \<longleftrightarrow> should_panic_with ''Bridge paused'' (
     let s = it_init_default anonymous (it_reset_state s) in
     and_then (it_set_paused True s) (\<lambda>s.
     icp_mint_bridged s 96369 1 anonymous 500000 (replicate 64 0) (replicate 32 1)))"

definition it_test_burn_bridged_returns_nonce :: "bool \<Rightarrow> icp_env option \<Rightarrow> bytes \<Rightarrow> icp_state \<Rightarrow> bool" where
  "it_test_burn_bridged_returns_nonce oc host anonymous s \<longleftrightarrow> test_passes (
     let s = it_init_default anonymous (it_reset_state s) in
     and_then (icp_burn_bridged oc s 1000000 96369 (replicate 32 0)) (\<lambda>(s, nonce).
     Inr (icp_returned nonce = Some 1)))"

definition it_test_burn_updates_total_burned :: "bool \<Rightarrow> icp_env option \<Rightarrow> bytes \<Rightarrow> icp_state \<Rightarrow> bool" where
  "it_test_burn_updates_total_burned oc host anonymous s \<longleftrightarrow> test_passes (
     let s = it_init_default anonymous (it_reset_state s) in
     and_then (icp_burn_bridged oc s 750000 96369 (replicate 32 0)) (\<lambda>(s, _).
     and_then (icp_view_total_burned s) (\<lambda>burned.
     Inr (burned = 750000))))"

definition it_test_burn_increments_nonce :: "bool \<Rightarrow> icp_env option \<Rightarrow> bytes \<Rightarrow> icp_state \<Rightarrow> bool" where
  "it_test_burn_increments_nonce oc host anonymous s \<longleftrightarrow> test_passes (
     let s = it_init_default anonymous (it_reset_state s) in
     and_then (icp_burn_bridged oc s 100 96369 (replicate 32 0)) (\<lambda>(s, n1).
     and_then (icp_burn_bridged oc s 200 96369 (replicate 32 0)) (\<lambda>(s, n2).
     Inr (icp_returned n1 = Some 1 \<and> icp_returned n2 = Some 2))))"

definition it_test_burn_rejects_zero_amount :: "bool \<Rightarrow> icp_env option \<Rightarrow> bytes \<Rightarrow> icp_state \<Rightarrow> bool" where
  "it_test_burn_rejects_zero_amount oc host anonymous s \<longleftrightarrow> should_panic (
     let s = it_init_default anonymous (it_reset_state s) in
     icp_burn_bridged oc s 0 96369 (replicate 32 0))"

definition it_test_burn_rejects_when_paused :: "bool \<Rightarrow> icp_env option \<Rightarrow> bytes \<Rightarrow> icp_state \<Rightarrow> bool" where
  "it_test_burn_rejects_when_paused oc host anonymous s \<longleftrightarrow> should_panic (
     let s = it_init_default anonymous (it_reset_state s) in
     and_then (it_set_paused True s) (\<lambda>s.
     icp_burn_bridged oc s 1000000 96369 (replicate 32 0)))"

definition it_test_pause_sets_flag :: "bool \<Rightarrow> icp_env option \<Rightarrow> bytes \<Rightarrow> icp_state \<Rightarrow> bool" where
  "it_test_pause_sets_flag oc host anonymous s \<longleftrightarrow> test_passes (
     let s = it_init_default anonymous (it_reset_state s) in
     and_then (it_set_paused True s) (\<lambda>s.
     and_then (icp_is_paused s) (\<lambda>now.
     Inr (now))))"

definition it_test_unpause_clears_flag :: "bool \<Rightarrow> icp_env option \<Rightarrow> bytes \<Rightarrow> icp_state \<Rightarrow> bool" where
  "it_test_unpause_clears_flag oc host anonymous s \<longleftrightarrow> test_passes (
     let s = it_init_default anonymous (it_reset_state s) in
     and_then (it_set_paused True s) (\<lambda>s.
     and_then (icp_is_paused s) (\<lambda>before.
     and_then (it_set_paused False s) (\<lambda>s.
     and_then (icp_is_paused s) (\<lambda>after.
     Inr (before \<and> \<not> after))))))"

definition it_test_pause_blocks_all_operations :: "bool \<Rightarrow> icp_env option \<Rightarrow> bytes \<Rightarrow> icp_state \<Rightarrow> bool" where
  "it_test_pause_blocks_all_operations oc host anonymous s \<longleftrightarrow> test_passes (
     let s = it_init_default anonymous (it_reset_state s) in
     and_then (it_set_paused True s) (\<lambda>s.
     Inr (should_panic (it_lock oc host s 1000000 96369 (replicate 32 0)) \<and>
       should_panic (icp_burn_bridged oc s 1000000 96369 (replicate 32 0)) \<and>
       should_panic (icp_mint_bridged s 96369 1 anonymous 500000 (replicate 64 0) (replicate 32 1)))))"

definition it_test_total_locked_starts_zero :: "bool \<Rightarrow> icp_env option \<Rightarrow> bytes \<Rightarrow> icp_state \<Rightarrow> bool" where
  "it_test_total_locked_starts_zero oc host anonymous s \<longleftrightarrow> test_passes (
     let s = it_init_default anonymous (it_reset_state s) in
     and_then (icp_view_total_locked s) (\<lambda>locked.
     Inr (locked = 0)))"

definition it_test_total_burned_starts_zero :: "bool \<Rightarrow> icp_env option \<Rightarrow> bytes \<Rightarrow> icp_state \<Rightarrow> bool" where
  "it_test_total_burned_starts_zero oc host anonymous s \<longleftrightarrow> test_passes (
     let s = it_init_default anonymous (it_reset_state s) in
     and_then (icp_view_total_burned s) (\<lambda>burned.
     Inr (burned = 0)))"

definition it_test_is_paused_starts_false :: "bool \<Rightarrow> icp_env option \<Rightarrow> bytes \<Rightarrow> icp_state \<Rightarrow> bool" where
  "it_test_is_paused_starts_false oc host anonymous s \<longleftrightarrow> test_passes (
     let s = it_init_default anonymous (it_reset_state s) in
     and_then (icp_is_paused s) (\<lambda>now.
     Inr (\<not> now)))"

definition it_test_get_events_empty :: "bool \<Rightarrow> icp_env option \<Rightarrow> bytes \<Rightarrow> icp_state \<Rightarrow> bool" where
  "it_test_get_events_empty oc host anonymous s \<longleftrightarrow> test_passes (
     let s = it_init_default anonymous (it_reset_state s) in
     (Inr (icp_get_events s 0 100 = []) :: rust_panic + bool))"

definition it_test_get_events_range :: "bool \<Rightarrow> icp_env option \<Rightarrow> bytes \<Rightarrow> icp_state \<Rightarrow> bool" where
  "it_test_get_events_range oc host anonymous s \<longleftrightarrow> test_passes (
     let s = it_init_default anonymous (it_reset_state s) in
     and_then (it_lock oc host s 100 96369 (replicate 32 0)) (\<lambda>(s, _).
     and_then (it_lock oc host s 200 96369 (replicate 32 0)) (\<lambda>(s, _).
     and_then (it_lock oc host s 300 96369 (replicate 32 0)) (\<lambda>(s, _).
     let events = icp_get_events s 2 2; every = icp_get_events s 1 3 in
     Inr (length events = 1 \<and> icp_nonce (events ! 0) = 2 \<and> length every = 3)))))"

definition it_test_mint_nonce_isolation_across_chains :: "bool \<Rightarrow> icp_env option \<Rightarrow> bytes \<Rightarrow> icp_state \<Rightarrow> bool"
    where
  "it_test_mint_nonce_isolation_across_chains oc host anonymous s \<longleftrightarrow> test_passes (
     let s = it_init_default anonymous (it_reset_state s) in
     and_then (icp_mint_bridged s 96369 1 anonymous 100 (replicate 64 0) (replicate 32 1)) (\<lambda>(s, _).
     and_then (icp_mint_bridged s 200200 1 anonymous 100 (replicate 64 0) (replicate 32 1)) (\<lambda>(s, _).
     Inr ((96369, 1) \<in> icp_PROCESSED_NONCES s \<and> (200200, 1) \<in> icp_PROCESSED_NONCES s))))"

section \<open>Every test passes\<close>

lemma it_nonces: "\<not> (2 :: u64) \<le> 1" "\<not> (3 :: u64) \<le> 2" "(1 :: u64) \<le> 2" "(1 :: u64) \<le> 3"
  by (simp_all add: word_le_nat_alt)

lemmas it_defs = it_nonces it_lock_def it_reset_state_def it_config_def it_init_default_def it_set_paused_def
    icp_with_config_def
  ICP_MAX_FEE_BPS_def icp_lock_and_bridge_def icp_burn_bridged_def icp_mint_bridged_def icp_silent_def
  icp_view_total_locked_def icp_view_total_burned_def icp_is_paused_def icp_get_events_def
  concrete_ops Let_def

lemma pass_it_test_init_sets_config: "it_test_init_sets_config oc host anonymous s"
  by (simp add: it_test_init_sets_config_def it_defs)

lemma pass_it_test_init_rejects_high_fee: "it_test_init_rejects_high_fee oc host anonymous s"
  by (simp add: it_test_init_rejects_high_fee_def it_defs)

lemma pass_it_test_lock_and_bridge_returns_nonce:
  "it_test_lock_and_bridge_returns_nonce oc (Some env) anonymous s"
  by (simp add: it_test_lock_and_bridge_returns_nonce_def it_defs)

lemma pass_it_test_lock_and_bridge_increments_nonce:
  "it_test_lock_and_bridge_increments_nonce oc (Some env) anonymous s"
  by (simp add: it_test_lock_and_bridge_increments_nonce_def it_defs)

lemma pass_it_test_lock_updates_total_locked:
  "it_test_lock_updates_total_locked oc (Some env) anonymous s"
  by (simp add: it_test_lock_updates_total_locked_def it_defs)

lemma pass_it_test_lock_creates_event:
  "it_test_lock_creates_event oc (Some env) anonymous s"
  by (simp add: it_test_lock_creates_event_def it_defs)

lemma pass_it_test_lock_rejects_zero_amount:
  "it_test_lock_rejects_zero_amount oc host anonymous s"
  by (simp add: it_test_lock_rejects_zero_amount_def it_defs split: option.splits)

lemma pass_it_test_lock_rejects_when_paused: "it_test_lock_rejects_when_paused oc host anonymous s"
  by (simp add: it_test_lock_rejects_when_paused_def it_defs split: option.splits)

lemma pass_it_test_mint_bridged_marks_nonce: "it_test_mint_bridged_marks_nonce oc host anonymous s"
  by (simp add: it_test_mint_bridged_marks_nonce_def it_defs)

lemma pass_it_test_mint_rejects_duplicate_nonce: "it_test_mint_rejects_duplicate_nonce oc host
    anonymous s"
  by (simp add: it_test_mint_rejects_duplicate_nonce_def it_defs)

lemma pass_it_test_mint_rejects_unauthorized_signer: "it_test_mint_rejects_unauthorized_signer oc
    host anonymous s"
  by (simp add: it_test_mint_rejects_unauthorized_signer_def it_defs)

lemma pass_it_test_mint_rejects_zero_amount: "it_test_mint_rejects_zero_amount oc host anonymous s"
  by (simp add: it_test_mint_rejects_zero_amount_def it_defs)

lemma pass_it_test_mint_rejects_when_paused: "it_test_mint_rejects_when_paused oc host anonymous s"
  by (simp add: it_test_mint_rejects_when_paused_def it_defs)

lemma pass_it_test_burn_bridged_returns_nonce: "it_test_burn_bridged_returns_nonce oc host anonymous s"
  by (simp add: it_test_burn_bridged_returns_nonce_def it_defs)

lemma pass_it_test_burn_updates_total_burned: "it_test_burn_updates_total_burned oc host anonymous s"
  by (simp add: it_test_burn_updates_total_burned_def it_defs)

lemma pass_it_test_burn_increments_nonce: "it_test_burn_increments_nonce oc host anonymous s"
  by (simp add: it_test_burn_increments_nonce_def it_defs)

lemma pass_it_test_burn_rejects_zero_amount: "it_test_burn_rejects_zero_amount oc host anonymous s"
  by (simp add: it_test_burn_rejects_zero_amount_def it_defs)

lemma pass_it_test_burn_rejects_when_paused: "it_test_burn_rejects_when_paused oc host anonymous s"
  by (simp add: it_test_burn_rejects_when_paused_def it_defs)

lemma pass_it_test_pause_sets_flag: "it_test_pause_sets_flag oc host anonymous s"
  by (simp add: it_test_pause_sets_flag_def it_defs)

lemma pass_it_test_unpause_clears_flag: "it_test_unpause_clears_flag oc host anonymous s"
  by (simp add: it_test_unpause_clears_flag_def it_defs)

lemma pass_it_test_pause_blocks_all_operations: "it_test_pause_blocks_all_operations oc host anonymous s"
  by (simp add: it_test_pause_blocks_all_operations_def it_defs split: option.splits)

lemma pass_it_test_total_locked_starts_zero: "it_test_total_locked_starts_zero oc host anonymous s"
  by (simp add: it_test_total_locked_starts_zero_def it_defs)

lemma pass_it_test_total_burned_starts_zero: "it_test_total_burned_starts_zero oc host anonymous s"
  by (simp add: it_test_total_burned_starts_zero_def it_defs)

lemma pass_it_test_is_paused_starts_false: "it_test_is_paused_starts_false oc host anonymous s"
  by (simp add: it_test_is_paused_starts_false_def it_defs)

lemma pass_it_test_get_events_empty: "it_test_get_events_empty oc host anonymous s"
  by (simp add: it_test_get_events_empty_def it_defs)

lemma pass_it_test_get_events_range:
  "it_test_get_events_range oc (Some env) anonymous s"
  by (simp add: it_test_get_events_range_def it_defs)

lemma pass_it_test_mint_nonce_isolation_across_chains: "it_test_mint_nonce_isolation_across_chains
    oc host anonymous s"
  by (simp add: it_test_mint_nonce_isolation_across_chains_def it_defs)

lemmas icp_passes = pass_it_test_init_sets_config
  pass_it_test_init_rejects_high_fee
  pass_it_test_lock_and_bridge_returns_nonce
  pass_it_test_lock_and_bridge_increments_nonce
  pass_it_test_lock_updates_total_locked
  pass_it_test_lock_creates_event
  pass_it_test_lock_rejects_zero_amount
  pass_it_test_lock_rejects_when_paused
  pass_it_test_mint_bridged_marks_nonce
  pass_it_test_mint_rejects_duplicate_nonce
  pass_it_test_mint_rejects_unauthorized_signer
  pass_it_test_mint_rejects_zero_amount
  pass_it_test_mint_rejects_when_paused
  pass_it_test_burn_bridged_returns_nonce
  pass_it_test_burn_updates_total_burned
  pass_it_test_burn_increments_nonce
  pass_it_test_burn_rejects_zero_amount
  pass_it_test_burn_rejects_when_paused
  pass_it_test_pause_sets_flag
  pass_it_test_unpause_clears_flag
  pass_it_test_pause_blocks_all_operations
  pass_it_test_total_locked_starts_zero
  pass_it_test_total_burned_starts_zero
  pass_it_test_is_paused_starts_false
  pass_it_test_get_events_empty
  pass_it_test_get_events_range
  pass_it_test_mint_nonce_isolation_across_chains

definition icp_tests :: "bool \<Rightarrow> icp_env option \<Rightarrow> bytes \<Rightarrow> icp_state \<Rightarrow> bool list" where
  "icp_tests oc host anonymous s = [
     it_test_init_sets_config oc host anonymous s,
     it_test_init_rejects_high_fee oc host anonymous s,
     it_test_lock_and_bridge_returns_nonce oc host anonymous s,
     it_test_lock_and_bridge_increments_nonce oc host anonymous s,
     it_test_lock_updates_total_locked oc host anonymous s,
     it_test_lock_creates_event oc host anonymous s,
     it_test_lock_rejects_zero_amount oc host anonymous s,
     it_test_lock_rejects_when_paused oc host anonymous s,
     it_test_mint_bridged_marks_nonce oc host anonymous s,
     it_test_mint_rejects_duplicate_nonce oc host anonymous s,
     it_test_mint_rejects_unauthorized_signer oc host anonymous s,
     it_test_mint_rejects_zero_amount oc host anonymous s,
     it_test_mint_rejects_when_paused oc host anonymous s,
     it_test_burn_bridged_returns_nonce oc host anonymous s,
     it_test_burn_updates_total_burned oc host anonymous s,
     it_test_burn_increments_nonce oc host anonymous s,
     it_test_burn_rejects_zero_amount oc host anonymous s,
     it_test_burn_rejects_when_paused oc host anonymous s,
     it_test_pause_sets_flag oc host anonymous s,
     it_test_unpause_clears_flag oc host anonymous s,
     it_test_pause_blocks_all_operations oc host anonymous s,
     it_test_total_locked_starts_zero oc host anonymous s,
     it_test_total_burned_starts_zero oc host anonymous s,
     it_test_is_paused_starts_false oc host anonymous s,
     it_test_get_events_empty oc host anonymous s,
     it_test_get_events_range oc host anonymous s,
     it_test_mint_nonce_isolation_across_chains oc host anonymous s]"

lemma icp_tests_pass: "list_all (\<lambda>passed. passed) (icp_tests oc (Some env) anonymous s)"
  by (simp add: icp_tests_def icp_passes)

text \<open>Outside a canister the five tests that need a lock to succeed fail, and no other.\<close>

lemma icp_tests_natively:
  "\<not> it_test_lock_and_bridge_returns_nonce oc None anonymous s"
  "\<not> it_test_lock_and_bridge_increments_nonce oc None anonymous s"
  "\<not> it_test_lock_updates_total_locked oc None anonymous s"
  "\<not> it_test_lock_creates_event oc None anonymous s"
  "\<not> it_test_get_events_range oc None anonymous s"
  "length (filter (\<lambda>passed. \<not> passed) (icp_tests oc None anonymous s)) = 5"
proof -
  show lock: "\<not> it_test_lock_and_bridge_returns_nonce oc None anonymous s"
    "\<not> it_test_lock_and_bridge_increments_nonce oc None anonymous s"
    "\<not> it_test_lock_updates_total_locked oc None anonymous s"
    "\<not> it_test_lock_creates_event oc None anonymous s"
    "\<not> it_test_get_events_range oc None anonymous s"
    by (simp_all add: it_test_lock_and_bridge_returns_nonce_def it_test_lock_and_bridge_increments_nonce_def
        it_test_lock_updates_total_locked_def it_test_lock_creates_event_def it_test_get_events_range_def it_defs)
  then show "length (filter (\<lambda>passed. \<not> passed) (icp_tests oc None anonymous s)) = 5"
    by (simp add: icp_tests_def icp_passes)
qed

end
