(* ===== verification/Cosmos_Tests.thy ===== *)
theory Cosmos_Tests
  imports Test_Prelude Cosmos_Bridge
begin

text \<open>
  The unit tests of \<^verbatim>\<open>knt-bridge/src/contract.rs\<close>, module \<^verbatim>\<open>tests\<close>, run in the
  model through the entry points, as the tests do; the messages a response carries are not
  executed. Parameters: the crates the contract calls (\<open>api\<close>), the mock environment, and
  the key generation, signing and \<^verbatim>\<open>hex::encode\<close> of the crates only the tests call.
\<close>

section \<open>The crates the tests call, and the helpers\<close>

record ct_crates =
  ct_verification_key :: "bytes \<Rightarrow> bytes"
  ct_sign :: "bytes \<Rightarrow> bytes \<Rightarrow> bytes"
  ct_hex_encode :: "bytes \<Rightarrow> string"

definition ct_ADMIN :: string where "ct_ADMIN = ''admin''"
definition ct_USER :: string where "ct_USER = ''user''"
definition ct_RECIPIENT :: string where
  "ct_RECIPIENT = ''cosmwasm1h34lmpywh4upnjdg90cjf4j70aee6z8qqfspugamjp42e4q28kqs8s7vcp''"
definition ct_CHAIN_ID :: u64 where "ct_CHAIN_ID = 118"
definition ct_DEST_CHAIN :: u64 where "ct_DEST_CHAIN = 96369"

text \<open>
  What the tests rely on: \<^verbatim>\<open>Uint128\<close> as documented; hexadecimal is two digits a byte and
  decodes to what it encodes; a key has 32 bytes, a signature verifies under its key for the
  signed message, and the one signature a test presents for another amount does not verify
  for it; the mock accepts the recipient.
\<close>

definition ct_documented :: "cw_api \<Rightarrow> ct_crates \<Rightarrow> bool" where
  "ct_documented api crates \<longleftrightarrow> uint128_documented api \<and>
     (\<forall>b. length (ct_hex_encode crates b) = 2 * length b) \<and>
     (\<forall>b. hex_decode api (ct_hex_encode crates b) = Some b) \<and>
     (\<forall>seed. length (ct_verification_key crates seed) = 32) \<and>
     (\<forall>seed m. cw_ed25519_verify api m (ct_sign crates seed m) (ct_verification_key crates seed) =
        Some True) \<and>
     (let key = replicate 32 2; mint = cw_build_mint_message ct_DEST_CHAIN 1 ct_RECIPIENT in
        cw_ed25519_verify api (mint 9999) (ct_sign crates key (mint 5000)) (ct_verification_key crates key) =
          Some False) \<and>
     addr_validate api ct_RECIPIENT = Some ct_RECIPIENT"

definition ct_mock_info :: "string \<Rightarrow> cw_coin list \<Rightarrow> cw_info" where
  "ct_mock_info sender funds = \<lparr>cw_sender = sender, cw_funds = funds\<rparr>"

definition ct_default_instantiate_msg :: cw_instantiate_msg where
  "ct_default_instantiate_msg = \<lparr>cw_init_signers = [''aaaa'', ''bbbb''], cw_init_threshold = 2,
     cw_init_fee_bps = 30, cw_init_chain_id = ct_CHAIN_ID\<rparr>"

definition ct_setup :: "cw_error + cw_storage" where
  "ct_setup = and_then (cw_instantiate
       \<lparr>cw_CONFIG = None, cw_TOKEN_CONFIGS = Map.empty, cw_PROCESSED_NONCES = Map.empty\<rparr>
       (ct_mock_info ct_ADMIN []) ct_default_instantiate_msg) (\<lambda>(s, _). Inr s)"

definition ct_register_token ::
    "cw_api \<Rightarrow> bool \<Rightarrow> cw_env \<Rightarrow> cw_storage \<Rightarrow> string \<Rightarrow> u128 \<Rightarrow> cw_error + cw_storage" where
  "ct_register_token api oc env s denom limit =
     and_then (cw_execute api oc s env (ct_mock_info ct_ADMIN []) (Cw_RegisterToken denom True limit))
       (\<lambda>(s, _). Inr s)"

definition ct_sign_mint ::
    "ct_crates \<Rightarrow> bytes \<Rightarrow> u64 \<Rightarrow> u64 \<Rightarrow> string \<Rightarrow> u128 \<Rightarrow> string \<times> string" where
  "ct_sign_mint crates seed source_chain_id nonce recipient amount =
     (let message = cw_build_mint_message source_chain_id nonce recipient amount in
      (ct_hex_encode crates (ct_verification_key crates seed),
       ct_hex_encode crates (ct_sign crates seed message)))"

text \<open>\<^verbatim>\<open>from_json(query(.., QueryMsg::Config {}).unwrap()).unwrap()\<close>, and what \<^verbatim>\<open>StdError\<close> prints.\<close>

definition ct_query_config :: "cw_storage \<Rightarrow> cw_error + cw_config" where
  "ct_query_config s = and_then (cw_query s Cw_QConfig)
     (\<lambda>answer. case answer of Cw_config_is c \<Rightarrow> Inr c | _ \<Rightarrow> Inl (Cw_panicked Unwrap_failed))"

definition ct_err_contains :: "string \<Rightarrow> cw_error + 'a \<Rightarrow> bool" where
  "ct_err_contains text r \<longleftrightarrow>
     (case r of Inl (Cw_generic_err m) \<Rightarrow> str_contains text (''Generic error: '' @ m) | _ \<Rightarrow> False)"

section \<open>Tests\<close>

definition ct_instantiate_stores_config :: "cw_api \<Rightarrow> bool \<Rightarrow> cw_env \<Rightarrow> ct_crates \<Rightarrow> bool" where
  "ct_instantiate_stores_config api oc env crates \<longleftrightarrow> test_passes (
     and_then ct_setup (\<lambda>s.
     and_then (ct_query_config s) (\<lambda>config.
     Inr (cw_admin config = ct_ADMIN \<and>
       cw_mpc_signers config = [''aaaa'', ''bbbb''] \<and>
       cw_threshold config = 2 \<and>
       cw_fee_bps config = 30 \<and>
       cw_chain_id config = ct_CHAIN_ID \<and>
       cw_outbound_nonce config = 0 \<and>
       \<not> cw_paused config \<and>
       cw_total_locked config = 0 \<and>
       cw_total_burned config = 0))))"

definition ct_lock_and_bridge_locks_funds_and_increments_nonce :: "cw_api \<Rightarrow> bool \<Rightarrow> cw_env \<Rightarrow>
    ct_crates \<Rightarrow> bool" where
  "ct_lock_and_bridge_locks_funds_and_increments_nonce api oc env crates \<longleftrightarrow> test_passes (
     and_then ct_setup (\<lambda>s.
     and_then (cw_execute api oc s env (ct_mock_info ct_USER [\<lparr>cw_denom = ''uknt'', cw_amount =
         10000\<rparr>]) (Cw_LockAndBridge ct_DEST_CHAIN ''0xdead'')) (\<lambda>(s, res).
     and_then (ct_query_config s) (\<lambda>config.
     Inr (length (cw_events res) = 1 \<and>
       cw_type (cw_events res ! 0) = ''lock'' \<and>
       cw_outbound_nonce config = 1 \<and>
       cw_total_locked config = 9970)))))"

definition ct_lock_and_bridge_rejects_no_funds :: "cw_api \<Rightarrow> bool \<Rightarrow> cw_env \<Rightarrow> ct_crates \<Rightarrow> bool" where
  "ct_lock_and_bridge_rejects_no_funds api oc env crates \<longleftrightarrow> test_passes (
     and_then ct_setup (\<lambda>s.
     Inr (ct_err_contains ''Send exactly one coin type''
       (cw_execute api oc s env (ct_mock_info ct_USER []) (Cw_LockAndBridge ct_DEST_CHAIN
           ''0xdead'')))))"

definition ct_lock_and_bridge_rejects_when_paused :: "cw_api \<Rightarrow> bool \<Rightarrow> cw_env \<Rightarrow> ct_crates \<Rightarrow> bool" where
  "ct_lock_and_bridge_rejects_when_paused api oc env crates \<longleftrightarrow> test_passes (
     and_then ct_setup (\<lambda>s.
     and_then (cw_execute api oc s env (ct_mock_info ct_ADMIN []) Cw_Pause) (\<lambda>(s, _).
     Inr (ct_err_contains ''paused''
       (cw_execute api oc s env (ct_mock_info ct_USER [\<lparr>cw_denom = ''uknt'', cw_amount = 1000\<rparr>])
           (Cw_LockAndBridge ct_DEST_CHAIN ''0xdead''))))))"

definition ct_mint_bridged_with_valid_signature :: "cw_api \<Rightarrow> bool \<Rightarrow> cw_env \<Rightarrow> ct_crates \<Rightarrow> bool" where
  "ct_mint_bridged_with_valid_signature api oc env crates \<longleftrightarrow> test_passes (
     and_then ct_setup (\<lambda>s.
     let seed = replicate 32 1; pubkey_hex = fst (ct_sign_mint crates seed 0 0 [] 0) in
     and_then (cw_execute api oc s env (ct_mock_info ct_ADMIN []) (Cw_UpdateSigners [pubkey_hex] 1))
         (\<lambda>(s, _).
     and_then (ct_register_token api oc env s ''bridged_uknt'' 1000000) (\<lambda>s.
     let amount = (5000 :: u128) in
     let sig_hex = snd (ct_sign_mint crates seed ct_DEST_CHAIN 1 ct_RECIPIENT amount) in
     and_then (cw_execute api oc s env (ct_mock_info ct_USER []) (Cw_MintBridged ct_DEST_CHAIN 1
         ct_RECIPIENT amount ''bridged_uknt'' sig_hex pubkey_hex)) (\<lambda>(s, res).
     Inr (length (cw_events res) = 1 \<and>
       cw_type (cw_events res ! 0) = ''mint'' \<and>
       length (cw_messages res) = 1))))))"

definition ct_mint_bridged_rejects_invalid_signature :: "cw_api \<Rightarrow> bool \<Rightarrow> cw_env \<Rightarrow> ct_crates \<Rightarrow> bool"
    where
  "ct_mint_bridged_rejects_invalid_signature api oc env crates \<longleftrightarrow> test_passes (
     and_then ct_setup (\<lambda>s.
     let seed = replicate 32 2; pubkey_hex = fst (ct_sign_mint crates seed 0 0 [] 0) in
     and_then (cw_execute api oc s env (ct_mock_info ct_ADMIN []) (Cw_UpdateSigners [pubkey_hex] 1))
         (\<lambda>(s, _).
     and_then (ct_register_token api oc env s ''bridged_uknt'' 1000000) (\<lambda>s.
     let sig_hex = snd (ct_sign_mint crates seed ct_DEST_CHAIN 1 ct_RECIPIENT 5000) in
     Inr (ct_err_contains ''Invalid signature''
       (cw_execute api oc s env (ct_mock_info ct_USER []) (Cw_MintBridged ct_DEST_CHAIN 1
           ct_RECIPIENT 9999 ''bridged_uknt'' sig_hex pubkey_hex)))))))"

definition ct_mint_bridged_rejects_unauthorized_signer :: "cw_api \<Rightarrow> bool \<Rightarrow> cw_env \<Rightarrow> ct_crates \<Rightarrow>
    bool" where
  "ct_mint_bridged_rejects_unauthorized_signer api oc env crates \<longleftrightarrow> test_passes (
     and_then ct_setup (\<lambda>s.
     and_then (ct_register_token api oc env s ''bridged_uknt'' 1000000) (\<lambda>s.
     let seed = replicate 32 99; amount = (1000 :: u128) in
     let (pubkey_hex, sig_hex) = ct_sign_mint crates seed ct_DEST_CHAIN 1 ct_RECIPIENT amount in
     Inr (ct_err_contains ''Unauthorized signer''
       (cw_execute api oc s env (ct_mock_info ct_USER []) (Cw_MintBridged ct_DEST_CHAIN 1
           ct_RECIPIENT amount ''bridged_uknt'' sig_hex pubkey_hex))))))"

definition ct_mint_bridged_rejects_replay :: "cw_api \<Rightarrow> bool \<Rightarrow> cw_env \<Rightarrow> ct_crates \<Rightarrow> bool" where
  "ct_mint_bridged_rejects_replay api oc env crates \<longleftrightarrow> test_passes (
     and_then ct_setup (\<lambda>s.
     let seed = replicate 32 3; pubkey_hex = fst (ct_sign_mint crates seed 0 0 [] 0) in
     and_then (cw_execute api oc s env (ct_mock_info ct_ADMIN []) (Cw_UpdateSigners [pubkey_hex] 1))
         (\<lambda>(s, _).
     and_then (ct_register_token api oc env s ''bridged_uknt'' 1000000) (\<lambda>s.
     let amount = (1000 :: u128) in
     let sig_hex = snd (ct_sign_mint crates seed ct_DEST_CHAIN 1 ct_RECIPIENT amount) in
     and_then (cw_execute api oc s env (ct_mock_info ct_USER []) (Cw_MintBridged ct_DEST_CHAIN 1
         ct_RECIPIENT amount ''bridged_uknt'' sig_hex pubkey_hex)) (\<lambda>(s, _).
     Inr (ct_err_contains ''Nonce already processed''
       (cw_execute api oc s env (ct_mock_info ct_USER []) (Cw_MintBridged ct_DEST_CHAIN 1
           ct_RECIPIENT amount ''bridged_uknt'' sig_hex pubkey_hex))))))))"

definition ct_burn_bridged_increments_nonce_and_total :: "cw_api \<Rightarrow> bool \<Rightarrow> cw_env \<Rightarrow> ct_crates \<Rightarrow> bool"
    where
  "ct_burn_bridged_increments_nonce_and_total api oc env crates \<longleftrightarrow> test_passes (
     and_then ct_setup (\<lambda>s.
     let amount = (2000 :: u128) in
     and_then (cw_execute api oc s env (ct_mock_info ct_USER [\<lparr>cw_denom = ''bridged_uknt'',
         cw_amount = 2000\<rparr>]) (Cw_BurnBridged ct_DEST_CHAIN ''0xbeef'' ''bridged_uknt'' amount))
         (\<lambda>(s, res).
     and_then (ct_query_config s) (\<lambda>config.
     Inr (length (cw_events res) = 1 \<and>
       cw_type (cw_events res ! 0) = ''burn'' \<and>
       length (cw_messages res) = 1 \<and>
       cw_outbound_nonce config = 1 \<and>
       cw_total_burned config = amount)))))"

definition ct_burn_bridged_rejects_when_paused :: "cw_api \<Rightarrow> bool \<Rightarrow> cw_env \<Rightarrow> ct_crates \<Rightarrow> bool" where
  "ct_burn_bridged_rejects_when_paused api oc env crates \<longleftrightarrow> test_passes (
     and_then ct_setup (\<lambda>s.
     and_then (cw_execute api oc s env (ct_mock_info ct_ADMIN []) Cw_Pause) (\<lambda>(s, _).
     Inr (ct_err_contains ''paused''
       (cw_execute api oc s env (ct_mock_info ct_USER []) (Cw_BurnBridged ct_DEST_CHAIN ''0xbeef''
           ''bridged_uknt'' 100))))))"

definition ct_admin_can_pause_and_unpause :: "cw_api \<Rightarrow> bool \<Rightarrow> cw_env \<Rightarrow> ct_crates \<Rightarrow> bool" where
  "ct_admin_can_pause_and_unpause api oc env crates \<longleftrightarrow> test_passes (
     and_then ct_setup (\<lambda>s.
     and_then (cw_execute api oc s env (ct_mock_info ct_ADMIN []) Cw_Pause) (\<lambda>(s, _).
     and_then (ct_query_config s) (\<lambda>stopped.
     and_then (cw_execute api oc s env (ct_mock_info ct_ADMIN []) Cw_Unpause) (\<lambda>(s, _).
     and_then (ct_query_config s) (\<lambda>config.
     Inr (cw_paused stopped \<and> \<not> cw_paused config)))))))"

definition ct_update_fee_sets_valid_fee :: "cw_api \<Rightarrow> bool \<Rightarrow> cw_env \<Rightarrow> ct_crates \<Rightarrow> bool" where
  "ct_update_fee_sets_valid_fee api oc env crates \<longleftrightarrow> test_passes (
     and_then ct_setup (\<lambda>s.
     and_then (cw_execute api oc s env (ct_mock_info ct_ADMIN []) (Cw_UpdateFee 100)) (\<lambda>(s, _).
     and_then (ct_query_config s) (\<lambda>config.
     Inr (cw_fee_bps config = 100)))))"

definition ct_update_fee_rejects_over_5_percent :: "cw_api \<Rightarrow> bool \<Rightarrow> cw_env \<Rightarrow> ct_crates \<Rightarrow> bool" where
  "ct_update_fee_rejects_over_5_percent api oc env crates \<longleftrightarrow> test_passes (
     and_then ct_setup (\<lambda>s.
     Inr (ct_err_contains ''Fee exceeds 5%''
       (cw_execute api oc s env (ct_mock_info ct_ADMIN []) (Cw_UpdateFee 501)))))"

definition ct_update_fee_accepts_boundary :: "cw_api \<Rightarrow> bool \<Rightarrow> cw_env \<Rightarrow> ct_crates \<Rightarrow> bool" where
  "ct_update_fee_accepts_boundary api oc env crates \<longleftrightarrow> test_passes (
     and_then ct_setup (\<lambda>s.
     and_then (cw_execute api oc s env (ct_mock_info ct_ADMIN []) (Cw_UpdateFee 500)) (\<lambda>(s, _).
     and_then (ct_query_config s) (\<lambda>config.
     Inr (cw_fee_bps config = 500)))))"

definition ct_non_admin_cannot_pause :: "cw_api \<Rightarrow> bool \<Rightarrow> cw_env \<Rightarrow> ct_crates \<Rightarrow> bool" where
  "ct_non_admin_cannot_pause api oc env crates \<longleftrightarrow> test_passes (
     and_then ct_setup (\<lambda>s.
     Inr (ct_err_contains ''Unauthorized''
       (cw_execute api oc s env (ct_mock_info ct_USER []) Cw_Pause))))"

definition ct_non_admin_cannot_unpause :: "cw_api \<Rightarrow> bool \<Rightarrow> cw_env \<Rightarrow> ct_crates \<Rightarrow> bool" where
  "ct_non_admin_cannot_unpause api oc env crates \<longleftrightarrow> test_passes (
     and_then ct_setup (\<lambda>s.
     Inr (ct_err_contains ''Unauthorized''
       (cw_execute api oc s env (ct_mock_info ct_USER []) Cw_Unpause))))"

definition ct_non_admin_cannot_update_fee :: "cw_api \<Rightarrow> bool \<Rightarrow> cw_env \<Rightarrow> ct_crates \<Rightarrow> bool" where
  "ct_non_admin_cannot_update_fee api oc env crates \<longleftrightarrow> test_passes (
     and_then ct_setup (\<lambda>s.
     Inr (ct_err_contains ''Unauthorized''
       (cw_execute api oc s env (ct_mock_info ct_USER []) (Cw_UpdateFee 10)))))"

definition ct_non_admin_cannot_update_signers :: "cw_api \<Rightarrow> bool \<Rightarrow> cw_env \<Rightarrow> ct_crates \<Rightarrow> bool" where
  "ct_non_admin_cannot_update_signers api oc env crates \<longleftrightarrow> test_passes (
     and_then ct_setup (\<lambda>s.
     Inr (ct_err_contains ''Unauthorized''
       (cw_execute api oc s env (ct_mock_info ct_USER []) (Cw_UpdateSigners [''cccc''] 1)))))"

definition ct_non_admin_cannot_register_token :: "cw_api \<Rightarrow> bool \<Rightarrow> cw_env \<Rightarrow> ct_crates \<Rightarrow> bool" where
  "ct_non_admin_cannot_register_token api oc env crates \<longleftrightarrow> test_passes (
     and_then ct_setup (\<lambda>s.
     Inr (ct_err_contains ''Unauthorized''
       (cw_execute api oc s env (ct_mock_info ct_USER []) (Cw_RegisterToken ''uknt'' True 1000000)))))"

section \<open>Every test passes\<close>

lemma ct_setup_run:
  "ct_setup = Inr \<lparr>cw_CONFIG = Some \<lparr>cw_admin = ct_ADMIN, cw_mpc_signers = [''aaaa'', ''bbbb''],
       cw_threshold = 2, cw_fee_bps = 30, cw_fee_collector = ct_ADMIN, cw_paused = False,
       cw_outbound_nonce = 0, cw_chain_id = ct_CHAIN_ID, cw_total_locked = 0, cw_total_burned = 0\<rparr>,
     cw_TOKEN_CONFIGS = Map.empty, cw_PROCESSED_NONCES = Map.empty\<rparr>"
  by (simp add: ct_setup_def cw_instantiate_def ct_default_instantiate_msg_def ct_mock_info_def)

lemma ct_query_config_run:
  "ct_query_config s = ok_or (cw_CONFIG s) Cw_not_found"
  by (cases "cw_CONFIG s") (simp_all add: ct_query_config_def cw_load_config_def)

lemma uint128_checked:
  assumes "uint128_documented api"
  shows "uint_add api a b = checked_add a b" and "uint_checked_sub api a b = checked_sub a b"
  using assms unfolding uint128_documented_def
  by (metis (no_types, lifting) checked_ops option.exhaust)+

lemma uint128_fee:
  assumes "uint128_documented api"
  shows "uint_multiply_ratio api 10000 30 10000 = Some 30"
  using uint_laws(3) [OF assms, of 10000 30 30] by simp

lemma ct_messages_differ:
  "cw_build_mint_message c n r a = cw_build_mint_message c n r b \<longleftrightarrow> a = b"
  by (simp add: cw_build_mint_message_def to_le_bytes_inject)

lemma ct_crate_rules:
  assumes "ct_documented api crates"
  shows "hex_decode api (ct_hex_encode crates b) = Some b"
    and "cw_ed25519_verify api m (ct_sign crates seed m) (ct_verification_key crates seed) = Some True"
    and "cw_ed25519_verify api (cw_build_mint_message ct_DEST_CHAIN 1 ct_RECIPIENT 9999)
      (ct_sign crates (replicate 32 2) (cw_build_mint_message ct_DEST_CHAIN 1 ct_RECIPIENT 5000))
      (ct_verification_key crates (replicate 32 2)) = Some False"
    and "addr_validate api ct_RECIPIENT = Some ct_RECIPIENT"
    and "uint_add api x y = checked_add x y" and "uint_checked_sub api x y = checked_sub x y"
    and "uint_multiply_ratio api 10000 30 10000 = Some 30"
  using assms by (simp_all only: ct_documented_def uint128_checked uint128_fee Let_def)

lemma ct_key_is_new:
  assumes "ct_documented api crates"
  shows "ct_hex_encode crates (ct_verification_key crates seed) \<notin> {''aaaa'', ''bbbb''}"
proof -
  have "length (ct_hex_encode crates (ct_verification_key crates seed)) = 64"
    using assms by (simp add: ct_documented_def)
  then show ?thesis by auto
qed

lemma ct_accounts [simp]: "ct_USER \<noteq> ct_ADMIN" "ct_ADMIN \<noteq> ct_USER"
  by (simp_all add: ct_USER_def ct_ADMIN_def)

lemmas ct_defs = ct_setup_run ct_query_config_run ct_mock_info_def ct_register_token_def
    ct_sign_mint_def
  ct_err_contains_def cw_load_config_def cw_require_admin_def cw_register_token_def
  cw_update_signers_def cw_update_fee_def cw_pause_def cw_unpause_def cw_action_def
  cw_lock_and_bridge_def cw_mint_bridged_def cw_burn_bridged_def cw_nonce_processed_def
  cw_check_daily_limit_def concrete_ops Let_def

lemma pass_ct_instantiate_stores_config:
  assumes "ct_documented api crates"
  shows "ct_instantiate_stores_config api oc env crates"
  by (simp add: ct_instantiate_stores_config_def ct_defs ct_crate_rules [OF assms] ct_key_is_new [OF
      assms, simplified])

lemma pass_ct_lock_and_bridge_locks_funds_and_increments_nonce:
  assumes "ct_documented api crates"
  shows "ct_lock_and_bridge_locks_funds_and_increments_nonce api oc env crates"
  by (simp add: ct_lock_and_bridge_locks_funds_and_increments_nonce_def ct_defs ct_crate_rules [OF
      assms] ct_key_is_new [OF assms, simplified])

lemma pass_ct_lock_and_bridge_rejects_no_funds:
  assumes "ct_documented api crates"
  shows "ct_lock_and_bridge_rejects_no_funds api oc env crates"
  by (simp add: ct_lock_and_bridge_rejects_no_funds_def ct_defs ct_crate_rules [OF assms]
      ct_key_is_new [OF assms, simplified])

lemma pass_ct_lock_and_bridge_rejects_when_paused:
  assumes "ct_documented api crates"
  shows "ct_lock_and_bridge_rejects_when_paused api oc env crates"
  by (simp add: ct_lock_and_bridge_rejects_when_paused_def ct_defs ct_crate_rules [OF assms]
      ct_key_is_new [OF assms, simplified])

lemma pass_ct_mint_bridged_with_valid_signature:
  assumes "ct_documented api crates"
  shows "ct_mint_bridged_with_valid_signature api oc env crates"
  by (simp add: ct_mint_bridged_with_valid_signature_def ct_defs ct_crate_rules [OF assms]
      ct_key_is_new [OF assms, simplified])

lemma pass_ct_mint_bridged_rejects_invalid_signature:
  assumes "ct_documented api crates"
  shows "ct_mint_bridged_rejects_invalid_signature api oc env crates"
  by (simp add: ct_mint_bridged_rejects_invalid_signature_def ct_defs ct_crate_rules [OF assms]
      ct_key_is_new [OF assms, simplified])

lemma pass_ct_mint_bridged_rejects_unauthorized_signer:
  assumes "ct_documented api crates"
  shows "ct_mint_bridged_rejects_unauthorized_signer api oc env crates"
  by (simp add: ct_mint_bridged_rejects_unauthorized_signer_def ct_defs ct_crate_rules [OF assms]
      ct_key_is_new [OF assms, simplified])

lemma pass_ct_mint_bridged_rejects_replay:
  assumes "ct_documented api crates"
  shows "ct_mint_bridged_rejects_replay api oc env crates"
  by (simp add: ct_mint_bridged_rejects_replay_def ct_defs ct_crate_rules [OF assms] ct_key_is_new
      [OF assms, simplified])

lemma pass_ct_burn_bridged_increments_nonce_and_total:
  assumes "ct_documented api crates"
  shows "ct_burn_bridged_increments_nonce_and_total api oc env crates"
  by (simp add: ct_burn_bridged_increments_nonce_and_total_def ct_defs ct_crate_rules [OF assms]
      ct_key_is_new [OF assms, simplified])

lemma pass_ct_burn_bridged_rejects_when_paused:
  assumes "ct_documented api crates"
  shows "ct_burn_bridged_rejects_when_paused api oc env crates"
  by (simp add: ct_burn_bridged_rejects_when_paused_def ct_defs ct_crate_rules [OF assms]
      ct_key_is_new [OF assms, simplified])

lemma pass_ct_admin_can_pause_and_unpause:
  assumes "ct_documented api crates"
  shows "ct_admin_can_pause_and_unpause api oc env crates"
  by (simp add: ct_admin_can_pause_and_unpause_def ct_defs ct_crate_rules [OF assms] ct_key_is_new
      [OF assms, simplified])

lemma pass_ct_update_fee_sets_valid_fee:
  assumes "ct_documented api crates"
  shows "ct_update_fee_sets_valid_fee api oc env crates"
  by (simp add: ct_update_fee_sets_valid_fee_def ct_defs ct_crate_rules [OF assms] ct_key_is_new [OF
      assms, simplified])

lemma pass_ct_update_fee_rejects_over_5_percent:
  assumes "ct_documented api crates"
  shows "ct_update_fee_rejects_over_5_percent api oc env crates"
  by (simp add: ct_update_fee_rejects_over_5_percent_def ct_defs ct_crate_rules [OF assms]
      ct_key_is_new [OF assms, simplified])

lemma pass_ct_update_fee_accepts_boundary:
  assumes "ct_documented api crates"
  shows "ct_update_fee_accepts_boundary api oc env crates"
  by (simp add: ct_update_fee_accepts_boundary_def ct_defs ct_crate_rules [OF assms] ct_key_is_new
      [OF assms, simplified])

lemma pass_ct_non_admin_cannot_pause:
  assumes "ct_documented api crates"
  shows "ct_non_admin_cannot_pause api oc env crates"
  by (simp add: ct_non_admin_cannot_pause_def ct_defs ct_crate_rules [OF assms] ct_key_is_new [OF
      assms, simplified])

lemma pass_ct_non_admin_cannot_unpause:
  assumes "ct_documented api crates"
  shows "ct_non_admin_cannot_unpause api oc env crates"
  by (simp add: ct_non_admin_cannot_unpause_def ct_defs ct_crate_rules [OF assms] ct_key_is_new [OF
      assms, simplified])

lemma pass_ct_non_admin_cannot_update_fee:
  assumes "ct_documented api crates"
  shows "ct_non_admin_cannot_update_fee api oc env crates"
  by (simp add: ct_non_admin_cannot_update_fee_def ct_defs ct_crate_rules [OF assms] ct_key_is_new
      [OF assms, simplified])

lemma pass_ct_non_admin_cannot_update_signers:
  assumes "ct_documented api crates"
  shows "ct_non_admin_cannot_update_signers api oc env crates"
  by (simp add: ct_non_admin_cannot_update_signers_def ct_defs ct_crate_rules [OF assms]
      ct_key_is_new [OF assms, simplified])

lemma pass_ct_non_admin_cannot_register_token:
  assumes "ct_documented api crates"
  shows "ct_non_admin_cannot_register_token api oc env crates"
  by (simp add: ct_non_admin_cannot_register_token_def ct_defs ct_crate_rules [OF assms]
      ct_key_is_new [OF assms, simplified])

lemmas cw_passes = pass_ct_instantiate_stores_config
  pass_ct_lock_and_bridge_locks_funds_and_increments_nonce
  pass_ct_lock_and_bridge_rejects_no_funds
  pass_ct_lock_and_bridge_rejects_when_paused
  pass_ct_mint_bridged_with_valid_signature
  pass_ct_mint_bridged_rejects_invalid_signature
  pass_ct_mint_bridged_rejects_unauthorized_signer
  pass_ct_mint_bridged_rejects_replay
  pass_ct_burn_bridged_increments_nonce_and_total
  pass_ct_burn_bridged_rejects_when_paused
  pass_ct_admin_can_pause_and_unpause
  pass_ct_update_fee_sets_valid_fee
  pass_ct_update_fee_rejects_over_5_percent
  pass_ct_update_fee_accepts_boundary
  pass_ct_non_admin_cannot_pause
  pass_ct_non_admin_cannot_unpause
  pass_ct_non_admin_cannot_update_fee
  pass_ct_non_admin_cannot_update_signers
  pass_ct_non_admin_cannot_register_token

definition cw_tests :: "cw_api \<Rightarrow> bool \<Rightarrow> cw_env \<Rightarrow> ct_crates \<Rightarrow> bool list" where
  "cw_tests api oc env crates = [
     ct_instantiate_stores_config api oc env crates,
     ct_lock_and_bridge_locks_funds_and_increments_nonce api oc env crates,
     ct_lock_and_bridge_rejects_no_funds api oc env crates,
     ct_lock_and_bridge_rejects_when_paused api oc env crates,
     ct_mint_bridged_with_valid_signature api oc env crates,
     ct_mint_bridged_rejects_invalid_signature api oc env crates,
     ct_mint_bridged_rejects_unauthorized_signer api oc env crates,
     ct_mint_bridged_rejects_replay api oc env crates,
     ct_burn_bridged_increments_nonce_and_total api oc env crates,
     ct_burn_bridged_rejects_when_paused api oc env crates,
     ct_admin_can_pause_and_unpause api oc env crates,
     ct_update_fee_sets_valid_fee api oc env crates,
     ct_update_fee_rejects_over_5_percent api oc env crates,
     ct_update_fee_accepts_boundary api oc env crates,
     ct_non_admin_cannot_pause api oc env crates,
     ct_non_admin_cannot_unpause api oc env crates,
     ct_non_admin_cannot_update_fee api oc env crates,
     ct_non_admin_cannot_update_signers api oc env crates,
     ct_non_admin_cannot_register_token api oc env crates]"

lemma cw_tests_pass:
  assumes "ct_documented api crates"
  shows "list_all (\<lambda>passed. passed) (cw_tests api oc env crates)"
  by (simp add: cw_tests_def cw_passes [OF assms])

end
