(* ===== verification/Contract_Tests.thy ===== *)
theory Contract_Tests
  imports Near_Tests Polkadot_Tests Stellar_Tests Icp_Tests Cosmos_Tests
begin

text \<open>
  The test suites of the five contracts together, and an instance of what the tests rely on:
  a concrete ledger, key pairs whose signatures are the signed message, and hexadecimal.
\<close>

section \<open>An instance of the test environments\<close>

definition demo_engine :: dt_engine where
  "demo_engine = \<lparr>dt_alice = replicate 32 1, dt_bob = replicate 32 2, dt_contract_balance = 0,
     dt_can_transfer = (\<lambda>balance to amount. amount \<le> balance)\<rparr>"

type_synonym demo_ledger = "string \<Rightarrow> string \<Rightarrow> int"

definition demo_credit :: "demo_ledger \<Rightarrow> string \<Rightarrow> string \<Rightarrow> int \<Rightarrow> demo_ledger" where
  "demo_credit l tok who a = l(tok := (l tok)(who := l tok who + a))"

definition demo_host :: "demo_ledger xt_host" where
  "demo_host = \<lparr>xt_contract_id = ''contract'', xt_admin = ''admin'', xt_sender = ''sender'',
     xt_recipient = ''recipient'', xt_impostor = ''impostor'', xt_token = ''token'',
     xt_ledger = (\<lambda>_ _. 0),
     xt_sac_mint = (\<lambda>l tok to a. demo_credit l tok to (sint a)),
     xt_sac_covers = (\<lambda>l tok src to a. sint a \<le> l tok src),
     xt_sac_transfer = (\<lambda>l tok src to a. demo_credit (demo_credit l tok src (- sint a)) tok to (sint
         a)),
     xt_balance = (\<lambda>l. l),
     xt_sk = [1], xt_rogue_sk = [2], xt_verifying_key = id, xt_sign = (\<lambda>sk m. m)\<rparr>"

definition demo_verify :: "bytes \<Rightarrow> bytes \<Rightarrow> bytes \<Rightarrow> bool" where
  "demo_verify pk m sig \<longleftrightarrow> sig = m"

definition hex_digit :: "nat \<Rightarrow> char" where
  "hex_digit n = ''0123456789abcdef'' ! n"

definition hex_value :: "char \<Rightarrow> nat" where
  "hex_value c = length (takeWhile (\<lambda>d. d \<noteq> c) ''0123456789abcdef'')"

definition hex_encoding :: "bytes \<Rightarrow> string" where
  "hex_encoding b = concat (map (\<lambda>v. [hex_digit (unat v div 16), hex_digit (unat v mod 16)]) b)"

fun hex_decoding :: "string \<Rightarrow> bytes option" where
  "hex_decoding [] = Some []"
| "hex_decoding [c] = None"
| "hex_decoding (c # d # s) = map_option (\<lambda>b. of_nat (16 * hex_value c + hex_value d) # b)
    (hex_decoding s)"

lemma hex_value_digit: "n < 16 \<Longrightarrow> hex_value (hex_digit n) = n"
proof -
  have "\<forall>n \<in> set [0..<16]. hex_value (hex_digit n) = n" by code_simp
  then show "n < 16 \<Longrightarrow> hex_value (hex_digit n) = n" by simp
qed

lemma hex_roundtrip: "hex_decoding (hex_encoding b) = Some b"
proof (induction b)
  case (Cons v b)
  have "unat v < 256" using unsigned_less [where 'a = nat, of v] by simp
  then have "unat v div 16 < 16" by (simp add: div_less_iff_less_mult)
  with Cons show ?case by (simp add: hex_encoding_def hex_value_digit)
qed (simp add: hex_encoding_def)

lemma length_hex_encoding: "length (hex_encoding b) = 2 * length b"
  by (induction b) (simp_all add: hex_encoding_def)

definition demo_test_api :: cw_api where
  "demo_test_api = \<lparr>uint_add = checked_add, uint_checked_sub = checked_sub,
     uint_multiply_ratio = uint_multiply_ratio cw_demo_api, hex_decode = hex_decoding,
     cw_ed25519_verify = (\<lambda>m sig pk. Some (m = sig)), addr_validate = Some\<rparr>"

definition demo_crates :: ct_crates where
  "demo_crates = \<lparr>ct_verification_key = (\<lambda>seed. take 32 (seed @ replicate 32 0)),
     ct_sign = (\<lambda>seed m. m), ct_hex_encode = hex_encoding\<rparr>"

lemma demo_engine_documented: "dt_engine_documented demo_engine"
  by (simp add: dt_engine_documented_def demo_engine_def less_imp_le)

lemma demo_host_documented: "xt_documented demo_verify demo_host"
  by (simp add: xt_documented_def xt_ledger_documented_def demo_host_def demo_credit_def
      demo_verify_def)

lemma demo_crates_documented: "ct_documented demo_test_api demo_crates"
proof -
  have "uint128_documented demo_test_api"
    using uint128_demo by (simp add: uint128_documented_def demo_test_api_def cw_demo_api_def)
  then show ?thesis
    by (simp add: ct_documented_def demo_test_api_def demo_crates_def hex_roundtrip length_hex_encoding
        ct_messages_differ min_def Let_def)
qed

section \<open>All tests\<close>

text \<open>
  The model agrees with the tests the authors of the contracts wrote, error messages included:
  whatever the signature checks of NEAR, the hash of Soroban, the caller, the time,
  the build and the state the canister tests start from are, and for any test engine, host and
  crates that behave as documented. The canister tests are run as in a canister; outside one
  five of them fail (\<open>icp_tests_natively\<close>).
\<close>

theorem contract_tests_pass:
  assumes "dt_engine_documented engine" and "xt_documented edx host" and "ct_documented api crates"
  shows "list_all (\<lambda>passed. passed)
    (near_tests ed @ dot_tests oc engine @ xlm_tests sha edx host @
     icp_tests oc (Some env) anonymous s @ cw_tests api oc cenv crates)"
  using near_tests_pass dot_tests_pass [OF assms(1)] xlm_tests_pass [OF assms(2)] icp_tests_pass
    cw_tests_pass [OF assms(3)]
  by simp

theorem contract_tests_pass_instance:
  "list_all (\<lambda>passed. passed)
    (near_tests near_demo_ed @ dot_tests True demo_engine @ xlm_tests id demo_verify demo_host @
     icp_tests True (Some (icp_env.make [7] 0)) [4] icp_empty @ cw_tests demo_test_api True (cw_demo_env 0)
         demo_crates)"
  by (rule contract_tests_pass [OF demo_engine_documented demo_host_documented demo_crates_documented])

end
