(* ===== verification/Spec2Isabelle.thy ===== *)
theory Spec2Isabelle
  imports Near_Bridge Polkadot_Bridge Stellar_Bridge Icp_Bridge Cosmos_Bridge Solana_Properties
    Solana_Custody Cross_Chain Network Contract_Tests
begin

text \<open>
  The Rust bridge programs of the repository, \<^verbatim>\<open>programs/*-bridge\<close>: six contracts
  for six hosts that implement one protocol. A user locks or burns on one chain, which
  announces the amount under the next outbound nonce; signers attest the announcement; a
  relayer presents the attestation on the other chain, which mints or releases, once for
  each (source chain, nonce). An administrator configures and pauses.

  What the theories hold.

  \<^item> \<^verbatim>\<open>Bridge_Prelude\<close>: Rust integers as words, checked, wrapping and signed operators
    (\<open>add_op\<close> takes the build flag \<^verbatim>\<open>overflow-checks\<close>), panics and errors as the left
    side of a sum with \<open>and_then\<close>, \<open>ensure\<close>, \<open>ok_or\<close>, and \<open>exec_trace\<close> and \<open>exec_final\<close>
    for sequences of transactions, in which a failing one leaves no trace.
    \<open>agreeing_builds\<close>: two builds of a contract that agree where there is room.
  \<^item> \<^verbatim>\<open>Bridge_Bytes\<close>: \<^verbatim>\<open>to_le_bytes\<close> and its inverse, strings, decimal rendering,
    unique readability of the message layout.
  \<^item> \<^verbatim>\<open>Bridge_Spec\<close>: the abstract bridge as a labelled step relation \<open>bstep\<close> and the
    interfaces. \<open>bridge_refinement\<close>: accepted calls are abstract steps, so over any
    sequence inbound nonces are consumed once, outbound nonces are consecutive, the totals
    are what was announced and a pause stops everything. \<open>replay_guard\<close>: the part of it
    that survives a contract whose configuration is open. \<open>attested_payouts\<close> and
    \<open>attested_bridge\<close>: what is paid out is bounded by what the trusted keys signed.
    \<open>guarded_config\<close>: who can change the configuration.
  \<^item> \<^verbatim>\<open>Bridge_Limits\<close>: the daily limit as an abstract limiter, and \<open>rate_limited\<close>: over
    any 24 hours at most twice the limit is spent, within one period at most the limit;
    \<open>renewable_limit\<close>: with a limit set anew, one limit more for each time.
  \<^item> \<^verbatim>\<open>Near_Bridge\<close> (\<^verbatim>\<open>near-bridge/src/lib.rs\<close>, prefix \<open>near_\<close>), \<^verbatim>\<open>Polkadot_Bridge\<close>
    (\<^verbatim>\<open>polkadot-bridge/lib.rs\<close>, ink!, \<open>dot_\<close>), \<^verbatim>\<open>Stellar_Bridge\<close>
    (\<^verbatim>\<open>stellar-bridge/src/lib.rs\<close>, Soroban, \<open>xlm_\<close>), \<^verbatim>\<open>Icp_Bridge\<close>
    (\<^verbatim>\<open>icp-bridge/src/knt_bridge.rs\<close>, \<open>icp_\<close>), \<^verbatim>\<open>Cosmos_Bridge\<close>
    (\<^verbatim>\<open>cosmos-bridge/contracts/knt-bridge/src/contract.rs\<close>, \<open>cw_\<close>): for each the storage
    as a record, one definition per exported function under the source's name with the
    prefix, a datatype of calls with \<open>exec\<close>, the inversion of each accepted call, the
    interpretations and the properties with a demonstration state.
  \<^item> \<^verbatim>\<open>Solana_State\<close> (\<^verbatim>\<open>state/*.rs\<close>, \<^verbatim>\<open>errors.rs\<close>, \<^verbatim>\<open>events.rs\<close>),
    \<^verbatim>\<open>Solana_Ed25519\<close> (the three introspection checks of \<^verbatim>\<open>mint_bridged.rs\<close>,
    \<^verbatim>\<open>release.rs\<close> and \<^verbatim>\<open>admin.rs\<close>), \<^verbatim>\<open>Solana_Bridge\<close> (account constraints and
    handlers of \<^verbatim>\<open>instructions/*.rs\<close>, dispatch of \<^verbatim>\<open>lib.rs\<close>), \<^verbatim>\<open>Solana_Proofs\<close>
    (what accepted instructions do, the laws of the interfaces),
    \<^verbatim>\<open>Solana_Properties\<close> and \<^verbatim>\<open>Solana_Custody\<close> (vaults and outbound numbers, with the
    interfaces \<open>accounted\<close> and \<open>numbered\<close>), all with the prefix \<open>sol_\<close>.
  \<^item> \<^verbatim>\<open>Bridge_Network\<close>: the interfaces for several contracts. \<open>announcer\<close>: what a
    source announces is bounded by its locks and burns, \<open>announcing_source\<close>: and covered by
    the growth of its totals. \<open>sided_bridge\<close>: what a
    destination mints and what it releases are each bounded by the claims of that kind its
    trusted keys attested.
  \<^item> \<^verbatim>\<open>Cross_Chain\<close>: the NEAR and the CosmWasm contract as source and destination of each
    other, and as two destinations of one set of signers. \<^verbatim>\<open>Network\<close>: the NEAR, ink!,
    Soroban and ICP contracts as sources of one CosmWasm contract, and these five as sources
    of the Solana program.
  \<^item> \<^verbatim>\<open>Near_Tests\<close>, \<^verbatim>\<open>Polkadot_Tests\<close>, \<^verbatim>\<open>Stellar_Tests\<close>, \<^verbatim>\<open>Icp_Tests\<close>,
    \<^verbatim>\<open>Cosmos_Tests\<close> (prefixes \<open>nt_\<close>, \<open>dt_\<close>, \<open>xt_\<close>, \<open>it_\<close>, \<open>ct_\<close>, the names of the
    source after them): the unit tests of the five contracts, each one definition whose value
    is the verdict, over \<^verbatim>\<open>Test_Prelude\<close>. \<^verbatim>\<open>Contract_Tests\<close>: all of them pass, those of the
    canister in a canister (outside one five fail, \<open>icp_tests_natively\<close>). They tie the model
    to what the authors of the code expect of it, error messages included; no property rests on them.

  What is shown of which contract.

  \<^item> Refinement of the abstract bridge: NEAR, ink! with overflow checks, CosmWasm, the
    canister (with overflow checks or room), and Soroban between initialisations. Solana keeps no totals; it has the parts that do not need
    them: replay protection, attested mints, limiter, guarded configuration, custody and
    timelock of the keys, consecutive outbound nonces, and instead of totals the vaults, which
    hold what was locked until a release takes it (\<open>sol_vault_backed\<close>).
  \<^item> Payouts bounded by attestations: NEAR and CosmWasm for mints and releases, Solana for
    mints. The Solana release, ink!, Soroban and the canister do not have it, and the
    theorems show by which call: \<open>sol_release_forgery\<close>, \<open>dot_accepts_forged_claim\<close>,
    \<open>xlm_mint_redirectable\<close>, \<open>icp_nonce_griefing\<close>.
  \<^item> What the attestations leave out: the denomination on CosmWasm, the token account on
    Solana, token and recipient on Soroban. What the configuration leaves open: the second
    \<^verbatim>\<open>initialize\<close> on Soroban, the fee of a CosmWasm instantiation, the rotation delay of a
    fresh Solana bridge, the second registration of a CosmWasm denomination, which opens its
    daily limit again (\<open>cw_daily_window\<close> counts it).
  \<^item> Several contracts: if signers attest what was announced, CosmWasm pays no more than NEAR
    locked and burned (\<open>near_to_cosmos_solvent\<close>), mints are backed by locks and releases by
    burns on the way back (\<open>cosmos_to_near_backed\<close>) and with four sources at once
    (\<open>network_backed\<close>), and what Solana mints is backed by locks on the other five
    (\<open>network_to_solana\<close>). There Soroban counts with what was moved into the contract, since an
    initialisation, which anybody can make, resets its totals. But the
    messages do not say for which chain an attestation is, so it can be used on two (\<open>mint_replays_across_chains\<close>).

  Parameters and hypotheses. Hosts and crates are arguments of the definitions: signature
  verification, \<^verbatim>\<open>sha256\<close>, hex decoding, address validation, token and bank
  transfers, the clock, the token program, program addresses, the native Ed25519
  program. What is relied on is named: \<open>uint128_documented\<close> (checked and panicking
  arithmetic of \<^verbatim>\<open>Uint128\<close>), \<open>ed25519_documented\<close> (layout and verdict of the native
  program), \<open>sol_pda_documented\<close>, \<open>spl_documented\<close> (token program), and for the tests
  \<open>dt_engine_documented\<close>, \<open>xt_documented\<close>, \<open>ct_documented\<close> (test engine, asset
  contract, key pairs). Each is shown to hold of a concrete instance in a
  witness. Nothing is assumed about who holds keys: \<open>attests\<close> says that some signature of the
  key over the message verifies.

  Build profiles. The NEAR, Soroban and Solana manifests switch overflow checks on. No
  build file of the ink!, CosmWasm and canister programs does, so their operations take the
  flag as an argument and the theorems say for which value they hold. \<open>cw_ready\<close>,
  \<open>dot_ready\<close> and \<open>icp_ready\<close> hold of every sequence with checks; without them they say
  that the sums have room, and then the builds agree. Where the amount is a free argument,
  on the canister, a caller can leave no room (\<open>icp_total_rewritable\<close>).

  Time and loops. Every operation is total, so there is no fuel; the only loops of the
  source go over the signers. They are list functions here; the one written with an index, in
  the Soroban mint, is also modelled as it is written and shown to end with that value
  (\<open>xlm_signer_loop_ends\<close>).

  Fixed arrays of the source (\<^verbatim>\<open>[Pubkey; 3]\<close>, \<^verbatim>\<open>[u8; 1024]\<close>, hashes and keys) are lists, so
  the theorems cover every length.

  Not modelled. The encodings (Borsh, JSON, SCALE, XDR, Candid, Anchor discriminators), gas,
  rent and account reallocation; generated entry points and their argument checks;
  Anchor's comparisons with fixed program and sysvar addresses. The Fuel harness
  tests a Sway contract against generated bindings and holds no program logic. The bridge in Move,
      FunC, Aiken, Cairo, Clarity, Sway and
  others, and the Solidity contracts, are other languages and outside this development.
\<close>

end
